(* ===== verification/VPrelude.thy ===== *)
theory VPrelude
  imports Main "HOL-Library.Word" "HOL-Library.Char_ord" "HOL-Library.List_Lexorder"
    "HOL-Library.Product_Lexorder"
begin

text \<open>
  What every component of the development shares: the Rust values the code passes around
  (byte strings with the operations of \<open>str\<close>, decimal printing and parsing), the error type of
  the crates, and a state-and-error monad for the code that talks to the cluster.

  A Rust \<open>String\<close> is a list of bytes (its UTF-8 encoding), so \<open>length\<close> is Rust's \<open>len()\<close>.
  The operations below follow the documented behaviour of the standard library.
\<close>

named_theorems io_simps \<open>rules that run the state-and-error monad\<close>
named_theorems str_simps \<open>rules about the string operations\<close>

section \<open>Strings\<close>

definition starts_with :: "string \<Rightarrow> string \<Rightarrow> bool" where
  "starts_with s p \<longleftrightarrow> take (length p) s = p"

definition strip_prefix :: "string \<Rightarrow> string \<Rightarrow> string option" where
  "strip_prefix s p = (if starts_with s p then Some (drop (length p) s) else None)"

definition ends_with :: "string \<Rightarrow> string \<Rightarrow> bool" where
  "ends_with s p \<longleftrightarrow> length p \<le> length s \<and> drop (length s - length p) s = p"

definition strip_suffix :: "string \<Rightarrow> string \<Rightarrow> string option" where
  "strip_suffix s p = (if ends_with s p then Some (take (length s - length p) s) else None)"

text \<open>\<open>find_sub s p\<close> is \<open>s.find(p)\<close>: the byte offset of the leftmost occurrence.\<close>

fun find_sub :: "string \<Rightarrow> string \<Rightarrow> nat option" where
  "find_sub [] p = (if p = [] then Some 0 else None)"
| "find_sub (c # cs) p =
     (if starts_with (c # cs) p then Some 0 else map_option Suc (find_sub cs p))"

definition contains :: "string \<Rightarrow> string \<Rightarrow> bool" where
  "contains s p \<longleftrightarrow> find_sub s p \<noteq> None"

text \<open>\<open>split_on c s\<close> is \<open>s.split(c)\<close> for a one-byte separator: never the empty list.\<close>

fun split_on :: "char \<Rightarrow> string \<Rightarrow> string list" where
  "split_on c [] = [[]]"
| "split_on c (x # xs) =
     (if x = c then [] # split_on c xs
      else (case split_on c xs of [] \<Rightarrow> [[x]] | p # ps \<Rightarrow> (x # p) # ps))"

fun join :: "string \<Rightarrow> string list \<Rightarrow> string" where
  "join sep [] = []"
| "join sep [s] = s"
| "join sep (s # t # ts) = s @ sep @ join sep (t # ts)"

text \<open>
  \<open>str::lines\<close>: split at line feeds, drop a carriage return before each, and no empty last
  line after a final line feed.
\<close>

definition chop_cr :: "string \<Rightarrow> string" where
  "chop_cr l = (if l \<noteq> [] \<and> last l = CHR 0x0D then butlast l else l)"

definition lines :: "string \<Rightarrow> string list" where
  "lines s = (let ps = split_on (CHR 0x0A) s
              in if last ps = [] then map chop_cr (butlast ps)
                 else map chop_cr (butlast ps) @ [last ps])"

text \<open>
  The UTF-8 encodings of the characters with the Unicode property \<open>White_Space\<close>, which
  \<open>str::trim\<close> and \<open>split_whitespace\<close> use.
\<close>

definition ws_seqs :: "string list" where
  "ws_seqs = [[CHR 0x09], [CHR 0x0A], [CHR 0x0B], [CHR 0x0C], [CHR 0x0D], [CHR 0x20],
     [CHR 0xC2, CHR 0x85], [CHR 0xC2, CHR 0xA0], [CHR 0xE1, CHR 0x9A, CHR 0x80],
     [CHR 0xE2, CHR 0x80, CHR 0x80], [CHR 0xE2, CHR 0x80, CHR 0x81],
     [CHR 0xE2, CHR 0x80, CHR 0x82], [CHR 0xE2, CHR 0x80, CHR 0x83],
     [CHR 0xE2, CHR 0x80, CHR 0x84], [CHR 0xE2, CHR 0x80, CHR 0x85],
     [CHR 0xE2, CHR 0x80, CHR 0x86], [CHR 0xE2, CHR 0x80, CHR 0x87],
     [CHR 0xE2, CHR 0x80, CHR 0x88], [CHR 0xE2, CHR 0x80, CHR 0x89],
     [CHR 0xE2, CHR 0x80, CHR 0x8A], [CHR 0xE2, CHR 0x80, CHR 0xA8],
     [CHR 0xE2, CHR 0x80, CHR 0xA9], [CHR 0xE2, CHR 0x80, CHR 0xAF],
     [CHR 0xE2, CHR 0x81, CHR 0x9F], [CHR 0xE3, CHR 0x80, CHR 0x80]]"

lemma ws_seqs_nonempty: "w \<in> set ws_seqs \<Longrightarrow> w \<noteq> []"
  by (auto simp: ws_seqs_def)

definition ws_prefix :: "string \<Rightarrow> nat" where
  "ws_prefix s = (case find (\<lambda>w. starts_with s w) ws_seqs of None \<Rightarrow> 0 | Some w \<Rightarrow> length w)"

definition ws_suffix :: "string \<Rightarrow> nat" where
  "ws_suffix s = (case find (\<lambda>w. ends_with s w) ws_seqs of None \<Rightarrow> 0 | Some w \<Rightarrow> length w)"

function trim_start :: "string \<Rightarrow> string" where
  "trim_start s = (if s = [] \<or> ws_prefix s = 0 then s else trim_start (drop (ws_prefix s) s))"
  by pat_completeness auto
termination
  by (relation "measure length") auto

function trim_end :: "string \<Rightarrow> string" where
  "trim_end s = (if s = [] \<or> ws_suffix s = 0 then s
                 else trim_end (take (length s - ws_suffix s) s))"
  by pat_completeness auto
termination
  by (relation "measure length") auto

declare trim_start.simps [simp del] trim_end.simps [simp del]

definition trim :: "string \<Rightarrow> string" where
  "trim s = trim_end (trim_start s)"

text \<open>\<open>str::trim_end_matches\<close> with a string pattern strips it as long as it is a suffix.\<close>

function trim_end_matches :: "string \<Rightarrow> string \<Rightarrow> string" where
  "trim_end_matches s p = (if p = [] \<or> \<not> ends_with s p then s
                           else trim_end_matches (take (length s - length p) s) p)"
  by pat_completeness auto
termination
  by (relation "measure (\<lambda>(s, p). length s)")
    (auto simp: ends_with_def intro: diff_less simp flip: length_greater_0_conv)

declare trim_end_matches.simps [simp del]

text \<open>One character of \<open>str::to_ascii_lowercase\<close>.\<close>

definition ascii_lower :: "char \<Rightarrow> char" where
  "ascii_lower c =
     (let n = (of_char c :: nat) in if 65 \<le> n \<and> n \<le> 90 then char_of (n + 32) else c)"

text \<open>\<open>str::eq_ignore_ascii_case\<close>.\<close>

definition eq_ignore_ascii_case :: "string \<Rightarrow> string \<Rightarrow> bool" where
  "eq_ignore_ascii_case a b \<longleftrightarrow> map ascii_lower a = map ascii_lower b"

text \<open>The first token of \<open>str::split_whitespace\<close>, or the empty string.\<close>

fun take_token :: "string \<Rightarrow> string" where
  "take_token [] = []"
| "take_token (c # cs) = (if ws_prefix (c # cs) \<noteq> 0 then [] else c # take_token cs)"

definition first_token :: "string \<Rightarrow> string" where
  "first_token s = take_token (trim_start s)"

text \<open>
  \<open>str::matches(p).count()\<close> and \<open>str::replace(p, r)\<close> for a non-empty pattern: the
  non-overlapping occurrences, from the left. The code never calls them with an empty pattern.
\<close>

function replace_all :: "string \<Rightarrow> string \<Rightarrow> string \<Rightarrow> string" where
  "replace_all s p r =
     (if s = [] \<or> p = [] then s
      else if starts_with s p then r @ replace_all (drop (length p) s) p r
      else hd s # replace_all (tl s) p r)"
  by pat_completeness auto
termination
  by (relation "measure (\<lambda>(s, p, r). length s)") auto

function count_matches :: "string \<Rightarrow> string \<Rightarrow> nat" where
  "count_matches s p =
     (if s = [] \<or> p = [] then 0
      else if starts_with s p then Suc (count_matches (drop (length p) s) p)
      else count_matches (tl s) p)"
  by pat_completeness auto
termination
  by (relation "measure (\<lambda>(s, p). length s)") auto

text \<open>\<open>str::split\<close> with a string pattern, which the code never calls with an empty one.\<close>

lemma find_sub_bound: "find_sub s p = Some i \<Longrightarrow> i + length p \<le> length s"
  by (induction s arbitrary: i) (auto simp: starts_with_def split: if_splits dest: arg_cong [where f = length])

function split_str :: "string \<Rightarrow> string \<Rightarrow> string list" where
  "split_str s p =
     (if p = [] then [s]
      else (case find_sub s p of
              None \<Rightarrow> [s]
            | Some i \<Rightarrow> take i s # split_str (drop (i + length p) s) p))"
  by pat_completeness auto
termination
  by (relation "measure (\<lambda>(s, p). length s)") (auto dest!: find_sub_bound simp flip: length_greater_0_conv)

declare split_str.simps [simp del]

declare replace_all.simps [simp del] count_matches.simps [simp del]

lemma starts_with_iff: "starts_with s p \<longleftrightarrow> (\<exists>t. s = p @ t)"
  unfolding starts_with_def by (metis append_eq_conv_conj append_take_drop_id)

lemma starts_with_Nil [simp, str_simps]: "starts_with s []"
  by (simp add: starts_with_def)

lemma starts_with_append [simp, str_simps]: "starts_with (p @ t) p"
  by (simp add: starts_with_def)

lemma strip_prefix_append [simp, str_simps]: "strip_prefix (p @ t) p = Some t"
  by (simp add: strip_prefix_def)

lemma strip_prefix_SomeD: "strip_prefix s p = Some t \<Longrightarrow> s = p @ t"
  unfolding strip_prefix_def starts_with_def
  by (metis append_take_drop_id option.distinct(1) option.inject)

lemma find_sub_SomeD: "find_sub s p = Some i \<Longrightarrow> \<exists>u v. s = u @ p @ v \<and> length u = i"
proof (induction s p arbitrary: i rule: find_sub.induct)
  case (1 p)
  then show ?case by (auto split: if_splits)
next
  case (2 c cs p)
  show ?case
  proof (cases "starts_with (c # cs) p")
    case True
    with 2 show ?thesis by (auto simp: starts_with_iff)
  next
    case False
    with 2 obtain j where j: "find_sub cs p = Some j" "i = Suc j" by auto
    with 2 False obtain u v where "cs = u @ p @ v" "length u = j" by blast
    with j have "c # cs = (c # u) @ p @ v \<and> length (c # u) = i" by simp
    then show ?thesis by blast
  qed
qed

lemma find_sub_complete: "find_sub (u @ p @ v) p \<noteq> None"
proof (induction u)
  case Nil
  show ?case
  proof (cases "p @ v")
    case (Cons c cs)
    have "starts_with (p @ v) p" by simp
    with Cons show ?thesis by simp
  qed simp
next
  case (Cons c cs)
  then show ?case by auto
qed

text \<open>Trimming leaves alone what neither starts nor ends with a byte of a blank character.\<close>

lemma ends_with_iff: "ends_with s p \<longleftrightarrow> (\<exists>t. s = t @ p)"
proof
  assume "ends_with s p"
  then have "s = take (length s - length p) s @ p"
    unfolding ends_with_def by (metis append_take_drop_id)
  then show "\<exists>t. s = t @ p" by blast
next
  show "\<exists>t. s = t @ p \<Longrightarrow> ends_with s p" by (auto simp: ends_with_def)
qed

lemma find_at: "find P xs = Some x \<Longrightarrow> x \<in> set xs \<and> P x"
  by (auto simp: find_Some_iff)

lemma ws_prefix_0:
  assumes "s \<noteq> []" "hd s \<notin> set (map hd ws_seqs)" shows "ws_prefix s = 0"
proof -
  have "\<not> starts_with s w" if "w \<in> set ws_seqs" for w
    using assms that ws_seqs_nonempty [OF that] by (auto simp: starts_with_iff)
  then show ?thesis by (auto simp: ws_prefix_def dest!: find_at split: option.split)
qed

lemma ws_suffix_0:
  assumes "s \<noteq> []" "last s \<notin> set (map last ws_seqs)" shows "ws_suffix s = 0"
proof -
  have "\<not> ends_with s w" if "w \<in> set ws_seqs" for w
    using assms that ws_seqs_nonempty [OF that] by (auto simp: ends_with_iff)
  then show ?thesis by (auto simp: ws_suffix_def dest!: find_at split: option.split)
qed

lemma trim_id:
  assumes "s \<noteq> []" "hd s \<notin> set (map hd ws_seqs)" "last s \<notin> set (map last ws_seqs)"
  shows "trim s = s"
  using ws_prefix_0 [OF assms(1,2)] ws_suffix_0 [OF assms(1,3)]
  by (simp add: trim_def trim_start.simps [of s] trim_end.simps [of s])

lemma contains_iff: "contains s p \<longleftrightarrow> (\<exists>u v. s = u @ p @ v)"
  unfolding contains_def by (metis find_sub_SomeD find_sub_complete option.exhaust)

lemma split_on_nonempty [simp]: "split_on c s \<noteq> []"
  by (induction s) (auto split: list.splits)

lemma split_on_no_sep: "p \<in> set (split_on c s) \<Longrightarrow> c \<notin> set p"
proof (induction s arbitrary: p)
  case Nil
  then show ?case by simp
next
  case (Cons x xs)
  then show ?case by (cases "split_on c xs") (auto split: if_splits)
qed

lemma split_on_id: "c \<notin> set s \<Longrightarrow> split_on c s = [s]"
  by (induction s) auto

lemma split_on_append: "c \<notin> set s \<Longrightarrow> split_on c (s @ c # t) = s # split_on c t"
  by (induction s) auto

lemma find_sub_char: "c \<notin> set s \<Longrightarrow> find_sub (s @ c # t) [c] = Some (length s)"
  by (induction s) (auto simp: starts_with_def)

lemma find_sub_char_None: "c \<notin> set s \<Longrightarrow> find_sub s [c] = None"
  by (induction s) (auto simp: starts_with_def)

lemma join_split_on: "join [c] (split_on c s) = s"
proof (induction s)
  case Nil
  show ?case by simp
next
  case (Cons x xs)
  then show ?case
    by (cases "split_on c xs"; cases "tl (split_on c xs)") auto
qed

section \<open>Decimal numbers\<close>

definition digit :: "nat \<Rightarrow> char" where
  "digit d = char_of (48 + d)"

function dec :: "nat \<Rightarrow> string" where
  "dec n = (if n < 10 then [digit n] else dec (n div 10) @ [digit (n mod 10)])"
  by pat_completeness auto
termination
  by (relation "measure id") auto

declare dec.simps [simp del]

definition digit_val :: "char \<Rightarrow> nat option" where
  "digit_val c = (if 48 \<le> (of_char c :: nat) \<and> (of_char c :: nat) \<le> 57
                  then Some (of_char c - 48) else None)"

fun digits_val :: "nat \<Rightarrow> string \<Rightarrow> nat option" where
  "digits_val acc [] = Some acc"
| "digits_val acc (c # cs) =
     (case digit_val c of None \<Rightarrow> None | Some d \<Rightarrow> digits_val (10 * acc + d) cs)"

text \<open>\<open>str::parse\<close> for an unsigned integer below \<open>bound\<close>: an optional \<open>+\<close>, then digits.\<close>

definition parse_uint :: "nat \<Rightarrow> string \<Rightarrow> nat option" where
  "parse_uint bound s =
     (let ds = (if starts_with s ''+'' then tl s else s)
      in if ds = [] then None
         else (case digits_val 0 ds of None \<Rightarrow> None
               | Some n \<Rightarrow> if n < bound then Some n else None))"

abbreviation parse_u32 :: "string \<Rightarrow> nat option" where
  "parse_u32 \<equiv> parse_uint (2 ^ 32)"

abbreviation parse_u64 :: "string \<Rightarrow> nat option" where
  "parse_u64 \<equiv> parse_uint (2 ^ 64)"

lemma digit_val_digit [simp]: "d < 10 \<Longrightarrow> digit_val (digit d) = Some d"
  by (simp add: digit_val_def digit_def)

lemma digits_val_append:
  "digits_val acc (xs @ ys) =
     (case digits_val acc xs of None \<Rightarrow> None | Some a \<Rightarrow> digits_val a ys)"
  by (induction xs arbitrary: acc) (auto split: option.splits)

lemma dec_nonempty [simp]: "dec n \<noteq> []"
  by (subst dec.simps) simp

lemma digits_val_dec: "digits_val 0 (dec n) = Some n"
proof (induction n rule: dec.induct)
  case (1 n)
  show ?case
  proof (cases "n < 10")
    case True
    then show ?thesis by (subst dec.simps) simp
  next
    case False
    with 1 show ?thesis by (subst dec.simps) (simp add: digits_val_append)
  qed
qed

lemma set_dec: "c \<in> set (dec n) \<Longrightarrow> \<exists>d < 10. c = digit d"
proof (induction n rule: dec.induct)
  case (1 n)
  show ?case
  proof (cases "n < 10")
    case True
    with "1.prems" show ?thesis by (subst (asm) dec.simps) auto
  next
    case False
    with "1.prems" have "c \<in> set (dec (n div 10)) \<or> c = digit (n mod 10)"
      by (subst (asm) dec.simps) auto
    moreover have "n mod 10 < 10" by simp
    ultimately show ?thesis using False "1.IH" by blast
  qed
qed

lemma dec_no_plus [simp]: "\<not> starts_with (dec n) ''+''"
proof
  assume "starts_with (dec n) ''+''"
  then have "CHR ''+'' \<in> set (dec n)" by (auto simp: starts_with_iff)
  from set_dec [OF this] obtain d where "d < 10" "CHR ''+'' = digit d" by blast
  then have "digit_val (CHR ''+'') = Some d" by (metis digit_val_digit)
  then show False by (simp add: digit_val_def split: if_splits)
qed

lemma dec_digits: "digit_val c = None \<Longrightarrow> c \<notin> set (dec n)"
  by (metis digit_val_digit option.distinct(1) set_dec)

lemma parse_uint_dec: "n < b \<Longrightarrow> parse_uint b (dec n) = Some n"
  by (simp add: parse_uint_def digits_val_dec)

lemma parse_uint_bound: "parse_uint b s = Some n \<Longrightarrow> n < b"
  by (auto simp: parse_uint_def Let_def split: if_splits option.splits)

text \<open>A string with a byte that is neither a digit nor the sign does not parse.\<close>

lemma digits_val_None: "c \<in> set s \<Longrightarrow> digit_val c = None \<Longrightarrow> digits_val acc s = None"
  by (induction s arbitrary: acc) (auto split: option.splits)

lemma parse_uint_None:
  assumes "c \<in> set s" and "digit_val c = None" and "c \<noteq> CHR ''+''"
  shows "parse_uint b s = None"
proof -
  have "c \<in> set (tl s)" if "starts_with s ''+''"
    using assms(1,3) that by (auto simp: starts_with_iff)
  with assms show ?thesis by (auto simp: parse_uint_def Let_def digits_val_None)
qed

section \<open>Truncation of a string\<close>

text \<open>
  \<open>String::truncate(n)\<close>: nothing when the string is no longer than \<open>n\<close> bytes, a panic
  (\<open>None\<close>) when \<open>n\<close> is inside a UTF-8 sequence, else the first \<open>n\<close> bytes. A byte
  starts a sequence unless it is a continuation byte (\<open>10xxxxxx\<close>).
\<close>

definition is_continuation :: "char \<Rightarrow> bool" where
  "is_continuation c \<longleftrightarrow> 128 \<le> (of_char c :: nat) \<and> (of_char c :: nat) < 192"

definition str_truncate :: "nat \<Rightarrow> string \<Rightarrow> string option" where
  "str_truncate n s = (if length s \<le> n then Some s
                   else if is_continuation (s ! n) then None else Some (take n s))"

definition is_ascii :: "string \<Rightarrow> bool" where
  "is_ascii s \<longleftrightarrow> (\<forall>c \<in> set s. (of_char c :: nat) < 128)"

lemma truncate_short: "length s \<le> n \<Longrightarrow> str_truncate n s = Some s"
  by (simp add: str_truncate_def)

lemma truncate_ascii: "is_ascii s \<Longrightarrow> str_truncate n s = Some (take n s)"
  unfolding str_truncate_def is_ascii_def is_continuation_def
  by (metis leI not_le nth_mem take_all)

lemma truncate_length: "str_truncate n s = Some t \<Longrightarrow> length t \<le> n"
  by (auto simp: str_truncate_def split: if_splits)

section \<open>Errors and the state-and-error monad\<close>

text \<open>
  \<open>kube::Error\<close> as the code distinguishes it: an answer of the API server (with its message)
  or anything else. \<open>verror\<close> is \<open>common::Error\<close> (with the operator's variants, which have the
  same names), restricted to the variants the modelled code builds, each with the text it
  carries; \<open>Panicked\<close> is a panic of the Rust code.
\<close>

datatype kube_error = KApi string | KOther string

datatype verror =
    KubeError kube_error
  | KubeWaitError string
  | Elapsed
  | SerializationError string
  | JsonError string
  | YamlError string
  | HbsRenderError string
  | RhaiError string
  | SemverError string
  | Stdio string
  | Base64DecodeError string
  | UTF8
  | ParseInt
  | OCIDistrib string
  | MissingInitVersion string
  | Other string
  | TestFailure nat nat
  | MissingTestDirectory string
  | MissingDestination string
  | MissingScript string
  | Panicked string

type_synonym 'a result = "verror + 'a"
type_synonym ('w, 'a) io = "'w \<Rightarrow> (verror + 'a) \<times> 'w"

definition io_return :: "'a \<Rightarrow> ('w, 'a) io" where
  "io_return a w = (Inr a, w)"

definition io_throw :: "verror \<Rightarrow> ('w, 'a) io" where
  "io_throw e w = (Inl e, w)"

definition io_bind :: "('w, 'a) io \<Rightarrow> ('a \<Rightarrow> ('w, 'b) io) \<Rightarrow> ('w, 'b) io" where
  "io_bind m f w = (case m w of (Inl e, w') \<Rightarrow> (Inl e, w') | (Inr a, w') \<Rightarrow> f a w')"

definition io_seq :: "('w, 'a) io \<Rightarrow> ('w, 'b) io \<Rightarrow> ('w, 'b) io" where
  "io_seq m n = io_bind m (\<lambda>_. n)"

text \<open>\<open>io_lift\<close> is the \<open>?\<close> operator on a value that needs no effect.\<close>

definition io_lift :: "'a result \<Rightarrow> ('w, 'a) io" where
  "io_lift r w = (r, w)"

text \<open>\<open>io_result\<close> gives the caller the \<open>Result\<close> itself, to match on instead of \<open>?\<close>.\<close>

definition io_result :: "('w, 'a) io \<Rightarrow> ('w, 'a result) io" where
  "io_result m w = (case m w of (r, w') \<Rightarrow> (Inr r, w'))"

text \<open>A cluster call answers with a \<open>kube::Error\<close> or a value; \<open>map_err(Error::KubeError)\<close>.\<close>

type_synonym ('w, 'a) kube_call = "'w \<Rightarrow> (kube_error + 'a) \<times> 'w"

definition io_kube :: "('w, 'a) kube_call \<Rightarrow> ('w, 'a) io" where
  "io_kube m w = (case m w of (Inl e, w') \<Rightarrow> (Inl (KubeError e), w') | (Inr a, w') \<Rightarrow> (Inr a, w'))"

definition unwrap :: "string \<Rightarrow> 'a option \<Rightarrow> 'a result" where
  "unwrap msg v = (case v of None \<Rightarrow> Inl (Panicked msg) | Some a \<Rightarrow> Inr a)"

definition result_bind :: "'a result \<Rightarrow> ('a \<Rightarrow> 'b result) \<Rightarrow> 'b result" where
  "result_bind r f = (case r of Inl e \<Rightarrow> Inl e | Inr a \<Rightarrow> f a)"

lemma unwrap_simps [simp]:
  "unwrap msg None = Inl (Panicked msg)"
  "unwrap msg (Some a) = Inr a"
  by (simp_all add: unwrap_def)

lemma result_bind_simps [simp]:
  "result_bind (Inl e) f = Inl e"
  "result_bind (Inr a) f = f a"
  by (simp_all add: result_bind_def)

lemma result_bind_Inr: "result_bind m f = Inr b \<longleftrightarrow> (\<exists>a. m = Inr a \<and> f a = Inr b)"
  by (cases m) simp_all

lemma io_run [io_simps]:
  "io_return a w = (Inr a, w)"
  "io_throw e w = (Inl e, w)"
  "io_lift r w = (r, w)"
  by (simp_all add: io_return_def io_throw_def io_lift_def)

lemma io_bind_run [io_simps]:
  "m w = (Inl e, w') \<Longrightarrow> io_bind m f w = (Inl e, w')"
  "m w = (Inr a, w') \<Longrightarrow> io_bind m f w = f a w'"
  by (simp_all add: io_bind_def)

lemma io_seq_run [io_simps]:
  "m w = (Inl e, w') \<Longrightarrow> io_seq m n w = (Inl e, w')"
  "m w = (Inr a, w') \<Longrightarrow> io_seq m n w = n w'"
  by (simp_all add: io_seq_def io_simps)

lemma io_result_run [io_simps]:
  "m w = (r, w') \<Longrightarrow> io_result m w = (Inr r, w')"
  by (simp add: io_result_def)

lemma io_kube_run [io_simps]:
  "m w = (Inl k, w') \<Longrightarrow> io_kube m w = (Inl (KubeError k), w')"
  "m w = (Inr a, w') \<Longrightarrow> io_kube m w = (Inr a, w')"
  by (simp_all add: io_kube_def)

lemma io_bind_InrE:
  assumes "io_bind m f w = (Inr b, w')"
  obtains a w1 where "m w = (Inr a, w1)" and "f a w1 = (Inr b, w')"
  using assms by (auto simp: io_bind_def split: prod.splits sum.splits)

lemma io_seq_InrE:
  assumes "io_seq m n w = (Inr b, w')"
  obtains a w1 where "m w = (Inr a, w1)" and "n w1 = (Inr b, w')"
  using assms unfolding io_seq_def by (rule io_bind_InrE)

lemma io_bind_assoc: "io_bind (io_bind m f) g = io_bind m (\<lambda>a. io_bind (f a) g)"
  by (auto simp: io_bind_def fun_eq_iff split: prod.splits sum.splits)

lemma io_bind_return: "io_bind m io_return = m"
  by (auto simp: io_bind_def io_return_def fun_eq_iff split: prod.splits sum.splits)

lemma io_lift_bind [io_simps]:
  "io_bind (io_lift (Inr x)) f = f x"
  "io_bind (io_lift (Inl e)) f = io_throw e"
  by (simp_all add: io_bind_def io_lift_def io_throw_def fun_eq_iff)

lemma io_return_bind [io_simps]: "io_bind (io_return a) f = f a"
  by (simp add: io_bind_def io_return_def fun_eq_iff)

section \<open>Systems that step\<close>

text \<open>
  The contract the stateful components share: a step relation on a state and an invariant every step
  keeps. A component with a milestone (an object that became ready, an entry that was written) also
  promises that no step takes it back. The components interpret these locales on their own steps.
\<close>

locale step_system =
  fixes step :: "'s \<Rightarrow> 's \<Rightarrow> bool" and inv :: "'s \<Rightarrow> bool"
  assumes step_inv: "step s t \<Longrightarrow> inv s \<Longrightarrow> inv t"
begin

lemma reach_inv:
  assumes "step\<^sup>*\<^sup>* s t" and "inv s"
  shows "inv t"
  using assms by (induction rule: rtranclp_induct) (auto intro: step_inv)

lemma reach_until:
  assumes "step\<^sup>*\<^sup>* s t" and "inv s" and "P s" and "\<not> P t"
  shows "\<exists>u v. step\<^sup>*\<^sup>* s u \<and> inv u \<and> P u \<and> step u v \<and> \<not> P v"
  using assms
proof (induction rule: rtranclp_induct)
  case base
  then show ?case by simp
next
  case (step y z)
  show ?case
  proof (cases "P y")
    case True
    with step show ?thesis by (blast intro: reach_inv)
  next
    case False
    with step show ?thesis by blast
  qed
qed

end

locale ready_system = step_system +
  fixes ready :: "'a \<Rightarrow> bool"
  assumes step_ready: "step s t \<Longrightarrow> inv s \<Longrightarrow> ready s \<Longrightarrow> ready t"
begin

lemma reach_ready:
  assumes "step\<^sup>*\<^sup>* s t" and "inv s" and "ready s"
  shows "ready t"
  using assms
proof (induction rule: rtranclp_induct)
  case base
  then show ?case by simp
next
  case (step y z)
  then show ?case by (blast intro: step_ready reach_inv)
qed

end

section \<open>Keyed stores\<close>

text \<open>
  The contract of every table of the program: what a lookup answers after an insertion and after a
  removal. The clients only insert, remove and look up; they need no order.
\<close>

locale keyed_store =
  fixes get :: "'s \<Rightarrow> 'k \<Rightarrow> 'v option" and put :: "'k \<Rightarrow> 'v \<Rightarrow> 's \<Rightarrow> 's" and del :: "'k \<Rightarrow> 's \<Rightarrow> 's"
  assumes get_put: "get (put k v s) j = (if j = k then Some v else get s j)"
    and get_del: "get (del k s) j = (if j = k then None else get s j)"
begin

lemma put_again: "get (put k v (put k u s)) = get (put k v s)"
  by (simp add: get_put fun_eq_iff)

lemma put_swap: "k \<noteq> l \<Longrightarrow> get (put k v (put l u s)) = get (put l u (put k v s))"
  by (auto simp: get_put fun_eq_iff)

lemma del_put: "get (del k (put k v s)) = get (del k s)"
  by (simp add: get_put get_del fun_eq_iff)

text \<open>A run of insertions: the last one of a key is the one found.\<close>

lemma get_puts:
  "get (fold (\<lambda>(k, v). put k v) kvs s) j =
     (case map_of (rev kvs) j of None \<Rightarrow> get s j | Some v \<Rightarrow> Some v)"
  by (induction kvs arbitrary: s) (auto simp: get_put map_add_def split: option.splits)

lemma get_puts_fresh: "j \<notin> fst ` set kvs \<Longrightarrow> get (fold (\<lambda>(k, v). put k v) kvs s) j = get s j"
  by (induction kvs arbitrary: s) (auto simp: get_put)

text \<open>A log of insertions and removals: a key is found with what was last written for it.\<close>

lemma get_log:
  "get (fold (\<lambda>(k, c). case c of None \<Rightarrow> del k | Some v \<Rightarrow> put k v) es s) j =
     (case map_of (rev es) j of None \<Rightarrow> get s j | Some c \<Rightarrow> c)"
  by (induction es arbitrary: s) (auto simp: get_put get_del map_add_def split: option.splits)

end

text \<open>
  A store whose writes merge into what is there: a valid write of a key is found merged with the value
  the key had. Merging the same value twice is merging it once, and a merge keeps the write valid.
\<close>

locale merge_store =
  fixes get :: "'s \<Rightarrow> 'k \<Rightarrow> 'v option" and put :: "'k \<Rightarrow> 'v \<Rightarrow> 's \<Rightarrow> 's"
    and merge :: "'v \<Rightarrow> 'v \<Rightarrow> 'v" and valid :: "'s \<Rightarrow> 'k \<Rightarrow> 'v \<Rightarrow> bool"
  assumes get_put: "valid s k v \<Longrightarrow>
      get (put k v s) j = (if j = k then Some (case get s k of None \<Rightarrow> v | Some u \<Rightarrow> merge u v) else get s j)"
    and valid_put: "valid s k v \<Longrightarrow> valid s l u \<Longrightarrow> valid (put k v s) l u"
    and merge_twice: "valid s k v \<Longrightarrow> get s k = Some u \<Longrightarrow> merge (merge u v) v = merge u v"
    and merge_self: "valid s k v \<Longrightarrow> merge v v = v"
begin

lemma put_idem: "valid s k v \<Longrightarrow> get (put k v (put k v s)) = get (put k v s)"
  by (rule ext) (auto simp: get_put valid_put merge_self merge_twice split: option.splits)

lemma put_commute:
  "valid s k v \<Longrightarrow> valid s l u \<Longrightarrow> k \<noteq> l \<Longrightarrow> get (put k v (put l u s)) = get (put l u (put k v s))"
  by (rule ext) (auto simp: get_put valid_put)

lemma put_found: "valid s k v \<Longrightarrow> get (put k v s) k \<noteq> None"
  by (simp add: get_put)

end

text \<open>A keyed store is a merging one that merges by replacing.\<close>

sublocale keyed_store \<subseteq> replacing: merge_store get put "\<lambda>u v. v" "\<lambda>s k v. True"
  by unfold_locales (auto simp: get_put split: option.splits)

end
