(* ===== verification/SemverM.thy ===== *)
theory SemverM
  imports VPrelude
begin

text \<open>
  \<open>core/src/semver.rs\<close>: the version type of the packages, a thin layer over the third-party crate
  \<open>semver\<close> that remembers a leading \<open>v\<close>. The crate is the parameter \<open>semver_crate\<close>; its public
  data (\<open>Version\<close> with its fields) is the record \<open>version\<close>.
\<close>

record version =
  v_major :: "64 word"
  v_minor :: "64 word"
  v_patch :: "64 word"
  v_pre :: string
  v_build :: string

text \<open>
  What the code calls of the crate: \<open>Version::parse\<close>, \<open>Ord for Version\<close>,
  \<open>Prerelease::new\<close> and \<open>Display for Version\<close>.
\<close>

record semver_crate =
  sc_parse :: "string \<Rightarrow> string + version"
  sc_le :: "version \<Rightarrow> version \<Rightarrow> bool"
  sc_pre_new :: "string \<Rightarrow> string + string"
  sc_show :: "version \<Rightarrow> string"

definition triple :: "version \<Rightarrow> nat \<times> nat \<times> nat" where
  "triple v = (unat (v_major v), unat (v_minor v), unat (v_patch v))"

text \<open>
  The documented behaviour of the crate that the properties use: the order is total and compares
  major, minor, patch first, then a pre-release is below the release and numeric identifiers
  compare as numbers; an identifier followed by a number is a valid pre-release; printing then
  parsing is the identity and a printed version starts with a digit.
\<close>

definition sc_order :: "semver_crate \<Rightarrow> bool" where
  "sc_order sc \<longleftrightarrow>
     (\<forall>a. sc_le sc a a) \<and>
     (\<forall>a b c. sc_le sc a b \<longrightarrow> sc_le sc b c \<longrightarrow> sc_le sc a c) \<and>
     (\<forall>a b. sc_le sc a b \<longrightarrow> sc_le sc b a \<longrightarrow> a = b) \<and>
     (\<forall>a b. sc_le sc a b \<or> sc_le sc b a)"

definition sc_precedence :: "semver_crate \<Rightarrow> bool" where
  "sc_precedence sc \<longleftrightarrow>
     (\<forall>a b. triple a < triple b \<longrightarrow> sc_le sc a b) \<and>
     (\<forall>a b. triple a = triple b \<and> v_pre a \<noteq> [] \<and> v_pre b = [] \<longrightarrow> sc_le sc a b) \<and>
     (\<forall>a b p m n. triple a = triple b \<and> p \<in> {''alpha.'', ''beta.''} \<and> m < n \<and>
        v_pre a = p @ dec m \<and> v_pre b = p @ dec n \<longrightarrow> sc_le sc a b)"

definition sc_identifiers :: "semver_crate \<Rightarrow> bool" where
  "sc_identifiers sc \<longleftrightarrow>
     (\<forall>p n. p \<in> {''alpha.'', ''beta.''} \<longrightarrow> sc_pre_new sc (p @ dec n) = Inr (p @ dec n))"

definition sc_printing :: "semver_crate \<Rightarrow> bool" where
  "sc_printing sc \<longleftrightarrow>
     (\<forall>s v. sc_parse sc s = Inr v \<longrightarrow> sc_parse sc (sc_show sc v) = Inr v) \<and>
     (\<forall>v. \<not> starts_with (sc_show sc v) ''v'')"

section \<open>The type and its operations\<close>

record semver =
  sv_version :: version
  use_v :: bool

definition semver_parse :: "semver_crate \<Rightarrow> string \<Rightarrow> semver result" where
  "semver_parse sc str =
     (if starts_with str ''v''
      then (case sc_parse sc (drop 1 str) of
              Inl e \<Rightarrow> Inl (SemverError e) | Inr v \<Rightarrow> Inr \<lparr>sv_version = v, use_v = True\<rparr>)
      else (case sc_parse sc str of
              Inl e \<Rightarrow> Inl (SemverError e) | Inr v \<Rightarrow> Inr \<lparr>sv_version = v, use_v = False\<rparr>))"

definition opt_parse :: "semver_crate \<Rightarrow> string \<Rightarrow> semver option" where
  "opt_parse sc str = (case semver_parse sc str of Inl _ \<Rightarrow> None | Inr v \<Rightarrow> Some v)"

text \<open>The derived \<open>Ord\<close> compares the fields in order: the version, then \<open>use_v\<close>.\<close>

definition semver_le :: "semver_crate \<Rightarrow> semver \<Rightarrow> semver \<Rightarrow> bool" where
  "semver_le sc a b =
     (if sv_version a = sv_version b then use_v a \<le> use_v b else sc_le sc (sv_version a) (sv_version b))"

definition semver_lt :: "semver_crate \<Rightarrow> semver \<Rightarrow> semver \<Rightarrow> bool" where
  "semver_lt sc a b \<longleftrightarrow> semver_le sc a b \<and> a \<noteq> b"

text \<open>The increments of \<open>u64\<close> fields wrap in the release profile, as \<open>64 word\<close> does.\<close>

definition inc_major :: "semver \<Rightarrow> semver" where
  "inc_major s = s\<lparr>sv_version := (sv_version s)\<lparr>v_major := v_major (sv_version s) + 1, v_minor := 0, v_patch := 0,
                                           v_pre := []\<rparr>\<rparr>"

definition inc_minor :: "semver \<Rightarrow> semver" where
  "inc_minor s = s\<lparr>sv_version := (sv_version s)\<lparr>v_minor := v_minor (sv_version s) + 1, v_patch := 0, v_pre := []\<rparr>\<rparr>"

definition inc_patch :: "semver \<Rightarrow> semver" where
  "inc_patch s =
     (if v_pre (sv_version s) = []
      then s\<lparr>sv_version := (sv_version s)\<lparr>v_patch := v_patch (sv_version s) + 1\<rparr>\<rparr>
      else s\<lparr>sv_version := (sv_version s)\<lparr>v_pre := []\<rparr>\<rparr>)"

definition set_pre :: "semver_crate \<Rightarrow> string \<Rightarrow> semver \<Rightarrow> unit result \<times> semver" where
  "set_pre sc p s =
     (case sc_pre_new sc p of
        Inl e \<Rightarrow> (Inl (SemverError e), s)
      | Inr q \<Rightarrow> (Inr (), s\<lparr>sv_version := (sv_version s)\<lparr>v_pre := q\<rparr>\<rparr>))"

text \<open>
  The methods take \<open>&mut self\<close>: the model returns the result and the value left behind, which is
  changed even on some errors. \<open>unwrap\<close> on the number after the prefix is a panic.
\<close>

definition inc_beta :: "semver_crate \<Rightarrow> semver \<Rightarrow> unit result \<times> semver" where
  "inc_beta sc s =
     (if v_pre (sv_version s) = [] \<or> \<not> starts_with (v_pre (sv_version s)) ''beta.''
      then set_pre sc ''beta.1'' (s\<lparr>sv_version := (sv_version s)\<lparr>v_patch := v_patch (sv_version s) + 1\<rparr>\<rparr>)
      else (case parse_u32 (drop 5 (v_pre (sv_version s))) of
              None \<Rightarrow> (Inl (Panicked ''parse::<u32>().unwrap()''), s)
            | Some n \<Rightarrow> set_pre sc (''beta.'' @ dec ((n + 1) mod 2 ^ 32)) s))"

definition inc_alpha :: "semver_crate \<Rightarrow> semver \<Rightarrow> unit result \<times> semver" where
  "inc_alpha sc s =
     (if v_pre (sv_version s) = [] \<or> \<not> starts_with (v_pre (sv_version s)) ''alpha.''
      then set_pre sc ''alpha.1'' (s\<lparr>sv_version := (sv_version s)\<lparr>v_patch := v_patch (sv_version s) + 1\<rparr>\<rparr>)
      else (case parse_u32 (drop 6 (v_pre (sv_version s))) of
              None \<Rightarrow> (Inl (Panicked ''parse::<u32>().unwrap()''), s)
            | Some n \<Rightarrow> set_pre sc (''alpha.'' @ dec ((n + 1) mod 2 ^ 32)) s))"

definition semver_show :: "semver_crate \<Rightarrow> semver \<Rightarrow> string" where
  "semver_show sc s = (if use_v s then ''v'' @ sc_show sc (sv_version s) else sc_show sc (sv_version s))"

section \<open>A concrete crate for the examples\<close>

text \<open>
  Enough of a version parser to evaluate the examples: three dot-separated numbers and an
  optional pre-release after a dash; the order compares keys that respect the precedence.
\<close>

definition num_of :: "string \<Rightarrow> nat" where
  "num_of d = (case digits_val 0 d of None \<Rightarrow> 0 | Some n \<Rightarrow> n)"

definition pre_num :: "string \<Rightarrow> nat" where
  "pre_num p = (case strip_prefix p ''alpha.'' of
                  Some d \<Rightarrow> num_of d
                | None \<Rightarrow> (case strip_prefix p ''beta.'' of Some d \<Rightarrow> num_of d | None \<Rightarrow> 0))"

definition demo_key ::
  "version \<Rightarrow> (nat \<times> nat \<times> nat) \<times> bool \<times> bool \<times> nat \<times> string \<times> string" where
  "demo_key v = (triple v, v_pre v = [], starts_with (v_pre v) ''beta.'', pre_num (v_pre v), v_pre v, v_build v)"

definition demo_parse :: "string \<Rightarrow> string + version" where
  "demo_parse s =
     (let (core, p) = (case find_sub s ''-'' of None \<Rightarrow> (s, []) | Some i \<Rightarrow> (take i s, drop (Suc i) s))
      in (case map parse_u64 (split_on (CHR ''.'') core) of
            [Some a, Some b, Some c] \<Rightarrow>
              Inr \<lparr>v_major = of_nat a, v_minor = of_nat b, v_patch = of_nat c, v_pre = p, v_build = []\<rparr>
          | _ \<Rightarrow> Inl ''unexpected character''))"

definition demo_show :: "version \<Rightarrow> string" where
  "demo_show v = dec (unat (v_major v)) @ ''.'' @ dec (unat (v_minor v)) @ ''.'' @ dec (unat (v_patch v)) @
     (if v_pre v = [] then [] else ''-'' @ v_pre v)"

definition demo_crate :: semver_crate where
  "demo_crate = \<lparr>sc_parse = demo_parse, sc_le = (\<lambda>a b. demo_key a \<le> demo_key b),
                 sc_pre_new = Inr, sc_show = demo_show\<rparr>"

lemma demo_key_inj: "demo_key a = demo_key b \<Longrightarrow> a = b"
  by (cases a; cases b) (auto simp: demo_key_def triple_def word_unat_eq_iff)

lemma demo_order: "sc_order demo_crate"
  unfolding sc_order_def demo_crate_def
  by (auto dest: demo_key_inj order_antisym)

lemma pre_num_num [simp]: "p \<in> {''alpha.'', ''beta.''} \<Longrightarrow> pre_num (p @ dec n) = n"
  by (auto simp: pre_num_def num_of_def digits_val_dec strip_prefix_def starts_with_def)

lemma demo_precedence: "sc_precedence demo_crate"
  unfolding sc_precedence_def demo_crate_def
  by (auto simp: demo_key_def less_eq_prod_def starts_with_def)

lemma demo_identifiers: "sc_identifiers demo_crate"
  by (simp add: sc_identifiers_def demo_crate_def)

section \<open>Order\<close>

lemma semver_le_refl: "semver_le sc a a"
  by (simp add: semver_le_def)

lemma semver_le_trans:
  assumes "sc_order sc" and "semver_le sc a b" and "semver_le sc b c"
  shows "semver_le sc a c"
  using assms unfolding semver_le_def sc_order_def
  by (smt (verit) le_bool_def)

lemma semver_le_total: "sc_order sc \<Longrightarrow> semver_le sc a b \<or> semver_le sc b a"
  by (auto simp: semver_le_def sc_order_def)

lemma semver_le_antisym:
  assumes "sc_order sc" and "semver_le sc a b" and "semver_le sc b a"
  shows "a = b"
proof -
  have "sv_version a = sv_version b"
    using assms unfolding semver_le_def sc_order_def by metis
  with assms(2,3) show ?thesis by (cases a; cases b) (auto simp: semver_le_def)
qed

text \<open>The strict order follows from a strict order of the version numbers.\<close>

lemma semver_lt_triple:
  assumes "sc_precedence sc" and "triple (sv_version a) < triple (sv_version b)"
  shows "semver_lt sc a b"
proof -
  from assms(2) have "sv_version a \<noteq> sv_version b" by auto
  with assms show ?thesis by (auto simp: semver_lt_def semver_le_def sc_precedence_def)
qed

lemma unat_inc: "unat x < 2 ^ 64 - 1 \<Longrightarrow> unat (x + 1) = unat x + 1" for x :: "64 word"
  by (simp add: unat_word_ariths)

lemma demo_printing: "sc_printing demo_crate"
proof -
  have dot: "CHR ''.'' \<notin> set (dec n)" and dash: "CHR ''-'' \<notin> set (dec n)" for n
    by (simp_all add: dec_digits digit_val_def)
  have "demo_parse (demo_show v) = Inr v" if "demo_parse s = Inr v" for s v
  proof -
    from that have b: "v_build v = []"
      by (auto simp: demo_parse_def Let_def split: option.splits prod.splits list.splits)
    let ?core = "dec (unat (v_major v)) @ ''.'' @ dec (unat (v_minor v)) @ ''.'' @ dec (unat (v_patch v))"
    have sp: "split_on (CHR ''.'') ?core =
        [dec (unat (v_major v)), dec (unat (v_minor v)), dec (unat (v_patch v))]"
      by (simp add: split_on_append split_on_id dot)
    have u: "parse_u64 (dec (unat x)) = Some (unat x)" for x :: "64 word"
    proof -
      have "unat x < 2 ^ LENGTH(64)" by (rule unsigned_less)
      then show ?thesis by (intro parse_uint_dec) simp
    qed
    have nd: "CHR ''-'' \<notin> set ?core" by (simp add: dash)
    have v: "\<lparr>v_major = v_major v, v_minor = v_minor v, v_patch = v_patch v, v_pre = v_pre v, v_build = []\<rparr> = v"
      using b by (cases v) simp
    show ?thesis
    proof (cases "v_pre v = []")
      case True
      have "find_sub ?core ''-'' = None" using nd by (rule find_sub_char_None)
      moreover have "demo_show v = ?core" using True by (simp add: demo_show_def)
      ultimately show ?thesis
        using sp u v True by (simp add: demo_parse_def)
    next
      case False
      have "find_sub (?core @ CHR ''-'' # v_pre v) ''-'' = Some (length ?core)"
        using nd by (rule find_sub_char)
      moreover have "demo_show v = ?core @ CHR ''-'' # v_pre v" using False by (simp add: demo_show_def)
      ultimately show ?thesis
        using sp u v by (simp add: demo_parse_def del: append_assoc)
    qed
  qed
  moreover have "\<not> starts_with (demo_show v) ''v''" for v
  proof -
    have "CHR ''v'' \<notin> set (dec (unat (v_major v)))"
      by (simp add: dec_digits digit_val_def)
    then show ?thesis
      by (cases "dec (unat (v_major v))") (auto simp: demo_show_def starts_with_def dest: sym)
  qed
  ultimately show ?thesis by (simp add: sc_printing_def demo_crate_def)
qed

section \<open>The properties\<close>

text \<open>Printing a parsed version and parsing it again gives the same version, with or without
  the leading \<open>v\<close>.\<close>

theorem semver_roundtrip:
  assumes "sc_printing sc" and "semver_parse sc str = Inr s"
  shows "semver_parse sc (semver_show sc s) = Inr s"
  using assms unfolding semver_parse_def semver_show_def sc_printing_def
  by (auto simp: starts_with_def split: if_splits sum.splits)

theorem semver_roundtrip_witness:
  "\<exists>s. semver_parse demo_crate ''v1.2.3-beta.4'' = Inr s \<and>
       semver_parse demo_crate (semver_show demo_crate s) = Inr s"
proof -
  have s: "semver_parse demo_crate ''v1.2.3-beta.4'' =
      Inr \<lparr>sv_version = \<lparr>v_major = 1, v_minor = 2, v_patch = 3, v_pre = ''beta.4'', v_build = []\<rparr>, use_v = True\<rparr>"
    by (simp add: semver_parse_def demo_crate_def demo_parse_def starts_with_def parse_uint_def
        digit_val_def)
  from semver_roundtrip [OF demo_printing s] s show ?thesis by blast
qed

text \<open>Each of the three release increments gives a strictly greater version, as long as the
  field it increments is not at the top of its range.\<close>

theorem semver_inc_increases:
  assumes "sc_precedence sc"
    and "unat (v_major (sv_version s)) < 2 ^ 64 - 1"
    and "unat (v_minor (sv_version s)) < 2 ^ 64 - 1"
    and "unat (v_patch (sv_version s)) < 2 ^ 64 - 1"
  shows "semver_lt sc s (inc_major s) \<and> semver_lt sc s (inc_minor s) \<and> semver_lt sc s (inc_patch s)"
proof -
  have "semver_lt sc s (inc_major s)"
    using assms by (intro semver_lt_triple) (auto simp: inc_major_def triple_def unat_inc)
  moreover have "semver_lt sc s (inc_minor s)"
    using assms by (intro semver_lt_triple) (auto simp: inc_minor_def triple_def unat_inc)
  moreover have "semver_lt sc s (inc_patch s)"
  proof (cases "v_pre (sv_version s) = []")
    case True
    with assms show ?thesis
      by (intro semver_lt_triple) (auto simp: inc_patch_def triple_def unat_inc)
  next
    case False
    let ?v = "(sv_version s)\<lparr>v_pre := []\<rparr>"
    have "sv_version s \<noteq> ?v" using False by (cases "sv_version s") auto
    moreover have "sc_le sc (sv_version s) ?v"
      using assms(1) False unfolding sc_precedence_def by (simp add: triple_def)
    ultimately show ?thesis
      using False by (auto simp: inc_patch_def semver_lt_def semver_le_def dest: arg_cong [of _ _ sv_version])
  qed
  ultimately show ?thesis by blast
qed

theorem semver_inc_increases_witness:
  "let s = \<lparr>sv_version = \<lparr>v_major = 1, v_minor = 2, v_patch = 3, v_pre = ''beta.1'', v_build = []\<rparr>, use_v = True\<rparr>
   in semver_lt demo_crate s (inc_major s) \<and> semver_lt demo_crate s (inc_minor s) \<and>
      semver_lt demo_crate s (inc_patch s)"
  unfolding Let_def by (rule semver_inc_increases [OF demo_precedence]) simp_all

text \<open>
  One step of a beta series: started from a version that is not a beta, continued from one that is,
  and the panic on a beta whose suffix is not a number.
\<close>

lemma dec_one: "dec (Suc 0) = ''1''"
  by code_simp

lemma inc_beta_start:
  assumes "sc_identifiers sc" and "\<not> starts_with (v_pre (sv_version s)) ''beta.''"
  shows "inc_beta sc s = (Inr (), s\<lparr>sv_version := (sv_version s)\<lparr>v_patch := v_patch (sv_version s) + 1,
                                                          v_pre := ''beta.1''\<rparr>\<rparr>)"
proof -
  have "sc_pre_new sc (''beta.'' @ dec 1) = Inr (''beta.'' @ dec 1)"
    using assms(1) unfolding sc_identifiers_def by blast
  with assms(2) show ?thesis by (auto simp: inc_beta_def set_pre_def dec_one)
qed

lemma inc_beta_next:
  assumes "sc_identifiers sc" and "v_pre (sv_version s) = ''beta.'' @ dec n" and "n < 2 ^ 32 - 1"
  shows "inc_beta sc s = (Inr (), s\<lparr>sv_version := (sv_version s)\<lparr>v_pre := ''beta.'' @ dec (n + 1)\<rparr>\<rparr>)"
proof -
  have "parse_u32 (dec n) = Some n" using assms(3) by (intro parse_uint_dec) simp
  moreover have "sc_pre_new sc (''beta.'' @ dec (n + 1)) = Inr (''beta.'' @ dec (n + 1))"
    using assms(1) unfolding sc_identifiers_def by blast
  ultimately show ?thesis
    using assms(2,3) by (simp add: inc_beta_def set_pre_def starts_with_def)
qed

lemma inc_beta_panics:
  assumes "v_pre (sv_version s) = ''beta.'' @ d" and "c \<in> set d" "digit_val c = None" "c \<noteq> CHR ''+''"
  shows "inc_beta sc s = (Inl (Panicked ''parse::<u32>().unwrap()''), s)"
  using assms parse_uint_None [of c d "2 ^ 32"] by (simp add: inc_beta_def starts_with_def)

lemma semver_lt_beta:
  assumes "sc_precedence sc" and "v_pre (sv_version s) = ''beta.'' @ dec n"
  shows "semver_lt sc s (s\<lparr>sv_version := (sv_version s)\<lparr>v_pre := ''beta.'' @ dec (n + 1)\<rparr>\<rparr>)"
proof -
  let ?v = "(sv_version s)\<lparr>v_pre := ''beta.'' @ dec (n + 1)\<rparr>"
  have "sc_le sc (sv_version s) ?v"
    using assms unfolding sc_precedence_def
    by (elim conjE allE [of _ "sv_version s"] allE [of _ ?v] allE [of _ "''beta.''"] allE [of _ n]
        allE [of _ "n + 1"]) (simp add: triple_def)
  moreover have "dec n \<noteq> dec (n + 1)"
    by (metis digits_val_dec n_not_Suc_n option.inject Suc_eq_plus1)
  then have "sv_version s \<noteq> ?v" using assms(2) by (cases "sv_version s") auto
  ultimately show ?thesis
    by (auto simp: semver_lt_def semver_le_def dest: arg_cong [of _ _ sv_version])
qed

text \<open>\<open>inc_beta\<close> starts a beta series at the next patch and counts up within one, each time to
  a strictly greater version.\<close>

theorem semver_inc_beta:
  assumes "sc_precedence sc" and "sc_identifiers sc" and "unat (v_patch (sv_version s)) < 2 ^ 64 - 1"
    and "\<not> starts_with (v_pre (sv_version s)) ''beta.'' \<or>
         (\<exists>n < 2 ^ 32 - 1. v_pre (sv_version s) = ''beta.'' @ dec n)"
  shows "\<exists>t. inc_beta sc s = (Inr (), t) \<and> semver_lt sc s t \<and>
             starts_with (v_pre (sv_version t)) ''beta.''"
  using assms(4)
proof
  assume no: "\<not> starts_with (v_pre (sv_version s)) ''beta.''"
  show ?thesis
    using assms(1,3) unfolding inc_beta_start [OF assms(2) no]
    by (auto intro!: semver_lt_triple simp: triple_def unat_inc starts_with_def)
next
  assume "\<exists>n < 2 ^ 32 - 1. v_pre (sv_version s) = ''beta.'' @ dec n"
  then obtain n where n: "n < 2 ^ 32 - 1" "v_pre (sv_version s) = ''beta.'' @ dec n" by blast
  show ?thesis
    using semver_lt_beta [OF assms(1) n(2)] inc_beta_next [OF assms(2) n(2,1)]
    by (auto simp: starts_with_def)
qed

theorem semver_inc_beta_witness:
  "\<exists>t. inc_beta demo_crate \<lparr>sv_version = \<lparr>v_major = 1, v_minor = 2, v_patch = 3, v_pre = ''beta.1'', v_build = []\<rparr>,
                           use_v = False\<rparr> = (Inr (), t) \<and>
       semver_lt demo_crate \<lparr>sv_version = \<lparr>v_major = 1, v_minor = 2, v_patch = 3, v_pre = ''beta.1'', v_build = []\<rparr>,
                             use_v = False\<rparr> t \<and>
       starts_with (v_pre (sv_version t)) ''beta.''"
proof -
  have "\<exists>n < 2 ^ 32 - 1. ''beta.1'' = ''beta.'' @ dec n"
    by (rule exI [of _ 1]) (simp add: dec_one)
  then show ?thesis
    by (intro semver_inc_beta [OF demo_precedence demo_identifiers]) simp_all
qed

end
