(* ===== verification/Json.thy ===== *)
theory Json
  imports VPrelude Complex_Main
begin

text \<open>
  \<open>serde_json::Value\<close>, the dynamic values of the code (options, rendering contexts, mock
  objects). A \<open>Map\<close> is a \<open>BTreeMap\<close>: an association list with the keys in order, each once. Numbers
  are unsigned, negative or finite floating-point values, as \<open>Number\<close> keeps them.
\<close>

datatype json_num = PosInt nat | NegInt int | Float rat

datatype json =
    JNull
  | JBool bool
  | JNum json_num
  | JStr string
  | JArr "json list"
  | JObj "(string \<times> json) list"

text \<open>\<open>Map::get\<close> and \<open>Map::insert\<close> on the sorted association list.\<close>

abbreviation obj_get :: "(string \<times> 'a) list \<Rightarrow> string \<Rightarrow> 'a option" where
  "obj_get \<equiv> map_of"

fun obj_insert :: "string \<Rightarrow> 'a \<Rightarrow> (string \<times> 'a) list \<Rightarrow> (string \<times> 'a) list" where
  "obj_insert k v [] = [(k, v)]"
| "obj_insert k v ((k', v') # m) =
     (if k < k' then (k, v) # (k', v') # m
      else if k = k' then (k, v) # m
      else (k', v') # obj_insert k v m)"

text \<open>\<open>Value::as_object\<close>, \<open>as_array\<close>, \<open>as_str\<close> and \<open>get\<close> with a name, which no value but an object answers.\<close>

fun as_object :: "json \<Rightarrow> (string \<times> json) list option" where
  "as_object (JObj m) = Some m"
| "as_object _ = None"

fun as_array :: "json \<Rightarrow> json list option" where
  "as_array (JArr xs) = Some xs"
| "as_array _ = None"

fun as_str :: "json \<Rightarrow> string option" where
  "as_str (JStr s) = Some s"
| "as_str _ = None"

definition value_get :: "json \<Rightarrow> string \<Rightarrow> json option" where
  "value_get v k = (case v of JObj m \<Rightarrow> obj_get m k | _ \<Rightarrow> None)"

lemma value_get_simps [simp]: "value_get (JObj m) k = obj_get m k"
  by (simp add: value_get_def)

text \<open>A member of an object is smaller than the object, so the walks over values end.\<close>

lemma obj_get_size [termination_simp]: "obj_get m k = Some v \<Longrightarrow> size v < Suc (size_list (size_prod (\<lambda>x. 0) size) m)"
  by (induction m) (auto split: if_splits)

lemma value_get_size: "value_get v k = Some u \<Longrightarrow> size u < size v"
  by (cases v) (auto simp: value_get_def dest: obj_get_size)

definition obj_wf :: "(string \<times> 'a) list \<Rightarrow> bool" where
  "obj_wf m \<longleftrightarrow> sorted (map fst m) \<and> distinct (map fst m)"

lemma obj_wf_Nil [simp]: "obj_wf []"
  by (simp add: obj_wf_def)

lemma obj_get_insert [simp]: "obj_get (obj_insert k v m) k' = (if k' = k then Some v else obj_get m k')"
  by (induction m) auto

lemma dom_obj_insert [simp]: "fst ` set (obj_insert k v m) = insert k (fst ` set m)"
  by (induction k v m rule: obj_insert.induct) (simp_all add: insert_commute)

lemma obj_wf_insert: "obj_wf m \<Longrightarrow> obj_wf (obj_insert k v m)"
  unfolding obj_wf_def
proof (induction m)
  case Nil
  then show ?case by simp
next
  case (Cons x m)
  then show ?case by (cases x) (force simp: less_le)
qed

lemma obj_insert_same: "obj_wf m \<Longrightarrow> obj_get m k = Some v \<Longrightarrow> obj_insert k v m = m"
  unfolding obj_wf_def
proof (induction m)
  case Nil
  then show ?case by simp
next
  case (Cons x m)
  then show ?case
    by (cases x) (auto simp: less_le split: if_splits dest!: map_of_SomeD intro: order_antisym)
qed

text \<open>\<open>Map::remove\<close>.\<close>

definition obj_remove :: "string \<Rightarrow> (string \<times> 'a) list \<Rightarrow> (string \<times> 'a) list" where
  "obj_remove k m = filter (\<lambda>p. fst p \<noteq> k) m"

lemma obj_get_remove [simp]: "obj_get (obj_remove k m) j = (if j = k then None else obj_get m j)"
  by (induction m) (auto simp: obj_remove_def)

lemma obj_wf_remove: "obj_wf m \<Longrightarrow> obj_wf (obj_remove k m)"
  unfolding obj_wf_def obj_remove_def by (induction m) auto

interpretation btree: keyed_store obj_get obj_insert obj_remove
  by unfold_locales simp_all

lemma obj_get_Cons: "obj_get (x # m) k = (if k = fst x then Some (snd x) else obj_get m k)"
  by (cases x) simp

text \<open>Two sorted maps with the same entries are the same map.\<close>

lemma obj_wf_Cons: "obj_wf (x # m) \<longleftrightarrow> (\<forall>k \<in> fst ` set m. fst x < k) \<and> obj_wf m"
  unfolding obj_wf_def by (auto simp: less_le)

lemma obj_wf_eqI:
  assumes "obj_wf m" and "obj_wf n" and "\<And>k. obj_get m k = obj_get n k"
  shows "m = n"
  using assms
proof (induction m arbitrary: n)
  case Nil
  have "obj_get n (fst (hd n)) = None" using Nil.prems(3) [of "fst (hd n)"] by simp
  then show ?case by (cases n) simp_all
next
  case (Cons x m)
  obtain y n' where n: "n = y # n'" using Cons.prems(3) [of "fst x"] by (cases n) auto
  have k: "fst x = fst y"
  proof (rule ccontr)
    assume ne: "fst x \<noteq> fst y"
    have "obj_get m (fst y) \<noteq> None" "obj_get n' (fst x) \<noteq> None"
      using ne Cons.prems(3) [of "fst y", unfolded n obj_get_Cons]
        Cons.prems(3) [of "fst x", unfolded n obj_get_Cons] by (auto dest: sym)
    then have "fst y \<in> fst ` set m" "fst x \<in> fst ` set n'"
      by (simp_all add: map_of_eq_None_iff del: not_None_eq)
    with Cons.prems(1,2) n have "fst x < fst y" "fst y < fst x" by (auto simp: obj_wf_Cons)
    then show False by (rule less_asym)
  qed
  with Cons.prems(3) [of "fst x"] n have xy: "x = y" by (cases x; cases y) simp
  have "obj_get m j = obj_get n' j" for j
  proof (cases "j = fst x")
    case True
    with Cons.prems(1,2) n k have "obj_get m j = None" "obj_get n' j = None"
      by (auto simp: obj_wf_Cons map_of_eq_None_iff)
    then show ?thesis by simp
  next
    case False
    with Cons.prems(3) [of j] n k show ?thesis by (cases x; cases y) simp
  qed
  with Cons xy n show ?case by (simp add: obj_wf_Cons)
qed

section \<open>Well-formed values\<close>

text \<open>The type of a value as \<open>serde_json\<close> keeps it: the names of each object in order, each once, at every depth.\<close>

fun json_wf :: "json \<Rightarrow> bool" where
  "json_wf (JObj m) \<longleftrightarrow> obj_wf m \<and> (\<forall>p \<in> set m. json_wf (snd p))"
| "json_wf (JArr xs) \<longleftrightarrow> (\<forall>x \<in> set xs. json_wf x)"
| "json_wf _ \<longleftrightarrow> True"

lemma set_obj_insert: "set (obj_insert k v m) \<subseteq> insert (k, v) (set m)"
proof (induction m)
  case (Cons x m)
  then show ?case by (cases x) auto
qed simp

lemma json_wf_insert: "json_wf (JObj m) \<Longrightarrow> json_wf v \<Longrightarrow> json_wf (JObj (obj_insert k v m))"
  using set_obj_insert [of k v m] by (auto simp: obj_wf_insert)

lemma json_wf_get: "json_wf (JObj m) \<Longrightarrow> obj_get m k = Some v \<Longrightarrow> json_wf v"
  by (drule map_of_SomeD) force

lemma json_wf_empty [simp]: "json_wf (JObj [])"
  by simp

end
