(* ===== verification/Package.thy ===== *)
theory Package
  imports SemverM Json
begin

text \<open>
  \<open>common/src/vynilpackage.rs\<close>: what a package is, its requirements, and the version tests that
  decide whether it may be installed over an existing version, by this vynil, on this cluster.
  The checks of the requirements against a cluster are in the theory \<open>Requirements\<close>.
\<close>

section \<open>The data\<close>

datatype package_type = Tenant | System | Service

datatype package_feature =
    Upgrade | Backup | Monitoring | HighAvailability | AutoConfig | AutoScaling | Deprecated

record package_meta =
  pm_name :: string
  pm_category :: string
  pm_description :: string
  pm_app_version :: "string option"
  pm_usage :: package_type
  pm_features :: "package_feature list"
  pm_backup_affinity :: "string option"

datatype storage_capability = RWX | ROX

datatype requirement =
    R_CustomResourceDefinition string
  | R_SystemService string
  | R_TenantService string
  | R_SystemPackage string string        \<comment> \<open>category, name\<close>
  | R_TenantPackage string string        \<comment> \<open>category, name\<close>
  | R_Prefly string string               \<comment> \<open>script, name\<close>
  | R_ClusterVersion nat nat             \<comment> \<open>major, minor (u64)\<close>
  | R_StorageCapability storage_capability
  | R_MinimumPreviousVersion string
  | R_VynilVersion string
  | R_Cpu rat
  | R_Memory nat
  | R_Disk nat

datatype recommandation =
    Rec_CustomResourceDefinition string
  | Rec_SystemService string
  | Rec_TenantService string

record package =
  pk_registry :: string
  pk_image :: string
  pk_tag :: string
  pk_metadata :: package_meta
  pk_requirements :: "requirement list"
  pk_recommandations :: "recommandation list option"
  pk_options :: "(string \<times> json) list option"
  pk_value_script :: "string option"

text \<open>\<open>env!("CARGO_PKG_VERSION")\<close>: the version of the workspace in \<open>Cargo.toml\<close>.\<close>

definition VERSION :: string where
  "VERSION = ''0.7.8-alpha.4''"

section \<open>The requirements of a package\<close>

text \<open>The three loops return the first requirement of the kind they look for.\<close>

fun first_min_version :: "requirement list \<Rightarrow> string option" where
  "first_min_version [] = None"
| "first_min_version (R_MinimumPreviousVersion v # rs) = Some v"
| "first_min_version (_ # rs) = first_min_version rs"

definition get_min_version :: "package \<Rightarrow> string option" where
  "get_min_version p = first_min_version (pk_requirements p)"

fun first_vynil_version :: "requirement list \<Rightarrow> string option" where
  "first_vynil_version [] = None"
| "first_vynil_version (R_VynilVersion v # rs) = Some v"
| "first_vynil_version (_ # rs) = first_vynil_version rs"

definition get_vynil_version :: "package \<Rightarrow> string option" where
  "get_vynil_version p = first_vynil_version (pk_requirements p)"

fun first_cluster_version :: "requirement list \<Rightarrow> (nat \<times> nat) option" where
  "first_cluster_version [] = None"
| "first_cluster_version (R_ClusterVersion major minor # rs) = Some (major, minor)"
| "first_cluster_version (_ # rs) = first_cluster_version rs"

definition get_cluster_version :: "package \<Rightarrow> (nat \<times> nat) option" where
  "get_cluster_version p = first_cluster_version (pk_requirements p)"

definition is_min_version_ok :: "semver_crate \<Rightarrow> package \<Rightarrow> string \<Rightarrow> bool" where
  "is_min_version_ok sc p current =
     (case semver_parse sc current of
        Inl _ \<Rightarrow> True
      | Inr cur \<Rightarrow>
          (case get_min_version p of
             None \<Rightarrow> True
           | Some target \<Rightarrow>
               (case semver_parse sc target of
                  Inl _ \<Rightarrow> True
                | Inr target_parsed \<Rightarrow> semver_le sc target_parsed cur)))"

definition is_vynil_version_ok :: "semver_crate \<Rightarrow> package \<Rightarrow> bool" where
  "is_vynil_version_ok sc p =
     (case semver_parse sc VERSION of
        Inl _ \<Rightarrow> True
      | Inr cur \<Rightarrow>
          (case get_vynil_version p of
             None \<Rightarrow> True
           | Some target \<Rightarrow>
               (case semver_parse sc target of
                  Inl _ \<Rightarrow> True
                | Inr target_parsed \<Rightarrow> semver_le sc target_parsed cur)))"

text \<open>
  The answer of the API server at \<open>/version\<close> and the two numbers the code reads from it:
  \<open>as_object().unwrap()\<close> and the index panic, and each number is the JSON text of the field
  (\<open>serde_json::to_string\<close>, the parameter \<open>js\<close>) parsed as a \<open>u64\<close>.
\<close>

definition version_field :: "(json \<Rightarrow> string) \<Rightarrow> json \<Rightarrow> string \<Rightarrow> nat result" where
  "version_field js ver key =
     (case ver of
        JObj m \<Rightarrow>
          (case obj_get m key of
             None \<Rightarrow> Inl (Panicked ''no entry in index'')
           | Some v \<Rightarrow> (case parse_u64 (js v) of None \<Rightarrow> Inl ParseInt | Some n \<Rightarrow> Inr n))
      | _ \<Rightarrow> Inl (Panicked ''as_object().unwrap()''))"

definition cluster_at_least :: "nat \<times> nat \<Rightarrow> nat \<Rightarrow> nat \<Rightarrow> bool" where
  "cluster_at_least req maj mnr =
     (case req of (major, minor) \<Rightarrow> maj > major \<or> (maj = major \<and> mnr \<ge> minor))"

definition is_cluster_version_ok ::
  "(json \<Rightarrow> string) \<Rightarrow> json result \<Rightarrow> package \<Rightarrow> bool result" where
  "is_cluster_version_ok js get_api_version p =
     result_bind get_api_version (\<lambda>ver.
     result_bind (version_field js ver ''major'') (\<lambda>maj.
     result_bind (version_field js ver ''minor'') (\<lambda>mnr.
       (case get_cluster_version p of
          Some req \<Rightarrow> Inr (cluster_at_least req maj mnr)
        | None \<Rightarrow> Inr True))))"

section \<open>The package sources\<close>

record image =
  im_tag :: "string option"
  im_registry :: string
  im_repository :: string

record resource_item =
  ri_cpu :: "string option"
  ri_memory :: "string option"
  ri_storage :: "string option"

record resource_scaler =
  rs_max_replicas :: nat           \<comment> \<open>u64\<close>
  rs_average_utilization :: nat    \<comment> \<open>u64\<close>

record resource =
  rs_requests :: "resource_item option"
  rs_limits :: "resource_item option"
  rs_scaler :: "resource_scaler option"

text \<open>
  The part of \<open>VynilPackageSource\<close> with logic of its own: the options are validated by reading
  each as an OpenAPI schema (the parameter \<open>schema\<close> is the third-party deserializer).
\<close>

record package_source =
  ps_api_version :: string
  ps_kind :: string
  ps_metadata :: package_meta
  ps_requirements :: "requirement list"
  ps_recommandations :: "recommandation list option"
  ps_options :: "(string \<times> json) list option"
  ps_images :: "(string \<times> image) list option"
  ps_resources :: "(string \<times> resource) list option"
  ps_value_script :: "string option"

fun validate_values :: "(json \<Rightarrow> string + unit) \<Rightarrow> json list \<Rightarrow> unit result" where
  "validate_values schema [] = Inr ()"
| "validate_values schema (v # vs) =
     (case schema v of Inl e \<Rightarrow> Inl (JsonError e) | Inr _ \<Rightarrow> validate_values schema vs)"

definition validate_options :: "(json \<Rightarrow> string + unit) \<Rightarrow> package_source \<Rightarrow> unit result" where
  "validate_options schema p =
     (case ps_options p of None \<Rightarrow> Inr () | Some options \<Rightarrow> validate_values schema (map snd options))"

definition get_value_script :: "package_source \<Rightarrow> string" where
  "get_value_script p = (case ps_value_script p of Some val \<Rightarrow> val | None \<Rightarrow> [])"

section \<open>Lemmas\<close>

lemma first_min_version_None:
  "first_min_version rs = None \<longleftrightarrow> (\<forall>v. R_MinimumPreviousVersion v \<notin> set rs)"
  by (induction rs rule: first_min_version.induct) auto

lemma is_min_version_ok_iff:
  assumes "semver_parse sc current = Inr cur" and "get_min_version p = Some target"
    and "semver_parse sc target = Inr t"
  shows "is_min_version_ok sc p current \<longleftrightarrow> semver_le sc t cur"
  using assms by (simp add: is_min_version_ok_def)

section \<open>The properties\<close>

text \<open>The minimum-previous-version gate is monotone in the installed version: once a version
  passes it, every later version passes it too, so an upgrade never locks an instance out of a
  package it could already take.\<close>

theorem min_version_monotone:
  assumes "sc_order sc" and "semver_parse sc cur = Inr a" and "semver_parse sc cur' = Inr b"
    and "semver_le sc a b" and "is_min_version_ok sc p cur"
  shows "is_min_version_ok sc p cur'"
  using assms semver_le_trans [OF assms(1) _ assms(4)]
  by (auto simp: is_min_version_ok_def split: option.splits sum.splits)

definition demo_package :: "string \<Rightarrow> requirement list \<Rightarrow> package" where
  "demo_package tag reqs =
     \<lparr>pk_registry = ''docker.io'', pk_image = ''test/image'', pk_tag = tag,
      pk_metadata = \<lparr>pm_name = ''pkg'', pm_category = ''cat'', pm_description = [], pm_app_version = None,
                     pm_usage = Tenant, pm_features = [], pm_backup_affinity = None\<rparr>,
      pk_requirements = reqs, pk_recommandations = None, pk_options = None, pk_value_script = None\<rparr>"

lemma demo_parse_version:
  "semver_parse demo_crate ''1.0.0'' =
     Inr \<lparr>sv_version = \<lparr>v_major = 1, v_minor = 0, v_patch = 0, v_pre = [], v_build = []\<rparr>, use_v = False\<rparr>"
  "semver_parse demo_crate ''v1.0.0'' =
     Inr \<lparr>sv_version = \<lparr>v_major = 1, v_minor = 0, v_patch = 0, v_pre = [], v_build = []\<rparr>, use_v = True\<rparr>"
  "semver_parse demo_crate ''2.0.0'' =
     Inr \<lparr>sv_version = \<lparr>v_major = 2, v_minor = 0, v_patch = 0, v_pre = [], v_build = []\<rparr>, use_v = False\<rparr>"
  "sc_parse demo_crate ''1.0.0'' =
     Inr \<lparr>v_major = 1, v_minor = 0, v_patch = 0, v_pre = [], v_build = []\<rparr>"
  by (simp_all add: semver_parse_def demo_crate_def demo_parse_def starts_with_def parse_uint_def
      digit_val_def)

theorem min_version_monotone_witness:
  "is_min_version_ok demo_crate (demo_package ''3.0.0'' [R_MinimumPreviousVersion ''1.0.0'']) ''2.0.0''"
proof (rule min_version_monotone [OF demo_order demo_parse_version(1,3)])
  show "semver_le demo_crate
     \<lparr>sv_version = \<lparr>v_major = 1, v_minor = 0, v_patch = 0, v_pre = [], v_build = []\<rparr>, use_v = False\<rparr>
     \<lparr>sv_version = \<lparr>v_major = 2, v_minor = 0, v_patch = 0, v_pre = [], v_build = []\<rparr>, use_v = False\<rparr>"
    by (simp add: semver_le_def demo_crate_def demo_key_def triple_def)
  show "is_min_version_ok demo_crate (demo_package ''3.0.0'' [R_MinimumPreviousVersion ''1.0.0'']) ''1.0.0''"
    by (simp add: is_min_version_ok_def get_min_version_def demo_package_def demo_parse_version
        semver_le_refl)
qed

text \<open>A leading \<open>v\<close> is not transparent to the gate: a package that asks for the version \<open>vX\<close>
  refuses an instance whose installed version is spelled \<open>X\<close>, and accepts it spelled \<open>vX\<close>.\<close>

theorem min_version_v_prefix:
  assumes "\<not> starts_with x ''v''" and "sc_parse sc x = Inr v"
    and "get_min_version p = Some (CHR ''v'' # x)"
  shows "\<not> is_min_version_ok sc p x \<and> is_min_version_ok sc p (CHR ''v'' # x)"
  using assms by (simp add: is_min_version_ok_def semver_parse_def semver_le_def starts_with_def)

theorem min_version_v_prefix_witness:
  "\<not> is_min_version_ok demo_crate (demo_package ''3.0.0'' [R_MinimumPreviousVersion ''v1.0.0'']) ''1.0.0'' \<and>
   is_min_version_ok demo_crate (demo_package ''3.0.0'' [R_MinimumPreviousVersion ''v1.0.0'']) ''v1.0.0''"
  by (rule min_version_v_prefix [OF _ demo_parse_version(4)])
     (simp_all add: starts_with_def get_min_version_def demo_package_def)

end
