(* ===== verification/Conditions.thy ===== *)
theory Conditions
  imports VPrelude
begin

text \<open>
  The status conditions of the custom resources: the struct \<open>ApplicationCondition\<close>, which
  \<open>jukebox.rs\<close>, \<open>instancetenant.rs\<close>, \<open>instanceservice.rs\<close> and \<open>instancesystem.rs\<close> declare alike over
  their own enumeration of condition types, the constructors that the macros
  \<open>impl_condition_common!\<close>, \<open>impl_condition_children!\<close> and \<open>impl_condition_crds!\<close> of
  \<open>instance_macros.rs\<close> generate, and the list operations on conditions. The time stamp that
  \<open>ApplicationCondition::new\<close> reads from the clock is the argument \<open>now\<close>.
\<close>

section \<open>The struct\<close>

record 'k condition =
  last_transition_time :: "int option"
  message :: string
  condition_type :: 'k
  cond_status :: bool
  cond_generation :: int

definition condition_new :: "int \<Rightarrow> string \<Rightarrow> bool \<Rightarrow> 'k \<Rightarrow> int \<Rightarrow> 'k condition" where
  "condition_new now msg st ty gen =
     \<lparr>last_transition_time = Some now, message = msg, condition_type = ty, cond_status = st,
      cond_generation = gen\<rparr>"

lemma condition_new_simps [simp]:
  "condition_type (condition_new now msg st ty gen) = ty"
  "cond_status (condition_new now msg st ty gen) = st"
  "message (condition_new now msg st ty gen) = msg"
  "cond_generation (condition_new now msg st ty gen) = gen"
  by (simp_all add: condition_new_def)

section \<open>Lists of conditions\<close>

text \<open>
  The loop of \<open>get_conditions_excluding\<close> on the conditions of a status, the test of
  \<open>have_condition\<close> (the time stamp is not compared) and the test for a type.
\<close>

fun excluding :: "'k list \<Rightarrow> 'k condition list \<Rightarrow> 'k condition list" where
  "excluding ex [] = []"
| "excluding ex (c # cs) =
     (if list_ex (\<lambda>e. condition_type c = e) ex then excluding ex cs else c # excluding ex cs)"

definition same_condition :: "'k condition \<Rightarrow> 'k condition \<Rightarrow> bool" where
  "same_condition c d \<longleftrightarrow> condition_type c = condition_type d \<and> cond_generation c = cond_generation d \<and>
     cond_status c = cond_status d \<and> message c = message d"

definition has_type :: "'k \<Rightarrow> 'k condition list \<Rightarrow> bool" where
  "has_type t cs \<longleftrightarrow> list_ex (\<lambda>c. condition_type c = t) cs"

text \<open>A list with at most one condition of each type, and the type's status in it.\<close>

definition types :: "'k condition list \<Rightarrow> 'k list" where
  "types cs = map condition_type cs"

definition is_true :: "'k \<Rightarrow> 'k condition list \<Rightarrow> bool" where
  "is_true t cs \<longleftrightarrow> list_ex (\<lambda>c. condition_type c = t \<and> cond_status c) cs"

lemma types_simps [simp]:
  "types [] = []" "types (c # cs) = condition_type c # types cs" "types (cs @ ds) = types cs @ types ds"
  by (simp_all add: types_def)

lemma has_type_iff: "has_type t cs \<longleftrightarrow> t \<in> set (types cs)"
  by (auto simp: has_type_def types_def list_ex_iff)

lemma excluding_filter: "excluding ex cs = filter (\<lambda>c. condition_type c \<notin> set ex) cs"
  by (induction cs) (auto simp: list_ex_iff)

lemma types_excluding [simp]: "types (excluding ex cs) = filter (\<lambda>t. t \<notin> set ex) (types cs)"
  by (induction cs) (auto simp: list_ex_iff)

lemma is_true_append [simp]: "is_true t (cs @ ds) \<longleftrightarrow> is_true t cs \<or> is_true t ds"
  by (simp add: is_true_def)

lemma is_true_Cons [simp]:
  "is_true t (c # cs) \<longleftrightarrow> condition_type c = t \<and> cond_status c \<or> is_true t cs"
  "\<not> is_true t []"
  by (simp_all add: is_true_def)

lemma is_true_excluding [simp]: "is_true t (excluding ex cs) \<longleftrightarrow> t \<notin> set ex \<and> is_true t cs"
  by (auto simp: is_true_def excluding_filter list_ex_iff)

lemma is_true_has_type: "is_true t cs \<Longrightarrow> t \<in> set (types cs)"
  by (auto simp: is_true_def types_def list_ex_iff)

section \<open>The condition types of the instances\<close>

text \<open>
  The three instance modules declare three enumerations; the model has their union and, for each
  module, the list of its constructors.
\<close>

datatype cond_type =
    Ready | Installed | Backuped | Restored | AgentStarted | CrdApplied | TofuInstalled
  | BeforeApplied | VitalApplied | ScalableApplied | InitFrom | ScheduleBackup | OtherApplied
  | RhaiApplied | PostApplied | SystemApplied

definition tenant_condition_types :: "cond_type list" where
  "tenant_condition_types =
     [Ready, Installed, Backuped, Restored, AgentStarted, TofuInstalled, BeforeApplied,
      VitalApplied, ScalableApplied, InitFrom, ScheduleBackup, OtherApplied, RhaiApplied, PostApplied]"

definition service_condition_types :: "cond_type list" where
  "service_condition_types =
     [Ready, Installed, Backuped, Restored, AgentStarted, CrdApplied, TofuInstalled, BeforeApplied,
      VitalApplied, ScalableApplied, InitFrom, ScheduleBackup, OtherApplied, RhaiApplied, PostApplied]"

definition system_condition_types :: "cond_type list" where
  "system_condition_types =
     [Ready, Installed, AgentStarted, CrdApplied, TofuInstalled, SystemApplied, RhaiApplied]"

section \<open>The constructors\<close>

text \<open>\<open>impl_condition_common!\<close>\<close>

definition ready_ok :: "int \<Rightarrow> int \<Rightarrow> cond_type condition" where
  "ready_ok now gen = condition_new now ''Installed succesfully'' True Ready gen"

definition ready_ko :: "int \<Rightarrow> int \<Rightarrow> cond_type condition" where
  "ready_ko now gen = condition_new now ''No successful install'' False Ready gen"

definition installed_ko :: "int \<Rightarrow> string \<Rightarrow> int \<Rightarrow> cond_type condition" where
  "installed_ko now msg gen = condition_new now msg False Installed gen"

definition installed_ok :: "int \<Rightarrow> int \<Rightarrow> cond_type condition" where
  "installed_ok now gen = condition_new now ''Installed succesfully'' True Installed gen"

definition agent_started :: "int \<Rightarrow> int \<Rightarrow> cond_type condition" where
  "agent_started now gen = condition_new now ''Agent started'' True AgentStarted gen"

definition missing_package :: "int \<Rightarrow> string \<Rightarrow> string \<Rightarrow> int \<Rightarrow> cond_type condition" where
  "missing_package now cat name gen =
     condition_new now (''Package '' @ cat @ ''/'' @ name @ '' is missing'') False AgentStarted gen"

definition missing_box :: "int \<Rightarrow> string \<Rightarrow> int \<Rightarrow> cond_type condition" where
  "missing_box now name gen =
     condition_new now (''JukeBox '' @ name @ '' is missing'') False AgentStarted gen"

definition missing_requirement :: "int \<Rightarrow> string \<Rightarrow> int \<Rightarrow> cond_type condition" where
  "missing_requirement now err gen = condition_new now err False AgentStarted gen"

definition tofu_ko :: "int \<Rightarrow> string \<Rightarrow> int \<Rightarrow> cond_type condition" where
  "tofu_ko now msg gen = condition_new now msg False TofuInstalled gen"

definition tofu_ok :: "int \<Rightarrow> int \<Rightarrow> cond_type condition" where
  "tofu_ok now gen = condition_new now ''Tofu layer applied succesfully'' True TofuInstalled gen"

definition rhai_ko :: "int \<Rightarrow> string \<Rightarrow> int \<Rightarrow> cond_type condition" where
  "rhai_ko now msg gen = condition_new now msg False RhaiApplied gen"

definition rhai_ok :: "int \<Rightarrow> int \<Rightarrow> cond_type condition" where
  "rhai_ok now gen = condition_new now ''Custom rhai script succeed'' True RhaiApplied gen"

text \<open>\<open>impl_condition_children!\<close>\<close>

definition vital_ko :: "int \<Rightarrow> string \<Rightarrow> int \<Rightarrow> cond_type condition" where
  "vital_ko now msg gen = condition_new now msg False VitalApplied gen"

definition vital_ok :: "int \<Rightarrow> int \<Rightarrow> cond_type condition" where
  "vital_ok now gen = condition_new now ''vitals templates applied succesfully'' True VitalApplied gen"

definition before_ko :: "int \<Rightarrow> string \<Rightarrow> int \<Rightarrow> cond_type condition" where
  "before_ko now msg gen = condition_new now msg False BeforeApplied gen"

definition before_ok :: "int \<Rightarrow> int \<Rightarrow> cond_type condition" where
  "before_ok now gen = condition_new now ''befores templates applied succesfully'' True BeforeApplied gen"

definition scalable_ko :: "int \<Rightarrow> string \<Rightarrow> int \<Rightarrow> cond_type condition" where
  "scalable_ko now msg gen = condition_new now msg False ScalableApplied gen"

definition scalable_ok :: "int \<Rightarrow> int \<Rightarrow> cond_type condition" where
  "scalable_ok now gen =
     condition_new now ''Scalables templates applied succesfully'' True ScalableApplied gen"

definition post_ko :: "int \<Rightarrow> string \<Rightarrow> int \<Rightarrow> cond_type condition" where
  "post_ko now msg gen = condition_new now msg False PostApplied gen"

definition post_ok :: "int \<Rightarrow> int \<Rightarrow> cond_type condition" where
  "post_ok now gen = condition_new now ''Templates applied succesfully'' True PostApplied gen"

definition other_ko :: "int \<Rightarrow> string \<Rightarrow> int \<Rightarrow> cond_type condition" where
  "other_ko now msg gen = condition_new now msg False OtherApplied gen"

definition other_ok :: "int \<Rightarrow> int \<Rightarrow> cond_type condition" where
  "other_ok now gen = condition_new now ''Templates applied succesfully'' True OtherApplied gen"

definition init_ko :: "int \<Rightarrow> string \<Rightarrow> int \<Rightarrow> cond_type condition" where
  "init_ko now msg gen = condition_new now msg False InitFrom gen"

definition init_version_ko :: "int \<Rightarrow> string \<Rightarrow> int \<Rightarrow> cond_type condition" where
  "init_version_ko now ver gen =
     condition_new now (''[E_INIT_VERSION_NOT_FOUND] Version '' @ ver @
       '' introuvable dans le registre OCI'') False InitFrom gen"

definition schedule_ko :: "int \<Rightarrow> string \<Rightarrow> int \<Rightarrow> cond_type condition" where
  "schedule_ko now msg gen = condition_new now msg False ScheduleBackup gen"

text \<open>\<open>impl_condition_crds!\<close> and the two constructors of \<open>instancesystem.rs\<close>\<close>

definition crd_ko :: "int \<Rightarrow> string \<Rightarrow> int \<Rightarrow> cond_type condition" where
  "crd_ko now msg gen = condition_new now msg False CrdApplied gen"

definition crd_ok :: "int \<Rightarrow> int \<Rightarrow> cond_type condition" where
  "crd_ok now gen = condition_new now ''CRD(s) applied succesfully'' True CrdApplied gen"

definition system_ko :: "int \<Rightarrow> string \<Rightarrow> int \<Rightarrow> cond_type condition" where
  "system_ko now msg gen = condition_new now msg False SystemApplied gen"

definition system_ok :: "int \<Rightarrow> int \<Rightarrow> cond_type condition" where
  "system_ok now gen = condition_new now ''Templates applied succesfully'' True SystemApplied gen"

lemmas condition_defs =
  ready_ok_def ready_ko_def installed_ko_def installed_ok_def agent_started_def missing_package_def
  missing_box_def missing_requirement_def tofu_ko_def tofu_ok_def rhai_ko_def rhai_ok_def
  vital_ko_def vital_ok_def before_ko_def before_ok_def scalable_ko_def scalable_ok_def
  post_ko_def post_ok_def other_ko_def other_ok_def init_ko_def init_version_ko_def
  schedule_ko_def crd_ko_def crd_ok_def system_ko_def system_ok_def

end
