(* ===== verification/Instance.thy ===== *)
theory Instance
  imports Package Conditions
begin

text \<open>
  The custom resources \<open>TenantInstance\<close>, \<open>ServiceInstance\<close> and \<open>SystemInstance\<close>: the data of
  \<open>instancetenant.rs\<close>, \<open>instanceservice.rs\<close> and \<open>instancesystem.rs\<close>, and every operation that the
  macros \<open>impl_instance_common!\<close>, \<open>impl_instance_befores!\<close> and \<open>impl_instance_crds!\<close> of
  \<open>instance_macros.rs\<close> generate for them. The three kinds share one record; the kind says which
  fields of the status and which operations exist.

  The cluster is the parameter \<open>cluster\<close> over a world \<open>'w\<close>: the clock, the two calls the
  operations make (patch the status of an object, publish an event) and the pure functions of
  third-party crates (gzip, base64, SHA-256, JSON text). Writing to the log is not modelled.
\<close>

section \<open>The data\<close>

record child =
  ch_api_version :: "string option"
  ch_kind :: string
  ch_name :: string
  ch_namespace :: "string option"

record global_published =
  gp_fqdn :: string
  gp_port :: "32 word"

record published =
  pub_key :: string
  pub_tenant :: "string option"
  pub_service :: "global_published option"
  pub_definition :: "child option"

record init_from_spec =
  if_secret_name :: "string option"
  if_sub_path :: "string option"
  if_snapshot :: string
  if_version :: "string option"

record metadata =
  md_name :: "string option"
  md_generate_name :: "string option"
  md_namespace :: "string option"
  md_uid :: "string option"
  md_generation :: "int option"
  md_annotations :: "(string \<times> string) list"

record instance_spec =
  spec_jukebox :: string
  spec_category :: string
  spec_package :: string
  spec_init_from :: "init_from_spec option"
  spec_options :: "(string \<times> json) list option"

record instance_status =
  st_conditions :: "cond_type condition list"
  st_tag :: "string option"
  st_digest :: "string option"
  st_tfstate :: "string option"
  st_rhaistate :: "string option"
  st_befores :: "child list option"
  st_vitals :: "child list option"
  st_scalables :: "child list option"
  st_others :: "child list option"
  st_posts :: "child list option"
  st_systems :: "child list option"
  st_crds :: "string list option"
  st_services :: "published list option"

record instance_obj =
  in_kind :: package_type
  in_meta :: metadata
  in_spec :: instance_spec
  in_status :: "instance_status option"

section \<open>The cluster\<close>

text \<open>The body of a status patch: the members of the JSON object, in the order written.\<close>

datatype status_field =
    F_conditions "cond_type condition list"
  | F_tag string
  | F_digest string
  | F_tfstate string
  | F_rhaistate string
  | F_befores "child list"
  | F_vitals "child list"
  | F_scalables "child list"
  | F_others "child list"
  | F_posts "child list"
  | F_systems "child list"
  | F_crds "string list"
  | F_services "published list"

datatype event_type = Normal | Warning

record event =
  ev_type :: event_type
  ev_reason :: string
  ev_note :: "string option"
  ev_action :: string

definition mk_event :: "event_type \<Rightarrow> string \<Rightarrow> string option \<Rightarrow> string \<Rightarrow> event" where
  "mk_event ty reason note action = \<lparr>ev_type = ty, ev_reason = reason, ev_note = note, ev_action = action\<rparr>"

record 'w cluster =
  cl_now :: "'w \<Rightarrow> int"
  cl_patch_status ::
    "package_type \<Rightarrow> string \<Rightarrow> string \<Rightarrow> status_field list \<Rightarrow> ('w, instance_obj) kube_call"
  cl_publish :: "instance_obj \<Rightarrow> event \<Rightarrow> ('w, unit) kube_call"
  cl_gzip :: "string \<Rightarrow> string + string"
  cl_gunzip :: "string \<Rightarrow> string + string"
  cl_b64_encode :: "string \<Rightarrow> string"
  cl_b64_decode :: "string \<Rightarrow> string + string"
  cl_sha256 :: "string \<Rightarrow> string"
  cl_json :: "json \<Rightarrow> string"

definition clock :: "'w cluster \<Rightarrow> ('w, int) io" where
  "clock cl w = (Inr (cl_now cl w), w)"

section \<open>Reading an instance\<close>

definition encode_base64_gz :: "'w cluster \<Rightarrow> string \<Rightarrow> string result" where
  "encode_base64_gz cl data =
     (case cl_gzip cl data of Inl e \<Rightarrow> Inl (Stdio e) | Inr tmp \<Rightarrow> Inr (cl_b64_encode cl tmp))"

definition base64_gz_decode :: "'w cluster \<Rightarrow> string \<Rightarrow> string result" where
  "base64_gz_decode cl data =
     (case cl_b64_decode cl data of
        Inl e \<Rightarrow> Inl (Base64DecodeError e)
      | Inr b \<Rightarrow> (case cl_gunzip cl b of Inl e \<Rightarrow> Inl (Stdio e) | Inr s \<Rightarrow> Inr s))"

text \<open>\<open>ResourceExt::name_any\<close>: the name, or the prefix a name will be generated from.\<close>

definition name_any :: "metadata \<Rightarrow> string" where
  "name_any m =
     (case md_name m of
        Some n \<Rightarrow> n
      | None \<Rightarrow> (case md_generate_name m of Some g \<Rightarrow> g | None \<Rightarrow> []))"

definition annotation :: "metadata \<Rightarrow> string \<Rightarrow> string option" where
  "annotation m k = map_of (md_annotations m) k"

definition generation :: "instance_obj \<Rightarrow> int" where
  "generation self = (case md_generation (in_meta self) of None \<Rightarrow> 1 | Some g \<Rightarrow> g)"

definition get_options_digest :: "'w cluster \<Rightarrow> instance_obj \<Rightarrow> string" where
  "get_options_digest cl self =
     (case spec_options (in_spec self) of
        Some opt \<Rightarrow> cl_sha256 cl (cl_json cl (JObj opt))
      | None \<Rightarrow> cl_sha256 cl [])"

definition get_tfstate :: "'w cluster \<Rightarrow> instance_obj \<Rightarrow> string option result" where
  "get_tfstate cl self =
     (case in_status self of
        None \<Rightarrow> Inr None
      | Some status \<Rightarrow>
          (case st_tfstate status of
             None \<Rightarrow> Inr None
           | Some tf \<Rightarrow> result_bind (base64_gz_decode cl tf) (\<lambda>decoded. Inr (Some decoded))))"

definition get_rhaistate :: "'w cluster \<Rightarrow> instance_obj \<Rightarrow> string option result" where
  "get_rhaistate cl self =
     (case in_status self of
        None \<Rightarrow> Inr None
      | Some status \<Rightarrow>
          (case st_rhaistate status of
             None \<Rightarrow> Inr None
           | Some tf \<Rightarrow> result_bind (base64_gz_decode cl tf) (\<lambda>decoded. Inr (Some decoded))))"

definition have_condition :: "instance_obj \<Rightarrow> cond_type condition \<Rightarrow> bool" where
  "have_condition self cond =
     (case in_status self of
        None \<Rightarrow> False
      | Some status \<Rightarrow> list_ex (\<lambda>c. same_condition c cond) (st_conditions status))"

definition get_conditions_excluding ::
  "instance_obj \<Rightarrow> cond_type list \<Rightarrow> cond_type condition list" where
  "get_conditions_excluding self ex =
     (case in_status self of None \<Rightarrow> [] | Some status \<Rightarrow> excluding ex (st_conditions status))"

definition get_services :: "instance_obj \<Rightarrow> published list" where
  "get_services self =
     (case in_status self of
        None \<Rightarrow> []
      | Some status \<Rightarrow> (case st_services status of None \<Rightarrow> [] | Some svcs \<Rightarrow> svcs))"

definition get_services_string :: "instance_obj \<Rightarrow> string" where
  "get_services_string self =
     (case in_status self of
        None \<Rightarrow> []
      | Some status \<Rightarrow>
          (case st_services status of
             None \<Rightarrow> [] | Some svcs \<Rightarrow> join '','' (sort (map pub_key svcs))))"

definition some_nonempty :: "'a list option \<Rightarrow> bool" where
  "some_nonempty x = (case x of None \<Rightarrow> False | Some xs \<Rightarrow> xs \<noteq> [])"

text \<open>\<open>have_child\<close> of the three kinds.\<close>

definition tenant_have_child :: "instance_obj \<Rightarrow> bool" where
  "tenant_have_child self =
     (case in_status self of
        None \<Rightarrow> False
      | Some s \<Rightarrow>
          st_rhaistate s \<noteq> None \<or> st_tfstate s \<noteq> None \<or> some_nonempty (st_befores s) \<or>
          some_nonempty (st_vitals s) \<or> some_nonempty (st_others s) \<or>
          some_nonempty (st_scalables s) \<or> some_nonempty (st_posts s))"

definition service_have_child :: "instance_obj \<Rightarrow> bool" where
  "service_have_child self =
     (case in_status self of
        None \<Rightarrow> False
      | Some s \<Rightarrow>
          st_rhaistate s \<noteq> None \<or> st_tfstate s \<noteq> None \<or> some_nonempty (st_befores s) \<or>
          some_nonempty (st_vitals s) \<or> some_nonempty (st_others s) \<or>
          some_nonempty (st_scalables s) \<or> some_nonempty (st_posts s) \<or>
          some_nonempty (st_crds s))"

definition system_have_child :: "instance_obj \<Rightarrow> bool" where
  "system_have_child self =
     (case in_status self of
        None \<Rightarrow> False
      | Some s \<Rightarrow>
          st_rhaistate s \<noteq> None \<or> st_tfstate s \<noteq> None \<or> some_nonempty (st_systems s) \<or>
          some_nonempty (st_crds s))"

section \<open>Writing the status\<close>

text \<open>
  \<open>patch_status\<close> unwraps the namespace, then the name, and sends a merge patch of the status;
  \<open>send_event\<close> publishes an event on the object and ignores a refusal of the API server.
\<close>

definition patch_status ::
  "'w cluster \<Rightarrow> instance_obj \<Rightarrow> status_field list \<Rightarrow> ('w, instance_obj) io" where
  "patch_status cl self patch =
     io_bind (io_lift (unwrap ''namespace().unwrap()'' (md_namespace (in_meta self)))) (\<lambda>ns.
     io_bind (io_lift (unwrap ''metadata.name.unwrap()'' (md_name (in_meta self)))) (\<lambda>name.
     io_kube (cl_patch_status cl (in_kind self) ns name patch)))"

definition send_event :: "'w cluster \<Rightarrow> instance_obj \<Rightarrow> event \<Rightarrow> ('w, unit) io" where
  "send_event cl self ev w =
     (case cl_publish cl self ev w of
        (Inr _, w') \<Rightarrow> (Inr (), w')
      | (Inl (KApi _), w') \<Rightarrow> (Inr (), w')
      | (Inl (KOther e), w') \<Rightarrow> (Inl (KubeError (KOther e)), w'))"

text \<open>The code shared by the setters: patch the status, send the event, return the answer.\<close>

definition patch_and_tell ::
  "'w cluster \<Rightarrow> instance_obj \<Rightarrow> status_field list \<Rightarrow> event \<Rightarrow> ('w, instance_obj) io" where
  "patch_and_tell cl self patch ev =
     io_bind (patch_status cl self patch) (\<lambda>result.
     io_seq (send_event cl self ev) (io_return result))"

text \<open>A note is the reason, cut to 1023 bytes by \<open>String::truncate\<close>, which may panic.\<close>

definition truncated_note :: "string \<Rightarrow> string result" where
  "truncated_note reason = unwrap ''assertion failed: self.is_char_boundary(new_len)'' (str_truncate 1023 reason)"

definition push_ready_ko ::
  "int \<Rightarrow> int \<Rightarrow> cond_type condition list \<Rightarrow> cond_type condition list" where
  "push_ready_ko now gen cs = (if has_type Ready cs then cs else cs @ [ready_ko now gen])"

text \<open>
  The shape of every \<open>set_status_..._failed\<close>: replace the stage's condition and \<open>Installed\<close>, drop
  \<open>AgentStarted\<close>, add a false \<open>Ready\<close> when there is none, patch, and warn with the reason.
\<close>

definition failed_conditions ::
  "int \<Rightarrow> instance_obj \<Rightarrow> cond_type condition \<Rightarrow> string \<Rightarrow> cond_type condition list" where
  "failed_conditions now self ko reason =
     push_ready_ko now (generation self)
       (get_conditions_excluding self [AgentStarted, condition_type ko, Installed] @
        [ko, installed_ko now reason (generation self)])"

definition status_failed ::
  "'w cluster \<Rightarrow> instance_obj \<Rightarrow> (int \<Rightarrow> string \<Rightarrow> int \<Rightarrow> cond_type condition) \<Rightarrow> string \<Rightarrow>
   status_field list \<Rightarrow> string \<Rightarrow> string \<Rightarrow> ('w, instance_obj) io" where
  "status_failed cl self ko reason extra rsn act =
     io_bind (clock cl) (\<lambda>now.
     io_bind (patch_status cl self
       (F_conditions (failed_conditions now self (ko now reason (generation self)) reason) # extra)) (\<lambda>result.
     io_bind (io_lift (truncated_note reason)) (\<lambda>note.
     io_seq (send_event cl self (mk_event Warning rsn (Some note) act))
       (io_return result))))"

text \<open>The shape of the setters that record a stage: replace its condition and write its field.\<close>

definition status_applied ::
  "'w cluster \<Rightarrow> instance_obj \<Rightarrow> (int \<Rightarrow> int \<Rightarrow> cond_type condition) \<Rightarrow> status_field \<Rightarrow>
   string \<Rightarrow> string option \<Rightarrow> string \<Rightarrow> ('w, instance_obj) io" where
  "status_applied cl self ok field rsn note act =
     io_bind (clock cl) (\<lambda>now.
       let cond = ok now (generation self);
           conditions = get_conditions_excluding self [condition_type cond] @ [cond]
       in patch_and_tell cl self [F_conditions conditions, field]
            (mk_event Normal rsn note act))"

text \<open>The shape of the setters that write a condition only when it is not there already.\<close>

definition status_once ::
  "'w cluster \<Rightarrow> instance_obj \<Rightarrow> (int \<Rightarrow> cond_type condition) \<Rightarrow> string result \<Rightarrow>
   event_type \<Rightarrow> string \<Rightarrow> bool \<Rightarrow> string \<Rightarrow> ('w, instance_obj) io" where
  "status_once cl self mk note ty rsn has_note act =
     io_bind (clock cl) (\<lambda>now.
       let cond = mk now
       in if \<not> have_condition self cond
          then (let conditions = get_conditions_excluding self [condition_type cond] @ [cond]
                in io_bind (patch_status cl self [F_conditions conditions]) (\<lambda>result.
                   io_bind (io_lift note) (\<lambda>n.
                   io_seq (send_event cl self
                            (mk_event ty rsn (if has_note then Some n else None) act))
                     (io_return result))))
          else io_return self)"

section \<open>\<open>impl_instance_common!\<close>\<close>

definition set_tfstate :: "'w cluster \<Rightarrow> instance_obj \<Rightarrow> string \<Rightarrow> ('w, instance_obj) io" where
  "set_tfstate cl self tfstate =
     io_bind (io_lift (encode_base64_gz cl tfstate)) (\<lambda>encoded.
     status_applied cl self tofu_ok (F_tfstate encoded) ''TofuApplySucceed'' None ''TofuApply'')"

definition set_status_tofu_failed ::
  "'w cluster \<Rightarrow> instance_obj \<Rightarrow> string \<Rightarrow> string \<Rightarrow> ('w, instance_obj) io" where
  "set_status_tofu_failed cl self tfstate reason =
     io_bind (io_lift (encode_base64_gz cl tfstate)) (\<lambda>encoded.
     status_failed cl self tofu_ko reason [F_tfstate encoded] ''TofuApplyFailed'' ''TofuApply'')"

definition set_rhaistate :: "'w cluster \<Rightarrow> instance_obj \<Rightarrow> string \<Rightarrow> ('w, instance_obj) io" where
  "set_rhaistate cl self rhaistate =
     io_bind (io_lift (encode_base64_gz cl rhaistate)) (\<lambda>encoded.
     status_applied cl self rhai_ok (F_rhaistate encoded) ''RhaiApplySucceed'' None ''RhaiApply'')"

definition set_status_rhai_failed ::
  "'w cluster \<Rightarrow> instance_obj \<Rightarrow> string \<Rightarrow> string \<Rightarrow> ('w, instance_obj) io" where
  "set_status_rhai_failed cl self rhaistate reason =
     io_bind (io_lift (encode_base64_gz cl rhaistate)) (\<lambda>encoded.
     status_failed cl self rhai_ko reason [F_rhaistate encoded] ''RhaiApplyFailed'' ''RhaiApply'')"

definition set_agent_started :: "'w cluster \<Rightarrow> instance_obj \<Rightarrow> ('w, instance_obj) io" where
  "set_agent_started cl self =
     status_once cl self (\<lambda>now. agent_started now (generation self)) (Inr [])
       Normal ''AgentStarted'' False ''AgentStart''"

definition set_missing_box :: "'w cluster \<Rightarrow> instance_obj \<Rightarrow> string \<Rightarrow> ('w, instance_obj) io" where
  "set_missing_box cl self jukebox =
     status_once cl self (\<lambda>now. missing_box now jukebox (generation self))
       (Inr (''JukeBox '' @ jukebox @ '' doesnt exist''))
       Warning ''MissingJukebox'' True ''AgentStart''"

definition set_missing_package ::
  "'w cluster \<Rightarrow> instance_obj \<Rightarrow> string \<Rightarrow> string \<Rightarrow> ('w, instance_obj) io" where
  "set_missing_package cl self category package =
     status_once cl self (\<lambda>now. missing_package now category package (generation self))
       (Inr (''Package '' @ category @ ''/'' @ package @ '' doesnt exist''))
       Warning ''MissingPackage'' True ''AgentStart''"

definition set_missing_requirement ::
  "'w cluster \<Rightarrow> instance_obj \<Rightarrow> string \<Rightarrow> ('w, instance_obj) io" where
  "set_missing_requirement cl self reason =
     status_once cl self (\<lambda>now. missing_requirement now reason (generation self))
       (truncated_note reason) Warning ''MissingRequirement'' True ''AgentStart''"

section \<open>\<open>impl_instance_befores!\<close>\<close>

definition set_status_ready :: "'w cluster \<Rightarrow> instance_obj \<Rightarrow> string \<Rightarrow> ('w, instance_obj) io" where
  "set_status_ready cl self tag =
     io_bind (clock cl) (\<lambda>now.
       let conditions = get_conditions_excluding self
             [AgentStarted, BeforeApplied, Ready, Installed, InitFrom, ScheduleBackup] @
             [ready_ok now (generation self), installed_ok now (generation self)]
       in patch_and_tell cl self
            [F_conditions conditions, F_tag tag, F_digest (get_options_digest cl self)]
            (mk_event Normal ''InstallSucceed'' None ''Install''))"

definition set_services :: "'w cluster \<Rightarrow> instance_obj \<Rightarrow> published list \<Rightarrow> ('w, instance_obj) io" where
  "set_services cl self services =
     io_bind (patch_status cl self [F_services services]) (\<lambda>result. io_return result)"

definition applied_note :: "'a list \<Rightarrow> string" where
  "applied_note xs = ''Applied '' @ dec (length xs) @ '' Objects''"

definition set_status_befores :: "'w cluster \<Rightarrow> instance_obj \<Rightarrow> child list \<Rightarrow> ('w, instance_obj) io" where
  "set_status_befores cl self befores =
     status_applied cl self before_ok (F_befores befores) ''BeforeApplySucceed''
       (Some (applied_note befores)) ''BeforeApply''"

definition set_status_before_failed :: "'w cluster \<Rightarrow> instance_obj \<Rightarrow> string \<Rightarrow> ('w, instance_obj) io" where
  "set_status_before_failed cl self reason =
     status_failed cl self before_ko reason [] ''BeforeApplyFailed'' ''BeforeApply''"

definition set_status_vitals :: "'w cluster \<Rightarrow> instance_obj \<Rightarrow> child list \<Rightarrow> ('w, instance_obj) io" where
  "set_status_vitals cl self vitals =
     status_applied cl self vital_ok (F_vitals vitals) ''VitalApplySucceed''
       (Some (applied_note vitals)) ''VitalApply''"

definition set_status_vital_failed :: "'w cluster \<Rightarrow> instance_obj \<Rightarrow> string \<Rightarrow> ('w, instance_obj) io" where
  "set_status_vital_failed cl self reason =
     status_failed cl self vital_ko reason [] ''VitalApplyFailed'' ''VitalApply''"

definition set_status_scalables :: "'w cluster \<Rightarrow> instance_obj \<Rightarrow> child list \<Rightarrow> ('w, instance_obj) io" where
  "set_status_scalables cl self scalables =
     status_applied cl self scalable_ok (F_scalables scalables) ''ScalableApplySucceed''
       (Some (applied_note scalables)) ''ScalableApply''"

definition set_status_scalable_failed :: "'w cluster \<Rightarrow> instance_obj \<Rightarrow> string \<Rightarrow> ('w, instance_obj) io" where
  "set_status_scalable_failed cl self reason =
     status_failed cl self scalable_ko reason [] ''ScalableApplyFailed'' ''ScalableApply''"

definition set_status_others :: "'w cluster \<Rightarrow> instance_obj \<Rightarrow> child list \<Rightarrow> ('w, instance_obj) io" where
  "set_status_others cl self others =
     status_applied cl self other_ok (F_others others) ''OtherApplySucceed''
       (Some (applied_note others)) ''OtherApply''"

definition set_status_other_failed :: "'w cluster \<Rightarrow> instance_obj \<Rightarrow> string \<Rightarrow> ('w, instance_obj) io" where
  "set_status_other_failed cl self reason =
     status_failed cl self other_ko reason [] ''OtherApplyFailed'' ''OtherApply''"

definition set_status_posts :: "'w cluster \<Rightarrow> instance_obj \<Rightarrow> child list \<Rightarrow> ('w, instance_obj) io" where
  "set_status_posts cl self posts =
     status_applied cl self post_ok (F_posts posts) ''PostApplySucceed''
       (Some (applied_note posts)) ''PostApply''"

definition set_status_post_failed :: "'w cluster \<Rightarrow> instance_obj \<Rightarrow> string \<Rightarrow> ('w, instance_obj) io" where
  "set_status_post_failed cl self reason =
     status_failed cl self post_ko reason [] ''OtherApplyFailed'' ''PostApply''"

definition set_status_init_failed :: "'w cluster \<Rightarrow> instance_obj \<Rightarrow> string \<Rightarrow> ('w, instance_obj) io" where
  "set_status_init_failed cl self reason =
     status_failed cl self init_ko reason [] ''InitFromFail'' ''InitFrom''"

definition set_status_schedule_backup_failed ::
  "'w cluster \<Rightarrow> instance_obj \<Rightarrow> string \<Rightarrow> ('w, instance_obj) io" where
  "set_status_schedule_backup_failed cl self reason =
     status_failed cl self schedule_ko reason [] ''ScheduleBackupFailed'' ''ScheduleBackup''"

definition set_missing_init_version :: "'w cluster \<Rightarrow> instance_obj \<Rightarrow> string \<Rightarrow> ('w, instance_obj) io" where
  "set_missing_init_version cl self ver =
     status_once cl self (\<lambda>now. init_version_ko now ver (generation self))
       (Inr (''[E_INIT_VERSION_NOT_FOUND] Version '' @ ver @ '' introuvable dans le registre OCI''))
       Warning ''InitVersionNotFound'' True ''InitFrom''"

section \<open>\<open>impl_instance_crds!\<close> and the system instance\<close>

definition set_status_crds :: "'w cluster \<Rightarrow> instance_obj \<Rightarrow> string list \<Rightarrow> ('w, instance_obj) io" where
  "set_status_crds cl self crds =
     status_applied cl self crd_ok (F_crds crds) ''CRDApplySucceed''
       (Some (''Applied '' @ dec (length crds) @ '' CustomResourceDefinition'')) ''CRDApply''"

definition set_status_crd_failed :: "'w cluster \<Rightarrow> instance_obj \<Rightarrow> string \<Rightarrow> ('w, instance_obj) io" where
  "set_status_crd_failed cl self reason =
     status_failed cl self crd_ko reason [] ''CRDApplyFailed'' ''CRDApply''"

definition system_set_status_ready :: "'w cluster \<Rightarrow> instance_obj \<Rightarrow> string \<Rightarrow> ('w, instance_obj) io" where
  "system_set_status_ready cl self tag =
     io_bind (clock cl) (\<lambda>now.
       let conditions = get_conditions_excluding self [AgentStarted, Ready, Installed] @
             [ready_ok now (generation self), installed_ok now (generation self)]
       in patch_and_tell cl self
            [F_conditions conditions, F_tag tag, F_digest (get_options_digest cl self)]
            (mk_event Normal ''InstallSucceed'' None ''Install''))"

definition set_status_systems :: "'w cluster \<Rightarrow> instance_obj \<Rightarrow> child list \<Rightarrow> ('w, instance_obj) io" where
  "set_status_systems cl self systems =
     status_applied cl self system_ok (F_systems systems) ''SystemApplySucceed''
       (Some (applied_note systems)) ''SystemApply''"

definition set_status_system_failed :: "'w cluster \<Rightarrow> instance_obj \<Rightarrow> string \<Rightarrow> ('w, instance_obj) io" where
  "set_status_system_failed cl self reason =
     status_failed cl self system_ko reason [] ''SystemApplyFailed'' ''SystemApply''"

end
