(* ===== verification/JukeBox.thy ===== *)
theory JukeBox
  imports Instance
begin

text \<open>
  \<open>common/src/jukebox.rs\<close>: a jukebox lists the packages of a registry in its status. A scan writes
  the packages it found (\<open>set_status_updated\<close>), those of a part of the box
  (\<open>set_status_packages_merge\<close>), or its failure (\<open>set_status_failed\<close>). The API server is the record
  \<open>box_api\<close>; a status patch always has the two members of the status, so its body is a status.
\<close>

section \<open>The data\<close>

datatype jukebox_def =
    D_List "string list"
  | D_Harbor string string                     \<comment> \<open>registry, project\<close>
  | D_Gitlab string string string              \<comment> \<open>url, registry, project\<close>
  | D_Script string
  | D_Http string "string option"              \<comment> \<open>url, secret\<close>
  | D_S3 string string "string option" "string option" "string option"
      \<comment> \<open>bucket, region, prefix, endpoint, secret\<close>

definition default_def :: jukebox_def where
  "default_def = D_List [''docker.io/sebt3/vynil'']"

datatype maturity = Stable | Beta | Alpha

record jukebox_spec =
  jb_source :: "jukebox_def option"
  jb_maturity :: "maturity option"
  jb_pull_secret :: "string option"
  jb_schedule :: string

datatype box_condition_type = BoxReady | BoxUpdated

record jukebox_status =
  jbs_conditions :: "box_condition_type condition list"
  jbs_packages :: "package list"

record jukebox =
  jb_meta :: metadata
  jb_spec :: jukebox_spec
  jb_status :: "jukebox_status option"

record 'w box_api =
  bx_now :: "'w \<Rightarrow> int"
  bx_patch_status :: "string \<Rightarrow> jukebox_status \<Rightarrow> ('w, jukebox) kube_call"
  bx_publish :: "jukebox \<Rightarrow> event \<Rightarrow> ('w, unit) kube_call"

section \<open>The conditions\<close>

definition box_ready_ok :: "int \<Rightarrow> int \<Rightarrow> box_condition_type condition" where
  "box_ready_ok now gen = condition_new now ''Updated succesfully'' True BoxReady gen"

definition box_ready_ko :: "int \<Rightarrow> int \<Rightarrow> box_condition_type condition" where
  "box_ready_ko now gen = condition_new now ''No successful update'' False BoxReady gen"

definition updated_ko :: "int \<Rightarrow> string \<Rightarrow> int \<Rightarrow> box_condition_type condition" where
  "updated_ko now msg gen = condition_new now msg False BoxUpdated gen"

definition updated_ok :: "int \<Rightarrow> int \<Rightarrow> box_condition_type condition" where
  "updated_ok now gen = condition_new now ''Updated succesfully'' True BoxUpdated gen"

definition box_conditions :: "jukebox \<Rightarrow> box_condition_type condition list" where
  "box_conditions jb = (case jb_status jb of None \<Rightarrow> [] | Some s \<Rightarrow> jbs_conditions s)"

definition box_packages :: "jukebox \<Rightarrow> package list" where
  "box_packages jb = (case jb_status jb of None \<Rightarrow> [] | Some s \<Rightarrow> jbs_packages s)"

definition box_get_conditions_excluding ::
  "jukebox \<Rightarrow> box_condition_type list \<Rightarrow> box_condition_type condition list" where
  "box_get_conditions_excluding self ex =
     (case jb_status self of None \<Rightarrow> [] | Some status \<Rightarrow> excluding ex (jbs_conditions status))"

definition box_generation :: "jukebox \<Rightarrow> int" where
  "box_generation self = (case md_generation (jb_meta self) of None \<Rightarrow> 1 | Some g \<Rightarrow> g)"

section \<open>Writing the status\<close>

definition box_clock :: "'w box_api \<Rightarrow> ('w, int) io" where
  "box_clock api w = (Inr (bx_now api w), w)"

definition box_patch_status :: "'w box_api \<Rightarrow> jukebox \<Rightarrow> jukebox_status \<Rightarrow> ('w, jukebox) io" where
  "box_patch_status api self st =
     io_bind (io_lift (unwrap ''metadata.name.unwrap()'' (md_name (jb_meta self)))) (\<lambda>name.
     io_kube (bx_patch_status api name st))"

definition box_send_event :: "'w box_api \<Rightarrow> jukebox \<Rightarrow> event \<Rightarrow> ('w, unit) io" where
  "box_send_event api self ev w =
     (case bx_publish api self ev w of
        (Inr _, w') \<Rightarrow> (Inr (), w')
      | (Inl (KApi _), w') \<Rightarrow> (Inr (), w')
      | (Inl (KOther e), w') \<Rightarrow> (Inl (KubeError (KOther e)), w'))"

definition box_note :: "string \<Rightarrow> string result" where
  "box_note reason = unwrap ''assertion failed: self.is_char_boundary(new_len)'' (str_truncate 1023 reason)"

definition set_status_updated :: "'w box_api \<Rightarrow> jukebox \<Rightarrow> package list \<Rightarrow> ('w, jukebox) io" where
  "set_status_updated api self packages =
     io_bind (box_clock api) (\<lambda>now.
     let count = length packages;
         gen = box_generation self;
         conditions = [updated_ok now gen, box_ready_ok now gen]
     in io_bind (box_patch_status api self \<lparr>jbs_conditions = conditions, jbs_packages = packages\<rparr>) (\<lambda>result.
        io_seq (box_send_event api self
                  (mk_event Normal ''ScanSucceed'' (Some (''Found '' @ dec count @ '' packages'')) ''Scan''))
          (io_return result)))"

definition set_status_failed :: "'w box_api \<Rightarrow> jukebox \<Rightarrow> string \<Rightarrow> ('w, jukebox) io" where
  "set_status_failed api self reason =
     io_bind (box_clock api) (\<lambda>now.
     let gen = box_generation self;
         cs = box_get_conditions_excluding self [BoxUpdated] @ [updated_ko now reason gen];
         conditions = (if has_type BoxReady cs then cs else cs @ [box_ready_ko now gen]);
         existing_packages = box_packages self
     in io_bind (box_patch_status api self
                  \<lparr>jbs_conditions = conditions, jbs_packages = existing_packages\<rparr>) (\<lambda>result.
        io_bind (io_lift (box_note reason)) (\<lambda>note.
        io_seq (box_send_event api self (mk_event Warning ''ScanFailed'' (Some note) ''Scan''))
          (io_return result))))"

text \<open>The filter of a partial scan: \<open>category\<close> or \<open>category/name\<close>, cut at the first slash.\<close>

definition split_filter :: "string \<Rightarrow> string \<times> string option" where
  "split_filter f =
     (case find_sub f ''/'' of
        Some pos \<Rightarrow> (take pos f, Some (drop (pos + 1) f))
      | None \<Rightarrow> (f, None))"

definition in_scope :: "string \<Rightarrow> string option \<Rightarrow> package \<Rightarrow> bool" where
  "in_scope category name p \<longleftrightarrow>
     pm_category (pk_metadata p) = category \<and>
     (case name of None \<Rightarrow> True | Some n \<Rightarrow> pm_name (pk_metadata p) = n)"

definition filter_packages :: "package list \<Rightarrow> string \<Rightarrow> string option \<Rightarrow> package list \<Rightarrow> package list" where
  "filter_packages existing category name new_packages =
     filter (\<lambda>p. \<not> in_scope category name p) existing @ new_packages"

definition set_status_packages_merge ::
  "'w box_api \<Rightarrow> jukebox \<Rightarrow> string \<Rightarrow> package list \<Rightarrow> ('w, jukebox) io" where
  "set_status_packages_merge api self f packages =
     io_bind (box_clock api) (\<lambda>now.
     let gen = box_generation self;
         (category, name) = split_filter f;
         existing = box_packages self;
         merged_packages = filter_packages existing category name packages;
         conditions = [updated_ok now gen, box_ready_ok now gen]
     in io_bind (box_patch_status api self
                  \<lparr>jbs_conditions = conditions, jbs_packages = merged_packages\<rparr>) (\<lambda>result.
        io_seq (box_send_event api self
                  (mk_event Normal ''ScanSucceed'' (Some (''Partial scan updated filter: '' @ f)) ''Scan''))
          (io_return result)))"

section \<open>Laws of the merge\<close>

lemma filter_packages_scope:
  "filter (in_scope c n) (filter_packages old c n new) = filter (in_scope c n) new"
  "filter (\<lambda>p. \<not> in_scope c n p) (filter_packages old c n new) =
     filter (\<lambda>p. \<not> in_scope c n p) old @ filter (\<lambda>p. \<not> in_scope c n p) new"
  by (simp_all add: filter_packages_def)

lemma split_filter_slash:
  "split_filter (c @ ''/'' @ n) = (c, Some n)" if "CHR ''/'' \<notin> set c"
proof -
  have "find_sub (c @ ''/'' @ n) ''/'' = Some (length c)"
    using that by (induction c) (auto simp: starts_with_def)
  then show ?thesis by (simp add: split_filter_def)
qed

lemma split_filter_plain: "CHR ''/'' \<notin> set c \<Longrightarrow> split_filter c = (c, None)"
proof -
  assume "CHR ''/'' \<notin> set c"
  then have "find_sub c ''/'' = None" by (induction c) (auto simp: starts_with_def)
  then show ?thesis by (simp add: split_filter_def)
qed

section \<open>Scanning sessions\<close>

text \<open>
  A server that merges status patches: it replaces the two members, answers the new object, and a
  refused patch or an event changes no box.
\<close>

definition box_server :: "'w box_api \<Rightarrow> ('w \<Rightarrow> string \<Rightarrow> jukebox option) \<Rightarrow> bool" where
  "box_server api obj \<longleftrightarrow>
     (\<forall>n st w r w'. bx_patch_status api n st w = (Inr r, w') \<longrightarrow>
        (\<exists>old. obj w n = Some old \<and> r = old\<lparr>jb_status := Some st\<rparr> \<and> obj w' = (obj w)(n \<mapsto> r))) \<and>
     (\<forall>n st w e w'. bx_patch_status api n st w = (Inl e, w') \<longrightarrow> obj w' = obj w) \<and>
     (\<forall>self ev w. obj (snd (bx_publish api self ev w)) = obj w)"

datatype box_op = Updated "package list" | ScanFailed string | Merged string "package list"

fun run_box_op :: "'w box_api \<Rightarrow> box_op \<Rightarrow> jukebox \<Rightarrow> ('w, jukebox) io" where
  "run_box_op api (Updated ps) self = set_status_updated api self ps"
| "run_box_op api (ScanFailed reason) self = set_status_failed api self reason"
| "run_box_op api (Merged f ps) self = set_status_packages_merge api self f ps"

text \<open>The status an operation sends, and its effect on the packages.\<close>

fun op_packages :: "box_op \<Rightarrow> package list \<Rightarrow> package list" where
  "op_packages (Updated ps) old = ps"
| "op_packages (ScanFailed reason) old = old"
| "op_packages (Merged f ps) old = filter_packages old (fst (split_filter f)) (snd (split_filter f)) ps"

fun op_conditions :: "int \<Rightarrow> box_op \<Rightarrow> jukebox \<Rightarrow> box_condition_type condition list" where
  "op_conditions now (ScanFailed reason) self =
     (let gen = box_generation self;
          cs = excluding [BoxUpdated] (box_conditions self) @ [updated_ko now reason gen]
      in if has_type BoxReady cs then cs else cs @ [box_ready_ko now gen])"
| "op_conditions now _ self = [updated_ok now (box_generation self), box_ready_ok now (box_generation self)]"

definition op_status :: "int \<Rightarrow> box_op \<Rightarrow> jukebox \<Rightarrow> jukebox_status" where
  "op_status now op self =
     \<lparr>jbs_conditions = op_conditions now op self, jbs_packages = op_packages op (box_packages self)\<rparr>"

lemma box_excluding: "box_get_conditions_excluding self ex = excluding ex (box_conditions self)"
  by (simp add: box_get_conditions_excluding_def box_conditions_def split: option.splits)

lemma box_clock_bind [io_simps]: "io_bind (box_clock api) f w = f (bx_now api w) w"
  by (simp add: box_clock_def io_bind_def)

text \<open>Every operation is a patch of the status \<open>op_status\<close> followed by what does not change a box.\<close>

definition tells :: "'w box_api \<Rightarrow> jukebox \<Rightarrow> (jukebox \<Rightarrow> ('w, jukebox) io) \<Rightarrow> bool" where
  "tells api self k \<longleftrightarrow> (\<forall>r w. fst (k r w) \<in> {Inr r} \<union> range Inl \<and>
     (snd (k r w) = w \<or> (\<exists>ev. snd (k r w) = snd (bx_publish api self ev w))))"

lemma tells_event: "tells api self (\<lambda>r. io_seq (box_send_event api self ev) (io_return r))"
proof -
  have "snd (io_seq (box_send_event api self ev) (io_return r) w) = snd (bx_publish api self ev w)"
    and "fst (io_seq (box_send_event api self ev) (io_return r) w) \<in> {Inr r} \<union> range Inl" for r :: jukebox and w
    by (auto simp: box_send_event_def io_seq_def io_bind_def io_return_def
        split: prod.splits sum.splits kube_error.splits)
  then show ?thesis unfolding tells_def by blast
qed

lemma tells_note:
  assumes "\<And>n. tells api self (\<lambda>r. k n r)"
  shows "tells api self (\<lambda>r. io_bind (io_lift x) (\<lambda>n. k n r))"
  using assms by (cases x) (auto simp: tells_def io_lift_bind io_throw_def)

lemma run_box_op_shape:
  "\<exists>k. tells api self k \<and>
     run_box_op api op self w = io_bind (box_patch_status api self (op_status (bx_now api w) op self)) k w"
proof (cases op)
  case (Updated ps)
  then show ?thesis
    by (auto simp: set_status_updated_def box_clock_bind op_status_def Let_def intro!: exI tells_event)
next
  case (ScanFailed reason)
  let ?k = "\<lambda>r. io_bind (io_lift (box_note reason)) (\<lambda>note.
    io_seq (box_send_event api self (mk_event Warning ''ScanFailed'' (Some note) ''Scan'')) (io_return r))"
  have "tells api self ?k" by (intro tells_note tells_event)
  with ScanFailed show ?thesis
    by (intro exI [of _ ?k])
      (simp add: set_status_failed_def box_clock_bind op_status_def Let_def box_excluding)
next
  case (Merged f ps)
  then show ?thesis
    by (auto simp: set_status_packages_merge_def box_clock_bind op_status_def Let_def
        split: prod.splits intro!: exI tells_event)
qed

lemma box_server_accepted:
  assumes "box_server api obj" and "bx_patch_status api n st w = (Inr r, w')"
  obtains old where "obj w n = Some old" and "r = old\<lparr>jb_status := Some st\<rparr>"
    and "obj w' = (obj w)(n \<mapsto> r)"
  using assms unfolding box_server_def by blast

lemma box_server_refused:
  "box_server api obj \<Longrightarrow> bx_patch_status api n st w = (Inl e, w') \<Longrightarrow> obj w' = obj w"
  unfolding box_server_def by blast

lemma box_server_publish: "box_server api obj \<Longrightarrow> obj (snd (bx_publish api self ev w)) = obj w"
  by (simp add: box_server_def)

text \<open>What an operation on a copy that agrees with the server leaves.\<close>

lemma run_box_op_effect:
  assumes srv: "box_server api obj" and name: "md_name (jb_meta self) = Some n" and syn: "obj w n = Some self"
    and run: "run_box_op api op self w = (r, w')"
  shows "(obj w' = obj w \<and> (\<exists>e. r = Inl e)) \<or>
         (\<exists>a. a = self\<lparr>jb_status := Some (op_status (bx_now api w) op self)\<rparr> \<and>
              obj w' = (obj w)(n \<mapsto> a) \<and> (r = Inr a \<or> (\<exists>e. r = Inl e)))"
proof -
  let ?st = "op_status (bx_now api w) op self"
  obtain k where k: "tells api self k"
      and sh: "run_box_op api op self w = io_bind (box_patch_status api self ?st) k w"
    using run_box_op_shape [of api self op w] by blast
  obtain x w1 where p: "bx_patch_status api n ?st w = (x, w1)" by (cases "bx_patch_status api n ?st w")
  have bp: "box_patch_status api self ?st w = io_kube (bx_patch_status api n ?st) w"
    by (simp add: box_patch_status_def name io_lift_bind)
  show ?thesis
  proof (cases x)
    case (Inl e)
    with p have "box_patch_status api self ?st w = (Inl (KubeError e), w1)" by (simp add: bp io_kube_def)
    with sh run box_server_refused [OF srv p [unfolded Inl]] show ?thesis by (simp add: io_bind_run)
  next
    case (Inr a)
    obtain old where old: "obj w n = Some old" "a = old\<lparr>jb_status := Some ?st\<rparr>" "obj w1 = (obj w)(n \<mapsto> a)"
      by (rule box_server_accepted [OF srv p [unfolded Inr]])
    from p Inr have "box_patch_status api self ?st w = (Inr a, w1)" by (simp add: bp io_kube_def)
    with sh run have "k a w1 = (r, w')" by (simp add: io_bind_run)
    with k have kr: "r \<in> {Inr a} \<union> range Inl" "w' = w1 \<or> (\<exists>ev. w' = snd (bx_publish api self ev w1))"
      unfolding tells_def by (metis fst_conv, metis snd_conv)
    then have "obj w' = obj w1" using box_server_publish [OF srv] by auto
    with old syn kr show ?thesis by auto
  qed
qed

section \<open>The invariant\<close>

definition box_ok :: "jukebox \<Rightarrow> bool" where
  "box_ok jb \<longleftrightarrow> distinct (types (box_conditions jb)) \<and>
     (jb_status jb \<noteq> None \<longrightarrow> set (types (box_conditions jb)) = {BoxReady, BoxUpdated})"

lemma box_condition_types [simp]:
  "condition_type (updated_ok now gen) = BoxUpdated" "condition_type (updated_ko now m gen) = BoxUpdated"
  "condition_type (box_ready_ok now gen) = BoxReady" "condition_type (box_ready_ko now gen) = BoxReady"
  "cond_status (updated_ok now gen)" "cond_status (box_ready_ok now gen)"
  "\<not> cond_status (updated_ko now m gen)" "\<not> cond_status (box_ready_ko now gen)"
  by (simp_all add: updated_ok_def updated_ko_def box_ready_ok_def box_ready_ko_def)

lemma box_type_cases: "t \<noteq> BoxUpdated \<longleftrightarrow> t = BoxReady" for t :: box_condition_type
  by (cases t) auto

lemma op_conditions_ok:
  assumes "distinct (types (box_conditions self))"
  shows "distinct (types (op_conditions now op self)) \<and>
         set (types (op_conditions now op self)) = {BoxReady, BoxUpdated}"
  using assms by (cases op) (auto simp: Let_def has_type_iff box_type_cases)

lemma op_conditions_ready:
  "is_true BoxReady (box_conditions self) \<Longrightarrow> is_true BoxReady (op_conditions now op self)"
  by (cases op) (auto simp: Let_def)

inductive box_step :: "'w box_api \<Rightarrow> jukebox \<times> 'w \<Rightarrow> jukebox \<times> 'w \<Rightarrow> bool" for api where
  box_stepI: "run_box_op api op self w = (Inr self', w') \<Longrightarrow> box_step api (self, w) (self', w')"

inductive_cases box_stepE: "box_step api (self, w) t"

definition box_synced :: "'w box_api \<Rightarrow> ('w \<Rightarrow> string \<Rightarrow> jukebox option) \<Rightarrow> string \<Rightarrow> jukebox \<times> 'w \<Rightarrow> bool" where
  "box_synced api obj n s \<longleftrightarrow> box_server api obj \<and> md_name (jb_meta (fst s)) = Some n \<and>
     obj (snd s) n = Some (fst s) \<and> box_ok (fst s)"

lemma box_step_synced:
  assumes "box_step api s t" and "box_synced api obj n s"
  shows "box_synced api obj n t" and "is_true BoxReady (box_conditions (fst s)) \<longrightarrow> is_true BoxReady (box_conditions (fst t))"
proof -
  obtain self w where s: "s = (self, w)" by (cases s)
  from assms(1) obtain op self' w' where run: "run_box_op api op self w = (Inr self', w')" and t: "t = (self', w')"
    unfolding s by (auto elim: box_stepE)
  have i: "box_server api obj" "md_name (jb_meta self) = Some n" "obj w n = Some self" "box_ok self"
    using assms(2) by (simp_all add: box_synced_def s)
  from run_box_op_effect [OF i(1-3) run]
  have e: "self' = self\<lparr>jb_status := Some (op_status (bx_now api w) op self)\<rparr>" "obj w' = (obj w)(n \<mapsto> self')"
    by auto
  have c: "box_conditions self' = op_conditions (bx_now api w) op self"
    by (simp add: box_conditions_def e op_status_def)
  have "distinct (types (box_conditions self))" using i(4) by (simp add: box_ok_def)
  then have "box_ok self'" using op_conditions_ok [of self "bx_now api w" op] by (simp add: box_ok_def c)
  moreover have "md_name (jb_meta self') = Some n" "obj w' n = Some self'"
    using i(2) by (simp add: e(1), simp add: e(2))
  ultimately show "box_synced api obj n t" using i(1) by (simp add: box_synced_def t)
  show "is_true BoxReady (box_conditions (fst s)) \<longrightarrow> is_true BoxReady (box_conditions (fst t))"
    using op_conditions_ready by (simp add: s t c)
qed

interpretation box: ready_system "box_step api" "box_synced api obj n" "\<lambda>s. is_true BoxReady (box_conditions (fst s))"
  by unfold_locales (auto dest: box_step_synced)

section \<open>The properties\<close>

text \<open>A concrete API server, and a box that was scanned once.\<close>

definition ref_box :: "(string \<Rightarrow> jukebox option) box_api" where
  "ref_box =
     \<lparr>bx_now = (\<lambda>w. 0),
      bx_patch_status = (\<lambda>n st w.
        case w n of
          None \<Rightarrow> (Inl (KApi ''not found''), w)
        | Some old \<Rightarrow> (Inr (old\<lparr>jb_status := Some st\<rparr>), w(n \<mapsto> old\<lparr>jb_status := Some st\<rparr>))),
      bx_publish = (\<lambda>self ev w. (Inr (), w))\<rparr>"

lemma ref_box_server: "box_server ref_box (\<lambda>w. w)"
  by (auto simp: box_server_def ref_box_def split: option.splits)

definition demo_box :: jukebox where
  "demo_box =
     \<lparr>jb_meta = \<lparr>md_name = Some ''vynil'', md_generate_name = None, md_namespace = None, md_uid = Some ''b1'',
                 md_generation = Some 3, md_annotations = []\<rparr>,
      jb_spec = \<lparr>jb_source = Some default_def, jb_maturity = Some Stable, jb_pull_secret = None,
                 jb_schedule = ''0 * * * *''\<rparr>,
      jb_status = Some \<lparr>jbs_conditions = [updated_ok 0 3, box_ready_ok 0 3],
                        jbs_packages = [demo_package ''pg'' [], demo_package ''redis'' []]\<rparr>\<rparr>"

definition demo_boxes :: "string \<Rightarrow> jukebox option" where
  "demo_boxes = [''vynil'' \<mapsto> demo_box]"

lemma demo_box_ok:
  "md_name (jb_meta demo_box) = Some ''vynil''" "demo_boxes ''vynil'' = Some demo_box"
  "box_ok demo_box" "is_true BoxReady (box_conditions demo_box)"
  by (auto simp: demo_box_def demo_boxes_def box_ok_def box_conditions_def)

lemma ref_box_patch:
  assumes "md_name (jb_meta self) = Some n" and "w n = Some old"
  shows "box_patch_status ref_box self st w =
    (Inr (old\<lparr>jb_status := Some st\<rparr>), w(n \<mapsto> old\<lparr>jb_status := Some st\<rparr>))"
  using assms by (simp add: box_patch_status_def io_lift_bind io_kube_def ref_box_def)

lemma ref_box_event: "io_seq (box_send_event ref_box self ev) (io_return r) w = (Inr r, w)"
  by (simp add: io_seq_def io_bind_def io_return_def box_send_event_def ref_box_def)

lemma ref_box_run:
  assumes "op \<in> {Updated ps, ScanFailed ''timeout'', Merged f ps}"
  shows "\<exists>w'. run_box_op ref_box op demo_box demo_boxes =
     (Inr (demo_box\<lparr>jb_status := Some (op_status 0 op demo_box)\<rparr>), w')"
proof -
  have now: "bx_now ref_box w = 0" for w by (simp add: ref_box_def)
  have cut: "io_lift (box_note ''timeout'') = io_lift (Inr ''timeout'')"
    by (simp add: box_note_def str_truncate_def)
  have run: "io_bind (box_patch_status ref_box demo_box st) k demo_boxes =
      k (demo_box\<lparr>jb_status := Some st\<rparr>) (demo_boxes(''vynil'' \<mapsto> demo_box\<lparr>jb_status := Some st\<rparr>))" for st k
    by (rule io_bind_run(2), rule ref_box_patch) (simp_all add: demo_box_ok)
  show ?thesis
    using assms
    by (auto simp: set_status_updated_def set_status_failed_def set_status_packages_merge_def box_clock_bind
        Let_def run ref_box_event now cut io_lift_bind op_status_def box_excluding split: prod.splits)
qed

text \<open>C36: along any session of scans of a jukebox on a server that merges status patches, the scanner's copy
  and the stored box agree, a status has exactly one Ready and one Updated condition, and a box that
  was updated once stays ready, whatever scans fail later.\<close>

theorem box_session_ok:
  assumes "box_server api obj" and "(box_step api)\<^sup>*\<^sup>* (jb0, w0) (jb, w)"
    and "md_name (jb_meta jb0) = Some n" and "obj w0 n = Some jb0" and "box_ok jb0"
  shows "obj w n = Some jb \<and> box_ok jb \<and>
         (is_true BoxReady (box_conditions jb0) \<longrightarrow> is_true BoxReady (box_conditions jb))"
proof -
  have s: "box_synced api obj n (jb0, w0)" using assms by (simp add: box_synced_def)
  show ?thesis
    using box.reach_inv [OF assms(2) s] box.reach_ready [OF assms(2) s] by (auto simp: box_synced_def)
qed

theorem box_session_ok_witness:
  "\<exists>jb w. (box_step ref_box)\<^sup>*\<^sup>* (demo_box, demo_boxes) (jb, w) \<and> jb \<noteq> demo_box \<and> box_ok jb \<and>
     is_true BoxReady (box_conditions jb)"
proof -
  let ?op = "ScanFailed ''timeout''"
  let ?jb = "demo_box\<lparr>jb_status := Some (op_status 0 ?op demo_box)\<rparr>"
  obtain w where run: "run_box_op ref_box ?op demo_box demo_boxes = (Inr ?jb, w)"
    using ref_box_run [of ?op] by auto
  have "\<not> is_true BoxUpdated (box_conditions ?jb)" "is_true BoxUpdated (box_conditions demo_box)"
    by (simp_all add: box_conditions_def [of "_\<lparr>jb_status := _\<rparr>"] op_status_def Let_def)
      (simp add: box_conditions_def demo_box_def)
  then have new: "?jb \<noteq> demo_box" by auto
  have s: "(box_step ref_box)\<^sup>*\<^sup>* (demo_box, demo_boxes) (?jb, w)"
    by (rule r_into_rtranclp, rule box_stepI, rule run)
  from box_session_ok [where obj = "\<lambda>w. w" and ?w0.0 = demo_boxes, OF ref_box_server s demo_box_ok(1-3)] demo_box_ok(4)
  have "box_ok ?jb \<and> is_true BoxReady (box_conditions ?jb)" by blast
  with s new show ?thesis by blast
qed

text \<open>A scan that fails (even one whose report itself is refused or aborts) loses no package: the
  stored box keeps its packages, and stays ready if it was.\<close>

theorem failed_scan_keeps_packages:
  assumes "box_server api obj" and "md_name (jb_meta self) = Some n" and "obj w n = Some self"
    and "set_status_failed api self reason w = (r, w')"
  shows "\<exists>b. obj w' n = Some b \<and> box_packages b = box_packages self \<and>
             (is_true BoxReady (box_conditions self) \<longrightarrow> is_true BoxReady (box_conditions b))"
proof -
  have run: "run_box_op api (ScanFailed reason) self w = (r, w')" using assms(4) by simp
  have "box_packages (self\<lparr>jb_status := Some (op_status t (ScanFailed reason) self)\<rparr>) = box_packages self"
    and "box_conditions (self\<lparr>jb_status := Some (op_status t (ScanFailed reason) self)\<rparr>) =
         op_conditions t (ScanFailed reason) self" for t
    by (simp_all add: box_packages_def box_conditions_def op_status_def)
  with run_box_op_effect [OF assms(1-3) run] op_conditions_ready [of self _ "ScanFailed reason"] assms(3)
  show ?thesis by auto
qed

theorem failed_scan_keeps_packages_witness:
  "\<exists>b. snd (set_status_failed ref_box demo_box ''timeout'' demo_boxes) ''vynil'' = Some b \<and>
       box_packages b = box_packages demo_box \<and> is_true BoxReady (box_conditions b)"
  using failed_scan_keeps_packages [where obj = "\<lambda>w. w" and w = demo_boxes, OF ref_box_server demo_box_ok(1,2),
      of "''timeout''" "fst (set_status_failed ref_box demo_box ''timeout'' demo_boxes)"
        "snd (set_status_failed ref_box demo_box ''timeout'' demo_boxes)"] demo_box_ok(4)
  by simp

text \<open>A partial scan changes exactly its part of the box: after \<open>set_status_packages_merge\<close> with a
  \<open>category/name\<close> filter, the packages outside the filter are the old ones, in order, and those inside
  are the ones scanned.\<close>

theorem partial_scan_scope:
  assumes "box_server api obj" and "md_name (jb_meta self) = Some n" and "obj w n = Some self"
    and "CHR ''/'' \<notin> set c" and "\<forall>p \<in> set ps. in_scope c (Some k) p"
    and "set_status_packages_merge api self (c @ ''/'' @ k) ps w = (Inr r, w')"
  shows "filter (\<lambda>p. \<not> in_scope c (Some k) p) (box_packages r) =
           filter (\<lambda>p. \<not> in_scope c (Some k) p) (box_packages self) \<and>
         filter (in_scope c (Some k)) (box_packages r) = ps"
proof -
  have run: "run_box_op api (Merged (c @ ''/'' @ k) ps) self w = (Inr r, w')" using assms(6) by simp
  from run_box_op_effect [OF assms(1-3) run]
  have r: "box_packages r = filter_packages (box_packages self) c (Some k) ps"
    using split_filter_slash [OF assms(4), of k]
    by (auto simp: box_packages_def [of "_\<lparr>jb_status := _\<rparr>"] op_status_def)
  have "filter (in_scope c (Some k)) ps = ps" "filter (\<lambda>p. \<not> in_scope c (Some k) p) ps = []"
    using assms(5) by (simp_all add: filter_id_conv filter_empty_conv)
  with r show ?thesis by (simp add: filter_packages_scope)
qed

theorem partial_scan_scope_witness:
  "\<exists>r w'. set_status_packages_merge ref_box demo_box ''cat/pkg'' [demo_package ''2.0'' []] demo_boxes = (Inr r, w') \<and>
     filter (in_scope ''cat'' (Some ''pkg'')) (box_packages r) = [demo_package ''2.0'' []]"
proof -
  let ?ps = "[demo_package ''2.0'' []]"
  obtain r w' where run: "set_status_packages_merge ref_box demo_box (''cat'' @ ''/'' @ ''pkg'') ?ps demo_boxes = (Inr r, w')"
    using ref_box_run [of "Merged (''cat'' @ ''/'' @ ''pkg'') ?ps"] by auto
  have "CHR ''/'' \<notin> set ''cat''" "\<forall>p \<in> set ?ps. in_scope ''cat'' (Some ''pkg'') p"
    by (simp_all add: in_scope_def demo_package_def)
  from partial_scan_scope [where obj = "\<lambda>w. w" and w = demo_boxes, OF ref_box_server demo_box_ok(1,2) this run] run show ?thesis by auto
qed

end
