(* ===== verification/PackageCache.thy ===== *)
theory PackageCache
  imports JukeBox
begin

text \<open>
  \<open>operator/src/manager.rs\<close>: the operator keeps the packages of every jukebox in memory, under the
  name of the box. The controller of the boxes updates the entry of the box it reconciles, and
  removes it when the box is deleted. The map is a \<open>BTreeMap\<close>, \<open>obj_insert\<close> and \<open>obj_remove\<close> of the
  theory \<open>Json\<close>; the lock around it is held for one operation at a time.
\<close>

section \<open>The operations\<close>

record cache_item =
  ci_pull_secret :: "string option"
  ci_packages :: "package list"

type_synonym package_cache = "(string \<times> cache_item) list"

definition cache_entry_differs :: "package_cache \<Rightarrow> jukebox \<Rightarrow> bool" where
  "cache_entry_differs cache jb =
     (case jb_status jb of
        None \<Rightarrow> False
      | Some status \<Rightarrow>
          (case obj_get cache (name_any (jb_meta jb)) of
             Some entry \<Rightarrow> ci_packages entry \<noteq> jbs_packages status \<or>
                           ci_pull_secret entry \<noteq> jb_pull_secret (jb_spec jb)
           | None \<Rightarrow> True))"

definition upsert_cache_entry :: "package_cache \<Rightarrow> jukebox \<Rightarrow> package_cache" where
  "upsert_cache_entry cache jb =
     (case jb_status jb of
        None \<Rightarrow> cache
      | Some status \<Rightarrow>
          obj_insert (name_any (jb_meta jb))
            \<lparr>ci_pull_secret = jb_pull_secret (jb_spec jb), ci_packages = jbs_packages status\<rparr> cache)"

definition remove_jukebox_cache :: "string \<Rightarrow> package_cache \<Rightarrow> package_cache" where
  "remove_jukebox_cache name cache = obj_remove name cache"

text \<open>What the controller does with the cache when it reconciles a box.\<close>

definition refresh_cache :: "package_cache \<Rightarrow> jukebox \<Rightarrow> package_cache" where
  "refresh_cache cache jb = (if cache_entry_differs cache jb then upsert_cache_entry cache jb else cache)"

text \<open>The loop shared by \<open>set_package_cache\<close> and \<open>Manager::new\<close>, and the former.\<close>

definition build_cache :: "jukebox list \<Rightarrow> package_cache" where
  "build_cache boxes = foldl upsert_cache_entry [] boxes"

definition set_package_cache :: "jukebox list \<Rightarrow> package_cache \<Rightarrow> package_cache" where
  "set_package_cache boxes old = (let cache = build_cache boxes in if cache \<noteq> [] then cache else old)"

section \<open>What the cache holds\<close>

definition box_entry :: "jukebox \<Rightarrow> cache_item option" where
  "box_entry jb =
     map_option (\<lambda>st. \<lparr>ci_pull_secret = jb_pull_secret (jb_spec jb), ci_packages = jbs_packages st\<rparr>) (jb_status jb)"

lemma upsert_entry:
  "upsert_cache_entry cache jb =
     (case box_entry jb of None \<Rightarrow> cache | Some e \<Rightarrow> obj_insert (name_any (jb_meta jb)) e cache)"
  by (simp add: upsert_cache_entry_def box_entry_def split: option.splits)

lemma differs_entry:
  "cache_entry_differs cache jb \<longleftrightarrow> box_entry jb \<noteq> None \<and> obj_get cache (name_any (jb_meta jb)) \<noteq> box_entry jb"
  by (auto simp: cache_entry_differs_def box_entry_def split: option.splits)

lemma refresh_get:
  "obj_get (refresh_cache cache jb) n =
     (if n = name_any (jb_meta jb) \<and> box_entry jb \<noteq> None then box_entry jb else obj_get cache n)"
  by (auto simp: refresh_cache_def differs_entry upsert_entry btree.get_put split: option.splits)

lemma refresh_wf: "obj_wf cache \<Longrightarrow> obj_wf (refresh_cache cache jb)"
  by (simp add: refresh_cache_def upsert_entry obj_wf_insert split: option.splits)

text \<open>The insertions of a list of boxes: one for each box that has a status.\<close>

definition box_writes :: "jukebox list \<Rightarrow> (string \<times> cache_item) list" where
  "box_writes boxes = concat (map (\<lambda>jb. case box_entry jb of None \<Rightarrow> [] | Some e \<Rightarrow> [(name_any (jb_meta jb), e)]) boxes)"

lemma foldl_upsert:
  "foldl upsert_cache_entry cache boxes = fold (\<lambda>(k, v). obj_insert k v) (box_writes boxes) cache"
  by (induction boxes arbitrary: cache) (auto simp: box_writes_def upsert_entry split: option.splits)

lemma build_get: "obj_get (build_cache boxes) n = map_of (rev (box_writes boxes)) n"
  by (simp add: build_cache_def foldl_upsert btree.get_puts split: option.splits)

lemma upserts_wf: "obj_wf cache \<Longrightarrow> obj_wf (foldl upsert_cache_entry cache boxes)"
  by (induction boxes arbitrary: cache) (simp_all add: upsert_entry obj_wf_insert split: option.splits)

lemma build_wf: "obj_wf (build_cache boxes)"
  by (simp add: build_cache_def upserts_wf)

lemma build_empty: "build_cache boxes = [] \<longleftrightarrow> (\<forall>jb \<in> set boxes. jb_status jb = None)"
proof -
  have "build_cache boxes = [] \<longleftrightarrow> (\<forall>n. obj_get (build_cache boxes) n = None)"
    by (cases "build_cache boxes") (auto split: if_splits)
  also have "\<dots> \<longleftrightarrow> box_writes boxes = []"
  proof -
    have "map_of (rev xs) = Map.empty \<longleftrightarrow> xs = []" for xs :: "(string \<times> cache_item) list"
      by simp
    then show ?thesis by (simp add: build_get fun_eq_iff)
  qed
  also have "\<dots> \<longleftrightarrow> (\<forall>jb \<in> set boxes. jb_status jb = None)"
    by (auto simp: box_writes_def box_entry_def split: option.splits)
  finally show ?thesis .
qed

section \<open>The events of the controller\<close>

text \<open>
  The controller sees each change of a box as a reconciliation of its new state, and a deletion as a
  cleanup. \<open>written\<close> is what the events leave for each name.
\<close>

datatype box_event = Reconciled jukebox | Deleted string

fun cache_event :: "box_event \<Rightarrow> package_cache \<Rightarrow> package_cache" where
  "cache_event (Reconciled jb) cache = refresh_cache cache jb"
| "cache_event (Deleted name) cache = remove_jukebox_cache name cache"

fun event_write :: "box_event \<Rightarrow> (string \<times> cache_item option) list" where
  "event_write (Reconciled jb) =
     (case box_entry jb of None \<Rightarrow> [] | Some e \<Rightarrow> [(name_any (jb_meta jb), Some e)])"
| "event_write (Deleted name) = [(name, None)]"

definition written :: "box_event list \<Rightarrow> string \<Rightarrow> cache_item option option" where
  "written evs n = map_of (rev (concat (map event_write evs))) n"

lemma event_get:
  "obj_get (cache_event ev cache) n =
     (case map_of (rev (event_write ev)) n of None \<Rightarrow> obj_get cache n | Some c \<Rightarrow> c)"
  by (cases ev) (auto simp: refresh_get remove_jukebox_cache_def btree.get_del split: option.splits)

lemma event_wf: "obj_wf cache \<Longrightarrow> obj_wf (cache_event ev cache)"
  by (cases ev) (simp_all add: refresh_wf remove_jukebox_cache_def obj_wf_remove)

lemma events_wf: "obj_wf cache \<Longrightarrow> obj_wf (fold cache_event evs cache)"
  by (induction evs arbitrary: cache) (simp_all add: event_wf)

lemma events_get:
  "obj_get (fold cache_event evs cache) n =
     (case written evs n of None \<Rightarrow> obj_get cache n | Some c \<Rightarrow> c)"
  by (induction evs arbitrary: cache) (auto simp: written_def event_get map_add_def split: option.splits)

section \<open>The properties\<close>

definition cached_box :: "string \<Rightarrow> package list \<Rightarrow> jukebox" where
  "cached_box n ps = demo_box\<lparr>jb_meta := (jb_meta demo_box)\<lparr>md_name := Some n\<rparr>,
     jb_status := Some \<lparr>jbs_conditions = [], jbs_packages = ps\<rparr>\<rparr>"

text \<open>C37: the entry of a jukebox in the cache is what the last event about it says: the packages and pull
  secret of the box as last reconciled with a status, nothing once it was deleted, and what was there
  before when no event wrote it.\<close>

theorem cache_follows_events:
  "obj_get (fold cache_event evs cache) n =
     (case written evs n of None \<Rightarrow> obj_get cache n | Some c \<Rightarrow> c)"
  by (rule events_get)

text \<open>C4: the cache kept event by event is the cache rebuilt from scratch: reconciling the boxes of a list
  one after the other from an empty cache gives exactly what \<open>Manager::new\<close> builds from the list.\<close>

theorem incremental_cache_is_rebuild:
  "fold cache_event (map Reconciled boxes) [] = build_cache boxes"
proof (rule obj_wf_eqI)
  show "obj_wf (fold cache_event (map Reconciled boxes) [])" by (rule events_wf) simp
  show "obj_wf (build_cache boxes)" by (rule build_wf)
  fix n
  have "obj_get (fold cache_event (map Reconciled boxes) cache) n = obj_get (foldl upsert_cache_entry cache boxes) n" for cache
  proof (induction boxes arbitrary: cache)
    case (Cons jb boxes)
    have "obj_get (foldl upsert_cache_entry (refresh_cache cache jb) boxes) n =
        obj_get (foldl upsert_cache_entry (upsert_cache_entry cache jb) boxes) n"
      by (simp add: foldl_upsert btree.get_puts refresh_get upsert_entry btree.get_put split: option.splits)
    with Cons show ?case by simp
  qed simp
  then show "obj_get (fold cache_event (map Reconciled boxes) []) n = obj_get (build_cache boxes) n"
    by (simp add: build_cache_def)
qed

text \<open>Once the controller has reconciled a box, its entry no longer differs, so reconciling the
  unchanged box again leaves the cache alone, and no entry of another box is touched.\<close>

theorem refresh_settles:
  "\<not> cache_entry_differs (refresh_cache cache jb) jb \<and>
   refresh_cache (refresh_cache cache jb) jb = refresh_cache cache jb \<and>
   (\<forall>n. n \<noteq> name_any (jb_meta jb) \<longrightarrow> obj_get (refresh_cache cache jb) n = obj_get cache n)"
proof -
  have "\<not> cache_entry_differs (refresh_cache cache jb) jb" by (simp add: differs_entry refresh_get)
  then show ?thesis by (auto simp: refresh_cache_def [of "refresh_cache cache jb"] refresh_get)
qed

theorem refresh_settles_witness:
  "\<not> cache_entry_differs (refresh_cache [] (cached_box ''b'' [])) (cached_box ''b'' []) \<and>
   obj_get (refresh_cache [(''a'', \<lparr>ci_pull_secret = None, ci_packages = []\<rparr>)] (cached_box ''b'' [])) ''a'' \<noteq> None"
  using refresh_settles [of "[]" "cached_box ''b'' []"]
    refresh_settles [of "[(''a'', \<lparr>ci_pull_secret = None, ci_packages = []\<rparr>)]" "cached_box ''b'' []"]
  by (simp add: cached_box_def name_any_def)

text \<open>\<open>set_package_cache\<close> keeps the old cache when no box of the list has a status, even if the list
  says that the cached boxes are gone.\<close>

theorem set_package_cache_keeps_stale:
  "\<forall>jb \<in> set boxes. jb_status jb = None \<Longrightarrow> set_package_cache boxes old = old"
  using build_empty [of boxes] by (simp add: set_package_cache_def Let_def)

theorem set_package_cache_keeps_stale_witness:
  "set_package_cache [] (build_cache [cached_box ''b'' []]) = build_cache [cached_box ''b'' []] \<and>
   obj_get (build_cache [cached_box ''b'' []]) ''b'' \<noteq> None"
  using set_package_cache_keeps_stale [of "[]" "build_cache [cached_box ''b'' []]"]
  by (simp add: build_get box_writes_def box_entry_def cached_box_def name_any_def)

end
