(* ===== verification/K8sMock.thy ===== *)
theory K8sMock
  imports Json
begin

text \<open>
  \<open>core/src/k8s_mock.rs\<close>: the API server the package tests run against. Objects are dynamic values,
  here JSON values (a rhai map is a \<open>BTreeMap\<close>), kept in two lists: \<open>mocks\<close>, what the server holds,
  and \<open>created\<close>, what the script under test wrote. A handle on a kind takes a copy of the matching
  mocks when it is made.
\<close>

section \<open>Reading an object\<close>

definition as_map :: "json \<Rightarrow> (string \<times> json) list option" where
  "as_map v = (case v of JObj m \<Rightarrow> Some m | _ \<Rightarrow> None)"

definition as_string :: "json \<Rightarrow> string option" where
  "as_string v = (case v of JStr s \<Rightarrow> Some s | _ \<Rightarrow> None)"

text \<open>\<open>map.get(k).and_then(|n| n.into_string().ok())\<close> and the metadata when it is a map.\<close>

definition str_member :: "(string \<times> json) list \<Rightarrow> string \<Rightarrow> string option" where
  "str_member m k = Option.bind (obj_get m k) as_string"

definition meta_of :: "(string \<times> json) list \<Rightarrow> (string \<times> json) list option" where
  "meta_of m = Option.bind (obj_get m ''metadata'') as_map"

definition meta_str :: "(string \<times> json) list \<Rightarrow> string \<Rightarrow> string option" where
  "meta_str m k = Option.bind (meta_of m) (\<lambda>meta. str_member meta k)"

definition is_mock :: "string \<Rightarrow> string option \<Rightarrow> string option \<Rightarrow> json \<Rightarrow> bool" where
  "is_mock kind name ns entry =
     (case as_map entry of
        None \<Rightarrow> False
      | Some m \<Rightarrow> str_member m ''kind'' = Some kind \<and> meta_str m ''name'' = name \<and> meta_str m ''namespace'' = ns)"

section \<open>Merging\<close>

function (sequential) deep_merge :: "json \<Rightarrow> json \<Rightarrow> json"
  and merge_members :: "(string \<times> json) list \<Rightarrow> (string \<times> json) list \<Rightarrow> (string \<times> json) list" where
  "deep_merge (JObj base) (JObj patch) = JObj (merge_members base patch)"
| "deep_merge base patch = patch"
| "merge_members merged [] = merged"
| "merge_members merged ((k, v) # patch) =
     merge_members
       (obj_insert k (case obj_get merged k of Some existing \<Rightarrow> deep_merge existing v | None \<Rightarrow> v) merged) patch"
  by pat_completeness auto

termination
  by (relation "measure (\<lambda>x. case x of Inl (b, p) \<Rightarrow> 2 * size p | Inr (b, p) \<Rightarrow> Suc (2 * size_list (size_prod (\<lambda>x. 0) size) p))")
    auto

section \<open>The lists of objects\<close>

definition merge_with_existing :: "json list \<Rightarrow> string \<Rightarrow> json \<Rightarrow> json" where
  "merge_with_existing entries kind obj =
     (case as_map obj of
        None \<Rightarrow> obj
      | Some m \<Rightarrow>
          (case find (is_mock kind (meta_str m ''name'') (meta_str m ''namespace'')) entries of
             Some entry \<Rightarrow> deep_merge entry obj
           | None \<Rightarrow> obj))"

fun upsert_first :: "(json \<Rightarrow> bool) \<Rightarrow> json \<Rightarrow> json list \<Rightarrow> json list" where
  "upsert_first same obj [] = [obj]"
| "upsert_first same obj (entry # entries) =
     (if same entry then deep_merge entry obj # entries else entry # upsert_first same obj entries)"

definition upsert_in_list :: "json list \<Rightarrow> string \<Rightarrow> json \<Rightarrow> json list" where
  "upsert_in_list entries kind obj =
     (case as_map obj of
        None \<Rightarrow> entries @ [obj]
      | Some m \<Rightarrow> upsert_first (is_mock kind (meta_str m ''name'') (meta_str m ''namespace'')) obj entries)"

text \<open>The lookup of the workload mocks (deployments, daemon sets, stateful sets, jobs).\<close>

definition find_workload_mock :: "json list \<Rightarrow> string \<Rightarrow> string \<Rightarrow> string \<Rightarrow> string + json" where
  "find_workload_mock mocks kind namespace name =
     (case find (is_mock kind (Some name) (Some namespace)) mocks of
        Some m \<Rightarrow> Inr m
      | None \<Rightarrow> Inl (''Failed to find '' @ kind @ '' '' @ name @ '' in namespace '' @ namespace @
                   '' in the Mock database''))"

definition get_sub :: "json \<Rightarrow> string \<Rightarrow> json" where
  "get_sub obj key =
     (case as_map obj of
        None \<Rightarrow> JNull
      | Some m \<Rightarrow> (case obj_get m key of Some v \<Rightarrow> v | None \<Rightarrow> JNull))"

section \<open>The handles\<close>

record mock_server =
  ms_mocks :: "json list"
  ms_created :: "json list"

record mock_handle =
  mh_kind :: string
  mh_ns :: "string option"
  mh_my_mocks :: "json list"

definition has_kind :: "string \<Rightarrow> json \<Rightarrow> bool" where
  "has_kind kind m = (case as_map m of None \<Rightarrow> False | Some mm \<Rightarrow> str_member mm ''kind'' = Some kind)"

definition in_ns :: "string \<Rightarrow> json \<Rightarrow> bool" where
  "in_ns ns m = (case as_map m of None \<Rightarrow> False | Some mm \<Rightarrow> meta_str mm ''namespace'' = Some ns)"

definition new_handle :: "mock_server \<Rightarrow> string \<Rightarrow> string option \<Rightarrow> mock_handle" where
  "new_handle s kind ns =
     (let my_mocks = filter (has_kind kind) (ms_mocks s)
      in case ns of
           Some n \<Rightarrow> \<lparr>mh_kind = kind, mh_ns = ns, mh_my_mocks = filter (in_ns n) my_mocks\<rparr>
         | None \<Rightarrow> \<lparr>mh_kind = kind, mh_ns = ns, mh_my_mocks = my_mocks\<rparr>)"

definition rhai_list :: "mock_handle \<Rightarrow> json" where
  "rhai_list h = JObj [(''items'', JArr (mh_my_mocks h))]"

definition meta_name :: "json \<Rightarrow> string option" where
  "meta_name m = Option.bind (as_map m) (\<lambda>mm. meta_str mm ''name'')"

definition find_by_name_in :: "json list \<Rightarrow> string \<Rightarrow> json option" where
  "find_by_name_in items name = find (\<lambda>m. meta_name m = Some name) items"

definition find_by_name_in_live :: "mock_handle \<Rightarrow> mock_server \<Rightarrow> string \<Rightarrow> json option" where
  "find_by_name_in_live h s name =
     find (\<lambda>m. has_kind (mh_kind h) m \<and> meta_name m = Some name \<and>
             (case mh_ns h of None \<Rightarrow> True | Some ns \<Rightarrow> in_ns ns m)) (ms_mocks s)"

definition rhai_get :: "mock_handle \<Rightarrow> mock_server \<Rightarrow> string \<Rightarrow> string + json" where
  "rhai_get h s name =
     (case find_by_name_in (mh_my_mocks h) name of
        Some obj \<Rightarrow> Inr obj
      | None \<Rightarrow>
          (case find_by_name_in_live h s name of
             Some obj \<Rightarrow> Inr obj
           | None \<Rightarrow> Inl (''Failed to find '' @ mh_kind h @ '' '' @ name @ '' in the Mock database'')))"

text \<open>The namespace and the kind of the handle, when the object does not say.\<close>

definition default_ns :: "mock_handle \<Rightarrow> json \<Rightarrow> json" where
  "default_ns h obj =
     (case (mh_ns h, as_map obj) of
        (Some ns, Some m) \<Rightarrow>
          (case meta_of m of
             Some meta \<Rightarrow>
               (if obj_get meta ''namespace'' = None
                then JObj (obj_insert ''metadata'' (JObj (obj_insert ''namespace'' (JStr ns) meta)) m)
                else obj)
           | None \<Rightarrow> obj)
      | _ \<Rightarrow> obj)"

definition default_kind :: "mock_handle \<Rightarrow> json \<Rightarrow> json" where
  "default_kind h obj =
     (case as_map obj of
        Some m \<Rightarrow> (if obj_get m ''kind'' = None then JObj (obj_insert ''kind'' (JStr (mh_kind h)) m) else obj)
      | None \<Rightarrow> obj)"

definition write_obj :: "mock_handle \<Rightarrow> json \<Rightarrow> mock_server \<Rightarrow> mock_server" where
  "write_obj h obj s =
     (let merged_obj = merge_with_existing (ms_mocks s) (mh_kind h) obj
      in \<lparr>ms_mocks = upsert_in_list (ms_mocks s) (mh_kind h) obj,
          ms_created = upsert_in_list (ms_created s) (mh_kind h) merged_obj\<rparr>)"

definition rhai_apply :: "mock_handle \<Rightarrow> json \<Rightarrow> mock_server \<Rightarrow> json \<times> mock_server" where
  "rhai_apply h data s = (let obj = default_kind h (default_ns h data) in (obj, write_obj h obj s))"

definition rhai_replace :: "mock_handle \<Rightarrow> json \<Rightarrow> mock_server \<Rightarrow> json \<times> mock_server" where
  "rhai_replace h data s = (let obj = default_kind h data in (obj, write_obj h obj s))"

definition rhai_create :: "mock_handle \<Rightarrow> json \<Rightarrow> mock_server \<Rightarrow> json \<times> mock_server" where
  "rhai_create h data s = (let obj = default_kind h data in (obj, write_obj h obj s))"

definition rhai_patch :: "mock_handle \<Rightarrow> json \<Rightarrow> mock_server \<Rightarrow> json \<times> mock_server" where
  "rhai_patch h data s =
     (let obj = default_kind h data
      in (obj, s\<lparr>ms_mocks := upsert_in_list (ms_mocks s) (mh_kind h) obj\<rparr>))"

definition rhai_delete :: "mock_handle \<Rightarrow> string \<Rightarrow> mock_server \<Rightarrow> mock_server" where
  "rhai_delete h name s = s"

section \<open>Laws of the merge\<close>

lemma deep_merge_other [simp]: "as_map p = None \<Longrightarrow> deep_merge b p = p"
  by (cases p; cases b) (simp_all add: as_map_def)

lemma deep_merge_base [simp]: "as_map b = None \<Longrightarrow> deep_merge b p = p"
  by (cases p; cases b) (simp_all add: as_map_def)

lemma as_map_simps [simp]: "as_map (JObj m) = Some m" "as_map (JStr s) = None"
  by (simp_all add: as_map_def)

lemma as_map_Some: "as_map v = Some m \<longleftrightarrow> v = JObj m"
  by (cases v) (auto simp: as_map_def)

lemma merge_members_wf: "obj_wf m \<Longrightarrow> obj_wf (merge_members m p)"
  by (induction p arbitrary: m) (auto simp: obj_wf_insert)

lemma merge_members_get:
  "distinct (map fst p) \<Longrightarrow> obj_get (merge_members m p) k =
     (case obj_get p k of
        None \<Rightarrow> obj_get m k
      | Some v \<Rightarrow> Some (case obj_get m k of None \<Rightarrow> v | Some e \<Rightarrow> deep_merge e v))"
proof (induction p arbitrary: m)
  case (Cons x p)
  then show ?case
    by (cases x) (auto simp: map_of_eq_None_iff [THEN iffD2] split: option.splits)
qed simp

lemma deep_merge_self: "json_wf v \<Longrightarrow> deep_merge v v = v"
proof (induction v)
  case (JObj m)
  have d: "distinct (map fst m)" and wf: "obj_wf m" using JObj.prems by (simp_all add: obj_wf_def)
  have "merge_members m m = m"
  proof (rule obj_wf_eqI)
    fix k
    have "deep_merge v v = v" if "obj_get m k = Some v" for v
      using that JObj.IH [of "(k, v)" v] JObj.prems by (auto dest!: map_of_SomeD)
    then show "obj_get (merge_members m m) k = obj_get m k"
      by (auto simp: merge_members_get [OF d] split: option.splits)
  qed (simp_all add: merge_members_wf wf)
  then show ?case by simp
qed simp_all

lemma deep_merge_twice: "json_wf b \<Longrightarrow> json_wf a \<Longrightarrow> deep_merge (deep_merge a b) b = deep_merge a b"
proof (induction b arbitrary: a)
  case (JObj p)
  have d: "distinct (map fst p)" using JObj.prems by (simp add: obj_wf_def)
  show ?case
  proof (cases a)
    case a: (JObj m)
    then have wf: "obj_wf m" using JObj.prems by simp
    have "merge_members (merge_members m p) p = merge_members m p"
    proof (rule obj_wf_eqI)
      fix k
      have IH: "deep_merge (deep_merge e v) v = deep_merge e v"
        if "obj_get p k = Some v" "obj_get m k = Some e" for v e
      proof -
        have "(k, v) \<in> set p" using that(1) by (rule map_of_SomeD)
        moreover have "json_wf v" "json_wf e"
          using that JObj.prems a by (blast intro: json_wf_get)+
        ultimately show ?thesis using JObj.IH [of "(k, v)" v e] by simp
      qed
      have self: "deep_merge v v = v" if "obj_get p k = Some v" for v
        using json_wf_get [OF JObj.prems(1) that] by (rule deep_merge_self)
      show "obj_get (merge_members (merge_members m p) p) k = obj_get (merge_members m p) k"
        by (auto simp: merge_members_get [OF d] IH self split: option.splits)
    qed (simp_all add: merge_members_wf wf)
    with a show ?thesis by simp
  qed (use deep_merge_self [OF JObj.prems(1)] in \<open>simp_all add: as_map_def\<close>)
qed simp_all

section \<open>The list of mocks is a merging store\<close>

lemma as_string_merge: "as_string (deep_merge e v) = as_string v"
  by (cases v; cases e) (simp_all add: as_string_def)

lemma str_member_merge:
  "distinct (map fst p) \<Longrightarrow> str_member (merge_members m p) k =
     (case obj_get p k of None \<Rightarrow> str_member m k | Some v \<Rightarrow> as_string v)"
  by (auto simp: str_member_def merge_members_get as_string_merge split: option.splits)

lemma meta_of_merge:
  assumes "distinct (map fst p)"
  shows "meta_of (merge_members m p) =
     (case obj_get p ''metadata'' of
        None \<Rightarrow> meta_of m
      | Some (JObj pm) \<Rightarrow> Some (case meta_of m of None \<Rightarrow> pm | Some mm \<Rightarrow> merge_members mm pm)
      | Some _ \<Rightarrow> None)"
  using assms
  by (auto simp: meta_of_def merge_members_get as_map_def split: option.splits json.splits)

lemma meta_str_merge:
  assumes "json_wf (JObj p)" and "meta_str m k = meta_str p k"
  shows "meta_str (merge_members m p) k = meta_str p k"
proof -
  have d: "distinct (map fst p)" using assms(1) by (simp add: obj_wf_def)
  have dm: "distinct (map fst pm)" if "obj_get p ''metadata'' = Some (JObj pm)" for pm
    using json_wf_get [OF assms(1) that] by (simp add: obj_wf_def)
  show ?thesis
  proof (cases "obj_get p ''metadata''")
    case None
    then have "meta_of (merge_members m p) = meta_of m" by (simp add: meta_of_merge [OF d])
    with assms(2) show ?thesis by (simp add: meta_str_def)
  next
    case (Some v)
    show ?thesis
    proof (cases "as_map v")
      case None
      with Some have "meta_of (merge_members m p) = None" "meta_of p = None"
        unfolding meta_of_merge [OF d] by (auto simp: meta_of_def as_map_def split: json.splits)
      then show ?thesis by (simp add: meta_str_def)
    next
      case pm: (Some pm)
      with Some have p: "meta_of p = Some pm" and g: "obj_get p ''metadata'' = Some (JObj pm)"
        by (simp_all add: meta_of_def as_map_Some)
      show ?thesis
      proof (cases "meta_of m")
        case None
        with g have "meta_of (merge_members m p) = Some pm" by (simp add: meta_of_merge [OF d])
        with p show ?thesis by (simp add: meta_str_def)
      next
        case mm: (Some mm)
        with g have mp: "meta_of (merge_members m p) = Some (merge_members mm pm)" by (simp add: meta_of_merge [OF d])
        have "str_member mm k = str_member pm k" using assms(2) mm p by (simp add: meta_str_def)
        then have "str_member (merge_members mm pm) k = str_member pm k"
          unfolding str_member_merge [OF dm [OF g]] by (auto simp: str_member_def split: option.splits)
        with mp p show ?thesis by (simp add: meta_str_def)
      qed
    qed
  qed
qed

lemma is_mock_merge:
  assumes "json_wf o'" and "is_mock kind name ns e" and "is_mock kind name ns o'"
  shows "is_mock kind name ns (deep_merge e o')"
proof -
  obtain m p where e: "e = JObj m" and o: "o' = JObj p"
    using assms(2,3) by (auto simp: is_mock_def as_map_Some split: option.splits)
  have d: "distinct (map fst p)" and w: "json_wf (JObj p)" using assms(1) o by (simp_all add: obj_wf_def)
  have k: "str_member p ''kind'' = Some kind" "meta_str p ''name'' = name" "meta_str p ''namespace'' = ns"
      "meta_str m ''name'' = name" "meta_str m ''namespace'' = ns"
    using assms(2,3) e o by (simp_all add: is_mock_def)
  have "str_member (merge_members m p) ''kind'' = Some kind"
    using k(1) unfolding str_member_merge [OF d] by (auto simp: str_member_def split: option.splits)
  moreover have "meta_str (merge_members m p) ''name'' = name" "meta_str (merge_members m p) ''namespace'' = ns"
    using meta_str_merge [OF w] k by simp_all
  ultimately show ?thesis by (simp add: e o is_mock_def)
qed

lemma is_mock_iff: "is_mock kind name ns e \<Longrightarrow> is_mock kind' name' ns' e \<longleftrightarrow> (kind', name', ns') = (kind, name, ns)"
  by (auto simp: is_mock_def split: option.splits)

type_synonym mock_key = "string \<times> string option \<times> string option"

definition lookup_mock :: "json list \<Rightarrow> mock_key \<Rightarrow> json option" where
  "lookup_mock entries k = find (is_mock (fst k) (fst (snd k)) (snd (snd k))) entries"

definition valid_mock :: "json list \<Rightarrow> mock_key \<Rightarrow> json \<Rightarrow> bool" where
  "valid_mock entries k obj \<longleftrightarrow> is_mock (fst k) (fst (snd k)) (snd (snd k)) obj \<and> json_wf obj \<and> list_all json_wf entries"

lemma json_wf_merge: "json_wf b \<Longrightarrow> json_wf a \<Longrightarrow> json_wf (deep_merge a b)"
proof (induction b arbitrary: a)
  case (JObj p)
  have d: "distinct (map fst p)" using JObj.prems by (simp add: obj_wf_def)
  show ?case
  proof (cases a)
    case a: (JObj m)
    then have wf: "obj_wf (merge_members m p)" using JObj.prems by (simp add: merge_members_wf)
    have "json_wf v" if kv: "(k, v) \<in> set (merge_members m p)" for k v
    proof -
      have "obj_get (merge_members m p) k = Some v" using kv wf by (simp add: obj_wf_def)
      then show ?thesis
        using JObj.prems a JObj.IH [of "(k, w)" w for w]
        by (auto simp: merge_members_get [OF d] split: option.splits dest!: map_of_SomeD) fastforce+
    qed
    with a wf show ?thesis by auto
  qed (use JObj.prems in \<open>simp_all add: as_map_def\<close>)
qed simp_all

lemma upsert_first_wf:
  "list_all json_wf entries \<Longrightarrow> json_wf obj \<Longrightarrow> list_all json_wf (upsert_first same obj entries)"
  by (induction entries) (auto simp: json_wf_merge)

lemma upsert_valid: "valid_mock entries k obj \<Longrightarrow>
    upsert_in_list entries (fst k) obj = upsert_first (is_mock (fst k) (fst (snd k)) (snd (snd k))) obj entries"
  by (auto simp: valid_mock_def upsert_in_list_def is_mock_def split: option.splits)

lemma lookup_upsert:
  assumes "valid_mock entries k obj"
  shows "lookup_mock (upsert_in_list entries (fst k) obj) j =
    (if j = k then Some (case lookup_mock entries k of None \<Rightarrow> obj | Some u \<Rightarrow> deep_merge u obj)
     else lookup_mock entries j)"
proof -
  obtain kind name ns where k: "k = (kind, name, ns)" by (cases k)
  have o: "is_mock kind name ns obj" "json_wf obj" using assms k by (simp_all add: valid_mock_def)
  have "find (is_mock a b c) (upsert_first (is_mock kind name ns) obj entries) =
      (if (a, b, c) = (kind, name, ns)
       then Some (case find (is_mock kind name ns) entries of None \<Rightarrow> obj | Some u \<Rightarrow> deep_merge u obj)
       else find (is_mock a b c) entries)" for a b c
  proof (induction entries)
    case Nil
    then show ?case using is_mock_iff [OF o(1)] by auto
  next
    case (Cons e entries)
    show ?case
    proof (cases "is_mock kind name ns e")
      case True
      with is_mock_iff [OF True] is_mock_iff [OF is_mock_merge [OF o(2) True o(1)]]
      show ?thesis by simp
    next
      case False
      with Cons show ?thesis by auto
    qed
  qed
  then show ?thesis
    unfolding upsert_valid [OF assms] lookup_mock_def by (cases j) (simp add: k)
qed

interpretation mocks: merge_store lookup_mock "\<lambda>k obj entries. upsert_in_list entries (fst k) obj" deep_merge valid_mock
proof
  fix entries :: "json list" and k j :: mock_key and obj u :: json
  assume v: "valid_mock entries k obj"
  show "lookup_mock (upsert_in_list entries (fst k) obj) j =
    (if j = k then Some (case lookup_mock entries k of None \<Rightarrow> obj | Some u \<Rightarrow> deep_merge u obj)
     else lookup_mock entries j)"
    by (rule lookup_upsert [OF v])
  show "deep_merge obj obj = obj" using v by (simp add: valid_mock_def deep_merge_self)
  show "valid_mock (upsert_in_list entries (fst k) obj) j u" if "valid_mock entries j u"
    using that v by (simp add: upsert_valid [OF v]) (simp add: valid_mock_def upsert_first_wf)
  show "deep_merge (deep_merge u obj) obj = deep_merge u obj" if "lookup_mock entries k = Some u"
    using that v by (auto simp: valid_mock_def lookup_mock_def find_Some_iff list_all_length intro!: deep_merge_twice)
qed

section \<open>What a handle writes and reads\<close>

text \<open>An object a handle accepts: a well-formed map whose kind is absent or the handle's.\<close>

definition fits :: "mock_handle \<Rightarrow> json \<Rightarrow> bool" where
  "fits h data \<longleftrightarrow> json_wf data \<and>
     (case as_map data of
        None \<Rightarrow> False
      | Some m \<Rightarrow> obj_get m ''kind'' = None \<or> obj_get m ''kind'' = Some (JStr (mh_kind h)))"

definition key_in :: "mock_handle \<Rightarrow> json \<Rightarrow> mock_key" where
  "key_in h obj =
     (case as_map obj of
        None \<Rightarrow> (mh_kind h, None, None)
      | Some m \<Rightarrow> (mh_kind h, meta_str m ''name'', meta_str m ''namespace''))"

lemma obj_get_in: "obj_wf m \<Longrightarrow> (k, v) \<in> set m \<Longrightarrow> obj_get m k = Some v"
  by (simp add: obj_wf_def)

lemma default_ns_fits: "fits h data \<Longrightarrow> fits h (default_ns h data)"
proof (cases "default_ns h data = data")
  case False
  assume f: "fits h data"
  from False obtain ns m meta where d: "data = JObj m" "meta_of m = Some meta"
      "default_ns h data = JObj (obj_insert ''metadata'' (JObj (obj_insert ''namespace'' (JStr ns) meta)) m)"
    by (auto simp: default_ns_def as_map_Some split: option.splits if_splits)
  have w: "json_wf (JObj m)" using f d by (simp add: fits_def)
  have "json_wf (JObj meta)"
    using json_wf_get [OF w] d(2) by (auto simp: meta_of_def as_map_Some bind_eq_Some_conv simp del: json_wf.simps(1))
  then have "json_wf (JObj (obj_insert ''metadata'' (JObj (obj_insert ''namespace'' (JStr ns) meta)) m))"
    using w by (intro json_wf_insert) simp_all
  with f d show ?thesis by (simp add: fits_def)
qed simp

lemma default_kind_valid:
  assumes "fits h data" and "list_all json_wf entries"
  shows "valid_mock entries (key_in h (default_kind h data)) (default_kind h data)"
proof -
  obtain m where m: "data = JObj m" "json_wf (JObj m)"
      "obj_get m ''kind'' = None \<or> obj_get m ''kind'' = Some (JStr (mh_kind h))"
    using assms(1) by (auto simp: fits_def as_map_Some split: option.splits)
  define m' where "m' = (if obj_get m ''kind'' = None then obj_insert ''kind'' (JStr (mh_kind h)) m else m)"
  have d: "default_kind h data = JObj m'" by (simp add: default_kind_def m(1) m'_def)
  have "json_wf (JObj m')" using m(2) json_wf_insert [OF m(2), of "JStr (mh_kind h)"]
    by (auto simp: m'_def simp del: json_wf.simps(1))
  moreover have "str_member m' ''kind'' = Some (mh_kind h)"
    using m(3) by (auto simp: m'_def str_member_def as_string_def)
  ultimately show ?thesis using assms(2) by (simp add: valid_mock_def d key_in_def is_mock_def)
qed

lemma write_mocks:
  assumes "valid_mock (ms_mocks s) k obj" and "fst k = mh_kind h"
  shows "lookup_mock (ms_mocks (write_obj h obj s)) =
     lookup_mock (upsert_in_list (ms_mocks s) (fst k) obj)"
  using assms by (simp add: write_obj_def Let_def)

lemma find_filter: "find P (filter Q xs) = find (\<lambda>x. Q x \<and> P x) xs"
  by (induction xs) auto

lemma find_cong_fun: "(\<And>x. P x = Q x) \<Longrightarrow> find P xs = find Q xs"
  by (induction xs) auto

lemma named_in_ns:
  "has_kind kind m \<and> in_ns ns m \<and> meta_name m = Some name \<longleftrightarrow> is_mock kind (Some name) (Some ns) m"
  by (auto simp: has_kind_def in_ns_def meta_name_def is_mock_def split: option.splits)

lemma fresh_get:
  assumes "lookup_mock (ms_mocks s) (kind, Some name, Some ns) = Some obj"
  shows "rhai_get (new_handle s kind (Some ns)) s name = Inr obj"
proof -
  have "find (\<lambda>m. has_kind kind m \<and> in_ns ns m \<and> meta_name m = Some name) (ms_mocks s) =
      find (is_mock kind (Some name) (Some ns)) (ms_mocks s)"
    by (rule find_cong_fun) (rule named_in_ns)
  then have "find_by_name_in (mh_my_mocks (new_handle s kind (Some ns))) name = Some obj"
    using assms by (simp add: new_handle_def find_by_name_in_def lookup_mock_def find_filter)
  then show ?thesis by (simp add: rhai_get_def)
qed

section \<open>The properties\<close>

definition demo_obj :: "(string \<times> json) list \<Rightarrow> json" where
  "demo_obj extra = JObj (fold (\<lambda>(k, v). obj_insert k v) extra
     [(''kind'', JStr ''ConfigMap''), (''metadata'', JObj [(''name'', JStr ''cm''), (''namespace'', JStr ''ns'')])])"

definition demo_server :: mock_server where
  "demo_server = \<lparr>ms_mocks = [demo_obj [(''data'', JObj [(''a'', JStr ''1'')])]], ms_created = []\<rparr>"

definition demo_handle :: mock_handle where
  "demo_handle = new_handle demo_server ''ConfigMap'' (Some ''ns'')"

lemma demo_mock_facts:
  "list_all json_wf (ms_mocks demo_server)" "mh_kind demo_handle = ''ConfigMap''" "mh_ns demo_handle = Some ''ns''"
  "fits demo_handle (demo_obj [(''data'', JObj [(''b'', JStr ''2'')])])"
  "default_ns demo_handle (demo_obj [(''data'', JObj [(''b'', JStr ''2'')])]) = demo_obj [(''data'', JObj [(''b'', JStr ''2'')])]"
  "default_kind demo_handle (demo_obj [(''data'', JObj [(''b'', JStr ''2'')])]) = demo_obj [(''data'', JObj [(''b'', JStr ''2'')])]"
  "key_in demo_handle (demo_obj [(''data'', JObj [(''b'', JStr ''2'')])]) = (''ConfigMap'', Some ''cm'', Some ''ns'')"
  by (simp_all add: demo_server_def demo_handle_def new_handle_def demo_obj_def fits_def obj_wf_def default_ns_def
      default_kind_def key_in_def meta_of_def meta_str_def str_member_def as_string_def Let_def)



text \<open>What was applied is read back merged through a new handle, but a handle that already held the
  object goes on answering its own copy: the test script that applies and then gets through one
  handle sees the object as it was before.\<close>

theorem mock_read_after_apply:
  assumes "list_all json_wf (ms_mocks s)" and "fits h data" and "rhai_apply h data s = (obj, s1)"
    and "key_in h obj = (mh_kind h, Some name, Some ns)" and "find_by_name_in (mh_my_mocks h) name = Some old"
  shows "rhai_get (new_handle s1 (mh_kind h) (Some ns)) s1 name =
           Inr (case lookup_mock (ms_mocks s) (mh_kind h, Some name, Some ns) of
                  None \<Rightarrow> obj | Some u \<Rightarrow> deep_merge u obj) \<and>
         rhai_get h s1 name = Inr old"
proof -
  have obj: "obj = default_kind h (default_ns h data)" and s1: "s1 = write_obj h obj s"
    using assms(3) by (auto simp: rhai_apply_def Let_def)
  have v: "valid_mock (ms_mocks s) (mh_kind h, Some name, Some ns) obj"
    using default_kind_valid [OF default_ns_fits [OF assms(2)] assms(1)] assms(4) by (simp add: obj)
  have m1: "ms_mocks s1 = upsert_in_list (ms_mocks s) (mh_kind h) obj" by (simp add: s1 write_obj_def Let_def)
  have "lookup_mock (ms_mocks s1) (mh_kind h, Some name, Some ns) =
      Some (case lookup_mock (ms_mocks s) (mh_kind h, Some name, Some ns) of None \<Rightarrow> obj | Some u \<Rightarrow> deep_merge u obj)"
    using mocks.get_put [OF v] m1 by simp
  from fresh_get [OF this] assms(5) show ?thesis by (simp add: rhai_get_def)
qed

theorem mock_read_after_apply_witness:
  "\<exists>s1. rhai_get (new_handle s1 ''ConfigMap'' (Some ''ns'')) s1 ''cm'' =
     Inr (demo_obj [(''data'', JObj [(''a'', JStr ''1''), (''b'', JStr ''2'')])]) \<and>
     rhai_get demo_handle s1 ''cm'' = Inr (demo_obj [(''data'', JObj [(''a'', JStr ''1'')])])"
proof -
  let ?d = "demo_obj [(''data'', JObj [(''b'', JStr ''2'')])]"
  let ?o = "demo_obj [(''data'', JObj [(''a'', JStr ''1'')])]"
  obtain s1 where run: "rhai_apply demo_handle ?d demo_server = (?d, s1)"
    by (simp add: rhai_apply_def Let_def demo_mock_facts)
  have k: "key_in demo_handle ?d = (mh_kind demo_handle, Some ''cm'', Some ''ns'')"
    by (simp add: demo_mock_facts)
  have f: "find_by_name_in (mh_my_mocks demo_handle) ''cm'' = Some ?o"
    by (simp add: demo_handle_def new_handle_def demo_server_def demo_obj_def has_kind_def in_ns_def find_by_name_in_def
        meta_name_def meta_str_def meta_of_def str_member_def as_string_def)
  have l: "lookup_mock (ms_mocks demo_server) (mh_kind demo_handle, Some ''cm'', Some ''ns'') = Some ?o"
    by (simp add: demo_handle_def new_handle_def demo_server_def demo_obj_def lookup_mock_def is_mock_def
        meta_str_def meta_of_def str_member_def as_string_def)
  have "deep_merge ?o ?d = demo_obj [(''data'', JObj [(''a'', JStr ''1''), (''b'', JStr ''2'')])]"
    by (simp add: demo_obj_def)
  with mock_read_after_apply [OF demo_mock_facts(1,4) run k f] l show ?thesis
    by (auto simp: demo_mock_facts(2))
qed

text \<open>\<open>replace\<close> does not replace: a member of the stored object that the new one does not have is
  still there afterwards.\<close>

theorem mock_replace_merges:
  assumes "list_all json_wf (ms_mocks s)" and "fits h (JObj m)"
    and "lookup_mock (ms_mocks s) (key_in h (default_kind h (JObj m))) = Some (JObj u)"
    and "obj_get u x = Some v" and "obj_get m x = None" and "x \<noteq> ''kind''"
  shows "\<exists>w. lookup_mock (ms_mocks (snd (rhai_replace h (JObj m) s))) (key_in h (default_kind h (JObj m))) = Some (JObj w) \<and>
             obj_get w x = Some v"
proof -
  let ?obj = "default_kind h (JObj m)"
  let ?k = "key_in h ?obj"
  have k: "fst ?k = mh_kind h" by (simp add: key_in_def split: option.splits)
  have va: "valid_mock (ms_mocks s) ?k ?obj" by (rule default_kind_valid [OF assms(2,1)])
  obtain m' where o: "?obj = JObj m'" and m': "obj_get m' x = None"
    using assms(5,6) by (cases "obj_get m ''kind''") (auto simp: default_kind_def)
  have d: "distinct (map fst m')" using va by (simp add: valid_mock_def o obj_wf_def)
  have "ms_mocks (snd (rhai_replace h (JObj m) s)) = upsert_in_list (ms_mocks s) (fst ?k) ?obj"
    by (simp add: rhai_replace_def write_obj_def Let_def k)
  with mocks.get_put [OF va] assms(3)
  have "lookup_mock (ms_mocks (snd (rhai_replace h (JObj m) s))) ?k = Some (deep_merge (JObj u) ?obj)" by simp
  with o merge_members_get [OF d, of u x] m' assms(4) show ?thesis by simp
qed

theorem mock_replace_merges_witness:
  "\<exists>w. lookup_mock (ms_mocks (snd (rhai_replace demo_handle (demo_obj []) demo_server)))
         (''ConfigMap'', Some ''cm'', Some ''ns'') = Some (JObj w) \<and> obj_get w ''data'' = Some (JObj [(''a'', JStr ''1'')])"
proof -
  let ?m = "[(''kind'', JStr ''ConfigMap''), (''metadata'', JObj [(''name'', JStr ''cm''), (''namespace'', JStr ''ns'')])]"
  have d: "demo_obj [] = JObj ?m" by (simp add: demo_obj_def)
  have f: "fits demo_handle (JObj ?m)"
    by (simp add: fits_def obj_wf_def demo_mock_facts)
  have k: "key_in demo_handle (default_kind demo_handle (JObj ?m)) = (''ConfigMap'', Some ''cm'', Some ''ns'')"
    by (simp add: default_kind_def key_in_def demo_mock_facts meta_str_def meta_of_def str_member_def as_string_def)
  have l: "lookup_mock (ms_mocks demo_server) (''ConfigMap'', Some ''cm'', Some ''ns'') =
      Some (demo_obj [(''data'', JObj [(''a'', JStr ''1'')])])"
    by (simp add: demo_server_def demo_obj_def lookup_mock_def is_mock_def
        meta_str_def meta_of_def str_member_def as_string_def)
  obtain u where u: "demo_obj [(''data'', JObj [(''a'', JStr ''1'')])] = JObj u" "obj_get u ''data'' = Some (JObj [(''a'', JStr ''1'')])"
    by (simp add: demo_obj_def)
  from mock_replace_merges [OF demo_mock_facts(1) f, of u "''data''" "JObj [(''a'', JStr ''1'')]"] k l u
  show ?thesis by (simp add: d)
qed

end
