(* ===== verification/RhaiAst.thy ===== *)
theory RhaiAst
  imports VPrelude
begin

text \<open>
  The syntax tree of the crate \<open>rhai\<close>, as far as the script checker of \<open>agent/src/linting/rhai_checker.rs\<close>
  matches on it, and the four walks the checker does on its own: the variables used, the variables
  declared, the declarations that shadow another, and the statements that cannot be reached.
\<close>

section \<open>The tree\<close>

text \<open>
  The public constructors of \<open>Expr\<close> and \<open>Stmt\<close> with the parts the checker reads; \<open>nat option\<close> is the
  line of a position. \<open>E_Other\<close> and \<open>S_Other\<close> stand for the constructors that every match sends
  to its default arm.
\<close>

datatype expr =
    E_Variable string "nat option"
  | E_StringConstant string "nat option"
  | E_Property string
  | E_Dot expr expr
  | E_Index expr expr
  | E_FnCall string "expr list"
  | E_MethodCall string "expr list"
  | E_Array "expr list"
  | E_Map "(string \<times> expr) list"
  | E_InterpolatedString "expr list"
  | E_And "expr list"
  | E_Or "expr list"
  | E_Coalesce "expr list"
  | E_Stmt "stmt list"
  | E_Other
and stmt =
    S_Var string expr "nat option"              \<comment> \<open>name, initial value\<close>
  | S_Expr expr
  | S_Return "expr option"                      \<comment> \<open>\<open>return\<close> and \<open>throw\<close>\<close>
  | S_BreakLoop
  | S_If expr "stmt list" "stmt list"
  | S_While expr "stmt list"
  | S_Do expr "stmt list"
  | S_For string expr "stmt list"               \<comment> \<open>variable, iterated value, body\<close>
  | S_Block "stmt list"
  | S_TryCatch expr "stmt list" "stmt list" "nat option"   \<comment> \<open>catch variable, body, handler\<close>
  | S_Assignment expr expr
  | S_FnCall string "expr list"
  | S_Import expr
  | S_Other

record fn_def =
  fd_name :: string
  fd_params :: "string list"
  fd_body :: "stmt list"
  fd_line :: "nat option"

record ast =
  ast_stmts :: "stmt list"
  ast_fns :: "fn_def list"

section \<open>The variables used\<close>

text \<open>
  The operands of \<open>&&\<close>, \<open>||\<close> and \<open>??\<close> are indexed with 0 and 1; the parser builds no shorter list.
\<close>

fun collect_used_vars_expr :: "expr \<Rightarrow> string set"
  and collect_used_exprs :: "expr list \<Rightarrow> string set"
  and collect_used_pairs :: "(string \<times> expr) list \<Rightarrow> string set"
  and collect_used_two :: "expr list \<Rightarrow> string set"
  and collect_used_vars_stmts :: "stmt list \<Rightarrow> string set"
  and collect_used_vars_stmt :: "stmt \<Rightarrow> string set" where
  "collect_used_vars_expr (E_Variable name l) = {name}"
| "collect_used_vars_expr (E_Dot a b) = collect_used_vars_expr a \<union> collect_used_vars_expr b"
| "collect_used_vars_expr (E_Index a b) = collect_used_vars_expr a \<union> collect_used_vars_expr b"
| "collect_used_vars_expr (E_FnCall f args) = collect_used_exprs args"
| "collect_used_vars_expr (E_MethodCall f args) = collect_used_exprs args"
| "collect_used_vars_expr (E_Array items) = collect_used_exprs items"
| "collect_used_vars_expr (E_Map pairs) = collect_used_pairs pairs"
| "collect_used_vars_expr (E_InterpolatedString parts) = collect_used_exprs parts"
| "collect_used_vars_expr (E_And data) = collect_used_two data"
| "collect_used_vars_expr (E_Or data) = collect_used_two data"
| "collect_used_vars_expr (E_Coalesce data) = collect_used_two data"
| "collect_used_vars_expr (E_Stmt block) = collect_used_vars_stmts block"
| "collect_used_vars_expr (E_StringConstant s l) = {}"
| "collect_used_vars_expr (E_Property p) = {}"
| "collect_used_vars_expr E_Other = {}"
| "collect_used_exprs [] = {}"
| "collect_used_exprs (e # es) = collect_used_vars_expr e \<union> collect_used_exprs es"
| "collect_used_pairs [] = {}"
| "collect_used_pairs ((k, e) # ps) = collect_used_vars_expr e \<union> collect_used_pairs ps"
| "collect_used_two [] = {}"
| "collect_used_two [e] = {}"
| "collect_used_two (a # b # rest) = collect_used_vars_expr a \<union> collect_used_vars_expr b"
| "collect_used_vars_stmts [] = {}"
| "collect_used_vars_stmts (s # ss) = collect_used_vars_stmt s \<union> collect_used_vars_stmts ss"
| "collect_used_vars_stmt (S_Var name init l) = collect_used_vars_expr init"
| "collect_used_vars_stmt (S_Expr e) = collect_used_vars_expr e"
| "collect_used_vars_stmt (S_Return (Some e)) = collect_used_vars_expr e"
| "collect_used_vars_stmt (S_Return None) = {}"
| "collect_used_vars_stmt (S_If c body branch) =
     collect_used_vars_expr c \<union> collect_used_vars_stmts body \<union> collect_used_vars_stmts branch"
| "collect_used_vars_stmt (S_While c body) = collect_used_vars_expr c \<union> collect_used_vars_stmts body"
| "collect_used_vars_stmt (S_Do c body) = collect_used_vars_expr c \<union> collect_used_vars_stmts body"
| "collect_used_vars_stmt (S_For x c body) = collect_used_vars_expr c \<union> collect_used_vars_stmts body"
| "collect_used_vars_stmt (S_Block block) = collect_used_vars_stmts block"
| "collect_used_vars_stmt (S_TryCatch v body branch l) =
     collect_used_vars_stmts body \<union> collect_used_vars_stmts branch"
| "collect_used_vars_stmt (S_Assignment lhs rhs) = collect_used_vars_expr lhs \<union> collect_used_vars_expr rhs"
| "collect_used_vars_stmt (S_FnCall f args) = collect_used_exprs args"
| "collect_used_vars_stmt S_BreakLoop = {}"
| "collect_used_vars_stmt (S_Import e) = {}"
| "collect_used_vars_stmt S_Other = {}"

section \<open>The variables declared\<close>

definition catch_var :: "expr \<Rightarrow> string set" where
  "catch_var e = (case e of E_Variable name _ \<Rightarrow> {name} | _ \<Rightarrow> {})"

fun collect_declared_vars_stmts :: "stmt list \<Rightarrow> string set"
  and collect_declared_vars_stmt :: "stmt \<Rightarrow> string set" where
  "collect_declared_vars_stmts [] = {}"
| "collect_declared_vars_stmts (s # ss) = collect_declared_vars_stmt s \<union> collect_declared_vars_stmts ss"
| "collect_declared_vars_stmt (S_Var name init l) = {name}"
| "collect_declared_vars_stmt (S_Block block) = collect_declared_vars_stmts block"
| "collect_declared_vars_stmt (S_If c body branch) =
     collect_declared_vars_stmts body \<union> collect_declared_vars_stmts branch"
| "collect_declared_vars_stmt (S_While c body) = collect_declared_vars_stmts body"
| "collect_declared_vars_stmt (S_Do c body) = collect_declared_vars_stmts body"
| "collect_declared_vars_stmt (S_For x c body) = {x} \<union> collect_declared_vars_stmts body"
| "collect_declared_vars_stmt (S_TryCatch v body branch l) =
     catch_var v \<union> collect_declared_vars_stmts body \<union> collect_declared_vars_stmts branch"
| "collect_declared_vars_stmt (S_Expr e) = {}"
| "collect_declared_vars_stmt (S_Return e) = {}"
| "collect_declared_vars_stmt S_BreakLoop = {}"
| "collect_declared_vars_stmt (S_Assignment a b) = {}"
| "collect_declared_vars_stmt (S_FnCall f args) = {}"
| "collect_declared_vars_stmt (S_Import e) = {}"
| "collect_declared_vars_stmt S_Other = {}"

section \<open>Shadowing\<close>

text \<open>
  \<open>check_shadowing_scoped\<close> threads a stack of scopes, the innermost last in the code and first here, and
  appends a finding for each shadowing declaration: here its name and line.
\<close>

type_synonym scopes = "string set list"

definition declare_in_top :: "string \<Rightarrow> scopes \<Rightarrow> scopes" where
  "declare_in_top name st = (case st of [] \<Rightarrow> [] | s # ss \<Rightarrow> insert name s # ss)"

definition line_or_0 :: "nat option \<Rightarrow> nat" where
  "line_or_0 l = (case l of None \<Rightarrow> 0 | Some n \<Rightarrow> n)"

fun check_shadowing_scoped :: "stmt list \<Rightarrow> scopes \<Rightarrow> (string \<times> nat) list \<times> scopes"
  and shadow_stmt :: "stmt \<Rightarrow> scopes \<Rightarrow> (string \<times> nat) list \<times> scopes" where
  "check_shadowing_scoped [] st = ([], st)"
| "check_shadowing_scoped (s # ss) st =
     (let (f1, st1) = shadow_stmt s st; (f2, st2) = check_shadowing_scoped ss st1 in (f1 @ f2, st2))"
| "shadow_stmt (S_Var name init l) st =
     (if starts_with name ''_'' then ([], st)
      else (if list_ex (\<lambda>s. name \<in> s) st then [(name, line_or_0 l)] else [], declare_in_top name st))"
| "shadow_stmt (S_Block block) st =
     (let (f, st1) = check_shadowing_scoped block ({} # st) in (f, tl st1))"
| "shadow_stmt (S_If c body branch) st =
     (let (f1, st1) = check_shadowing_scoped body ({} # st);
          (f2, st2) = check_shadowing_scoped branch ({} # tl st1)
      in (f1 @ f2, tl st2))"
| "shadow_stmt (S_While c body) st =
     (let (f, st1) = check_shadowing_scoped body ({} # st) in (f, tl st1))"
| "shadow_stmt (S_Do c body) st =
     (let (f, st1) = check_shadowing_scoped body ({} # st) in (f, tl st1))"
| "shadow_stmt (S_For x c body) st =
     (let (f, st1) = check_shadowing_scoped body ({x} # st) in (f, tl st1))"
| "shadow_stmt (S_TryCatch v body branch l) st =
     (let (f1, st1) = check_shadowing_scoped body ({} # st);
          (f2, st2) = check_shadowing_scoped branch ({} # tl st1)
      in (f1 @ f2, tl st2))"
| "shadow_stmt (S_Expr e) st = ([], st)"
| "shadow_stmt (S_Return e) st = ([], st)"
| "shadow_stmt S_BreakLoop st = ([], st)"
| "shadow_stmt (S_Assignment a b) st = ([], st)"
| "shadow_stmt (S_FnCall f args) st = ([], st)"
| "shadow_stmt (S_Import e) st = ([], st)"
| "shadow_stmt S_Other st = ([], st)"

section \<open>Dead code\<close>

definition leaves :: "stmt \<Rightarrow> bool" where
  "leaves s = (case s of S_Return _ \<Rightarrow> True | S_BreakLoop \<Rightarrow> True | _ \<Rightarrow> False)"

text \<open>The number of findings, which are all alike.\<close>

fun check_statements_for_dead_code :: "stmt list \<Rightarrow> nat"
  and dead_in_stmt :: "stmt \<Rightarrow> nat" where
  "check_statements_for_dead_code [] = 0"
| "check_statements_for_dead_code (s # ss) =
     (if leaves s then length ss else dead_in_stmt s + check_statements_for_dead_code ss)"
| "dead_in_stmt (S_Block block) = check_statements_for_dead_code block"
| "dead_in_stmt (S_If c body branch) =
     check_statements_for_dead_code body + check_statements_for_dead_code branch"
| "dead_in_stmt (S_While c body) = check_statements_for_dead_code body"
| "dead_in_stmt (S_Do c body) = check_statements_for_dead_code body"
| "dead_in_stmt (S_For x c body) = check_statements_for_dead_code body"
| "dead_in_stmt (S_TryCatch v body branch l) =
     check_statements_for_dead_code body + check_statements_for_dead_code branch"
| "dead_in_stmt (S_Var name init l) = 0"
| "dead_in_stmt (S_Expr e) = 0"
| "dead_in_stmt (S_Return e) = 0"
| "dead_in_stmt S_BreakLoop = 0"
| "dead_in_stmt (S_Assignment a b) = 0"
| "dead_in_stmt (S_FnCall f args) = 0"
| "dead_in_stmt (S_Import e) = 0"
| "dead_in_stmt S_Other = 0"

section \<open>Shadowing with environments\<close>

text \<open>
  The same check without a stack: the names visible at a statement are a set, handed down to the
  blocks inside it and forgotten after them.
\<close>

definition declares :: "stmt \<Rightarrow> string set" where
  "declares s = (case s of S_Var name _ _ \<Rightarrow> (if starts_with name ''_'' then {} else {name}) | _ \<Rightarrow> {})"

fun shadows :: "string set \<Rightarrow> stmt list \<Rightarrow> (string \<times> nat) list"
  and shadows_in :: "string set \<Rightarrow> stmt \<Rightarrow> (string \<times> nat) list" where
  "shadows vis [] = []"
| "shadows vis (s # ss) = shadows_in vis s @ shadows (vis \<union> declares s) ss"
| "shadows_in vis (S_Var name init l) =
     (if \<not> starts_with name ''_'' \<and> name \<in> vis then [(name, line_or_0 l)] else [])"
| "shadows_in vis (S_Block block) = shadows vis block"
| "shadows_in vis (S_If c body branch) = shadows vis body @ shadows vis branch"
| "shadows_in vis (S_While c body) = shadows vis body"
| "shadows_in vis (S_Do c body) = shadows vis body"
| "shadows_in vis (S_For x c body) = shadows (insert x vis) body"
| "shadows_in vis (S_TryCatch v body branch l) = shadows vis body @ shadows vis branch"
| "shadows_in vis (S_Expr e) = []"
| "shadows_in vis (S_Return e) = []"
| "shadows_in vis S_BreakLoop = []"
| "shadows_in vis (S_Assignment a b) = []"
| "shadows_in vis (S_FnCall f args) = []"
| "shadows_in vis (S_Import e) = []"
| "shadows_in vis S_Other = []"

lemma scoped_shadows:
  "st \<noteq> [] \<Longrightarrow> check_shadowing_scoped ss st =
     (shadows (\<Union> (set st)) ss, (hd st \<union> \<Union> (declares ` set ss)) # tl st)"
  "st \<noteq> [] \<Longrightarrow> shadow_stmt s st = (shadows_in (\<Union> (set st)) s, (hd st \<union> declares s) # tl st)"
proof (induction ss st and s st rule: check_shadowing_scoped_shadow_stmt.induct)
  case (2 s ss st)
  then show ?case by (cases st) (auto simp: Un_ac)
next
  case (3 name init l st)
  then show ?case by (cases st) (auto simp: declare_in_top_def declares_def list_ex_iff)
qed (auto simp: declares_def)

text \<open>The stack is left as it was found, but for the names declared in its innermost scope.\<close>

lemma scoped_stack: "st \<noteq> [] \<Longrightarrow> tl (snd (check_shadowing_scoped ss st)) = tl st"
  by (simp add: scoped_shadows)

section \<open>Reachable statements\<close>

definition blocks_of :: "stmt \<Rightarrow> stmt list list" where
  "blocks_of s =
     (case s of
        S_Block block \<Rightarrow> [block]
      | S_If c body branch \<Rightarrow> [body, branch]
      | S_While c body \<Rightarrow> [body]
      | S_Do c body \<Rightarrow> [body]
      | S_For x c body \<Rightarrow> [body]
      | S_TryCatch v body branch l \<Rightarrow> [body, branch]
      | _ \<Rightarrow> [])"

inductive nested_block :: "stmt list \<Rightarrow> stmt list \<Rightarrow> bool" for b where
  itself: "nested_block b b"
| inside: "nested_block b c \<Longrightarrow> s \<in> set c \<Longrightarrow> d \<in> set (blocks_of s) \<Longrightarrow> nested_block b d"

lemma nested_step: "nested_block c d \<Longrightarrow> s \<in> set b \<Longrightarrow> c \<in> set (blocks_of s) \<Longrightarrow> nested_block b d"
  by (induction rule: nested_block.induct) (auto intro: nested_block.intros)

lemma nested_first:
  "nested_block b c \<Longrightarrow> c = b \<or> (\<exists>s \<in> set b. \<exists>d \<in> set (blocks_of s). nested_block d c)"
  by (induction rule: nested_block.induct) (auto intro: nested_block.intros)

text \<open>A block in which nothing follows a statement that leaves it.\<close>

definition leaves_last :: "stmt list \<Rightarrow> bool" where
  "leaves_last b \<longleftrightarrow> list_all (\<lambda>s. \<not> leaves s) (butlast b)"

lemma leaves_last_Cons: "leaves_last (s # ss) \<longleftrightarrow> (ss = [] \<or> \<not> leaves s \<and> leaves_last ss)"
  by (cases ss) (auto simp: leaves_last_def)

lemma dead_stmt_zero:
  "dead_in_stmt s = 0 \<longleftrightarrow> (\<forall>d \<in> set (blocks_of s). check_statements_for_dead_code d = 0)"
  by (cases s) (auto simp: blocks_of_def)

lemma leaves_no_blocks: "leaves s \<Longrightarrow> blocks_of s = []"
  by (cases s) (auto simp: leaves_def blocks_of_def)

lemma dead_zero:
  "check_statements_for_dead_code b = 0 \<longleftrightarrow>
     leaves_last b \<and> (\<forall>s \<in> set b. \<forall>d \<in> set (blocks_of s). check_statements_for_dead_code d = 0)"
proof (induction b)
  case (Cons s ss)
  then show ?case
    by (auto simp: leaves_last_Cons leaves_no_blocks dead_stmt_zero)
qed (simp add: leaves_last_def)

lemma dead_zero_nested:
  "nested_block b c \<Longrightarrow> check_statements_for_dead_code b = 0 \<Longrightarrow> check_statements_for_dead_code c = 0"
proof (induction rule: nested_block.induct)
  case (inside c s d)
  then show ?case using dead_zero [of c] by blast
qed

lemma nested_live:
  "(\<forall>c. nested_block b c \<longrightarrow> leaves_last c) \<Longrightarrow> check_statements_for_dead_code b = 0"
  "(\<forall>d \<in> set (blocks_of s). \<forall>c. nested_block d c \<longrightarrow> leaves_last c) \<Longrightarrow> dead_in_stmt s = 0"
proof (induction b and s rule: check_statements_for_dead_code_dead_in_stmt.induct)
  case (2 s ss)
  have "leaves_last (s # ss)" using 2(3) nested_block.itself by blast
  moreover have "\<forall>d \<in> set (blocks_of t). \<forall>c. nested_block d c \<longrightarrow> leaves_last c" if "t \<in> set (s # ss)" for t
    using 2(3) nested_step that by blast
  moreover have "\<forall>c. nested_block ss c \<longrightarrow> leaves_last c" if "leaves_last ss"
    using nested_first calculation(2) that by (metis list.set_intros(2))
  ultimately show ?case
    using 2(1,2) by (cases "ss = []") (auto simp: leaves_last_Cons)
qed (auto simp: blocks_of_def)

end
