(* ===== verification/Paths.thy ===== *)
theory Paths
  imports VPrelude
begin

text \<open>
  The operations of \<open>std::path::Path\<close> that the linter and the file cache use, on paths written as
  strings with slashes.
\<close>

definition path_join :: "string \<Rightarrow> string \<Rightarrow> string" where
  "path_join base p =
     (if starts_with p ''/'' then p
      else if base = [] \<or> last base = CHR ''/'' then base @ p
      else base @ ''/'' @ p)"

definition components :: "string \<Rightarrow> string list" where
  "components p = filter (\<lambda>c. c \<noteq> [] \<and> c \<noteq> ''.'') (split_on (CHR ''/'') p)"

definition file_name :: "string \<Rightarrow> string option" where
  "file_name p =
     (let cs = components p in if cs = [] \<or> last cs = ''..'' then None else Some (last cs))"

text \<open>The name before its last dot and the part after it; a leading dot alone does not count.\<close>

definition split_name :: "string \<Rightarrow> string \<times> string option" where
  "split_name name =
     (if CHR ''.'' \<notin> set name then (name, None)
      else
        (let after = rev (takeWhile (\<lambda>c. c \<noteq> CHR ''.'') (rev name));
             before = take (length name - length after - 1) name
         in if before = [] then (name, None) else (before, Some after)))"

definition file_stem :: "string \<Rightarrow> string option" where
  "file_stem p = map_option (\<lambda>n. fst (split_name n)) (file_name p)"

definition extension :: "string \<Rightarrow> string option" where
  "extension p = (case file_name p of None \<Rightarrow> None | Some n \<Rightarrow> snd (split_name n))"

text \<open>Two files of one directory are different files when their names are.\<close>

lemma path_join_inj:
  assumes "\<not> starts_with a ''/''" "\<not> starts_with b ''/''"
  shows "path_join d a = path_join d b \<longleftrightarrow> a = b"
  using assms by (simp add: path_join_def)

section \<open>Directories\<close>

text \<open>A file that cannot be read as text is \<open>F_File None\<close>; a directory that cannot be read has no entry.\<close>

datatype fs_entry = F_File "string option" | F_Dir "(string \<times> fs_entry) list"

type_synonym entries = "(string \<times> fs_entry) list"

end
