(* ===== verification/Lint.thy ===== *)
theory Lint
  imports Paths
begin

text \<open>
  The configuration of the package linter (\<open>agent/src/linting/config.rs\<close>) and its findings
  (\<open>agent/src/linting/mod.rs\<close>): the level of a rule on a file, the comments of a source that turn rules off, and
  the report. The checkers themselves parse Rhai and Handlebars with other libraries and are not here. The
  glob matcher (\<open>wildmatch\<close>) is a parameter.
\<close>

section \<open>Levels and findings\<close>

datatype lint_level = Info | Warn | Error

fun level_rank :: "lint_level \<Rightarrow> nat" where
  "level_rank Info = 0"
| "level_rank Warn = 1"
| "level_rank Error = 2"

lemma level_rank_inj: "level_rank a = level_rank b \<Longrightarrow> a = b"
  by (cases a; cases b) auto

text \<open>The derived order is the order of declaration.\<close>

instantiation lint_level :: linorder
begin

definition less_eq_lint_level :: "lint_level \<Rightarrow> lint_level \<Rightarrow> bool" where
  "less_eq_lint_level a b \<longleftrightarrow> level_rank a \<le> level_rank b"

definition less_lint_level :: "lint_level \<Rightarrow> lint_level \<Rightarrow> bool" where
  "less_lint_level a b \<longleftrightarrow> level_rank a < level_rank b"

instance
  by standard (auto simp: less_eq_lint_level_def less_lint_level_def intro: level_rank_inj)

end

fun level_show :: "lint_level \<Rightarrow> string" where
  "level_show Error = ''ERROR''"
| "level_show Warn = ''WARN''"
| "level_show Info = ''INFO''"

text \<open>No character outside ASCII has one of these letters as its lower case.\<close>

definition level_from_str :: "string \<Rightarrow> string + lint_level" where
  "level_from_str s =
     (let l = map ascii_lower s
      in if l = ''error'' then Inr Error
         else if l = ''warn'' then Inr Warn
         else if l = ''info'' then Inr Info
         else Inl (''Unknown lint level: '' @ s))"

record lint_finding =
  lf_rule :: string
  lf_level :: lint_level
  lf_file :: string
  lf_line :: "nat option"
  lf_message :: string

type_synonym collector = "lint_finding list"

definition collector_add :: "collector \<Rightarrow> lint_finding \<Rightarrow> collector" where
  "collector_add findings finding = findings @ [finding]"

definition has_errors :: "collector \<Rightarrow> bool" where
  "has_errors findings \<longleftrightarrow> list_ex (\<lambda>f. lf_level f = Error) findings"

definition prefix_files :: "collector \<Rightarrow> string \<Rightarrow> collector" where
  "prefix_files findings base =
     map (\<lambda>f. if starts_with (lf_file f) ''/'' then f
              else f\<lparr>lf_file := path_join base (lf_file f)\<rparr>) findings"

definition level_count :: "lint_level \<Rightarrow> collector \<Rightarrow> nat" where
  "level_count l findings = length (filter (\<lambda>f. lf_level f = l) findings)"

text \<open>
  \<open>{:<5}\<close> has no effect: the \<open>Display\<close> of the level writes to the formatter directly, so a shorter
  level is not padded.
\<close>

definition finding_text :: "lint_finding \<Rightarrow> string" where
  "finding_text f =
     ''['' @ level_show (lf_level f) @ ''] '' @ lf_rule f @ ''  '' @
     (case lf_line f of Some l \<Rightarrow> lf_file f @ '':'' @ dec l | None \<Rightarrow> lf_file f) @ [CHR 0x0A] @
     ''        '' @ lf_message f @ [CHR 0x0A] @ [CHR 0x0A]"

definition to_text :: "collector \<Rightarrow> lint_level \<Rightarrow> string" where
  "to_text findings level_filter =
     concat (map finding_text (filter (\<lambda>f. level_filter \<le> lf_level f) findings)) @
     (let error_count = level_count Error findings; warn_count = level_count Warn findings
      in ''R'' @ [CHR 0xC3, CHR 0xA9] @ ''sultat : '' @ dec error_count @ '' erreur'' @
         (if error_count \<noteq> 1 then ''s'' else '''') @ '', '' @ dec warn_count @ '' warning'')"

section \<open>The level of a rule on a file\<close>

record file_rule =
  fr_glob :: string
  fr_disable :: "string list"
  fr_override :: "string \<rightharpoonup> lint_level"

record lint_config =
  lc_disable :: "string list"
  lc_override :: "string \<rightharpoonup> lint_level"
  lc_files :: "file_rule list"

definition default_config :: lint_config where
  "default_config = \<lparr>lc_disable = [], lc_override = Map.empty, lc_files = []\<rparr>"

fun apply_file_rules ::
  "(string \<Rightarrow> string \<Rightarrow> bool) \<Rightarrow> string \<Rightarrow> string \<Rightarrow> file_rule list \<Rightarrow> lint_level \<Rightarrow> lint_level option" where
  "apply_file_rules glob rul file [] level = Some level"
| "apply_file_rules glob rul file (r # rs) level =
     (if glob (fr_glob r) file
      then (if rul \<in> set (fr_disable r) then None
            else (case fr_override r rul of Some l \<Rightarrow> Some l | None \<Rightarrow> Some level))
      else apply_file_rules glob rul file rs level)"

definition resolve_level ::
  "(string \<Rightarrow> string \<Rightarrow> bool) \<Rightarrow> lint_config \<Rightarrow> string \<Rightarrow> string \<Rightarrow> lint_level \<Rightarrow> string set \<Rightarrow> lint_level option" where
  "resolve_level glob cfg rul file default_level inline_disabled =
     (if rul \<in> inline_disabled then None
      else if rul \<in> set (lc_disable cfg) then None
      else
        (let level = (case lc_override cfg rul of Some l \<Rightarrow> l | None \<Rightarrow> default_level)
         in apply_file_rules glob rul file (lc_files cfg) level))"

type_synonym glob = "string \<Rightarrow> string \<Rightarrow> bool"

definition finding :: "string \<Rightarrow> lint_level \<Rightarrow> string \<Rightarrow> nat option \<Rightarrow> string \<Rightarrow> lint_finding" where
  "finding rul level file line msg =
     \<lparr>lf_rule = rul, lf_level = level, lf_file = file, lf_line = line, lf_message = msg\<rparr>"

text \<open>A finding at the level the configuration gives its rule, or none.\<close>

definition configured ::
  "glob \<Rightarrow> lint_config \<Rightarrow> string \<Rightarrow> lint_level \<Rightarrow> string set \<Rightarrow> string \<Rightarrow> nat option \<Rightarrow> string \<Rightarrow> lint_finding list" where
  "configured glob cfg rul level off file line msg =
     (case resolve_level glob cfg rul file level off of
        None \<Rightarrow> [] | Some l \<Rightarrow> [finding rul l file line msg])"

lemma configured_rule: "f \<in> set (configured glob cfg rul level off file line msg) \<Longrightarrow> lf_rule f = rul"
  by (auto simp: configured_def finding_def split: option.splits)

lemma finding_fields [simp]:
  "lf_rule (finding rul level file line msg) = rul" "lf_level (finding rul level file line msg) = level"
  "lf_file (finding rul level file line msg) = file" "lf_message (finding rul level file line msg) = msg"
  by (simp_all add: finding_def)

lemma configured_fields:
  "f \<in> set (configured glob cfg rul level off file line msg) \<longleftrightarrow>
     (\<exists>l. resolve_level glob cfg rul file level off = Some l \<and> f = finding rul l file line msg)"
  by (cases "resolve_level glob cfg rul file level off") (auto simp: configured_def)

section \<open>The comments that turn rules off\<close>

definition or_else :: "'a option \<Rightarrow> 'a option \<Rightarrow> 'a option" where
  "or_else a b = (case a of Some x \<Rightarrow> Some x | None \<Rightarrow> b)"

definition extract_block_disable :: "string \<Rightarrow> string option" where
  "extract_block_disable trimmed =
     or_else (strip_prefix trimmed ''// vynil-lint-disable'')
       (or_else (strip_prefix trimmed ''{{!-- vynil-lint-disable'')
         (strip_prefix trimmed ''# vynil-lint-disable''))"

definition extract_block_enable :: "string \<Rightarrow> string option" where
  "extract_block_enable trimmed =
     or_else (strip_prefix trimmed ''// vynil-lint-enable'')
       (or_else (strip_prefix trimmed ''{{!-- vynil-lint-enable'')
         (strip_prefix trimmed ''# vynil-lint-enable''))"

definition rule_token :: "string \<Rightarrow> string" where
  "rule_token part =
     trim (trim_end_matches (trim_end_matches (first_token part) ''--}}'') ''*/'')"

fun parse_rule_parts :: "string list \<Rightarrow> string set" where
  "parse_rule_parts [] = {}"
| "parse_rule_parts (part # parts) =
     (let token = rule_token part
      in if token = [] then parse_rule_parts parts
         else if contains token ''/'' then insert token (parse_rule_parts parts)
         else {})"

definition parse_rules :: "string \<Rightarrow> string set" where
  "parse_rules s = parse_rule_parts (split_on (CHR '','') s)"

text \<open>The rules a comment after the code of a line turns off, by its marker and the marker's length.\<close>

definition rules_after :: "string \<Rightarrow> string \<Rightarrow> nat \<Rightarrow> string set" where
  "rules_after line marker len =
     (case find_sub line marker of None \<Rightarrow> {} | Some pos \<Rightarrow> parse_rules (drop (pos + len) line))"

definition inline_rules :: "string \<Rightarrow> string set" where
  "inline_rules line =
     (let rhai = rules_after line ''// vynil-lint-disable'' 21
      in if rhai \<noteq> {} then rhai
         else
           (let hbs = rules_after line ''{{!-- vynil-lint-disable'' 24
            in if hbs \<noteq> {} then hbs else rules_after line ''# vynil-lint-disable'' 20))"

type_synonym disables = "nat \<rightharpoonup> string set"

definition extend_entry :: "nat \<Rightarrow> string set \<Rightarrow> disables \<Rightarrow> disables" where
  "extend_entry n rs m =
     (if rs = {} then m else m(n \<mapsto> (case m n of Some old \<Rightarrow> old | None \<Rightarrow> {}) \<union> rs))"

fun disables_loop :: "nat \<Rightarrow> string list \<Rightarrow> string set \<Rightarrow> disables \<Rightarrow> disables" where
  "disables_loop n [] active result = result"
| "disables_loop n (line # ls) active result =
     (case extract_block_disable (trim line) of
        Some rest \<Rightarrow> disables_loop (n + 1) ls (active \<union> parse_rules rest) result
      | None \<Rightarrow>
        (case extract_block_enable (trim line) of
           Some rest \<Rightarrow> disables_loop (n + 1) ls (active - parse_rules rest) result
         | None \<Rightarrow>
             disables_loop (n + 1) ls active
               (extend_entry n (inline_rules line) (extend_entry n active result))))"

definition parse_inline_disables :: "string \<Rightarrow> disables" where
  "parse_inline_disables source = disables_loop 1 (lines source) {} Map.empty"

section \<open>The line of each key of a section\<close>

text \<open>The file is \<open>None\<close> when it cannot be read; the keys are found line by line, a later one replaces.\<close>

fun key_lines ::
  "string \<Rightarrow> nat \<Rightarrow> string list \<Rightarrow> nat option \<Rightarrow> nat option \<Rightarrow> (string \<rightharpoonup> nat) \<Rightarrow> (string \<rightharpoonup> nat)" where
  "key_lines header n [] section_indent key_indent m = m"
| "key_lines header n (line # ls) section_indent key_indent m =
     (let trimmed = trim_start line; indent = length line - length trimmed
      in if trimmed = [] \<or> starts_with trimmed ''#'' then key_lines header (n + 1) ls section_indent key_indent m
         else
           (case section_indent of
              None \<Rightarrow>
                (if trimmed = header \<or> starts_with trimmed (header @ '' '')
                 then key_lines header (n + 1) ls (Some indent) key_indent m
                 else key_lines header (n + 1) ls None key_indent m)
            | Some sec_indent \<Rightarrow>
                (if indent \<le> sec_indent then m
                 else
                   (let ki = (case key_indent of None \<Rightarrow> indent | Some k \<Rightarrow> k);
                        key = trim (hd (split_on (CHR '':'') trimmed))
                    in key_lines header (n + 1) ls section_indent (Some ki)
                         (if indent = ki \<and> key \<noteq> [] then m(key \<mapsto> n) else m)))))"

definition find_section_key_line_numbers :: "string option \<Rightarrow> string \<Rightarrow> (string \<rightharpoonup> nat)" where
  "find_section_key_line_numbers content sect =
     (case content of None \<Rightarrow> Map.empty
      | Some c \<Rightarrow> key_lines (sect @ '':'') 1 (lines c) None None Map.empty)"

definition find_option_line_numbers :: "string option \<Rightarrow> (string \<rightharpoonup> nat)" where
  "find_option_line_numbers content = find_section_key_line_numbers content ''options''"

section \<open>What the loops compute\<close>

text \<open>What a line does to the rules, apart from the loop that reads it.\<close>

definition turns_off :: "string \<Rightarrow> string set" where
  "turns_off line = (case extract_block_disable (trim line) of Some rest \<Rightarrow> parse_rules rest | None \<Rightarrow> {})"

definition turns_on :: "string \<Rightarrow> string set" where
  "turns_on line =
     (if extract_block_disable (trim line) \<noteq> None then {}
      else (case extract_block_enable (trim line) of Some rest \<Rightarrow> parse_rules rest | None \<Rightarrow> {}))"

definition code_line :: "string \<Rightarrow> bool" where
  "code_line line \<longleftrightarrow>
     extract_block_disable (trim line) = None \<and> extract_block_enable (trim line) = None"

definition disabled_at :: "disables \<Rightarrow> nat \<Rightarrow> string set" where
  "disabled_at m n = (case m n of None \<Rightarrow> {} | Some rs \<Rightarrow> rs)"

lemma disabled_at_empty [simp]: "disabled_at Map.empty n = {}"
  by (simp add: disabled_at_def)

definition active_after :: "string set \<Rightarrow> string list \<Rightarrow> string set" where
  "active_after active ls = fold (\<lambda>line a. (a \<union> turns_off line) - turns_on line) ls active"

lemma active_after_Nil [simp]: "active_after a [] = a"
  by (simp add: active_after_def)

lemma active_after_Cons [simp]:
  "active_after a (l # ls) = active_after ((a \<union> turns_off l) - turns_on l) ls"
  by (simp add: active_after_def)

lemma active_after_snoc:
  "active_after a (ls @ [l]) = (active_after a ls \<union> turns_off l) - turns_on l"
  by (simp add: active_after_def)

lemma turns_off_not_on: "r \<in> turns_off line \<Longrightarrow> r \<notin> turns_on line"
  by (auto simp: turns_off_def turns_on_def split: option.splits)

lemma disabled_at_extend:
  "disabled_at (extend_entry n rs m) k = disabled_at m k \<union> (if k = n then rs else {})"
  by (auto simp: extend_entry_def disabled_at_def split: option.splits if_splits)

lemma disables_loop_step:
  "disables_loop n (line # ls) active m =
     disables_loop (n + 1) ls ((active \<union> turns_off line) - turns_on line)
       (if code_line line then extend_entry n (inline_rules line) (extend_entry n active m) else m)"
  by (auto simp: turns_off_def turns_on_def code_line_def split: option.splits)

lemma disables_loop_spec:
  "disabled_at (disables_loop n ls active m) k =
     disabled_at m k \<union>
     (if n \<le> k \<and> k < n + length ls \<and> code_line (ls ! (k - n))
      then active_after active (take (k - n) ls) \<union> inline_rules (ls ! (k - n)) else {})"
proof (induction ls arbitrary: n active m)
  case (Cons line ls)
  show ?case
  proof (cases "k = n")
    case True
    then show ?thesis
      unfolding disables_loop_step Cons.IH by (auto simp: disabled_at_extend)
  next
    case False
    show ?thesis
    proof (cases "n < k")
      case True
      then have "k - n = Suc (k - Suc n)" by simp
      with True False show ?thesis
        unfolding disables_loop_step Cons.IH by (auto simp: disabled_at_extend)
    next
      case no: False
      with False show ?thesis
        unfolding disables_loop_step Cons.IH by (auto simp: disabled_at_extend)
    qed
  qed
qed auto

lemma active_after_spec:
  "r \<in> active_after {} ls \<longleftrightarrow>
     (\<exists>k < length ls. r \<in> turns_off (ls ! k) \<and> (\<forall>j. k < j \<longrightarrow> j < length ls \<longrightarrow> r \<notin> turns_on (ls ! j)))"
proof (induction ls rule: rev_induct)
  case (snoc l ls)
  show ?case
  proof (cases "r \<in> turns_off l")
    case True
    then show ?thesis
      by (auto simp: active_after_snoc turns_off_not_on intro!: exI [of _ "length ls"])
  next
    case False
    then show ?thesis
      by (auto simp: active_after_snoc snoc nth_append less_Suc_eq)
  qed
qed simp

section \<open>Properties\<close>

text \<open>The comments of a source turn a rule off exactly where they say: on a line that is not itself
  a directive, the rule is off if a comment after the code of the line names it, or if an earlier directive
  turned it off and none between the two turned it on again. Directive lines have no entry.\<close>

theorem inline_disables_ranges:
  "r \<in> disabled_at (parse_inline_disables source) (n + 1) \<longleftrightarrow>
     n < length (lines source) \<and> code_line (lines source ! n) \<and>
     (r \<in> inline_rules (lines source ! n) \<or>
      (\<exists>k < n. r \<in> turns_off (lines source ! k) \<and>
        (\<forall>j. k < j \<longrightarrow> j < n \<longrightarrow> r \<notin> turns_on (lines source ! j))))"
  by (auto simp: parse_inline_disables_def disables_loop_spec active_after_spec)

theorem inline_disables_ranges_witness:
  "''hbs/x'' \<in> disabled_at
     (parse_inline_disables (''# vynil-lint-disable hbs/x, old ones'' @ [CHR 0x0A] @ ''{{x}}'')) (1 + 1)"
proof (rule iffD2 [OF inline_disables_ranges], intro conjI disjI2 exI [of _ 0] allI impI)
  let ?ls = "lines (''# vynil-lint-disable hbs/x, old ones'' @ [CHR 0x0A] @ ''{{x}}'')"
  show "1 < length ?ls" by code_simp
  show "code_line (?ls ! 1)" by code_simp
  show "''hbs/x'' \<in> turns_off (?ls ! 0)" by code_simp
qed auto

text \<open>The level of a rule is decided by the first file rule whose glob matches, whatever rules follow:
  a rule turned off inline, globally or there is reported at no level, and otherwise the level there comes
  before the global one, which comes before the default.\<close>

theorem resolve_level_precedence:
  assumes "lc_files cfg = before @ fr # rest"
    and "\<And>x. x \<in> set before \<Longrightarrow> \<not> glob (fr_glob x) file" and "glob (fr_glob fr) file"
  shows "resolve_level glob cfg rul file dflt off =
    (if rul \<in> off \<union> set (lc_disable cfg) \<union> set (fr_disable fr) then None
     else Some (case fr_override fr rul of Some l \<Rightarrow> l
                | None \<Rightarrow> (case lc_override cfg rul of Some l \<Rightarrow> l | None \<Rightarrow> dflt)))"
proof -
  have "apply_file_rules glob rul file (before @ fr # rest) l = apply_file_rules glob rul file (fr # rest) l" for l
    using assms(2) by (induction before) auto
  then show ?thesis
    by (auto simp: resolve_level_def assms(1,3) Let_def split: option.splits)
qed

theorem resolve_level_precedence_witness:
  "resolve_level (\<lambda>g f. starts_with f g)
     \<lparr>lc_disable = [], lc_override = [''hbs/x'' \<mapsto> Error],
      lc_files = [\<lparr>fr_glob = ''a/'', fr_disable = [''hbs/x''], fr_override = Map.empty\<rparr>,
                  \<lparr>fr_glob = ''b/'', fr_disable = [], fr_override = [''hbs/x'' \<mapsto> Info]\<rparr>,
                  \<lparr>fr_glob = [], fr_disable = [''hbs/x''], fr_override = Map.empty\<rparr>]\<rparr>
     ''hbs/x'' ''b/c.hbs'' Warn {} = Some Info"
  by (subst resolve_level_precedence
      [where before = "[\<lparr>fr_glob = ''a/'', fr_disable = [''hbs/x''], fr_override = Map.empty\<rparr>]"
        and fr = "\<lparr>fr_glob = ''b/'', fr_disable = [], fr_override = [''hbs/x'' \<mapsto> Info]\<rparr>"])
    (auto simp: starts_with_def)

definition line_indent :: "string \<Rightarrow> nat" where
  "line_indent line = length line - length (trim_start line)"

definition line_key :: "string \<Rightarrow> string" where
  "line_key line = trim (hd (split_on (CHR '':'') (trim_start line)))"

definition opens_section :: "string \<Rightarrow> string \<Rightarrow> bool" where
  "opens_section header line \<longleftrightarrow> trim_start line = header \<or> starts_with (trim_start line) (header @ '' '')"

lemma key_lines_inside_step:
  "key_lines header n (l # ls) (Some si) ki m =
     (if trim_start l = [] \<or> starts_with (trim_start l) ''#'' then key_lines header (n + 1) ls (Some si) ki m
      else if line_indent l \<le> si then m
      else (let ki' = (case ki of None \<Rightarrow> line_indent l | Some k \<Rightarrow> k)
            in key_lines header (n + 1) ls (Some si) (Some ki')
                 (if line_indent l = ki' \<and> line_key l \<noteq> [] then m(line_key l \<mapsto> n) else m)))"
  by (cases ki) (simp_all add: Let_def line_indent_def line_key_def)

lemma key_lines_inside:
  assumes "key_lines header n ls (Some si) ki m key = Some i" "m key \<noteq> Some i"
  shows "n \<le> i \<and> i < n + length ls \<and> line_key (ls ! (i - n)) = key \<and> si < line_indent (ls ! (i - n))"
  using assms
proof (induction ls arbitrary: n ki m)
  case (Cons l ls)
  let ?m = "\<lambda>ki'. if line_indent l = ki' \<and> line_key l \<noteq> [] then m(line_key l \<mapsto> n) else m"
  consider (skip) "key_lines header (n + 1) ls (Some si) ki m key = Some i"
    | (stop) "m key = Some i"
    | (look) ki' where "key_lines header (n + 1) ls (Some si) (Some ki') (?m ki') key = Some i" "si < line_indent l"
    using Cons.prems(1) 
    by (simp only: key_lines_inside_step Let_def split: if_splits)
  then show ?case
  proof cases
    case skip
    from Cons.IH [OF this Cons.prems(2)] show ?thesis by (auto simp: nth_Cons')
  next
    case stop
    with Cons.prems(2) show ?thesis by simp
  next
    case (look ki')
    show ?thesis
    proof (cases "?m ki' key = Some i")
      case True
      with Cons.prems(2) look(2) show ?thesis by (auto split: if_splits)
    next
      case False
      from Cons.IH [OF look(1) False] show ?thesis by (auto simp: nth_Cons')
    qed
  qed
qed simp

lemma key_lines_outside:
  assumes "key_lines header n ls None None Map.empty key = Some i"
  shows "\<exists>h < i - n. n + h < i \<and> i < n + length ls \<and> opens_section header (ls ! h) \<and>
    line_key (ls ! (i - n)) = key \<and> line_indent (ls ! h) < line_indent (ls ! (i - n))"
  using assms
proof (induction ls arbitrary: n)
  case (Cons l ls)
  consider (skip) "key_lines header (n + 1) ls None None Map.empty key = Some i"
    | (sect) "key_lines header (n + 1) ls (Some (line_indent l)) None Map.empty key = Some i" "opens_section header l"
    using Cons.prems by (auto simp: Let_def line_indent_def opens_section_def split: if_splits)
  then show ?case
  proof cases
    case skip
    from Cons.IH [OF this] obtain h where h: "h < i - (n + 1)" "i < n + 1 + length ls" "opens_section header (ls ! h)"
      "line_key (ls ! (i - (n + 1))) = key" "line_indent (ls ! h) < line_indent (ls ! (i - (n + 1)))" by auto
    then have "i - n = Suc (i - (n + 1))" by simp
    with h show ?thesis by (intro exI [of _ "Suc h"]) auto
  next
    case sect
    from key_lines_inside [OF sect(1)] have in_ls: "n + 1 \<le> i" "i < n + 1 + length ls" "line_key (ls ! (i - (n + 1))) = key"
      "line_indent l < line_indent (ls ! (i - (n + 1)))" by auto
    then have "i - n = Suc (i - (n + 1))" by simp
    with in_ls sect(2) show ?thesis by (intro exI [of _ 0]) auto
  qed
qed simp

text \<open>The line number given for a key of a section is right: it is a line of the file, after a line that
  opens the section and indented more than it, and the text before its colon is the key.\<close>

theorem section_key_line:
  assumes "find_section_key_line_numbers (Some c) sect key = Some n"
  shows "\<exists>h. h < n - 1 \<and> n \<le> length (lines c) \<and> opens_section (sect @ '':'') (lines c ! h) \<and>
    line_key (lines c ! (n - 1)) = key \<and> line_indent (lines c ! h) < line_indent (lines c ! (n - 1))"
  using key_lines_outside assms by (fastforce simp: find_section_key_line_numbers_def)

theorem section_key_line_witness:
  "\<exists>h. h < 3 - 1 \<and> 3 \<le> length (lines (join [CHR 0x0A] [''a: 1'', ''options:'', ''  size: 2''])) \<and>
    opens_section (''options'' @ '':'') (lines (join [CHR 0x0A] [''a: 1'', ''options:'', ''  size: 2'']) ! h) \<and>
    line_key (lines (join [CHR 0x0A] [''a: 1'', ''options:'', ''  size: 2'']) ! (3 - 1)) = ''size'' \<and>
    line_indent (lines (join [CHR 0x0A] [''a: 1'', ''options:'', ''  size: 2'']) ! h) <
    line_indent (lines (join [CHR 0x0A] [''a: 1'', ''options:'', ''  size: 2'']) ! (3 - 1))"
  by (rule section_key_line) code_simp

end
