(* ===== verification/RhaiLint.thy ===== *)
theory RhaiLint
  imports RhaiAst Lint Package
begin

text \<open>
  \<open>agent/src/linting/rhai_checker.rs\<close>: the checks of the scripts of a package. Compiling a script, the
  walk of the crate over its tree (the nodes it visits, in order) and the line of an expression are the record
  \<open>rhai_crate\<close>; the glob matcher and the test that a file exists are arguments.
\<close>

section \<open>The environment\<close>

datatype ast_node = N_Stmt stmt | N_Expr expr

record rhai_crate =
  rc_compile :: "string \<Rightarrow> (nat option \<times> string) + ast"   \<comment> \<open>the line and text of a syntax error\<close>
  rc_walk :: "ast \<Rightarrow> ast_node list"
  rc_line :: "expr \<Rightarrow> nat option"

definition ENTRY_POINT_PATTERNS :: "string list" where
  "ENTRY_POINT_PATTERNS = [''install.rhai'', ''delete.rhai'', ''reconfigure.rhai'']"

definition K8S_RESOURCE_PLURAL_KINDS :: "(string \<times> string) list" where
  "K8S_RESOURCE_PLURAL_KINDS =
     [(''Deployments'', ''Deployment''), (''Endpoints'', ''Endpoint''), (''Issuers'', ''Issuer''),
      (''Namespaces'', ''Namespace''), (''Nodes'', ''Node''), (''Secrets'', ''Secret''),
      (''Services'', ''Service''), (''TenantInstances'', ''TenantInstance'')]"

definition ENTRY_POINT_FUNCTIONS :: "string list" where
  "ENTRY_POINT_FUNCTIONS = [''run'', ''template'', ''new'', ''main'']"

definition FULL_ONLY_FUNCTIONS :: "string list" where
  "FULL_ONLY_FUNCTIONS =
     [''http_get'', ''http_post'', ''http_put'', ''http_delete'', ''http_patch'',
      ''get_service_instance'', ''list_service_instances'', ''get_system_instance'', ''list_system_instances'',
      ''get_tenant_instance'', ''list_tenant_instances'', ''get_jukebox'', ''list_jukeboxes'',
      ''k8s_resource'', ''k8s_raw'', ''k8s_workload'']"

section \<open>The checks of one script\<close>

definition backquoted :: "string \<Rightarrow> string" where
  "backquoted s = ''`'' @ s @ ''`''"

text \<open>The disabled rules of all the lines of a file of \<open>k\<close> lines together.\<close>

definition file_disabled :: "nat \<Rightarrow> disables \<Rightarrow> string set" where
  "file_disabled k dis = \<Union> (set (map (disabled_at dis) [0..<Suc k]))"

definition check_dead_code :: "string \<Rightarrow> ast \<Rightarrow> lint_finding list" where
  "check_dead_code file t =
     replicate (check_statements_for_dead_code (ast_stmts t))
       (finding ''rhai/dead-code'' Warn file None ''Unreachable code after return or break'')"

definition flagged_names :: "fn_def \<Rightarrow> string list" where
  "flagged_names f =
     (let known = set (fd_params f) \<union> collect_declared_vars_stmts (fd_body f);
          refs = collect_used_vars_stmts (fd_body f)
      in sorted_list_of_set {name \<in> refs. name \<notin> known \<and> \<not> starts_with name ''_''})"

definition is_anon :: "fn_def \<Rightarrow> bool" where
  "is_anon f \<longleftrightarrow> starts_with (fd_name f) ''anon$''"

definition check_undefined_variables ::
  "glob \<Rightarrow> lint_config \<Rightarrow> string \<Rightarrow> string set \<Rightarrow> ast \<Rightarrow> lint_finding list" where
  "check_undefined_variables glob cfg file off t =
     concat (map (\<lambda>f. if is_anon f then []
       else concat (map (\<lambda>name. configured glob cfg ''rhai/undefined-variable'' Error off file None
              (''Variable '' @ backquoted name @ '' is used but never declared'')) (flagged_names f)))
       (ast_fns t))"

definition rule_off :: "disables \<Rightarrow> nat \<Rightarrow> string \<Rightarrow> bool" where
  "rule_off dis line rul = (case dis line of None \<Rightarrow> False | Some rules \<Rightarrow> rul \<in> rules)"

definition empty_catch_at :: "string \<Rightarrow> disables \<Rightarrow> stmt list \<Rightarrow> nat option \<Rightarrow> lint_finding list" where
  "empty_catch_at file dis branch pos =
     (if branch = [] \<and> \<not> rule_off dis (line_or_0 pos) ''rhai/empty-catch''
      then [finding ''rhai/empty-catch'' Warn file (Some (line_or_0 pos))
              ''Empty catch block silently ignores errors'']
      else [])"

fun check_stmts_for_empty_catch :: "string \<Rightarrow> disables \<Rightarrow> stmt list \<Rightarrow> lint_finding list"
  and empty_catch_in :: "string \<Rightarrow> disables \<Rightarrow> stmt \<Rightarrow> lint_finding list" where
  "check_stmts_for_empty_catch file dis [] = []"
| "check_stmts_for_empty_catch file dis (s # ss) =
     empty_catch_in file dis s @ check_stmts_for_empty_catch file dis ss"
| "empty_catch_in file dis (S_TryCatch v body branch pos) =
     empty_catch_at file dis branch pos @ check_stmts_for_empty_catch file dis body @
     check_stmts_for_empty_catch file dis branch"
| "empty_catch_in file dis (S_Block block) = check_stmts_for_empty_catch file dis block"
| "empty_catch_in file dis (S_If c body branch) =
     check_stmts_for_empty_catch file dis body @ check_stmts_for_empty_catch file dis branch"
| "empty_catch_in file dis (S_While c body) = check_stmts_for_empty_catch file dis body"
| "empty_catch_in file dis (S_Do c body) = check_stmts_for_empty_catch file dis body"
| "empty_catch_in file dis (S_For x c body) = check_stmts_for_empty_catch file dis body"
| "empty_catch_in file dis (S_Var name init l) = []"
| "empty_catch_in file dis (S_Expr e) = []"
| "empty_catch_in file dis (S_Return e) = []"
| "empty_catch_in file dis S_BreakLoop = []"
| "empty_catch_in file dis (S_Assignment a b) = []"
| "empty_catch_in file dis (S_FnCall f args) = []"
| "empty_catch_in file dis (S_Import e) = []"
| "empty_catch_in file dis S_Other = []"

definition check_empty_catch :: "rhai_crate \<Rightarrow> string \<Rightarrow> disables \<Rightarrow> ast \<Rightarrow> lint_finding list" where
  "check_empty_catch rc file dis t =
     concat (map (\<lambda>n. case n of
         N_Stmt (S_TryCatch v body branch pos) \<Rightarrow>
           empty_catch_at file dis branch pos @ check_stmts_for_empty_catch file dis body @
           check_stmts_for_empty_catch file dis branch
       | _ \<Rightarrow> []) (rc_walk rc t))"

text \<open>The declarations the walk of the crate meets, with their lines.\<close>

definition walked_declarations :: "rhai_crate \<Rightarrow> ast \<Rightarrow> (string \<times> nat) list" where
  "walked_declarations rc t =
     concat (map (\<lambda>n. case n of N_Stmt (S_Var name init pos) \<Rightarrow> [(name, line_or_0 pos)] | _ \<Rightarrow> [])
       (rc_walk rc t))"

definition used_anywhere :: "ast \<Rightarrow> string set" where
  "used_anywhere t =
     collect_used_vars_stmts (ast_stmts t) \<union> \<Union> (set (map (\<lambda>f. collect_used_vars_stmts (fd_body f)) (ast_fns t)))"

definition shadow_finding :: "string \<Rightarrow> string \<times> nat \<Rightarrow> lint_finding" where
  "shadow_finding file d =
     finding ''rhai/shadowed-variable'' Warn file (Some (snd d))
       (''Variable '' @ backquoted (fst d) @ '' shadows a previous declaration'')"

definition shadowing :: "ast \<Rightarrow> (string \<times> nat) list" where
  "shadowing t =
     fst (check_shadowing_scoped (ast_stmts t) [{}]) @
     concat (map (\<lambda>f. fst (check_shadowing_scoped (fd_body f) [set (fd_params f)])) (ast_fns t))"

definition check_unused_variables :: "rhai_crate \<Rightarrow> string \<Rightarrow> disables \<Rightarrow> ast \<Rightarrow> lint_finding list" where
  "check_unused_variables rc file dis t =
     map (shadow_finding file) (shadowing t) @
     concat (map (\<lambda>(name, line).
       if \<not> starts_with name ''_'' \<and> name \<notin> used_anywhere t \<and> \<not> rule_off dis line ''rhai/unused-variable''
       then [finding ''rhai/unused-variable'' Warn file (Some line)
               (''Variable '' @ backquoted name @ '' is declared but never used'')]
       else []) (walked_declarations rc t))"

definition check_unused_parameters ::
  "glob \<Rightarrow> lint_config \<Rightarrow> string \<Rightarrow> string set \<Rightarrow> ast \<Rightarrow> lint_finding list" where
  "check_unused_parameters glob cfg file off t =
     concat (map (\<lambda>f.
       let used_params = collect_used_vars_stmts (fd_body f)
       in concat (map (\<lambda>param.
            if \<not> starts_with param ''_'' \<and> param \<notin> used_params
            then configured glob cfg ''rhai/unused-parameter'' Warn off file (fd_line f)
                   (''Parameter '' @ backquoted param @ '' in function '' @ backquoted (fd_name f) @ '' is never used'')
            else []) (fd_params f))) (ast_fns t))"

definition is_core_script :: "string \<Rightarrow> bool" where
  "is_core_script file \<longleftrightarrow>
     (case file_name file of Some n \<Rightarrow> n = ''build.rhai'' \<or> n = ''validate.rhai'' | None \<Rightarrow> False) \<or>
     contains file ''handlebars/helpers/''"

definition check_wrong_api_mode :: "rhai_crate \<Rightarrow> string \<Rightarrow> ast \<Rightarrow> lint_finding list" where
  "check_wrong_api_mode rc file t =
     (if \<not> is_core_script file then []
      else concat (map (\<lambda>n. case n of
          N_Expr (E_FnCall fn args) \<Rightarrow>
            (if fn \<in> set FULL_ONLY_FUNCTIONS
             then [finding ''rhai/wrong-api-mode'' Warn file None
                     (''Function '' @ backquoted fn @ '' is not available in core mode scripts'')]
             else [])
        | _ \<Rightarrow> []) (rc_walk rc t)))"

fun first_property_in_dot_chain :: "expr \<Rightarrow> string option" where
  "first_property_in_dot_chain (E_Property p) = Some p"
| "first_property_in_dot_chain (E_Dot lhs rhs) = first_property_in_dot_chain lhs"
| "first_property_in_dot_chain _ = None"

definition wrong_type_at :: "rhai_crate \<Rightarrow> string \<Rightarrow> expr \<Rightarrow> lint_finding list" where
  "wrong_type_at rc file e =
     (case e of
        E_Variable name pos \<Rightarrow>
          (if name = ''tenant''
           then [finding ''rhai/wrong-package-type'' Warn file pos ''System packages cannot access tenant context'']
           else [])
      | E_Dot (E_Variable var_name pos) rhs \<Rightarrow>
          (if var_name = ''context''
           then (case first_property_in_dot_chain rhs of
                   Some prop \<Rightarrow>
                     (if prop = ''namespace'' \<or> prop = ''tenant''
                      then [finding ''rhai/wrong-package-type'' Warn file (rc_line rc rhs)
                              (''System packages cannot access context.'' @ prop @
                               '' (not available for type:system)'')]
                      else [])
                 | None \<Rightarrow> [])
           else [])
      | _ \<Rightarrow> [])"

definition check_wrong_package_type :: "rhai_crate \<Rightarrow> package_type \<Rightarrow> string \<Rightarrow> ast \<Rightarrow> lint_finding list" where
  "check_wrong_package_type rc usage file t =
     (if usage \<noteq> System then []
      else if take 1 (components file) = [''files''] \<and> \<not> starts_with file ''/'' then []
      else concat (map (\<lambda>n. case n of N_Expr e \<Rightarrow> wrong_type_at rc file e | _ \<Rightarrow> []) (rc_walk rc t)))"

definition ends_with_value :: "stmt list \<Rightarrow> bool" where
  "ends_with_value ss \<longleftrightarrow>
     ss \<noteq> [] \<and> (case last ss of S_Return _ \<Rightarrow> True | S_Expr _ \<Rightarrow> True | _ \<Rightarrow> False)"

definition check_context_hook_no_return :: "string \<Rightarrow> ast \<Rightarrow> lint_finding list" where
  "check_context_hook_no_return file t =
     (if \<not> contains file ''context_'' then []
      else if list_ex (\<lambda>f. ends_with_value (fd_body f)) (ast_fns t) \<or> ends_with_value (ast_stmts t) then []
      else [finding ''rhai/context-hook-no-return'' Error file None ''Context hook must return the context''])"

text \<open>A call of \<open>k8s_resource\<close> whose first argument is a constant, and where.\<close>

fun plural_arg :: "ast_node \<Rightarrow> (string \<times> nat option) option" where
  "plural_arg (N_Expr (E_FnCall fn (E_StringConstant kind pos # args))) =
     (if fn = ''k8s_resource'' then Some (kind, pos) else None)"
| "plural_arg _ = None"

definition plural_call :: "glob \<Rightarrow> lint_config \<Rightarrow> string \<Rightarrow> disables \<Rightarrow> string \<times> nat option \<Rightarrow> lint_finding list" where
  "plural_call glob cfg file dis call =
     (let (kind, pos) = call
      in case map_of K8S_RESOURCE_PLURAL_KINDS kind of
           None \<Rightarrow> []
         | Some singular \<Rightarrow>
             configured glob cfg ''rhai/k8s-resource-plural'' Warn
               (case pos of None \<Rightarrow> {} | Some l \<Rightarrow> disabled_at dis l) file pos
               (''`k8s_resource('' @ [CHR 0x22] @ kind @ [CHR 0x22] @ '', ...)` uses plural kind; use '' @
                [CHR 0x22] @ singular @ [CHR 0x22] @ '' instead''))"

definition check_k8s_resource_plural ::
  "rhai_crate \<Rightarrow> glob \<Rightarrow> lint_config \<Rightarrow> string \<Rightarrow> disables \<Rightarrow> ast \<Rightarrow> lint_finding list" where
  "check_k8s_resource_plural rc glob cfg file dis t =
     concat (map (plural_call glob cfg file dis) (List.map_filter plural_arg (rc_walk rc t)))"

section \<open>The checker of a package\<close>

record rhai_checker =
  rk_usage :: package_type
  rk_config :: lint_config
  rk_resolver_paths :: "string list"
  rk_importable :: "string list"
  rk_imported :: "string set"
  rk_entry_points :: "string set"
  rk_defined :: "(string \<times> string) list"
  rk_called :: "string set"

definition type_subdir :: "package_type \<Rightarrow> string" where
  "type_subdir u = (case u of Tenant \<Rightarrow> ''tenant'' | Service \<Rightarrow> ''service'' | System \<Rightarrow> ''system'')"

definition is_importable :: "string \<Rightarrow> bool" where
  "is_importable path \<longleftrightarrow>
     extension path = Some ''rhai'' \<and>
     (case file_name path of
        None \<Rightarrow> False
      | Some name \<Rightarrow> \<not> (name \<in> set ENTRY_POINT_PATTERNS \<or> starts_with name ''context_''))"

text \<open>
  \<open>entries\<close> are the paths in the directory \<open>scripts\<close> of the package, none when it cannot be read. The code
  keeps them in a hash set; here they stay in the order they were read.
\<close>

definition new_rhai_checker ::
  "string \<Rightarrow> string \<Rightarrow> string option \<Rightarrow> package_type \<Rightarrow> lint_config \<Rightarrow> string list \<Rightarrow> rhai_checker" where
  "new_rhai_checker package_dir config_dir script_dir usage cfg entries =
     \<lparr>rk_usage = usage, rk_config = cfg,
      rk_resolver_paths = [path_join package_dir ''scripts'', config_dir] @
        (case script_dir of None \<Rightarrow> [] | Some dir \<Rightarrow> [path_join dir ''lib'', path_join dir (type_subdir usage)]),
      rk_importable = filter is_importable entries,
      rk_imported = {}, rk_entry_points = {}, rk_defined = [], rk_called = {}\<rparr>"

definition resolve_import :: "(string \<Rightarrow> bool) \<Rightarrow> rhai_checker \<Rightarrow> string \<Rightarrow> bool" where
  "resolve_import exists rk module_name =
     list_ex (\<lambda>p. exists (path_join p (module_name @ ''.rhai''))) (rk_resolver_paths rk)"

text \<open>The modules a script imports by a constant name, as the walk meets them.\<close>

definition imported_modules :: "rhai_crate \<Rightarrow> ast \<Rightarrow> string list" where
  "imported_modules rc t =
     concat (map (\<lambda>n. case n of N_Stmt (S_Import (E_StringConstant m pos)) \<Rightarrow> [m] | _ \<Rightarrow> []) (rc_walk rc t))"

definition check_imports ::
  "rhai_crate \<Rightarrow> glob \<Rightarrow> (string \<Rightarrow> bool) \<Rightarrow> ast \<Rightarrow> string \<Rightarrow> rhai_checker \<Rightarrow> lint_finding list \<times> rhai_checker" where
  "check_imports rc glob exists t file rk =
     (concat (map (\<lambda>m. if resolve_import exists rk m then []
        else configured glob (rk_config rk) ''rhai/unresolved-import'' Error {} file None
               (''Cannot resolve import '' @ [CHR 0x22] @ m @ [CHR 0x22])) (imported_modules rc t)),
      rk\<lparr>rk_imported := rk_imported rk \<union> set (imported_modules rc t)\<rparr>)"

text \<open>The calls the walk meets as expressions; a call that is a statement of its own is another one.\<close>

definition called_names :: "rhai_crate \<Rightarrow> ast \<Rightarrow> string set" where
  "called_names rc t =
     set (concat (map (\<lambda>n. case n of
        N_Expr (E_FnCall fn args) \<Rightarrow> [fn] | N_Expr (E_MethodCall fn args) \<Rightarrow> [fn] | _ \<Rightarrow> []) (rc_walk rc t)))"

definition accumulate_functions :: "rhai_crate \<Rightarrow> ast \<Rightarrow> string \<Rightarrow> rhai_checker \<Rightarrow> rhai_checker" where
  "accumulate_functions rc t file rk =
     rk\<lparr>rk_defined := rk_defined rk @ map (\<lambda>f. (fd_name f, file)) (filter (\<lambda>f. \<not> is_anon f) (ast_fns t)),
        rk_called := rk_called rk \<union> called_names rc t\<rparr>"

definition track_entry_points :: "ast \<Rightarrow> string \<Rightarrow> rhai_checker \<Rightarrow> rhai_checker" where
  "track_entry_points t file rk =
     (if list_ex (\<lambda>f. fd_name f \<in> set ENTRY_POINT_FUNCTIONS) (ast_fns t)
      then (case file_stem file of
              Some stem \<Rightarrow> rk\<lparr>rk_entry_points := insert stem (rk_entry_points rk)\<rparr>
            | None \<Rightarrow> rk)
      else rk)"

definition check_tree ::
  "rhai_crate \<Rightarrow> glob \<Rightarrow> (string \<Rightarrow> bool) \<Rightarrow> string \<Rightarrow> string \<Rightarrow> ast \<Rightarrow> rhai_checker \<Rightarrow>
   lint_finding list \<times> rhai_checker" where
  "check_tree rc glob exists file source t rk =
     (let (import_findings, rk1) = check_imports rc glob exists t file rk;
          dis = parse_inline_disables source;
          off = file_disabled (length (lines source)) dis;
          cfg = rk_config rk
      in (import_findings @ check_dead_code file t @ check_unused_variables rc file dis t @
          check_unused_parameters glob cfg file off t @ check_empty_catch rc file dis t @
          check_undefined_variables glob cfg file off t @ check_wrong_api_mode rc file t @
          check_wrong_package_type rc (rk_usage rk) file t @ check_k8s_resource_plural rc glob cfg file dis t @
          check_context_hook_no_return file t,
          accumulate_functions rc t file (track_entry_points t file rk1)))"

definition check_rhai_file ::
  "rhai_crate \<Rightarrow> glob \<Rightarrow> (string \<Rightarrow> bool) \<Rightarrow> string \<Rightarrow> string \<Rightarrow> rhai_checker \<Rightarrow>
   lint_finding list \<times> rhai_checker" where
  "check_rhai_file rc glob exists file source rk =
     (case rc_compile rc source of
        Inl (line, e) \<Rightarrow>
          (configured glob (rk_config rk) ''rhai/syntax'' Error {} file line (''Syntax error: '' @ e), rk)
      | Inr t \<Rightarrow> check_tree rc glob exists file source t rk)"

definition unused_script :: "glob \<Rightarrow> rhai_checker \<Rightarrow> string \<Rightarrow> lint_finding list" where
  "unused_script glob rk path =
     (case file_stem path of
        None \<Rightarrow> []
      | Some stem \<Rightarrow>
          (if stem \<notin> rk_imported rk \<and> stem \<notin> rk_entry_points rk
           then configured glob (rk_config rk) ''rhai/unused-script'' Warn {} path None
                  (''Script '' @ backquoted stem @ '' defined but never imported'')
           else []))"

definition unused_function :: "glob \<Rightarrow> rhai_checker \<Rightarrow> string \<times> string \<Rightarrow> lint_finding list" where
  "unused_function glob rk d =
     (if fst d \<notin> rk_called rk \<and> fst d \<notin> set ENTRY_POINT_FUNCTIONS
      then configured glob (rk_config rk) ''rhai/unused-function'' Warn {} (snd d) None
             (''Function '' @ backquoted (fst d) @ '' defined but never called'')
      else [])"

definition rhai_finalize :: "glob \<Rightarrow> rhai_checker \<Rightarrow> lint_finding list" where
  "rhai_finalize glob rk =
     concat (map (unused_script glob rk) (rk_importable rk)) @
     concat (map (unused_function glob rk) (rk_defined rk))"

text \<open>The scripts of a package one after the other, as \<open>scan_rhai_files\<close> hands them to the checker.\<close>

fun check_scripts ::
  "rhai_crate \<Rightarrow> glob \<Rightarrow> (string \<Rightarrow> bool) \<Rightarrow> (string \<times> string) list \<Rightarrow> rhai_checker \<Rightarrow>
   lint_finding list \<times> rhai_checker" where
  "check_scripts rc glob exists [] rk = ([], rk)"
| "check_scripts rc glob exists ((file, source) # scripts) rk =
     (let (f1, rk1) = check_rhai_file rc glob exists file source rk;
          (f2, rk2) = check_scripts rc glob exists scripts rk1
      in (f1 @ f2, rk2))"

section \<open>Lemmas\<close>

text \<open>The rules whose checks never look at the configuration.\<close>

definition unconfigured_rules :: "string list" where
  "unconfigured_rules =
     [''rhai/dead-code'', ''rhai/shadowed-variable'', ''rhai/unused-variable'', ''rhai/empty-catch'',
      ''rhai/wrong-api-mode'', ''rhai/wrong-package-type'', ''rhai/context-hook-no-return'']"

abbreviation unconfigured :: "lint_finding \<Rightarrow> bool" where
  "unconfigured f \<equiv> lf_rule f \<in> set unconfigured_rules"

lemma configured_other [simp]:
  "rul \<notin> set unconfigured_rules \<Longrightarrow> filter unconfigured (configured glob cfg rul level off file line msg) = []"
  by (auto simp: filter_empty_conv dest: configured_rule)

lemma none_unconfigured:
  "(\<And>f. f \<in> set fs \<Longrightarrow> lf_rule f \<notin> set unconfigured_rules) \<Longrightarrow> filter unconfigured fs = []"
  by (simp add: filter_empty_conv)

lemma configured_checks:
  "filter unconfigured (check_unused_parameters glob cfg file off t) = []"
  "filter unconfigured (check_undefined_variables glob cfg file off t) = []"
  "filter unconfigured (check_k8s_resource_plural rc glob cfg file dis t) = []"
  "filter unconfigured (fst (check_imports rc glob exists t file rk)) = []"
proof -
  have "f \<in> set (check_unused_parameters glob cfg file off t) \<Longrightarrow> lf_rule f = ''rhai/unused-parameter''" for f
    by (auto simp: check_unused_parameters_def Let_def dest: configured_rule split: if_splits)
  then show "filter unconfigured (check_unused_parameters glob cfg file off t) = []"
    by (intro none_unconfigured) (simp add: unconfigured_rules_def)
  have "f \<in> set (check_undefined_variables glob cfg file off t) \<Longrightarrow> lf_rule f = ''rhai/undefined-variable''" for f
    by (auto simp: check_undefined_variables_def dest: configured_rule split: if_splits)
  then show "filter unconfigured (check_undefined_variables glob cfg file off t) = []"
    by (intro none_unconfigured) (simp add: unconfigured_rules_def)
  have "f \<in> set (check_k8s_resource_plural rc glob cfg file dis t) \<Longrightarrow> lf_rule f = ''rhai/k8s-resource-plural''" for f
    by (auto simp: check_k8s_resource_plural_def plural_call_def dest: configured_rule
        split: option.splits)
  then show "filter unconfigured (check_k8s_resource_plural rc glob cfg file dis t) = []"
    by (intro none_unconfigured) (simp add: unconfigured_rules_def)
  have "f \<in> set (fst (check_imports rc glob exists t file rk)) \<Longrightarrow> lf_rule f = ''rhai/unresolved-import''" for f
    by (auto simp: check_imports_def dest: configured_rule split: if_splits)
  then show "filter unconfigured (fst (check_imports rc glob exists t file rk)) = []"
    by (intro none_unconfigured) (simp add: unconfigured_rules_def)
qed

lemma check_tree_unconfigured:
  "filter unconfigured (fst (check_tree rc glob exists file source t rk)) =
     filter unconfigured
       (check_dead_code file t @ check_unused_variables rc file (parse_inline_disables source) t @
        check_empty_catch rc file (parse_inline_disables source) t @ check_wrong_api_mode rc file t @
        check_wrong_package_type rc (rk_usage rk) file t @ check_context_hook_no_return file t)"
  by (simp add: check_tree_def Let_def configured_checks case_prod_beta)

text \<open>The trees of the scripts that compile, and what they add to the checker.\<close>

definition compiled :: "rhai_crate \<Rightarrow> (string \<times> string) list \<Rightarrow> (string \<times> ast) list" where
  "compiled rc scripts =
     concat (map (\<lambda>(file, source). case rc_compile rc source of Inl _ \<Rightarrow> [] | Inr t \<Rightarrow> [(file, t)]) scripts)"

definition defined_in :: "(string \<times> ast) list \<Rightarrow> (string \<times> string) list" where
  "defined_in fs = concat (map (\<lambda>(file, t). map (\<lambda>f. (fd_name f, file)) (filter (\<lambda>f. \<not> is_anon f) (ast_fns t))) fs)"

lemma file_accumulates:
  "rk_defined (snd (check_rhai_file rc glob exists fl src rk)) = rk_defined rk @ defined_in (compiled rc [(fl, src)])"
  "rk_called (snd (check_rhai_file rc glob exists fl src rk)) =
     rk_called rk \<union> (\<Union>(file, t) \<in> set (compiled rc [(fl, src)]). called_names rc t)"
  "rk_config (snd (check_rhai_file rc glob exists fl src rk)) = rk_config rk"
  by (auto simp: check_rhai_file_def check_tree_def Let_def check_imports_def accumulate_functions_def
      track_entry_points_def compiled_def defined_in_def split: sum.splits option.splits)

lemma compiled_Cons [simp]:
  "compiled rc ((file, source) # scripts) =
     (case rc_compile rc source of Inl _ \<Rightarrow> [] | Inr t \<Rightarrow> [(file, t)]) @ compiled rc scripts"
  by (simp add: compiled_def)

lemma compiled_Nil [simp]: "compiled rc [] = []"
  by (simp add: compiled_def)

lemma defined_in_simps [simp]:
  "defined_in [] = []" "defined_in (xs @ ys) = defined_in xs @ defined_in ys"
  by (simp_all add: defined_in_def)

lemma check_scripts_Cons:
  "snd (check_scripts rc glob exists ((file, source) # scripts) rk) =
     snd (check_scripts rc glob exists scripts (snd (check_rhai_file rc glob exists file source rk)))"
  by (simp add: case_prod_beta)

lemma accumulated:
  "rk_defined (snd (check_scripts rc glob exists scripts rk)) = rk_defined rk @ defined_in (compiled rc scripts) \<and>
   rk_called (snd (check_scripts rc glob exists scripts rk)) =
     rk_called rk \<union> (\<Union>(file, t) \<in> set (compiled rc scripts). called_names rc t) \<and>
   rk_config (snd (check_scripts rc glob exists scripts rk)) = rk_config rk"
proof (induction scripts arbitrary: rk)
  case (Cons s scripts)
  have "compiled rc (s # scripts) = compiled rc [s] @ compiled rc scripts" by (simp add: compiled_def)
  then show ?case
    using Cons.IH [of "snd (check_rhai_file rc glob exists (fst s) (snd s) rk)"]
      check_scripts_Cons [of rc glob exists "fst s" "snd s" scripts rk]
    by (simp add: file_accumulates Un_ac)
qed simp

text \<open>Every finding of this checker has a rule of its own group.\<close>

definition rhai_only :: "lint_finding list \<Rightarrow> bool" where
  "rhai_only fs \<longleftrightarrow> list_all (\<lambda>f. starts_with (lf_rule f) ''rhai/'') fs"

lemma rhai_only_simps [simp]:
  "rhai_only []" "rhai_only (f # fs) \<longleftrightarrow> starts_with (lf_rule f) ''rhai/'' \<and> rhai_only fs"
  "rhai_only (fs @ gs) \<longleftrightarrow> rhai_only fs \<and> rhai_only gs"
  by (simp_all add: rhai_only_def)

lemma rhai_only_concat: "(\<And>x. rhai_only (g x)) \<Longrightarrow> rhai_only (concat (map g xs))"
  by (induction xs) simp_all

lemma rhai_only_configured: "starts_with rul ''rhai/'' \<Longrightarrow> rhai_only (configured glob cfg rul level off file line msg)"
  by (auto simp: rhai_only_def list_all_iff dest: configured_rule)

lemma rhai_only_catch:
  "rhai_only (check_stmts_for_empty_catch fl dis ss)" "rhai_only (empty_catch_in fl dis s)"
  by (induction fl dis ss and fl dis s rule: check_stmts_for_empty_catch_empty_catch_in.induct)
    (simp_all add: empty_catch_at_def starts_with_def)

lemma rhai_only_shadows: "rhai_only (map (shadow_finding file) ds)"
  by (induction ds) (simp_all add: shadow_finding_def starts_with_def)

lemma rhai_only_type: "rhai_only (wrong_type_at rc file e)"
  by (simp add: wrong_type_at_def starts_with_def split: expr.split option.split)

lemma rhai_only_checks:
  "rhai_only (check_dead_code file t)" "rhai_only (check_unused_variables rc file dis t)"
  "rhai_only (check_unused_parameters glob cfg file off t)" "rhai_only (check_empty_catch rc file dis t)"
  "rhai_only (check_undefined_variables glob cfg file off t)" "rhai_only (check_wrong_api_mode rc file t)"
  "rhai_only (check_wrong_package_type rc u file t)" "rhai_only (check_k8s_resource_plural rc glob cfg file dis t)"
  "rhai_only (check_context_hook_no_return file t)" "rhai_only (fst (check_imports rc glob exists t file rk))"
proof -
  show "rhai_only (check_dead_code file t)"
    unfolding check_dead_code_def by (induction "check_statements_for_dead_code (ast_stmts t)") (simp_all add: rhai_only_def starts_with_def list_all_iff)
  show "rhai_only (check_unused_variables rc file dis t)"
    unfolding check_unused_variables_def rhai_only_simps
    by (intro conjI rhai_only_shadows rhai_only_concat) (simp add: case_prod_beta starts_with_def)
  show "rhai_only (check_unused_parameters glob cfg file off t)"
    unfolding check_unused_parameters_def Let_def
    by (intro rhai_only_concat) (simp add: rhai_only_configured starts_with_def)
  show "rhai_only (check_empty_catch rc file dis t)"
    unfolding check_empty_catch_def
    by (intro rhai_only_concat) (simp add: rhai_only_catch empty_catch_at_def starts_with_def split: ast_node.split stmt.split)
  show "rhai_only (check_undefined_variables glob cfg file off t)"
    unfolding check_undefined_variables_def
    by (intro rhai_only_concat) (simp add: rhai_only_concat rhai_only_configured starts_with_def)
  show "rhai_only (check_wrong_api_mode rc file t)"
    using rhai_only_concat [of "\<lambda>n. case n of N_Expr (E_FnCall fn args) \<Rightarrow>
            (if fn \<in> set FULL_ONLY_FUNCTIONS
             then [finding ''rhai/wrong-api-mode'' Warn file None
                     (''Function '' @ backquoted fn @ '' is not available in core mode scripts'')]
             else []) | _ \<Rightarrow> []" "rc_walk rc t"]
    by (simp add: check_wrong_api_mode_def starts_with_def split: ast_node.split expr.split)
  show "rhai_only (check_wrong_package_type rc u file t)"
    using rhai_only_concat [of "\<lambda>n. case n of N_Expr e \<Rightarrow> wrong_type_at rc file e | _ \<Rightarrow> []" "rc_walk rc t"]
    by (simp add: check_wrong_package_type_def rhai_only_type split: ast_node.split)
  show "rhai_only (check_k8s_resource_plural rc glob cfg file dis t)"
    unfolding check_k8s_resource_plural_def
    by (intro rhai_only_concat) (simp add: plural_call_def rhai_only_configured starts_with_def split: prod.split option.split)
  show "rhai_only (check_context_hook_no_return file t)"
    by (simp add: check_context_hook_no_return_def starts_with_def)
  show "rhai_only (fst (check_imports rc glob exists t file rk))"
    unfolding check_imports_def fst_conv
    by (intro rhai_only_concat) (simp add: rhai_only_configured starts_with_def)
qed

lemma rhai_only_file: "rhai_only (fst (check_rhai_file rc glob exists file source rk))"
proof (cases "rc_compile rc source")
  case (Inl e)
  have "starts_with ''rhai/syntax'' ''rhai/''" by (simp add: starts_with_def)
  from rhai_only_configured [OF this] Inl show ?thesis
    by (cases e) (simp add: check_rhai_file_def)
next
  case (Inr t)
  then show ?thesis
    by (simp add: check_rhai_file_def check_tree_def Let_def case_prod_beta rhai_only_checks)
qed

lemma rhai_only_finalize: "rhai_only (rhai_finalize glob rk)"
  unfolding rhai_finalize_def rhai_only_simps
  by (intro conjI rhai_only_concat)
    (simp_all add: unused_script_def unused_function_def rhai_only_configured starts_with_def split: option.split)

section \<open>Properties\<close>


text \<open>The dead-code check reports nothing on a script exactly when, in every block nested in its top
  level, only the last statement may return or break. The bodies of the functions are not looked at, so code
  after a return in a function is never reported.\<close>

theorem dead_code_exact:
  "check_dead_code file t = [] \<longleftrightarrow> (\<forall>b. nested_block (ast_stmts t) b \<longrightarrow> leaves_last b)"
proof -
  have "check_dead_code file t = [] \<longleftrightarrow> check_statements_for_dead_code (ast_stmts t) = 0"
    by (simp add: check_dead_code_def)
  then show ?thesis using dead_zero_nested dead_zero nested_live(1) by metis
qed

definition demo_ast :: ast where
  "demo_ast = \<lparr>ast_stmts = [S_FnCall ''f'' []],
     ast_fns = [\<lparr>fd_name = ''f'', fd_params = [], fd_body = [S_Return None, S_Expr E_Other], fd_line = Some 1\<rparr>]\<rparr>"

theorem dead_code_exact_witness: "check_dead_code ''a.rhai'' demo_ast = []"
proof -
  have only: "nested_block [S_FnCall ''f'' []] b \<Longrightarrow> b = [S_FnCall ''f'' []]" for b
    by (induction rule: nested_block.induct) (auto simp: blocks_of_def)
  have "leaves_last b" if "nested_block (ast_stmts demo_ast) b" for b
    using only [of b] that by (simp add: demo_ast_def leaves_last_def)
  then show ?thesis by (intro iffD2 [OF dead_code_exact] allI impI)
qed

text \<open>Seven of the rules cannot be turned off or changed by the configuration of the package: whatever
  it disables or overrides, the findings of these rules on a script are the same.\<close>

theorem unconfigured_rules_fixed:
  "filter unconfigured (fst (check_rhai_file rc glob exists file source (rk\<lparr>rk_config := cfg\<rparr>))) =
   filter unconfigured (fst (check_rhai_file rc glob exists file source rk))"
proof (cases "rc_compile rc source")
  case (Inl e)
  have "''rhai/syntax'' \<notin> set unconfigured_rules" by (simp add: unconfigured_rules_def)
  then have "filter unconfigured (configured glob c ''rhai/syntax'' Error {} file line msg) = []" for c line msg
    by (rule configured_other)
  then show ?thesis using Inl by (cases e) (simp add: check_rhai_file_def)
next
  case (Inr t)
  then show ?thesis by (simp add: check_rhai_file_def check_tree_unconfigured)
qed

lemma in_unused_function:
  "f \<in> set (unused_function glob rk d) \<longleftrightarrow>
     fst d \<notin> rk_called rk \<and> fst d \<notin> set ENTRY_POINT_FUNCTIONS \<and>
     (\<exists>l. resolve_level glob (rk_config rk) ''rhai/unused-function'' (snd d) Warn {} = Some l \<and>
          f = finding ''rhai/unused-function'' l (snd d) None
                (''Function '' @ backquoted (fst d) @ '' defined but never called''))"
  by (simp add: unused_function_def configured_fields del: append.simps)

lemma unused_script_rule: "f \<in> set (unused_script glob rk path) \<Longrightarrow> lf_rule f = ''rhai/unused-script''"
  by (auto simp: unused_script_def dest: configured_rule split: option.splits if_splits)

lemma finalized_function:
  "(\<exists>f \<in> set (rhai_finalize glob rk). lf_rule f = ''rhai/unused-function'' \<and> lf_file f = file \<and>
      lf_message f = ''Function '' @ backquoted g @ '' defined but never called'') \<longleftrightarrow>
   (g, file) \<in> set (rk_defined rk) \<and> g \<notin> rk_called rk \<and> g \<notin> set ENTRY_POINT_FUNCTIONS \<and>
   resolve_level glob (rk_config rk) ''rhai/unused-function'' file Warn {} \<noteq> None" (is "?found \<longleftrightarrow> ?unused")
proof
  assume ?found
  then obtain f where f: "f \<in> set (rhai_finalize glob rk)" "lf_rule f = ''rhai/unused-function''"
    "lf_file f = file" "lf_message f = ''Function '' @ backquoted g @ '' defined but never called''" by blast
  then have "\<not> (\<exists>path. f \<in> set (unused_script glob rk path))" using unused_script_rule by fastforce
  then obtain d where d: "d \<in> set (rk_defined rk)" "f \<in> set (unused_function glob rk d)"
    using f(1) by (auto simp: rhai_finalize_def)
  have "fst d = g" "snd d = file" using d(2) f(3,4) by (auto simp: in_unused_function backquoted_def)
  then show ?unused using d by (cases d) (auto simp: in_unused_function)
next
  assume u: ?unused
  then obtain l where l: "resolve_level glob (rk_config rk) ''rhai/unused-function'' file Warn {} = Some l" by auto
  then have "finding ''rhai/unused-function'' l file None
      (''Function '' @ backquoted g @ '' defined but never called'') \<in> set (unused_function glob rk (g, file))"
    using u by (simp add: in_unused_function)
  moreover have "set (unused_function glob rk (g, file)) \<subseteq> set (rhai_finalize glob rk)"
    using u by (auto simp: rhai_finalize_def)
  ultimately show ?found by (intro bexI) auto
qed


text \<open>A crate whose only tree is the one above; its walk meets no call that is an expression.\<close>

definition demo_engine :: rhai_crate where
  "demo_engine = \<lparr>rc_compile = (\<lambda>_. Inr demo_ast), rc_walk = (\<lambda>_. [N_Stmt (S_FnCall ''f'' [])]), rc_line = (\<lambda>_. None)\<rparr>"



end
