(* ===== verification/HbsLint.thy ===== *)
theory HbsLint
  imports Lint Package
begin

text \<open>
  \<open>agent/src/linting/hbs_checker.rs\<close>: the checks of the templates of a package. The compiler of the crate
  \<open>handlebars\<close> and the class of alphanumeric characters are the record \<open>hbs_crate\<close>; the glob matcher is an
  argument. The tree has what the checker reads of \<open>Template\<close>.
\<close>

section \<open>The tree\<close>

datatype path_seg = Named string | Ruled

datatype hbs_path = Relative "path_seg list" | Local

text \<open>A block carries its template and its inverse; a template carries the line of each of its elements.\<close>

datatype parameter =
    P_Name string
  | P_Path hbs_path
  | P_Literal json
  | P_Subexpression element
and element =
    T_HelperBlock parameter "parameter list" "template option" "template option"
  | T_Expression parameter "parameter list"
  | T_HtmlExpression parameter "parameter list"
  | T_DecoratorBlock parameter "parameter list" "template option"
  | T_PartialExpression parameter
  | T_PartialBlock parameter "template option"
  | T_Other
and template = Template "element list" "nat list"

record hbs_crate =
  hc_compile :: "string \<Rightarrow> string + template"
  hc_alnum :: "string \<Rightarrow> nat"   \<comment> \<open>the bytes of the alphanumeric character a string starts with, 0 if none\<close>

definition CORE_HBS_HELPERS :: "string list" where
  "CORE_HBS_HELPERS =
     [''if'', ''unless'', ''each'', ''with'', ''lookup'', ''raw'', ''log'', ''inline'', ''eq'', ''ne'',
      ''gt'', ''gte'', ''lt'', ''lte'', ''and'', ''or'', ''not'', ''len'', ''lowerCamelCase'',
      ''upperCamelCase'', ''snakeCase'', ''kebabCase'', ''shoutySnakeCase'', ''shoutyKebabCase'',
      ''titleCase'', ''trainCase'', ''read_to_str'', ''parent'', ''file_name'', ''extension'',
      ''canonicalize'', ''env_var'', ''to_lower_case'', ''to_upper_case'', ''trim'', ''trim_start'',
      ''trim_end'', ''replace'', ''quote'', ''unquote'', ''first_non_empty'', ''json_to_str'',
      ''str_to_json'', ''from_json'', ''to_json'', ''json_query'', ''json_str_query'', ''jsonnet'',
      ''regex_captures'', ''regex_is_match'', ''uuid_new_v4'', ''uuid_new_v7'', ''base64_encode'',
      ''base64_decode'', ''url_encode'', ''to_decimal'', ''header_basic'', ''argon_hash'', ''bcrypt_hash'',
      ''crc32_hash'', ''gen_password'', ''gen_password_alphanum'', ''gen_private_key'', ''concat'']"

definition VYNIL_HBS_HELPERS :: "string list" where
  "VYNIL_HBS_HELPERS =
     [''selector_from_ctx'', ''labels_from_ctx'', ''ctx_have_crd'', ''have_system_service'',
      ''have_tenant_service'', ''image_from_ctx'', ''resources_from_ctx'', ''render_template'',
      ''render_file'']"

definition is_native_hbs_helper :: "string \<Rightarrow> bool" where
  "is_native_hbs_helper name \<longleftrightarrow> name \<in> set CORE_HBS_HELPERS \<or> name \<in> set VYNIL_HBS_HELPERS"

definition KNOWN_HBS_ROOTS :: "string list" where
  "KNOWN_HBS_ROOTS =
     [''cluster'', ''controller'', ''instance'', ''values'', ''defaults'', ''package_dir'', ''config_dir'',
      ''extra'', ''this'', ''tenant'', ''system'', ''service'', ''namespace'']"

section \<open>The walk over one template\<close>

record walker =
  wk_file :: string
  wk_config :: lint_config
  wk_inline :: disables
  wk_pkg :: package_source
  wk_defined_helpers :: "string set"
  wk_defined_partials :: "string set"
  wk_findings :: "lint_finding list"
  wk_used_helpers :: "string set"
  wk_used_partials :: "string set"
  wk_used_values :: "string set"
  wk_used_value_paths :: "string set"
  wk_used_images :: "string set"
  wk_used_resources :: "string set"

definition new_walker ::
  "string \<Rightarrow> lint_config \<Rightarrow> disables \<Rightarrow> package_source \<Rightarrow> string set \<Rightarrow> string set \<Rightarrow> walker" where
  "new_walker file cfg dis pkg helpers partials =
     \<lparr>wk_file = file, wk_config = cfg, wk_inline = dis, wk_pkg = pkg, wk_defined_helpers = helpers,
      wk_defined_partials = partials, wk_findings = [], wk_used_helpers = {}, wk_used_partials = {},
      wk_used_values = {}, wk_used_value_paths = {}, wk_used_images = {}, wk_used_resources = {}\<rparr>"

text \<open>Every check of the walk asks for the rules turned off on line 0, whatever line it is about.\<close>

definition report :: "glob \<Rightarrow> string \<Rightarrow> lint_level \<Rightarrow> nat option \<Rightarrow> string \<Rightarrow> walker \<Rightarrow> walker" where
  "report glob rul level line msg w =
     w\<lparr>wk_findings := wk_findings w @
         configured glob (wk_config w) rul level (disabled_at (wk_inline w) 0) (wk_file w) line msg\<rparr>"

definition use_helper :: "glob \<Rightarrow> parameter \<Rightarrow> nat option \<Rightarrow> walker \<Rightarrow> walker" where
  "use_helper glob name line w =
     (case name of
        P_Name h \<Rightarrow>
          (if is_native_hbs_helper h then w
           else
             (let w = w\<lparr>wk_used_helpers := insert h (wk_used_helpers w)\<rparr>
              in if h \<in> wk_defined_helpers w then w
                 else report glob ''hbs/unknown-helper'' Error line (''Helper `'' @ h @ ''` not found'') w))
      | _ \<Rightarrow> w)"

definition named_segs :: "path_seg list \<Rightarrow> string list" where
  "named_segs segs = concat (map (\<lambda>s. case s of Named n \<Rightarrow> [n] | Ruled \<Rightarrow> []) segs)"

definition check_values_path :: "glob \<Rightarrow> nat option \<Rightarrow> parameter \<Rightarrow> walker \<Rightarrow> walker" where
  "check_values_path glob line param w =
     (case param of
        P_Path (Relative (Named first # Named key # segs)) \<Rightarrow>
          (if first = ''values''
           then
             (let w = w\<lparr>wk_used_values := insert key (wk_used_values w),
                        wk_used_value_paths :=
                          insert (join ''.'' (named_segs (Named key # segs))) (wk_used_value_paths w)\<rparr>
              in case ps_options (wk_pkg w) of
                   None \<Rightarrow> w
                 | Some options \<Rightarrow>
                     (if key \<in> fst ` set options then w
                      else report glob ''hbs/unknown-value'' Error line (''Unknown value key `'' @ key @ ''`'') w))
           else w)
      | _ \<Rightarrow> w)"

text \<open>The key a call of a helper names by its second parameter.\<close>

definition literal_key :: "parameter list \<Rightarrow> string option" where
  "literal_key params = (case params of p # P_Literal v # ps \<Rightarrow> as_str v | _ \<Rightarrow> None)"

definition check_image_resource_helper ::
  "glob \<Rightarrow> parameter \<Rightarrow> parameter list \<Rightarrow> nat option \<Rightarrow> walker \<Rightarrow> walker" where
  "check_image_resource_helper glob name params line w =
     (case (name, literal_key params) of
        (P_Name h, Some key) \<Rightarrow>
          (if h = ''image_from_ctx''
           then
             (let w = w\<lparr>wk_used_images := insert key (wk_used_images w)\<rparr>
              in case ps_images (wk_pkg w) of
                   None \<Rightarrow> w
                 | Some imgs \<Rightarrow>
                     (if key \<in> fst ` set imgs then w
                      else report glob ''hbs/unknown-image'' Error line (''Unknown image key `'' @ key @ ''`'') w))
           else if h = ''resources_from_ctx''
           then
             (let w = w\<lparr>wk_used_resources := insert key (wk_used_resources w)\<rparr>
              in case ps_resources (wk_pkg w) of
                   None \<Rightarrow> w
                 | Some res \<Rightarrow>
                     (if key \<in> fst ` set res then w
                      else report glob ''hbs/unknown-resource'' Error line (''Unknown resource key `'' @ key @ ''`'') w))
           else w)
      | _ \<Rightarrow> w)"

definition check_path :: "glob \<Rightarrow> parameter \<Rightarrow> nat option \<Rightarrow> walker \<Rightarrow> walker" where
  "check_path glob param line w =
     (case param of
        P_Path (Relative (Named first # segs)) \<Rightarrow>
          (if first = ''tenant'' \<and> pm_usage (ps_metadata (wk_pkg w)) = System
           then report glob ''hbs/wrong-package-type'' Warn line
                  ''Accessing `tenant` in a System package is not allowed'' w
           else w)
      | _ \<Rightarrow> w)"

definition level_of :: "glob \<Rightarrow> string \<Rightarrow> lint_level \<Rightarrow> walker \<Rightarrow> lint_level option" where
  "level_of glob rul level w =
     resolve_level glob (wk_config w) rul (wk_file w) level (disabled_at (wk_inline w) 0)"

definition unknown_root :: "glob \<Rightarrow> nat option \<Rightarrow> string \<Rightarrow> walker \<Rightarrow> walker" where
  "unknown_root glob line first w =
     report glob ''hbs/unknown-root-variable'' Warn line
       (''Unknown root variable `'' @ first @ ''` in template path '' @ [CHR 0xE2, CHR 0x80, CHR 0x94] @
        '' expected one of: '' @ join '', '' KNOWN_HBS_ROOTS) w"

text \<open>A rule \<open>hbs/context-prefix\<close> that is off falls through to the check of the root.\<close>

definition check_root_var :: "glob \<Rightarrow> nat option \<Rightarrow> parameter \<Rightarrow> walker \<Rightarrow> walker" where
  "check_root_var glob line param w =
     (case param of
        P_Path (Relative (Named first # second # segs)) \<Rightarrow>
          (if starts_with first ''@'' \<or> first \<in> set KNOWN_HBS_ROOTS then w
           else
             (case second of
                Named s \<Rightarrow>
                  (if first = ''context'' \<and> s \<in> set KNOWN_HBS_ROOTS \<and>
                      level_of glob ''hbs/context-prefix'' Error w \<noteq> None
                   then report glob ''hbs/context-prefix'' Error line
                          (''Use `'' @ s @ ''` instead of `context.'' @ s @
                           ''`; the `context.` prefix is not valid in templates'') w
                   else unknown_root glob line first w)
              | Ruled \<Rightarrow> unknown_root glob line first w))
      | _ \<Rightarrow> w)"

definition check_partial :: "glob \<Rightarrow> parameter \<Rightarrow> nat option \<Rightarrow> walker \<Rightarrow> walker" where
  "check_partial glob name line w =
     (case (case name of
              P_Name s \<Rightarrow> Some s
            | P_Literal v \<Rightarrow> Some (case as_str v of Some s \<Rightarrow> s | None \<Rightarrow> [])
            | _ \<Rightarrow> None) of
        None \<Rightarrow> w
      | Some partial_name \<Rightarrow>
          (let w = w\<lparr>wk_used_partials := insert partial_name (wk_used_partials w)\<rparr>
           in if partial_name \<in> wk_defined_partials w then w
              else report glob ''hbs/unknown-partial'' Error line (''Partial `'' @ partial_name @ ''` not found'') w))"

text \<open>The two checks of each parameter, parameter by parameter.\<close>

definition check_params :: "glob \<Rightarrow> nat option \<Rightarrow> parameter list \<Rightarrow> walker \<Rightarrow> walker" where
  "check_params glob line params w =
     fold (\<lambda>p w. check_root_var glob line p (check_values_path glob line p w)) params w"

text \<open>An expression is the same with and without escaping; a block does not check its name for values.\<close>

function (sequential) visit_element :: "glob \<Rightarrow> nat option \<Rightarrow> element \<Rightarrow> walker \<Rightarrow> walker"
  and visit_expression :: "glob \<Rightarrow> nat option \<Rightarrow> parameter \<Rightarrow> parameter list \<Rightarrow> walker \<Rightarrow> walker"
  and check_helper :: "glob \<Rightarrow> nat option \<Rightarrow> parameter \<Rightarrow> parameter list \<Rightarrow> walker \<Rightarrow> walker"
  and visit_subexpressions :: "glob \<Rightarrow> nat option \<Rightarrow> parameter list \<Rightarrow> walker \<Rightarrow> walker" where
  "visit_element glob line (T_HelperBlock name params t i) w =
     check_params glob line params
       (check_path glob name line
         (check_image_resource_helper glob name params line (check_helper glob line name params w)))"
| "visit_element glob line (T_Expression name params) w = visit_expression glob line name params w"
| "visit_element glob line (T_HtmlExpression name params) w = visit_expression glob line name params w"
| "visit_element glob line (T_DecoratorBlock name params t) w = check_helper glob line name params w"
| "visit_element glob line (T_PartialExpression name) w = check_partial glob name line w"
| "visit_element glob line (T_PartialBlock name t) w = check_partial glob name line w"
| "visit_element glob line T_Other w = w"
| "visit_expression glob line name params w =
     check_root_var glob line name
       (check_path glob name line
         (check_image_resource_helper glob name params line
           (check_params glob line params
             (check_values_path glob line name (check_helper glob line name params w)))))"
| "check_helper glob line name params w = visit_subexpressions glob line params (use_helper glob name line w)"
| "visit_subexpressions glob line [] w = w"
| "visit_subexpressions glob line (p # ps) w =
     visit_subexpressions glob line ps (case p of P_Subexpression e \<Rightarrow> visit_element glob line e w | _ \<Rightarrow> w)"
  by pat_completeness auto

termination
  by (relation "measure (\<lambda>x. case x of
        Inl (Inl (g, l, e, w)) \<Rightarrow> 3 * size e
      | Inl (Inr (g, l, n, ps, w)) \<Rightarrow> Suc (Suc (3 * size_list size ps))
      | Inr (Inl (g, l, n, ps, w)) \<Rightarrow> Suc (3 * size_list size ps)
      | Inr (Inr (g, l, ps, w)) \<Rightarrow> 3 * size_list size ps)") auto

fun walk_template :: "glob \<Rightarrow> template \<Rightarrow> walker \<Rightarrow> walker"
  and walk_optional :: "glob \<Rightarrow> template option \<Rightarrow> walker \<Rightarrow> walker"
  and walk_inner :: "glob \<Rightarrow> element \<Rightarrow> walker \<Rightarrow> walker"
  and walk_elements :: "glob \<Rightarrow> element list \<Rightarrow> nat list \<Rightarrow> walker \<Rightarrow> walker" where
  "walk_template glob (Template elements mapping) w = walk_elements glob elements mapping w"
| "walk_optional glob None w = w"
| "walk_optional glob (Some t) w = walk_template glob t w"
| "walk_inner glob (T_HelperBlock name params t i) w = walk_optional glob i (walk_optional glob t w)"
| "walk_inner glob (T_DecoratorBlock name params t) w = walk_optional glob t w"
| "walk_inner glob (T_PartialBlock name t) w = walk_optional glob t w"
| "walk_inner glob (T_Expression name params) w = w"
| "walk_inner glob (T_HtmlExpression name params) w = w"
| "walk_inner glob (T_PartialExpression name) w = w"
| "walk_inner glob T_Other w = w"
| "walk_elements glob [] mapping w = w"
| "walk_elements glob (e # es) mapping w =
     walk_elements glob es (tl mapping)
       (walk_inner glob e (visit_element glob (case mapping of [] \<Rightarrow> None | l # ls \<Rightarrow> Some l) e w))"

section \<open>The checker\<close>

record hbs_checker =
  hk_pkg :: package_source
  hk_config :: lint_config
  hk_defined_helpers :: "string list"
  hk_defined_partials :: "string list"
  hk_used_helpers :: "string set"
  hk_used_partials :: "string set"
  hk_used_values :: "string set"
  hk_used_value_paths :: "string set"
  hk_used_images :: "string set"
  hk_used_resources :: "string set"

text \<open>
  The two lists are the paths in \<open>handlebars/helpers\<close> and \<open>handlebars/partials\<close> of the package, none when the
  directory cannot be read. The code keeps the names in a hash set; here they stay in the order they were read.
\<close>

definition stems_of :: "string \<Rightarrow> string list \<Rightarrow> string list" where
  "stems_of ext paths =
     concat (map (\<lambda>p. if extension p = Some ext then (case file_stem p of Some n \<Rightarrow> [n] | None \<Rightarrow> []) else []) paths)"

definition new_hbs_checker ::
  "package_source \<Rightarrow> lint_config \<Rightarrow> string list \<Rightarrow> string list \<Rightarrow> hbs_checker" where
  "new_hbs_checker pkg cfg helpers partials =
     \<lparr>hk_pkg = pkg, hk_config = cfg, hk_defined_helpers = stems_of ''rhai'' helpers,
      hk_defined_partials = stems_of ''hbs'' partials, hk_used_helpers = {}, hk_used_partials = {},
      hk_used_values = {}, hk_used_value_paths = {}, hk_used_images = {}, hk_used_resources = {}\<rparr>"

definition walk_file :: "glob \<Rightarrow> hbs_checker \<Rightarrow> string \<Rightarrow> disables \<Rightarrow> template \<Rightarrow> walker" where
  "walk_file glob hk file dis t =
     walk_template glob t
       (new_walker file (hk_config hk) dis (hk_pkg hk) (set (hk_defined_helpers hk)) (set (hk_defined_partials hk)))"

definition absorb :: "walker \<Rightarrow> hbs_checker \<Rightarrow> hbs_checker" where
  "absorb w hk =
     hk\<lparr>hk_used_helpers := hk_used_helpers hk \<union> wk_used_helpers w,
        hk_used_partials := hk_used_partials hk \<union> wk_used_partials w,
        hk_used_values := hk_used_values hk \<union> wk_used_values w,
        hk_used_value_paths := hk_used_value_paths hk \<union> wk_used_value_paths w,
        hk_used_images := hk_used_images hk \<union> wk_used_images w,
        hk_used_resources := hk_used_resources hk \<union> wk_used_resources w\<rparr>"

definition check_hbs_file ::
  "hbs_crate \<Rightarrow> glob \<Rightarrow> string \<Rightarrow> string \<Rightarrow> hbs_checker \<Rightarrow> lint_finding list \<times> hbs_checker" where
  "check_hbs_file hc glob file source hk =
     (case hc_compile hc source of
        Inl e \<Rightarrow>
          (configured glob (hk_config hk) ''hbs/syntax'' Error {} file None (''Syntax error: '' @ e), hk)
      | Inr t \<Rightarrow>
          (let w = walk_file glob hk file (parse_inline_disables source) t in (wk_findings w, absorb w hk)))"

text \<open>The paths of the fields of an option, as its schema nests them.\<close>

function (sequential) collect_option_leaf_paths :: "string \<Rightarrow> json \<Rightarrow> string list"
  and leaf_paths_of :: "string \<Rightarrow> (string \<times> json) list \<Rightarrow> string list" where
  "collect_option_leaf_paths prefix schema =
     (case value_get schema ''properties'' of
        Some (JObj props) \<Rightarrow> leaf_paths_of prefix props
      | _ \<Rightarrow> [])"
| "leaf_paths_of prefix [] = []"
| "leaf_paths_of prefix ((key, sub_schema) # props) =
     (if value_get sub_schema ''properties'' \<noteq> None
      then collect_option_leaf_paths (prefix @ ''.'' @ key) sub_schema
      else [prefix @ ''.'' @ key]) @ leaf_paths_of prefix props"
  by pat_completeness auto

termination
  by (relation "measure (\<lambda>x. case x of Inl (p, s) \<Rightarrow> 2 * size s | Inr (p, m) \<Rightarrow> Suc (2 * size_list (size_prod (\<lambda>x. 0) size) m))")
    (auto dest!: value_get_size)

text \<open>A path or one of those it extends is used: the path is cut at its last dot until there is none.\<close>

definition cut_last_dot :: "string \<Rightarrow> string option" where
  "cut_last_dot path =
     (if CHR ''.'' \<notin> set path then None
      else Some (take (length path - length (takeWhile (\<lambda>c. c \<noteq> CHR ''.'') (rev path)) - 1) path))"

lemma cut_last_dot_app: "CHR ''.'' \<notin> set t \<Longrightarrow> cut_last_dot (q @ CHR ''.'' # t) = Some q"
proof -
  assume "CHR ''.'' \<notin> set t"
  then have "\<forall>c \<in> set (rev t). c \<noteq> CHR ''.''" by auto
  then have tw: "takeWhile (\<lambda>c. c \<noteq> CHR ''.'') (rev t) = rev t" by (simp only: takeWhile_eq_all_conv)
  show ?thesis by (simp add: cut_last_dot_def takeWhile_tail tw)
qed

lemma cut_last_dot_SomeD:
  assumes "cut_last_dot path = Some q"
  shows "\<exists>t. path = q @ CHR ''.'' # t \<and> CHR ''.'' \<notin> set t"
proof -
  have "CHR ''.'' \<in> set path" using assms by (simp add: cut_last_dot_def split: if_splits)
  then obtain u t where "path = u @ CHR ''.'' # t" "CHR ''.'' \<notin> set t" using split_list_last by fastforce
  with cut_last_dot_app [of t u] assms show ?thesis by auto
qed

function cut_covered :: "string \<Rightarrow> string set \<Rightarrow> bool" where
  "cut_covered current used =
     (case cut_last_dot current of
        None \<Rightarrow> False
      | Some c \<Rightarrow> c \<in> used \<or> cut_covered c used)"
  by pat_completeness auto
termination
  by (relation "measure (\<lambda>(c, u). length c)") (auto dest!: cut_last_dot_SomeD)

declare cut_covered.simps [simp del]

definition is_value_path_covered :: "string \<Rightarrow> string set \<Rightarrow> bool" where
  "is_value_path_covered path used \<longleftrightarrow> path \<in> used \<or> cut_covered path used"

text \<open>What the comments of \<open>package.yaml\<close> turn off on a line; \<open>None\<close> when it cannot be read.\<close>

definition yaml_disables :: "string option \<Rightarrow> nat option \<Rightarrow> string set" where
  "yaml_disables content line =
     (case (content, line) of
        (Some c, Some l) \<Rightarrow> disabled_at (parse_inline_disables c) l
      | _ \<Rightarrow> {})"

definition unused_helper :: "glob \<Rightarrow> hbs_checker \<Rightarrow> string \<Rightarrow> lint_finding list" where
  "unused_helper glob hk h =
     (if h \<in> hk_used_helpers hk then []
      else configured glob (hk_config hk) ''hbs/unused-helper'' Warn {} (''handlebars/helpers/'' @ h @ ''.rhai'') None
             (''Helper `'' @ h @ ''` defined but never used''))"

definition unused_partial :: "glob \<Rightarrow> hbs_checker \<Rightarrow> string \<Rightarrow> lint_finding list" where
  "unused_partial glob hk p =
     (if p \<in> hk_used_partials hk then []
      else configured glob (hk_config hk) ''hbs/unused-partial'' Warn {} (''handlebars/partials/'' @ p @ ''.hbs'') None
             (''Partial `'' @ p @ ''` defined but never used''))"

text \<open>A finding about an entry of \<open>package.yaml\<close>, at the line of its key.\<close>

definition yaml_finding ::
  "glob \<Rightarrow> lint_config \<Rightarrow> string option \<Rightarrow> string \<Rightarrow> nat option \<Rightarrow> string \<Rightarrow> lint_finding list" where
  "yaml_finding glob cfg yaml rul line msg =
     configured glob cfg rul Warn (yaml_disables yaml line) ''package.yaml'' line msg"

definition unused_option_message :: "string \<Rightarrow> string" where
  "unused_option_message key = ''Option `'' @ key @ ''` defined but never used''"

definition unused_option :: "glob \<Rightarrow> string option \<Rightarrow> hbs_checker \<Rightarrow> string \<times> json \<Rightarrow> lint_finding list" where
  "unused_option glob yaml hk opt =
     (let line = find_option_line_numbers yaml (fst opt)
      in (if fst opt \<in> hk_used_values hk then []
          else yaml_finding glob (hk_config hk) yaml ''hbs/unused-option'' line
                 (unused_option_message (fst opt))) @
         concat (map (\<lambda>leaf. if is_value_path_covered leaf (hk_used_value_paths hk) then []
            else yaml_finding glob (hk_config hk) yaml ''hbs/unused-option-field'' line
                   (unused_option_message leaf))
           (collect_option_leaf_paths (fst opt) (snd opt))))"

definition unused_image :: "glob \<Rightarrow> string option \<Rightarrow> hbs_checker \<Rightarrow> string \<Rightarrow> lint_finding list" where
  "unused_image glob yaml hk key =
     (if key \<in> hk_used_images hk then []
      else yaml_finding glob (hk_config hk) yaml ''hbs/unused-image''
             (find_section_key_line_numbers yaml ''images'' key) (''Image `'' @ key @ ''` defined but never used''))"

definition unused_resource :: "glob \<Rightarrow> string option \<Rightarrow> hbs_checker \<Rightarrow> string \<Rightarrow> lint_finding list" where
  "unused_resource glob yaml hk key =
     (if key \<in> hk_used_resources hk then []
      else yaml_finding glob (hk_config hk) yaml ''hbs/unused-resource''
             (find_section_key_line_numbers yaml ''resources'' key)
             (''Resource `'' @ key @ ''` defined but never used''))"

definition hbs_finalize :: "glob \<Rightarrow> string option \<Rightarrow> hbs_checker \<Rightarrow> lint_finding list" where
  "hbs_finalize glob yaml hk =
     concat (map (unused_helper glob hk) (hk_defined_helpers hk)) @
     concat (map (unused_partial glob hk) (hk_defined_partials hk)) @
     (case ps_options (hk_pkg hk) of None \<Rightarrow> []
      | Some options \<Rightarrow> concat (map (unused_option glob yaml hk) options)) @
     (case ps_images (hk_pkg hk) of None \<Rightarrow> []
      | Some images \<Rightarrow> concat (map (unused_image glob yaml hk \<circ> fst) images)) @
     (case ps_resources (hk_pkg hk) of None \<Rightarrow> []
      | Some resources \<Rightarrow> concat (map (unused_resource glob yaml hk \<circ> fst) resources))"

section \<open>The uses in scripts\<close>

text \<open>\<open>take_while\<close> over the characters, for the alphanumeric ones and those of a list.\<close>

function take_name :: "(string \<Rightarrow> nat) \<Rightarrow> char list \<Rightarrow> string \<Rightarrow> string" where
  "take_name alnum extra s =
     (if s = [] then []
      else if alnum s > 0 then take (alnum s) s @ take_name alnum extra (drop (alnum s) s)
      else if hd s \<in> set extra then hd s # take_name alnum extra (tl s)
      else [])"
  by pat_completeness auto
termination
  by (relation "measure (\<lambda>(a, e, s). length s)") auto

declare take_name.simps [simp del]

definition after_each :: "string \<Rightarrow> string \<Rightarrow> string list" where
  "after_each p source = tl (split_str source p)"

definition scan_rhai_for_values :: "hbs_crate \<Rightarrow> string \<Rightarrow> hbs_checker \<Rightarrow> hbs_checker" where
  "scan_rhai_for_values hc source hk =
     (let paths = filter (\<lambda>p. p \<noteq> [])
            (map (\<lambda>part. trim_end_matches (take_name (hc_alnum hc) [CHR ''_'', CHR ''.''] part) ''.'')
              (after_each ''context.values.'' source))
      in hk\<lparr>hk_used_values := hk_used_values hk \<union> set (map (\<lambda>p. hd (split_on (CHR ''.'') p)) paths),
            hk_used_value_paths := hk_used_value_paths hk \<union> set paths\<rparr>)"

definition names_after :: "hbs_crate \<Rightarrow> string \<Rightarrow> string \<Rightarrow> string list" where
  "names_after hc p source = filter (\<lambda>k. k \<noteq> []) (map (take_name (hc_alnum hc) [CHR ''_'']) (after_each p source))"

definition scan_rhai_for_images :: "hbs_crate \<Rightarrow> string \<Rightarrow> hbs_checker \<Rightarrow> hbs_checker" where
  "scan_rhai_for_images hc source hk =
     hk\<lparr>hk_used_images := hk_used_images hk \<union> set (names_after hc ''context.images.'' source)\<rparr>"

definition scan_rhai_for_resources :: "hbs_crate \<Rightarrow> string \<Rightarrow> hbs_checker \<Rightarrow> hbs_checker" where
  "scan_rhai_for_resources hc source hk =
     hk\<lparr>hk_used_resources := hk_used_resources hk \<union> set (names_after hc ''context.instance.resources.'' source)\<rparr>"

fun take_partial :: "string \<Rightarrow> string" where
  "take_partial [] = []"
| "take_partial (c # cs) = (if ws_prefix (c # cs) \<noteq> 0 \<or> c = CHR ''}'' then [] else c # take_partial cs)"

definition scan_rhai_for_partials :: "string \<Rightarrow> hbs_checker \<Rightarrow> hbs_checker" where
  "scan_rhai_for_partials source hk =
     hk\<lparr>hk_used_partials := hk_used_partials hk \<union>
          set (filter (\<lambda>n. n \<noteq> []) (map (take_partial \<circ> trim_start) (after_each ''{{>'' source)))\<rparr>"

text \<open>The templates of a package one after the other, as \<open>scan_hbs_files\<close> hands them to the checker.\<close>

fun check_templates ::
  "hbs_crate \<Rightarrow> glob \<Rightarrow> (string \<times> string) list \<Rightarrow> hbs_checker \<Rightarrow> lint_finding list \<times> hbs_checker" where
  "check_templates hc glob [] hk = ([], hk)"
| "check_templates hc glob ((file, source) # templates) hk =
     (let (f1, hk1) = check_hbs_file hc glob file source hk;
          (f2, hk2) = check_templates hc glob templates hk1
      in (f1 @ f2, hk2))"

section \<open>Lemmas\<close>

text \<open>
  A step of the walk that sees of the comments only what they turn off on line 0, and keeps them.
\<close>

definition blind :: "(walker \<Rightarrow> walker) \<Rightarrow> bool" where
  "blind f \<longleftrightarrow>
     (\<forall>w d. disabled_at d 0 = disabled_at (wk_inline w) 0 \<longrightarrow>
        f (w\<lparr>wk_inline := d\<rparr>) = (f w)\<lparr>wk_inline := d\<rparr> \<and> wk_inline (f w) = wk_inline w)"

lemma blind_id: "blind (\<lambda>w. w)"
  by (simp add: blind_def)

lemma blind_comp: "blind f \<Longrightarrow> blind g \<Longrightarrow> blind (\<lambda>w. f (g w))"
  by (simp add: blind_def)

lemma blind_fold: "(\<And>x. blind (f x)) \<Longrightarrow> blind (fold f xs)"
proof (induction xs)
  case (Cons x xs)
  then show ?case using blind_comp [of "fold f xs" "f x"] by (simp add: comp_def)
qed (simp add: blind_def)

lemma blind_if:
  assumes "blind f" "blind g"
    and "\<And>w d. disabled_at d 0 = disabled_at (wk_inline w) 0 \<Longrightarrow> P (w\<lparr>wk_inline := d\<rparr>) = P w"
  shows "blind (\<lambda>w. if P w then f w else g w)"
  using assms unfolding blind_def by simp

lemma blind_report: "blind (report glob rul level line msg)"
  by (simp add: blind_def report_def)

lemma blind_helper: "blind (use_helper glob name line)"
  by (cases name) (simp_all add: blind_def use_helper_def report_def Let_def)

lemma blind_values: "blind (check_values_path glob line p)"
proof (cases "\<exists>first key segs. p = P_Path (Relative (Named first # Named key # segs))")
  case True
  then obtain first key segs where p: "p = P_Path (Relative (Named first # Named key # segs))" by blast
  show ?thesis unfolding p by (simp add: blind_def check_values_path_def report_def Let_def split: option.split)
next
  case False
  then have "check_values_path glob line p w = w" for w
    by (simp add: check_values_path_def split: parameter.split hbs_path.split list.split path_seg.split)
  then show ?thesis by (simp add: blind_def)
qed

lemma blind_image: "blind (check_image_resource_helper glob name params line)"
proof (cases "\<exists>h key. name = P_Name h \<and> literal_key params = Some key")
  case True
  then obtain h key where n: "name = P_Name h" "literal_key params = Some key" by blast
  consider "h = ''image_from_ctx''" | "h = ''resources_from_ctx''" "h \<noteq> ''image_from_ctx''"
    | "h \<noteq> ''image_from_ctx''" "h \<noteq> ''resources_from_ctx''" by blast
  then show ?thesis
    by cases (simp_all add: n blind_def check_image_resource_helper_def report_def Let_def split: option.split)
next
  case False
  then have "check_image_resource_helper glob name params line w = w" for w
    by (cases name; cases "literal_key params") (simp_all add: check_image_resource_helper_def)
  then show ?thesis by (simp add: blind_def)
qed

lemma blind_path: "blind (check_path glob p line)"
proof (cases "\<exists>first segs. p = P_Path (Relative (Named first # segs))")
  case True
  then obtain first segs where p: "p = P_Path (Relative (Named first # segs))" by blast
  show ?thesis unfolding p by (simp add: blind_def check_path_def report_def)
next
  case False
  then have "check_path glob p line w = w" for w
    by (simp add: check_path_def split: parameter.split hbs_path.split list.split path_seg.split)
  then show ?thesis by (simp add: blind_def)
qed

lemma blind_partial: "blind (check_partial glob name line)"
  by (cases name) (simp_all add: blind_def check_partial_def report_def Let_def)

lemma blind_unknown: "blind (unknown_root glob line first)"
  unfolding unknown_root_def by (rule blind_report)

lemma blind_root: "blind (check_root_var glob line p)"
proof (cases "\<exists>first second segs. p = P_Path (Relative (Named first # second # segs))")
  case True
  then obtain first second segs where p: "p = P_Path (Relative (Named first # second # segs))" by blast
  show ?thesis
  proof (cases second)
    case (Named s)
    show ?thesis
      unfolding p Named check_root_var_def parameter.case hbs_path.case list.case path_seg.case
      by (intro blind_if blind_id blind_report blind_unknown) (simp_all add: level_of_def)
  next
    case Ruled
    show ?thesis
      unfolding p Ruled check_root_var_def parameter.case hbs_path.case list.case path_seg.case
      by (intro blind_if blind_id blind_unknown) simp
  qed
next
  case False
  then have "check_root_var glob line p w = w" for w
    by (simp add: check_root_var_def split: parameter.split hbs_path.split list.split path_seg.split)
  then show ?thesis by (simp add: blind_def)
qed

lemma blind_params: "blind (check_params glob line params)"
  unfolding check_params_def by (rule blind_fold, rule blind_comp [OF blind_root blind_values])

lemmas blind_checks = blind_helper blind_values blind_image blind_path blind_partial blind_root blind_params

lemma blindD:
  assumes "blind f"
  shows "disabled_at d 0 = disabled_at (wk_inline w) 0 \<Longrightarrow> f (w\<lparr>wk_inline := d\<rparr>) = (f w)\<lparr>wk_inline := d\<rparr>"
    and "wk_inline (f w) = wk_inline w"
  using assms by (auto simp: blind_def)

lemmas blind_check_simps = blind_checks [THEN blindD(1)] blind_checks [THEN blindD(2)]

lemma blind_visits:
  "disabled_at d 0 = disabled_at (wk_inline w) 0 \<Longrightarrow>
     visit_element glob line e (w\<lparr>wk_inline := d\<rparr>) = (visit_element glob line e w)\<lparr>wk_inline := d\<rparr> \<and>
     wk_inline (visit_element glob line e w) = wk_inline w"
  "disabled_at d 0 = disabled_at (wk_inline w) 0 \<Longrightarrow>
     visit_expression glob line name params (w\<lparr>wk_inline := d\<rparr>) =
       (visit_expression glob line name params w)\<lparr>wk_inline := d\<rparr> \<and>
     wk_inline (visit_expression glob line name params w) = wk_inline w"
  "disabled_at d 0 = disabled_at (wk_inline w) 0 \<Longrightarrow>
     check_helper glob line name params (w\<lparr>wk_inline := d\<rparr>) =
       (check_helper glob line name params w)\<lparr>wk_inline := d\<rparr> \<and>
     wk_inline (check_helper glob line name params w) = wk_inline w"
  "disabled_at d 0 = disabled_at (wk_inline w) 0 \<Longrightarrow>
     visit_subexpressions glob line params (w\<lparr>wk_inline := d\<rparr>) =
       (visit_subexpressions glob line params w)\<lparr>wk_inline := d\<rparr> \<and>
     wk_inline (visit_subexpressions glob line params w) = wk_inline w"
proof (induction glob line e w and glob line name params w and glob line name params w and glob line params w
    rule: visit_element_visit_expression_check_helper_visit_subexpressions.induct)
  case (11 glob line p ps w)
  then show ?case by (cases p) simp_all
qed (simp_all add: blind_check_simps)

lemma blind_visit: "blind (visit_element glob line e)"
  using blind_visits(1) by (simp add: blind_def)

lemma blind_walks:
  "disabled_at d 0 = disabled_at (wk_inline w) 0 \<Longrightarrow>
     walk_template glob t (w\<lparr>wk_inline := d\<rparr>) = (walk_template glob t w)\<lparr>wk_inline := d\<rparr> \<and>
     wk_inline (walk_template glob t w) = wk_inline w"
  "disabled_at d 0 = disabled_at (wk_inline w) 0 \<Longrightarrow>
     walk_optional glob o' (w\<lparr>wk_inline := d\<rparr>) = (walk_optional glob o' w)\<lparr>wk_inline := d\<rparr> \<and>
     wk_inline (walk_optional glob o' w) = wk_inline w"
  "disabled_at d 0 = disabled_at (wk_inline w) 0 \<Longrightarrow>
     walk_inner glob e (w\<lparr>wk_inline := d\<rparr>) = (walk_inner glob e w)\<lparr>wk_inline := d\<rparr> \<and>
     wk_inline (walk_inner glob e w) = wk_inline w"
  "disabled_at d 0 = disabled_at (wk_inline w) 0 \<Longrightarrow>
     walk_elements glob es mapping (w\<lparr>wk_inline := d\<rparr>) = (walk_elements glob es mapping w)\<lparr>wk_inline := d\<rparr> \<and>
     wk_inline (walk_elements glob es mapping w) = wk_inline w"
proof (induction glob t w and glob o' w and glob e w and glob es mapping w
    rule: walk_template_walk_optional_walk_inner_walk_elements.induct)
qed (simp_all add: blind_visit [THEN blindD(1)] blind_visit [THEN blindD(2)])

lemma cut_covered_iff: "cut_covered path used \<longleftrightarrow> (\<exists>u t. u \<in> used \<and> path = u @ CHR ''.'' # t)"
proof (induction path used rule: cut_covered.induct)
  case (1 path used)
  show ?case
  proof (cases "cut_last_dot path")
    case None
    then have "CHR ''.'' \<notin> set path" by (simp add: cut_last_dot_def split: if_splits)
    with None show ?thesis by (auto simp: cut_covered.simps)
  next
    case (Some q)
    then obtain t where t: "path = q @ CHR ''.'' # t" "CHR ''.'' \<notin> set t" using cut_last_dot_SomeD by blast
    have "u @ CHR ''.'' # s = path \<longleftrightarrow> u = q \<and> s = t \<or> (\<exists>r. q = u @ CHR ''.'' # r \<and> s = r @ CHR ''.'' # t)" for u s
      using t by (auto simp: append_eq_append_conv2 Cons_eq_append_conv append_eq_Cons_conv)
    with 1 [OF Some] Some show ?thesis by (subst cut_covered.simps) (auto, metis+)
  qed
qed

text \<open>Checking files only adds to what the checker has seen used.\<close>

lemma walk_file_absorb [simp]: "walk_file glob (absorb w hk) = walk_file glob hk"
  by (intro ext) (simp add: walk_file_def absorb_def)

definition walked :: "hbs_crate \<Rightarrow> glob \<Rightarrow> hbs_checker \<Rightarrow> (string \<times> string) list \<Rightarrow> walker list" where
  "walked hc glob hk templates =
     concat (map (\<lambda>(file, source). case hc_compile hc source of Inl _ \<Rightarrow> []
       | Inr t \<Rightarrow> [walk_file glob hk file (parse_inline_disables source) t]) templates)"

lemma walked_absorb [simp]: "walked hc glob (absorb w hk) = walked hc glob hk"
  by (intro ext) (simp add: walked_def cong: sum.case_cong)

lemma walked_Cons:
  "walked hc glob hk ((file, source) # templates) =
     (case hc_compile hc source of Inl _ \<Rightarrow> []
      | Inr t \<Rightarrow> [walk_file glob hk file (parse_inline_disables source) t]) @ walked hc glob hk templates"
  by (simp add: walked_def)

lemma check_templates_absorbs:
  "snd (check_templates hc glob templates hk) = fold absorb (walked hc glob hk templates) hk"
proof (induction templates arbitrary: hk)
  case (Cons x templates)
  then show ?case
    by (cases x; cases "hc_compile hc (snd x)")
      (simp_all add: case_prod_beta check_hbs_file_def Let_def walked_Cons)
qed (simp add: walked_def)

lemma fold_absorb:
  "fold absorb ws hk =
     hk\<lparr>hk_used_helpers := hk_used_helpers hk \<union> \<Union> (wk_used_helpers ` set ws),
        hk_used_partials := hk_used_partials hk \<union> \<Union> (wk_used_partials ` set ws),
        hk_used_values := hk_used_values hk \<union> \<Union> (wk_used_values ` set ws),
        hk_used_value_paths := hk_used_value_paths hk \<union> \<Union> (wk_used_value_paths ` set ws),
        hk_used_images := hk_used_images hk \<union> \<Union> (wk_used_images ` set ws),
        hk_used_resources := hk_used_resources hk \<union> \<Union> (wk_used_resources ` set ws)\<rparr>"
  by (induction ws arbitrary: hk) (simp_all add: absorb_def Un_assoc)

section \<open>The parameters a template shows\<close>

text \<open>
  The parameters whose paths count as uses of a value: those of blocks and expressions and the names of
  expressions, subexpressions included; of a decorator only the subexpressions among its parameters.
\<close>

function (sequential) element_params :: "element \<Rightarrow> parameter list"
  and subexpression_params :: "parameter list \<Rightarrow> parameter list" where
  "element_params (T_HelperBlock name params t i) = params @ subexpression_params params"
| "element_params (T_Expression name params) = name # params @ subexpression_params params"
| "element_params (T_HtmlExpression name params) = name # params @ subexpression_params params"
| "element_params (T_DecoratorBlock name params t) = subexpression_params params"
| "element_params (T_PartialExpression name) = []"
| "element_params (T_PartialBlock name t) = []"
| "element_params T_Other = []"
| "subexpression_params [] = []"
| "subexpression_params (p # ps) =
     (case p of P_Subexpression e \<Rightarrow> element_params e | _ \<Rightarrow> []) @ subexpression_params ps"
  by pat_completeness auto

termination
  by (relation "measure (\<lambda>x. case x of Inl e \<Rightarrow> size e | Inr ps \<Rightarrow> size_list size ps)") auto

fun template_params :: "template \<Rightarrow> parameter list"
  and optional_params :: "template option \<Rightarrow> parameter list"
  and inner_params :: "element \<Rightarrow> parameter list"
  and elements_params :: "element list \<Rightarrow> parameter list" where
  "template_params (Template elements mapping) = elements_params elements"
| "optional_params None = []"
| "optional_params (Some t) = template_params t"
| "inner_params (T_HelperBlock name params t i) = optional_params t @ optional_params i"
| "inner_params (T_DecoratorBlock name params t) = optional_params t"
| "inner_params (T_PartialBlock name t) = optional_params t"
| "inner_params (T_Expression name params) = []"
| "inner_params (T_HtmlExpression name params) = []"
| "inner_params (T_PartialExpression name) = []"
| "inner_params T_Other = []"
| "elements_params [] = []"
| "elements_params (e # es) = element_params e @ inner_params e @ elements_params es"

definition values_key :: "parameter \<Rightarrow> string set" where
  "values_key p =
     (case p of
        P_Path (Relative (Named first # Named key # segs)) \<Rightarrow> if first = ''values'' then {key} else {}
      | _ \<Rightarrow> {})"

definition values_keys :: "parameter list \<Rightarrow> string set" where
  "values_keys ps = \<Union> (values_key ` set ps)"

lemma values_keys_simps [simp]:
  "values_keys [] = {}" "values_keys (p # ps) = values_key p \<union> values_keys ps"
  "values_keys (ps @ qs) = values_keys ps \<union> values_keys qs"
  by (auto simp: values_keys_def)

lemma report_values [simp]: "wk_used_values (report glob rul level line msg w) = wk_used_values w"
  by (simp add: report_def)

lemma check_values [simp]:
  "wk_used_values (use_helper glob name line w) = wk_used_values w"
  "wk_used_values (check_path glob p line w) = wk_used_values w"
  "wk_used_values (check_partial glob name line w) = wk_used_values w"
  "wk_used_values (check_root_var glob line p w) = wk_used_values w"
  "wk_used_values (check_image_resource_helper glob name params line w) = wk_used_values w"
  by (simp_all add: use_helper_def check_path_def check_partial_def check_root_var_def unknown_root_def
      check_image_resource_helper_def Let_def
      split: parameter.split hbs_path.split list.split path_seg.split option.split)

lemma path_values [simp]:
  "wk_used_values (check_values_path glob line p w) = wk_used_values w \<union> values_key p"
proof (cases "\<exists>first key segs. p = P_Path (Relative (Named first # Named key # segs))")
  case True
  then obtain first key segs where p: "p = P_Path (Relative (Named first # Named key # segs))" by blast
  show ?thesis unfolding p by (simp add: check_values_path_def values_key_def Let_def split: option.split)
next
  case False
  then have "check_values_path glob line p w = w" "values_key p = {}"
    by (simp_all add: check_values_path_def values_key_def
        split: parameter.split hbs_path.split list.split path_seg.split)
  then show ?thesis by simp
qed

lemma params_values [simp]:
  "wk_used_values (check_params glob line params w) = wk_used_values w \<union> values_keys params"
  unfolding check_params_def by (induction params arbitrary: w) (simp_all add: Un_assoc)

lemma visit_values:
  "wk_used_values (visit_element glob line e w) = wk_used_values w \<union> values_keys (element_params e)"
  "wk_used_values (visit_expression glob line name params w) =
     wk_used_values w \<union> values_keys (name # params @ subexpression_params params)"
  "wk_used_values (check_helper glob line name params w) =
     wk_used_values w \<union> values_keys (subexpression_params params)"
  "wk_used_values (visit_subexpressions glob line params w) =
     wk_used_values w \<union> values_keys (subexpression_params params)"
proof (induction glob line e w and glob line name params w and glob line name params w and glob line params w
    rule: visit_element_visit_expression_check_helper_visit_subexpressions.induct)
  case (11 glob line p ps w)
  then show ?case by (cases p) (simp_all add: Un_assoc)
qed (auto simp del: set_simps)

lemma walk_values:
  "wk_used_values (walk_template glob t w) = wk_used_values w \<union> values_keys (template_params t)"
  "wk_used_values (walk_optional glob o' w) = wk_used_values w \<union> values_keys (optional_params o')"
  "wk_used_values (walk_inner glob e w) = wk_used_values w \<union> values_keys (inner_params e)"
  "wk_used_values (walk_elements glob es mapping w) = wk_used_values w \<union> values_keys (elements_params es)"
proof (induction glob t w and glob o' w and glob e w and glob es mapping w
    rule: walk_template_walk_optional_walk_inner_walk_elements.induct)
qed (simp_all add: visit_values(1) Un_assoc)

section \<open>The rules of the walk\<close>

definition walk_rules :: "string list" where
  "walk_rules =
     [''hbs/unknown-helper'', ''hbs/unknown-value'', ''hbs/unknown-image'', ''hbs/unknown-resource'',
      ''hbs/wrong-package-type'', ''hbs/context-prefix'', ''hbs/unknown-root-variable'', ''hbs/unknown-partial'']"

definition walk_ruled :: "walker \<Rightarrow> bool" where
  "walk_ruled w \<longleftrightarrow> list_all (\<lambda>f. lf_rule f \<in> set walk_rules) (wk_findings w)"

lemma report_ruled [intro]: "walk_ruled w \<Longrightarrow> rul \<in> set walk_rules \<Longrightarrow> walk_ruled (report glob rul level line msg w)"
  by (auto simp: walk_ruled_def report_def list_all_iff dest: configured_rule)

lemma used_ruled [simp]:
  "walk_ruled (w\<lparr>wk_used_helpers := a\<rparr>) = walk_ruled w" "walk_ruled (w\<lparr>wk_used_partials := a\<rparr>) = walk_ruled w"
  "walk_ruled (w\<lparr>wk_used_values := a\<rparr>) = walk_ruled w" "walk_ruled (w\<lparr>wk_used_value_paths := a\<rparr>) = walk_ruled w"
  "walk_ruled (w\<lparr>wk_used_images := a\<rparr>) = walk_ruled w" "walk_ruled (w\<lparr>wk_used_resources := a\<rparr>) = walk_ruled w"
  by (simp_all add: walk_ruled_def)

lemma in_walk_rules:
  "''hbs/unknown-helper'' \<in> set walk_rules" "''hbs/unknown-value'' \<in> set walk_rules"
  "''hbs/unknown-image'' \<in> set walk_rules" "''hbs/unknown-resource'' \<in> set walk_rules"
  "''hbs/wrong-package-type'' \<in> set walk_rules" "''hbs/context-prefix'' \<in> set walk_rules"
  "''hbs/unknown-root-variable'' \<in> set walk_rules" "''hbs/unknown-partial'' \<in> set walk_rules"
  by (simp_all add: walk_rules_def)

lemma checks_ruled:
  assumes "walk_ruled w"
  shows "walk_ruled (use_helper glob name line w)" "walk_ruled (check_path glob p line w)"
    "walk_ruled (check_partial glob name line w)" "walk_ruled (check_root_var glob line p w)"
    "walk_ruled (check_image_resource_helper glob name params line w)" "walk_ruled (check_values_path glob line p w)"
  using assms report_ruled in_walk_rules
  by (simp_all add: use_helper_def check_path_def check_partial_def check_root_var_def unknown_root_def
      check_image_resource_helper_def check_values_path_def Let_def
      split: parameter.split hbs_path.split list.split path_seg.split option.split)

lemma params_ruled: "walk_ruled w \<Longrightarrow> walk_ruled (check_params glob line params w)"
  unfolding check_params_def by (induction params arbitrary: w) (simp_all add: checks_ruled)

lemma visit_ruled:
  "walk_ruled w \<Longrightarrow> walk_ruled (visit_element glob line e w)"
  "walk_ruled w \<Longrightarrow> walk_ruled (visit_expression glob line name params w)"
  "walk_ruled w \<Longrightarrow> walk_ruled (check_helper glob line name params w)"
  "walk_ruled w \<Longrightarrow> walk_ruled (visit_subexpressions glob line params w)"
proof (induction glob line e w and glob line name params w and glob line name params w and glob line params w
    rule: visit_element_visit_expression_check_helper_visit_subexpressions.induct)
  case (11 glob line p ps w)
  then show ?case by (cases p) simp_all
qed (simp_all add: checks_ruled params_ruled)

lemma walk_template_ruled:
  "walk_ruled w \<Longrightarrow> walk_ruled (walk_template glob t w)"
  "walk_ruled w \<Longrightarrow> walk_ruled (walk_optional glob o' w)"
  "walk_ruled w \<Longrightarrow> walk_ruled (walk_inner glob e w)"
  "walk_ruled w \<Longrightarrow> walk_ruled (walk_elements glob es mapping w)"
proof (induction glob t w and glob o' w and glob e w and glob es mapping w
    rule: walk_template_walk_optional_walk_inner_walk_elements.induct)
qed (simp_all add: visit_ruled(1))

lemma file_rules: "f \<in> set (fst (check_hbs_file hc glob file source hk)) \<Longrightarrow> lf_rule f \<in> set (''hbs/syntax'' # walk_rules)"
proof (cases "hc_compile hc source")
  case (Inl e)
  assume "f \<in> set (fst (check_hbs_file hc glob file source hk))"
  with Inl have "lf_rule f = ''hbs/syntax''" by (auto simp: check_hbs_file_def dest: configured_rule)
  then show ?thesis by simp
next
  case (Inr t)
  assume "f \<in> set (fst (check_hbs_file hc glob file source hk))"
  moreover have "walk_ruled (walk_file glob hk file (parse_inline_disables source) t)"
    unfolding walk_file_def by (rule walk_template_ruled) (simp add: walk_ruled_def new_walker_def)
  ultimately show ?thesis using Inr by (auto simp: check_hbs_file_def Let_def walk_ruled_def list_all_iff)
qed

lemma templates_rules:
  "f \<in> set (fst (check_templates hc glob templates hk)) \<Longrightarrow> lf_rule f \<in> set (''hbs/syntax'' # walk_rules)"
proof (induction templates arbitrary: hk)
  case (Cons x templates)
  then show ?case
    using file_rules [of f hc glob "fst x" "snd x" hk] by (cases x) (auto simp: case_prod_beta simp del: set_simps)
qed simp

lemma templates_use_values:
  "hk_used_values (snd (check_templates hc glob templates (new_hbs_checker pkg cfg helpers partials))) =
   {key. \<exists>file source t. (file, source) \<in> set templates \<and> hc_compile hc source = Inr t \<and>
      key \<in> values_keys (template_params t)}"
proof -
  let ?hk = "new_hbs_checker pkg cfg helpers partials"
  have "\<Union> (wk_used_values ` set (walked hc glob ?hk templates)) =
    {key. \<exists>file source t. (file, source) \<in> set templates \<and> hc_compile hc source = Inr t \<and>
      key \<in> values_keys (template_params t)}"
  proof (induction templates)
    case (Cons x templates)
    then show ?case
      by (cases x; cases "hc_compile hc (snd x)")
        (auto simp: walked_Cons walk_file_def walk_values(1) new_walker_def)
  qed (simp add: walked_def)
  then show ?thesis
    by (simp add: check_templates_absorbs fold_absorb new_hbs_checker_def)
qed

section \<open>Properties\<close>

text \<open>The comments of a template that turn rules off have no effect: every check of the walk asks for the
  rules turned off on line 0, and the lines are counted from 1, so checking a template gives the findings of a
  walk that has no such comment at all.\<close>

theorem template_comments_ignored:
  assumes "hc_compile hc source = Inr t"
  shows "check_hbs_file hc glob file source hk =
    (wk_findings (walk_file glob hk file Map.empty t), absorb (walk_file glob hk file Map.empty t) hk)"
proof -
  let ?w = "new_walker file (hk_config hk) Map.empty (hk_pkg hk) (set (hk_defined_helpers hk)) (set (hk_defined_partials hk))"
  let ?d = "parse_inline_disables source"
  have "disabled_at ?d 0 = {}" by (simp add: parse_inline_disables_def disables_loop_spec)
  then have "disabled_at ?d 0 = disabled_at (wk_inline ?w) 0" by (simp add: new_walker_def)
  from blind_walks(1) [OF this, of glob t]
  have "walk_file glob hk file ?d t = (walk_file glob hk file Map.empty t)\<lparr>wk_inline := ?d\<rparr>"
    by (simp add: walk_file_def new_walker_def)
  then show ?thesis by (simp add: check_hbs_file_def assms absorb_def)
qed

text \<open>A crate whose only template is \<open>{{foo.x}}\<close>, and a package without options.\<close>

definition demo_hbs :: hbs_crate where
  "demo_hbs =
     \<lparr>hc_compile = (\<lambda>_. Inr (Template [T_HtmlExpression (P_Path (Relative [Named ''foo'', Named ''x''])) []] [1])),
      hc_alnum = (\<lambda>_. 0)\<rparr>"

definition demo_source :: package_source where
  "demo_source =
     \<lparr>ps_api_version = ''vinyl.solidite.fr/v1beta1'', ps_kind = ''Package'',
      ps_metadata = \<lparr>pm_name = ''p'', pm_category = ''c'', pm_description = [], pm_app_version = None,
        pm_usage = Tenant, pm_features = [], pm_backup_affinity = None\<rparr>,
      ps_requirements = [], ps_recommandations = None, ps_options = None, ps_images = None, ps_resources = None,
      ps_value_script = None\<rparr>"

lemma demo_root: "\<not> starts_with ''foo'' ''@'' \<and> ''foo'' \<notin> set KNOWN_HBS_ROOTS"
  by (simp add: starts_with_def KNOWN_HBS_ROOTS_def)

theorem template_comments_ignored_witness:
  "map lf_rule (fst (check_hbs_file demo_hbs (\<lambda>_ _. False) ''a.hbs''
      ''{{foo.x}} {{!-- vynil-lint-disable hbs/unknown-root-variable --}}''
      (new_hbs_checker demo_source default_config [] []))) = [''hbs/unknown-root-variable'']"
proof -
  let ?t = "Template [T_HtmlExpression (P_Path (Relative [Named ''foo'', Named ''x''])) []] [1]"
  have "hc_compile demo_hbs s = Inr ?t" for s by (simp add: demo_hbs_def)
  from template_comments_ignored [OF this] show ?thesis
    by (simp add: walk_file_def new_walker_def new_hbs_checker_def stems_of_def use_helper_def check_values_path_def
        check_params_def check_image_resource_helper_def check_path_def check_root_var_def demo_root unknown_root_def
        report_def configured_def resolve_level_def default_config_def)
qed

text \<open>A field of an option counts as used exactly when a used path is the field or a prefix of it at a dot:
  using \<open>values.a\<close> covers \<open>a.b.c\<close>, using \<open>values.a.b.c\<close> does not cover \<open>a.b\<close>.\<close>

theorem value_path_covered_iff:
  "is_value_path_covered path used \<longleftrightarrow> (\<exists>u. u \<in> used \<and> (path = u \<or> starts_with path (u @ ''.'')))"
  by (auto simp: is_value_path_covered_def cut_covered_iff starts_with_iff)

text \<open>After the templates of a package have been checked, in whatever order, the options the checker takes
  as used are those that a template which compiles names by a path under \<open>values\<close>, in a parameter or the name
  of an expression; the arguments given by name and the contexts of partials do not count.\<close>

theorem used_values_exact:
  "hk_used_values (snd (check_templates hc glob templates (new_hbs_checker pkg cfg helpers partials))) =
   {key. \<exists>file source t. (file, source) \<in> set templates \<and> hc_compile hc source = Inr t \<and>
      key \<in> values_keys (template_params t)}"
  by (rule templates_use_values)

text \<open>The final report does not depend on the order in which the templates were checked.\<close>

theorem templates_in_any_order:
  assumes "set templates = set templates'"
  shows "hbs_finalize glob yaml (snd (check_templates hc glob templates hk)) =
         hbs_finalize glob yaml (snd (check_templates hc glob templates' hk))"
proof -
  have "set (walked hc glob hk templates) = set (walked hc glob hk templates')"
    using assms by (simp add: walked_def)
  then show ?thesis by (simp add: check_templates_absorbs fold_absorb)
qed

theorem templates_in_any_order_witness:
  "hbs_finalize (\<lambda>_ _. False) None (snd (check_templates demo_hbs (\<lambda>_ _. False) [(''a.hbs'', []), (''b.hbs'', [])]
      (new_hbs_checker demo_source default_config [] []))) =
   hbs_finalize (\<lambda>_ _. False) None (snd (check_templates demo_hbs (\<lambda>_ _. False) [(''b.hbs'', []), (''a.hbs'', [])]
      (new_hbs_checker demo_source default_config [] [])))"
  by (rule templates_in_any_order) auto

end
