(* ===== verification/PackageLint.thy ===== *)
theory PackageLint
  imports RhaiLint HbsLint
begin

text \<open>
  \<open>agent/src/package/lint.rs\<close>: the checks of \<open>package.yaml\<close> and the whole command, which walks the
  directories of a package, hands the templates and scripts to the two checkers and collects the findings.
  The YAML and schema readers are arguments in the record \<open>lint_env\<close>.
\<close>

section \<open>The environment\<close>

record lint_env =
  le_hbs :: hbs_crate
  le_rhai :: rhai_crate
  le_glob :: glob
  le_exists :: "string \<Rightarrow> bool"
  le_config :: "string \<Rightarrow> lint_config option"
  le_manifest :: "string option \<Rightarrow> string + package_source"   \<comment> \<open>the text of the error, or the package\<close>
  le_schema :: "json \<Rightarrow> string + unit"

definition load_config :: "lint_env \<Rightarrow> entries \<Rightarrow> lint_config" where
  "load_config env es =
     (case map_of es ''.vynil-lint.yaml'' of
        Some (F_File (Some c)) \<Rightarrow> (case le_config env c of Some cfg \<Rightarrow> cfg | None \<Rightarrow> default_config)
      | _ \<Rightarrow> default_config)"

fun dir_at :: "string list \<Rightarrow> entries \<Rightarrow> entries" where
  "dir_at [] es = es"
| "dir_at (d # ds) es = (case map_of es d of Some (F_Dir es') \<Rightarrow> dir_at ds es' | _ \<Rightarrow> [])"

definition file_text :: "fs_entry option \<Rightarrow> string option" where
  "file_text e = (case e of Some (F_File c) \<Rightarrow> c | _ \<Rightarrow> None)"

section \<open>The manifest\<close>

definition expected_dirs :: "package_type \<Rightarrow> string list" where
  "expected_dirs u =
     (case u of
        System \<Rightarrow> [''systems'', ''crds'', ''scripts'', ''handlebars'']
      | Service \<Rightarrow> [''vitals'', ''scalables'', ''others'', ''befores'', ''posts'', ''handlebars'', ''scripts'', ''crds'']
      | Tenant \<Rightarrow> [''vitals'', ''scalables'', ''others'', ''befores'', ''posts'', ''handlebars'', ''scripts''])"

definition all_known :: "string list" where
  "all_known = [''systems'', ''crds'', ''vitals'', ''scalables'', ''others'', ''befores'', ''posts'', ''pods'',
     ''handlebars'', ''scripts'']"

definition usage_debug :: "package_type \<Rightarrow> string" where
  "usage_debug u = (case u of Tenant \<Rightarrow> ''Tenant'' | System \<Rightarrow> ''System'' | Service \<Rightarrow> ''Service'')"

definition quoted :: "string \<Rightarrow> string" where
  "quoted s = [CHR 0x27] @ s @ [CHR 0x27]"

definition manifest_finding :: "string \<Rightarrow> lint_level \<Rightarrow> nat option \<Rightarrow> string \<Rightarrow> lint_finding" where
  "manifest_finding rul level line msg = finding rul level ''package.yaml'' line msg"

definition check_dirs :: "package_type \<Rightarrow> entries \<Rightarrow> lint_finding list" where
  "check_dirs usage es =
     concat (map (\<lambda>(dir_name, e). case e of
         F_File c \<Rightarrow> []
       | F_Dir es' \<Rightarrow>
           (if \<not> starts_with dir_name ''.'' \<and> dir_name \<notin> set (expected_dirs usage) \<and> dir_name \<in> set all_known
            then [finding ''package/unexpected-dir'' Warn dir_name None
                    (''Directory '' @ quoted dir_name @ '' is not expected for '' @ usage_debug usage @ '' packages'')]
            else [])) es)"

text \<open>No character outside ASCII has one of the letters of the markers as its lower case.\<close>

definition is_prerelease :: "string \<Rightarrow> bool" where
  "is_prerelease version \<longleftrightarrow>
     (let lower = map ascii_lower version
      in contains lower ''alpha'' \<or> contains lower ''beta'' \<or> contains lower ''rc'')"

fun first_line_with :: "nat \<Rightarrow> string \<Rightarrow> string list \<Rightarrow> nat option" where
  "first_line_with n search [] = None"
| "first_line_with n search (l # ls) =
     (if starts_with (trim_start l) search then Some n else first_line_with (n + 1) search ls)"

definition find_line_with_key :: "string option \<Rightarrow> string \<Rightarrow> nat option" where
  "find_line_with_key content key =
     (case content of None \<Rightarrow> None | Some c \<Rightarrow> first_line_with 1 (key @ '':'') (lines c))"

text \<open>Outside the images, in them with their indent, and in the image with its indent.\<close>

datatype image_scan = Outside | In_Images nat | In_Image nat

fun image_tag_line :: "string \<Rightarrow> nat \<Rightarrow> string list \<Rightarrow> image_scan \<Rightarrow> nat option" where
  "image_tag_line image_key n [] st = None"
| "image_tag_line image_key n (line # ls) st =
     (let trimmed = trim_start line; indent = length line - length trimmed
      in if trimmed = [] \<or> starts_with trimmed ''#'' then image_tag_line image_key (n + 1) ls st
         else
           (case st of
              Outside \<Rightarrow>
                image_tag_line image_key (n + 1) ls (if trimmed = ''images:'' then In_Images indent else Outside)
            | In_Images images_indent \<Rightarrow>
                (if indent \<le> images_indent then None
                 else image_tag_line image_key (n + 1) ls
                        (if starts_with trimmed image_key then In_Image indent else In_Images images_indent))
            | In_Image image_indent \<Rightarrow>
                (if indent \<le> image_indent then None
                 else if starts_with trimmed ''tag:'' then Some n
                 else image_tag_line image_key (n + 1) ls st)))"

definition find_image_tag_line :: "string option \<Rightarrow> string \<Rightarrow> nat option" where
  "find_image_tag_line content image_name =
     (case content of None \<Rightarrow> None
      | Some c \<Rightarrow> image_tag_line (image_name @ '':'') 1 (lines c) Outside)"

definition prerelease_image :: "string option \<Rightarrow> string \<times> image \<Rightarrow> lint_finding list" where
  "prerelease_image yaml img =
     (case im_tag (snd img) of
        None \<Rightarrow> []
      | Some tag \<Rightarrow>
          (if is_prerelease tag
           then [manifest_finding ''package/prerelease-version'' Warn (find_image_tag_line yaml (fst img))
                   (''Image '' @ quoted (fst img) @ '' tag '' @ quoted tag @
                    '' contains a pre-release marker (alpha/beta/rc)'')]
           else []))"

definition check_prerelease_versions :: "package_source \<Rightarrow> string option \<Rightarrow> lint_finding list" where
  "check_prerelease_versions pkg yaml =
     (case pm_app_version (ps_metadata pkg) of
        None \<Rightarrow> []
      | Some v \<Rightarrow>
          (if is_prerelease v
           then [manifest_finding ''package/prerelease-version'' Warn (find_line_with_key yaml ''app_version'')
                   (''app_version '' @ quoted v @ '' contains a pre-release marker (alpha/beta/rc)'')]
           else [])) @
     (case ps_images pkg of None \<Rightarrow> [] | Some images \<Rightarrow> concat (map (prerelease_image yaml) images))"

definition type_indicators :: "string list" where
  "type_indicators = [''type'', ''$ref'', ''oneOf'', ''anyOf'', ''allOf'']"

definition check_option :: "(json \<Rightarrow> string + unit) \<Rightarrow> (string \<rightharpoonup> nat) \<Rightarrow> string \<times> json \<Rightarrow> lint_finding list" where
  "check_option schema line_numbers opt =
     (let key = fst opt; line = line_numbers key; name = ''Option '' @ quoted key
      in case as_object (snd opt) of
           None \<Rightarrow>
             [manifest_finding ''package/invalid-option-schema'' Error line
                (name @ '': must be an OpenAPI schema object, got scalar value'')]
         | Some obj \<Rightarrow>
             (case schema (snd opt) of
                Inl e \<Rightarrow>
                  [manifest_finding ''package/invalid-option-schema'' Error line
                     (name @ '': invalid OpenAPI schema: '' @ e)]
              | Inr _ \<Rightarrow>
                  (if list_ex (\<lambda>k. obj_get obj k \<noteq> None) type_indicators then []
                   else [manifest_finding ''package/invalid-option-schema'' Error line
                           (name @ '': missing '' @ quoted ''type'' @ '' field in OpenAPI schema'')]) @
                  (if obj_get obj ''description'' \<noteq> None then []
                   else [manifest_finding ''package/option-missing-description'' Info line
                           (name @ '': no description provided'')]) @
                  (if Option.bind (obj_get obj ''type'') as_str = Some ''object'' \<and> obj_get obj ''properties'' \<noteq> None
                   then [manifest_finding ''package/object-properties-unsupported'' Warn line
                           (name @ '': nested '' @ quoted ''properties'' @
                            '' sub-schema is not supported for type:object; use a flat '' @ quoted ''default:'' @
                            '' map at the option root instead'')]
                   else [])))"

definition check_options :: "(json \<Rightarrow> string + unit) \<Rightarrow> package_source \<Rightarrow> string option \<Rightarrow> lint_finding list" where
  "check_options schema pkg yaml =
     (case ps_options pkg of None \<Rightarrow> []
      | Some options \<Rightarrow> concat (map (check_option schema (find_option_line_numbers yaml)) options))"

definition empty_fields :: "package_source \<Rightarrow> string list" where
  "empty_fields pkg =
     map fst (filter (\<lambda>f. snd f = [])
       [(''name'', pm_name (ps_metadata pkg)), (''category'', pm_category (ps_metadata pkg)),
        (''description'', pm_description (ps_metadata pkg)), (''apiVersion'', ps_api_version pkg),
        (''kind'', ps_kind pkg)])"

definition check_manifest_fields ::
  "(json \<Rightarrow> string + unit) \<Rightarrow> package_source \<Rightarrow> string option \<Rightarrow> lint_finding list" where
  "check_manifest_fields schema pkg yaml =
     map (\<lambda>fld. manifest_finding ''package/invalid-manifest'' Error None (''Missing required field: '' @ fld))
       (empty_fields pkg) @
     check_options schema pkg yaml @ check_prerelease_versions pkg yaml"

section \<open>The walk over the directories\<close>

text \<open>The three scans are one walk that visits the files of an extension; they differ in what they visit with.\<close>

fun scan_dir :: "string \<Rightarrow> (string \<Rightarrow> string \<Rightarrow> 's \<Rightarrow> 's) \<Rightarrow> string \<Rightarrow> entries \<Rightarrow> 's \<Rightarrow> 's" where
  "scan_dir ext visit dir [] st = st"
| "scan_dir ext visit dir ((name, F_Dir es) # rest) st =
     scan_dir ext visit dir rest (scan_dir ext visit (path_join dir name) es st)"
| "scan_dir ext visit dir ((name, F_File content) # rest) st =
     scan_dir ext visit dir rest
       (case content of
          Some source \<Rightarrow>
            if extension (path_join dir name) = Some ext then visit (path_join dir name) source st else st
        | None \<Rightarrow> st)"

text \<open>Only the directories of the package are walked; a file beside \<open>package.yaml\<close> is not looked at.\<close>

definition scan_package :: "string \<Rightarrow> (string \<Rightarrow> string \<Rightarrow> 's \<Rightarrow> 's) \<Rightarrow> entries \<Rightarrow> 's \<Rightarrow> 's" where
  "scan_package ext visit es st =
     fold (\<lambda>(name, e) st. case e of F_Dir es' \<Rightarrow> scan_dir ext visit name es' st | F_File c \<Rightarrow> st) es st"

definition scan_hbs_files ::
  "lint_env \<Rightarrow> entries \<Rightarrow> collector \<times> hbs_checker \<Rightarrow> collector \<times> hbs_checker" where
  "scan_hbs_files env es =
     scan_package ''hbs''
       (\<lambda>file source (col, hk).
          let (fs, hk') = check_hbs_file (le_hbs env) (le_glob env) file source hk in (col @ fs, hk')) es"

definition scan_source :: "hbs_crate \<Rightarrow> string \<Rightarrow> hbs_checker \<Rightarrow> hbs_checker" where
  "scan_source hc source hk =
     scan_rhai_for_resources hc source
       (scan_rhai_for_images hc source (scan_rhai_for_partials source (scan_rhai_for_values hc source hk)))"

definition scan_rhai_files_for_values :: "lint_env \<Rightarrow> entries \<Rightarrow> hbs_checker \<Rightarrow> hbs_checker" where
  "scan_rhai_files_for_values env es =
     scan_package ''rhai'' (\<lambda>file source hk. scan_source (le_hbs env) source hk) es"

definition check_script ::
  "lint_env \<Rightarrow> string \<Rightarrow> string \<Rightarrow> collector \<times> rhai_checker \<Rightarrow> collector \<times> rhai_checker" where
  "check_script env file source st =
     (let (fs, rk) = check_rhai_file (le_rhai env) (le_glob env) (le_exists env) file source (snd st)
      in (fst st @ fs, rk))"

definition scan_rhai_files ::
  "lint_env \<Rightarrow> entries \<Rightarrow> collector \<times> rhai_checker \<Rightarrow> collector \<times> rhai_checker" where
  "scan_rhai_files env es = scan_package ''rhai'' (check_script env) es"

text \<open>The scripts inside \<open>package.yaml\<close>, under the names the report gives them.\<close>

definition inline_scripts :: "package_source \<Rightarrow> (string \<times> string) list" where
  "inline_scripts pkg =
     (case ps_value_script pkg of None \<Rightarrow> [] | Some s \<Rightarrow> [(''package.yaml#value_script'', s)]) @
     concat (map (\<lambda>r. case r of
         R_Prefly script name \<Rightarrow> [(''package.yaml#prefly('' @ name @ '')'', script)]
       | _ \<Rightarrow> []) (ps_requirements pkg))"

section \<open>The command\<close>

definition paths_in :: "string list \<Rightarrow> string \<Rightarrow> entries \<Rightarrow> string list" where
  "paths_in ds base es = map (\<lambda>e. path_join base (fst e)) (dir_at ds es)"

record lint_args =
  la_package_dir :: string
  la_config_dir :: string
  la_script_dir :: "string option"

definition lint_templates :: "lint_env \<Rightarrow> package_source \<Rightarrow> string option \<Rightarrow> entries \<Rightarrow> lint_finding list" where
  "lint_templates env pkg yaml es =
     (let hk = new_hbs_checker pkg (load_config env es)
            (paths_in [''handlebars'', ''helpers''] ''handlebars/helpers'' es)
            (paths_in [''handlebars'', ''partials''] ''handlebars/partials'' es);
          (fs, hk) = scan_hbs_files env es ([], hk);
          hk = scan_rhai_files_for_values env es hk
      in fs @ hbs_finalize (le_glob env) yaml hk)"

definition lint_scripts :: "lint_env \<Rightarrow> lint_args \<Rightarrow> package_source \<Rightarrow> entries \<Rightarrow> lint_finding list" where
  "lint_scripts env args pkg es =
     (let rk = new_rhai_checker (la_package_dir args) (la_config_dir args) (la_script_dir args)
            (pm_usage (ps_metadata pkg)) (load_config env es)
            (paths_in [''scripts''] (path_join (la_package_dir args) ''scripts'') es);
          (fs, rk) = fold (\<lambda>(file, script). check_script env file script) (inline_scripts pkg)
            (scan_rhai_files env es ([], rk))
      in fs @ rhai_finalize (le_glob env) rk)"

text \<open>
  What the command reports, before the level filter of the output, and what it returns. The report is printed
  in every case; writing it as JUnit may fail, which is not here.
\<close>

definition lint_package :: "lint_env \<Rightarrow> lint_args \<Rightarrow> entries \<Rightarrow> collector \<times> unit result" where
  "lint_package env args es =
     (case map_of es ''package.yaml'' of
        None \<Rightarrow>
          (prefix_files [manifest_finding ''package/missing-manifest'' Error None ''package.yaml is missing'']
             (la_package_dir args), Inl (YamlError ''Missing package manifest''))
      | Some e \<Rightarrow>
          (case le_manifest env (file_text (Some e)) of
             Inl err \<Rightarrow>
               (prefix_files [manifest_finding ''package/invalid-manifest'' Error None
                    (''Failed to parse package.yaml: '' @ err)] (la_package_dir args),
                Inl (YamlError ''Invalid package manifest''))
           | Inr pkg \<Rightarrow>
               (let yaml = file_text (Some e);
                    col = prefix_files
                      (check_manifest_fields (le_schema env) pkg yaml @ check_dirs (pm_usage (ps_metadata pkg)) es @
                       lint_templates env pkg yaml es @ lint_scripts env args pkg es) (la_package_dir args)
                in (col, if has_errors col then Inl (YamlError ''Linting failed with errors'') else Inr ()))))"

section \<open>The files a scan visits\<close>

fun files_in :: "string \<Rightarrow> string \<Rightarrow> entries \<Rightarrow> (string \<times> string) list" where
  "files_in ext dir [] = []"
| "files_in ext dir ((name, F_Dir es) # rest) = files_in ext (path_join dir name) es @ files_in ext dir rest"
| "files_in ext dir ((name, F_File content) # rest) =
     (case content of
        Some source \<Rightarrow> if extension (path_join dir name) = Some ext then [(path_join dir name, source)] else []
      | None \<Rightarrow> []) @ files_in ext dir rest"

definition package_files :: "string \<Rightarrow> entries \<Rightarrow> (string \<times> string) list" where
  "package_files ext es =
     concat (map (\<lambda>(name, e). case e of F_Dir es' \<Rightarrow> files_in ext name es' | F_File c \<Rightarrow> []) es)"

lemma scan_dir_files: "scan_dir ext visit dir es st = fold (\<lambda>(file, source). visit file source) (files_in ext dir es) st"
  by (induction ext visit dir es st rule: scan_dir.induct) (simp_all split: option.split)

lemma scan_package_files:
  "scan_package ext visit es st = fold (\<lambda>(file, source). visit file source) (package_files ext es) st"
proof (induction es arbitrary: st)
  case (Cons x es)
  then show ?case
    by (cases x; cases "snd x") (simp_all add: scan_package_def package_files_def scan_dir_files)
qed (simp add: scan_package_def package_files_def)

lemma fold_templates:
  "fold (\<lambda>(file, source) (col, hk).
       let (fs, hk') = check_hbs_file hc glob file source hk in (col @ fs, hk')) templates (col, hk) =
   (col @ fst (check_templates hc glob templates hk), snd (check_templates hc glob templates hk))"
  by (induction templates arbitrary: col hk) (auto simp: case_prod_beta)

lemma scan_hbs_templates:
  "scan_hbs_files env es ([], hk) = check_templates (le_hbs env) (le_glob env) (package_files ''hbs'' es) hk"
  using fold_templates [of "le_hbs env" "le_glob env" "package_files ''hbs'' es" "[]" hk]
  by (simp add: scan_hbs_files_def scan_package_files case_prod_beta)

text \<open>The keys a script names after \<open>context.values\<close>.\<close>

definition script_keys :: "hbs_crate \<Rightarrow> string \<Rightarrow> string set" where
  "script_keys hc source =
     set (map (\<lambda>p. hd (split_on (CHR ''.'') p)) (filter (\<lambda>p. p \<noteq> [])
       (map (\<lambda>part. trim_end_matches (take_name (hc_alnum hc) [CHR ''_'', CHR ''.''] part) ''.'')
         (after_each ''context.values.'' source))))"

lemma scan_source_fields:
  "hk_used_values (scan_source hc source hk) = hk_used_values hk \<union> script_keys hc source"
  "hk_pkg (scan_source hc source hk) = hk_pkg hk" "hk_config (scan_source hc source hk) = hk_config hk"
  by (simp_all add: scan_source_def scan_rhai_for_values_def scan_rhai_for_partials_def scan_rhai_for_images_def
      scan_rhai_for_resources_def script_keys_def Let_def)

lemma fold_scripts:
  "hk_used_values (fold (\<lambda>(file, source). scan_source hc source) scripts hk) =
     hk_used_values hk \<union> (\<Union>(file, source) \<in> set scripts. script_keys hc source) \<and>
   hk_pkg (fold (\<lambda>(file, source). scan_source hc source) scripts hk) = hk_pkg hk \<and>
   hk_config (fold (\<lambda>(file, source). scan_source hc source) scripts hk) = hk_config hk"
  by (induction scripts arbitrary: hk) (auto simp: scan_source_fields)

lemma check_script_only: "rhai_only (fst st) \<Longrightarrow> rhai_only (fst (check_script env file source st))"
  by (simp add: check_script_def case_prod_beta rhai_only_file)

lemma fold_check_only:
  "rhai_only (fst st) \<Longrightarrow> rhai_only (fst (fold (\<lambda>(file, source). check_script env file source) fs st))"
  by (induction fs arbitrary: st) (auto simp: case_prod_beta check_script_only)

lemma lint_scripts_only: "rhai_only (lint_scripts env args pkg es)"
  by (simp add: lint_scripts_def case_prod_beta Let_def rhai_only_finalize scan_rhai_files_def scan_package_files
      fold_check_only)

section \<open>The report on an unused option\<close>

abbreviation about_option :: "string \<Rightarrow> lint_finding \<Rightarrow> bool" where
  "about_option key f \<equiv> lf_rule f = ''hbs/unused-option'' \<and> lf_message f = unused_option_message key"

lemma unused_option_message_inj [simp]: "unused_option_message a = unused_option_message b \<longleftrightarrow> a = b"
  by (simp add: unused_option_message_def)

lemma prefix_same: "(\<exists>f \<in> set (prefix_files fs base). about_option key f) \<longleftrightarrow> (\<exists>f \<in> set fs. about_option key f)"
  by (induction fs) (auto simp: prefix_files_def)

lemma not_about:
  "rhai_only fs \<Longrightarrow> f \<in> set fs \<Longrightarrow> lf_rule f \<noteq> ''hbs/unused-option''"
  "f \<in> set (check_manifest_fields schema pkg yaml) \<Longrightarrow> lf_rule f \<noteq> ''hbs/unused-option''"
  "f \<in> set (check_dirs usage es) \<Longrightarrow> lf_rule f \<noteq> ''hbs/unused-option''"
  "f \<in> set (fst (check_templates hc glob templates hk)) \<Longrightarrow> lf_rule f \<noteq> ''hbs/unused-option''"
proof -
  show "rhai_only fs \<Longrightarrow> f \<in> set fs \<Longrightarrow> lf_rule f \<noteq> ''hbs/unused-option''"
    by (auto simp: rhai_only_def list_all_iff starts_with_def)
  have "f \<in> set (check_option schema ln opt) \<Longrightarrow> lf_rule f \<noteq> ''hbs/unused-option''" for ln opt
    by (auto simp: check_option_def manifest_finding_def Let_def split: option.splits sum.splits if_splits)
  moreover have "f \<in> set (prerelease_image yaml img) \<Longrightarrow> lf_rule f \<noteq> ''hbs/unused-option''" for img
    by (auto simp: prerelease_image_def manifest_finding_def split: option.splits if_splits)
  ultimately show "f \<in> set (check_manifest_fields schema pkg yaml) \<Longrightarrow> lf_rule f \<noteq> ''hbs/unused-option''"
    by (auto simp: check_manifest_fields_def check_options_def check_prerelease_versions_def manifest_finding_def
        split: option.splits if_splits)
  show "f \<in> set (check_dirs usage es) \<Longrightarrow> lf_rule f \<noteq> ''hbs/unused-option''"
    by (auto simp: check_dirs_def split: fs_entry.splits if_splits)
  show "f \<in> set (fst (check_templates hc glob templates hk)) \<Longrightarrow> lf_rule f \<noteq> ''hbs/unused-option''"
    using templates_rules [of f hc glob templates hk] by (auto simp: walk_rules_def)
qed

lemma about_yaml_finding:
  "(\<exists>f \<in> set (yaml_finding glob cfg yaml rul line msg). about_option key f) \<longleftrightarrow>
     rul = ''hbs/unused-option'' \<and> msg = unused_option_message key \<and>
     resolve_level glob cfg rul ''package.yaml'' Warn (yaml_disables yaml line) \<noteq> None"
  by (auto simp: yaml_finding_def configured_fields)

lemma about_unused_option:
  "(\<exists>f \<in> set (unused_option glob yaml hk opt). about_option key f) \<longleftrightarrow>
     fst opt = key \<and> key \<notin> hk_used_values hk \<and>
     resolve_level glob (hk_config hk) ''hbs/unused-option'' ''package.yaml'' Warn
       (yaml_disables yaml (find_option_line_numbers yaml key)) \<noteq> None"
proof -
  have "unused_option glob yaml hk opt =
      (if fst opt \<in> hk_used_values hk then []
       else yaml_finding glob (hk_config hk) yaml ''hbs/unused-option'' (find_option_line_numbers yaml (fst opt))
              (unused_option_message (fst opt))) @
      concat (map (\<lambda>leaf. if is_value_path_covered leaf (hk_used_value_paths hk) then []
         else yaml_finding glob (hk_config hk) yaml ''hbs/unused-option-field''
                (find_option_line_numbers yaml (fst opt)) (unused_option_message leaf))
        (collect_option_leaf_paths (fst opt) (snd opt)))"
    by (simp only: unused_option_def Let_def)
  then show ?thesis
    using about_yaml_finding [of glob "hk_config hk" yaml _ _ _ key]
    by (auto simp: bex_Un simp del: not_None_eq split: if_splits)
qed

lemma not_about_unused:
  "f \<in> set (unused_helper glob hk h) \<Longrightarrow> lf_rule f \<noteq> ''hbs/unused-option''"
  "f \<in> set (unused_partial glob hk h) \<Longrightarrow> lf_rule f \<noteq> ''hbs/unused-option''"
  "f \<in> set (unused_image glob yaml hk h) \<Longrightarrow> lf_rule f \<noteq> ''hbs/unused-option''"
  "f \<in> set (unused_resource glob yaml hk h) \<Longrightarrow> lf_rule f \<noteq> ''hbs/unused-option''"
  by (auto simp: unused_helper_def unused_partial_def unused_image_def unused_resource_def yaml_finding_def
      dest: configured_rule split: if_splits)

lemma about_finalize:
  "(\<exists>f \<in> set (hbs_finalize glob yaml hk). about_option key f) \<longleftrightarrow>
     (\<exists>options opt. ps_options (hk_pkg hk) = Some options \<and> opt \<in> set options \<and>
        (\<exists>f \<in> set (unused_option glob yaml hk opt). about_option key f))"
  using not_about_unused
  by (cases "ps_options (hk_pkg hk)"; cases "ps_images (hk_pkg hk)"; cases "ps_resources (hk_pkg hk)")
    (auto simp: hbs_finalize_def)

text \<open>The checker as it stands when the templates and the scripts have been read.\<close>

definition final_checker :: "lint_env \<Rightarrow> package_source \<Rightarrow> entries \<Rightarrow> hbs_checker" where
  "final_checker env pkg es =
     scan_rhai_files_for_values env es
       (snd (check_templates (le_hbs env) (le_glob env) (package_files ''hbs'' es)
          (new_hbs_checker pkg (load_config env es)
             (paths_in [''handlebars'', ''helpers''] ''handlebars/helpers'' es)
             (paths_in [''handlebars'', ''partials''] ''handlebars/partials'' es))))"

lemma final_checker_fields:
  "hk_pkg (final_checker env pkg es) = pkg" "hk_config (final_checker env pkg es) = load_config env es"
  "hk_used_values (final_checker env pkg es) =
     {key. \<exists>file source t. (file, source) \<in> set (package_files ''hbs'' es) \<and>
        hc_compile (le_hbs env) source = Inr t \<and> key \<in> values_keys (template_params t)} \<union>
     (\<Union>(file, source) \<in> set (package_files ''rhai'' es). script_keys (le_hbs env) source)"
proof -
  let ?hk = "new_hbs_checker pkg (load_config env es)
    (paths_in [''handlebars'', ''helpers''] ''handlebars/helpers'' es)
    (paths_in [''handlebars'', ''partials''] ''handlebars/partials'' es)"
  let ?ct = "snd (check_templates (le_hbs env) (le_glob env) (package_files ''hbs'' es) ?hk)"
  have f: "final_checker env pkg es = fold (\<lambda>(file, source). scan_source (le_hbs env) source) (package_files ''rhai'' es) ?ct"
    by (simp add: final_checker_def scan_rhai_files_for_values_def scan_package_files)
  have "hk_pkg ?ct = pkg" "hk_config ?ct = load_config env es"
    by (simp_all add: check_templates_absorbs fold_absorb new_hbs_checker_def)
  then show "hk_pkg (final_checker env pkg es) = pkg" "hk_config (final_checker env pkg es) = load_config env es"
    unfolding f by (simp_all add: fold_scripts)
  show "hk_used_values (final_checker env pkg es) =
     {key. \<exists>file source t. (file, source) \<in> set (package_files ''hbs'' es) \<and>
        hc_compile (le_hbs env) source = Inr t \<and> key \<in> values_keys (template_params t)} \<union>
     (\<Union>(file, source) \<in> set (package_files ''rhai'' es). script_keys (le_hbs env) source)"
    unfolding f by (simp add: fold_scripts templates_use_values)
qed

lemma about_templates:
  "(\<exists>f \<in> set (lint_templates env pkg yaml es). about_option key f) \<longleftrightarrow>
   (\<exists>f \<in> set (hbs_finalize (le_glob env) yaml (final_checker env pkg es)). about_option key f)"
  using not_about(4)
  by (auto simp: lint_templates_def final_checker_def scan_hbs_templates case_prod_beta Let_def)

section \<open>Properties\<close>


text \<open>A package that declares one option and has no file but its manifest.\<close>

definition demo_env :: lint_env where
  "demo_env =
     \<lparr>le_hbs = demo_hbs, le_rhai = demo_engine, le_glob = (\<lambda>_ _. False), le_exists = (\<lambda>_. False),
      le_config = (\<lambda>_. None), le_manifest = (\<lambda>_. Inr (demo_source\<lparr>ps_options := Some [(''size'', JObj [])]\<rparr>)),
      le_schema = (\<lambda>_. Inr ())\<rparr>"


text \<open>The command succeeds exactly when its report has no finding of level error, whatever level the output
  is filtered to; a package with warnings only is a success. A missing or unreadable \<open>package.yaml\<close> is an
  error finding too.\<close>

theorem lint_succeeds_iff_no_error:
  "snd (lint_package env args es) = Inr () \<longleftrightarrow> \<not> has_errors (fst (lint_package env args es))"
  by (auto simp: lint_package_def has_errors_def prefix_files_def manifest_finding_def Let_def
      split: option.split sum.split)

end
