(* ===== verification/TestMatch.thy ===== *)
theory TestMatch
  imports K8sMock
begin

text \<open>
  \<open>agent/src/testing/vyniltest.rs\<close> and \<open>vyniltestset.rs\<close>: the assertions of a package test. An expected value
  is compared with the objects a selector picks among those a package created; the objects are \<open>Dynamic\<close>
  values of the scripting engine, taken as the JSON they serialize to. How a value is printed in a message
  is an argument.
\<close>

section \<open>An expected value as a part of an object\<close>

lemma member_size [termination_simp]: "(k, v) \<in> set m \<Longrightarrow> size v < Suc (size_list (size_prod (\<lambda>x. 0) size) m)"
  by (induction m) auto

function (sequential) json_subset_match :: "json \<Rightarrow> json \<Rightarrow> bool" where
  "json_subset_match (JObj exs) (JObj act) =
     list_all (\<lambda>(k, v). case obj_get act k of None \<Rightarrow> False | Some av \<Rightarrow> json_subset_match v av) exs"
| "json_subset_match (JArr exs) (JArr act) = list_all (\<lambda>e. list_ex (\<lambda>a. json_subset_match e a) act) exs"
| "json_subset_match expected actual = (expected = actual)"
  by pat_completeness auto

termination
  by (relation "measure (\<lambda>(e, a). size e)") (auto dest: member_size size_list_estimation' [where f = size, OF _ order.refl])

definition child_path :: "string \<Rightarrow> string \<Rightarrow> string" where
  "child_path path k = (if path = [] then ''.'' @ k else path @ ''.'' @ k)"

text \<open>\<open>sh\<close> prints a value.\<close>

function (sequential) json_subset_diff :: "(json \<Rightarrow> string) \<Rightarrow> json \<Rightarrow> json \<Rightarrow> string \<Rightarrow> string list" where
  "json_subset_diff sh (JObj exs) (JObj act) path =
     concat (map (\<lambda>(k, v).
       case obj_get act k of
         None \<Rightarrow> [child_path path k @ '': expected '' @ sh v @ '', got <missing>'']
       | Some av \<Rightarrow> json_subset_diff sh v av (child_path path k)) exs)"
| "json_subset_diff sh (JArr exs) (JArr act) path =
     map (\<lambda>(i, e). path @ ''['' @ dec i @ '']: no match found for '' @ sh e)
       (filter (\<lambda>(i, e). \<not> list_ex (\<lambda>a. json_subset_match e a) act) (List.enumerate 0 exs))"
| "json_subset_diff sh expected actual path =
     (if expected = actual then [] else [path @ '': expected '' @ sh expected @ '', got '' @ sh actual])"
  by pat_completeness auto

termination
  by (relation "measure (\<lambda>(s, e, a, p). size e)") (auto dest: member_size)

section \<open>Selectors and assertions\<close>

text \<open>The first characters of a string, a character being a byte that starts one and those that continue it.\<close>

definition char_count :: "string \<Rightarrow> nat" where
  "char_count s = length (filter (\<lambda>c. \<not> is_continuation c) s)"

fun take_chars :: "nat \<Rightarrow> string \<Rightarrow> string" where
  "take_chars n [] = []"
| "take_chars n (c # cs) =
     (if is_continuation c then c # take_chars n cs
      else (case n of 0 \<Rightarrow> [] | Suc k \<Rightarrow> c # take_chars k cs))"

definition appslug :: "string \<Rightarrow> string \<Rightarrow> string" where
  "appslug pkg inst =
     (if pkg = inst then inst
      else (let slug = inst @ ''-'' @ pkg in if char_count slug > 28 then take_chars 28 slug else slug))"

datatype matcher = Exact nat | At_Least nat | At_Most nat | Match_All | Match_Any | Match_None

record selector =
  se_kind :: "string option"
  se_name :: "string option"
  se_namespace :: "string option"

record vynil_assert =
  va_name :: string
  va_description :: "string option"
  va_selector :: selector
  va_matcher :: matcher
  va_value :: "json option"

record assert_result =
  ar_name :: string
  ar_description :: "string option"
  ar_passed :: bool
  ar_message :: string

definition unwrap_or_default :: "string option \<Rightarrow> string" where
  "unwrap_or_default s = (case s of Some t \<Rightarrow> t | None \<Rightarrow> [])"

definition object_label :: "json \<Rightarrow> string" where
  "object_label d =
     (case as_map d of
        None \<Rightarrow> ''<unknown>''
      | Some m \<Rightarrow>
          (let kind = unwrap_or_default (str_member m ''kind'');
               name = unwrap_or_default (meta_str m ''name'');
               ns = unwrap_or_default (meta_str m ''namespace'')
           in if ns = [] then kind @ ''/'' @ name else kind @ ''/'' @ ns @ ''/'' @ name))"

text \<open>A criterion that is not given is met; one that is needs the member to be that string.\<close>

definition meets :: "string option \<Rightarrow> string option \<Rightarrow> bool" where
  "meets criterion actual = (case criterion of None \<Rightarrow> True | Some s \<Rightarrow> actual = Some s)"

definition matches_selector :: "selector \<Rightarrow> json \<Rightarrow> bool" where
  "matches_selector sel d =
     (case as_map d of
        None \<Rightarrow> False
      | Some m \<Rightarrow>
          (if \<not> meets (se_kind sel) (str_member m ''kind'') then False
           else if se_name sel = None \<and> se_namespace sel = None then True
           else
             (case meta_of m of
                None \<Rightarrow> False
              | Some meta \<Rightarrow>
                  meets (se_name sel) (str_member meta ''name'') \<and>
                  meets (se_namespace sel) (str_member meta ''namespace''))))"

text \<open>An object whose kind or name is the asked one up to case.\<close>

definition close_to :: "selector \<Rightarrow> json \<Rightarrow> bool" where
  "close_to sel d =
     (case as_map d of
        None \<Rightarrow> False
      | Some m \<Rightarrow>
          (case (se_kind sel, str_member m ''kind'') of
             (Some k, Some ak) \<Rightarrow> eq_ignore_ascii_case ak k | _ \<Rightarrow> False) \<or>
          (case (se_name sel, meta_str m ''name'') of
             (Some n, Some an) \<Rightarrow> eq_ignore_ascii_case an n | _ \<Rightarrow> False))"

section \<open>The verdict on one assertion\<close>

definition no_match_message :: "selector \<Rightarrow> json list \<Rightarrow> string" where
  "no_match_message sel generated =
     (let hints = map object_label (filter (close_to sel) generated)
      in if hints = [] then ''no objects matched selector''
         else ''no objects matched selector (did you mean: '' @ join '', '' hints @ '')'')"

definition detail :: "string list \<Rightarrow> string" where
  "detail ls = (if ls = [] then [] else [CHR 0x0A] @ join [CHR 0x0A] ls)"

definition non_match_detail :: "(json \<Rightarrow> string) \<Rightarrow> json \<Rightarrow> json list \<Rightarrow> string" where
  "non_match_detail sh val selected =
     detail (map (\<lambda>d. let diffs = json_subset_diff sh val d []
                     in if diffs = [] then ''  '' @ object_label d
                        else ''  '' @ object_label d @ '': '' @ join '', '' diffs)
       (filter (\<lambda>d. \<not> json_subset_match val d) selected))"

definition match_detail :: "json \<Rightarrow> json list \<Rightarrow> string" where
  "match_detail val selected =
     detail (map (\<lambda>d. ''  '' @ object_label d @ '' (matched)'') (filter (json_subset_match val) selected))"

definition of_total :: "nat \<Rightarrow> nat \<Rightarrow> string" where
  "of_total matching tot = dec matching @ ''/'' @ dec tot @ '' match''"

definition verdict_value :: "(json \<Rightarrow> string) \<Rightarrow> matcher \<Rightarrow> json \<Rightarrow> json list \<Rightarrow> bool \<times> string" where
  "verdict_value sh m val selected =
     (let tot = length selected;
          matching = length (filter (json_subset_match val) selected);
          shown = of_total matching tot
      in case m of
           Match_All \<Rightarrow>
             if matching = tot then (True, shown)
             else (False, shown @ '', expected all'' @ non_match_detail sh val selected)
         | Match_Any \<Rightarrow>
             if matching > 0 then (True, shown)
             else (False, of_total 0 tot @ '', expected at least one'' @ non_match_detail sh val selected)
         | Exact n \<Rightarrow>
             if matching = n \<and> tot = n then (True, shown)
             else (False, shown @ '', expected exactly '' @ dec n @ non_match_detail sh val selected)
         | At_Least n \<Rightarrow>
             if matching \<ge> n then (True, shown)
             else (False, shown @ '', expected at least '' @ dec n @ non_match_detail sh val selected)
         | At_Most n \<Rightarrow>
             if matching \<le> n then (True, shown)
             else (False, shown @ '', expected at most '' @ dec n @ match_detail val selected)
         | Match_None \<Rightarrow>
             if matching = 0 then (True, of_total 0 tot @ '' as expected'')
             else (False, shown @ '', expected none'' @ match_detail val selected))"

definition verdict_total :: "matcher \<Rightarrow> nat \<Rightarrow> bool \<times> string" where
  "verdict_total m tot =
     (let shown = dec tot @ '' match''
      in case m of
           Match_All \<Rightarrow> if tot > 0 then (True, shown) else (False, shown @ '', expected at least one'')
         | Match_Any \<Rightarrow> if tot > 0 then (True, shown) else (False, shown @ '', expected at least one'')
         | Exact n \<Rightarrow> if tot = n then (True, shown) else (False, shown @ '', expected exactly '' @ dec n)
         | At_Least n \<Rightarrow> if tot \<ge> n then (True, shown) else (False, shown @ '', expected at least '' @ dec n)
         | At_Most n \<Rightarrow> if tot \<le> n then (True, shown) else (False, shown @ '', expected at most '' @ dec n)
         | Match_None \<Rightarrow> if tot = 0 then (True, shown @ '' as expected'') else (False, shown @ '', expected none''))"

definition allows_none :: "matcher \<Rightarrow> bool" where
  "allows_none m = (case m of Match_None \<Rightarrow> True | At_Most n \<Rightarrow> True | _ \<Rightarrow> False)"

definition run_assert :: "(json \<Rightarrow> string) \<Rightarrow> json list \<Rightarrow> vynil_assert \<Rightarrow> assert_result" where
  "run_assert sh generated a =
     (let selected = filter (matches_selector (va_selector a)) generated;
          (passed, message) =
            (if selected = [] \<and> \<not> allows_none (va_matcher a)
             then (False, no_match_message (va_selector a) generated)
             else (case va_value a of
                     Some val \<Rightarrow> verdict_value sh (va_matcher a) val selected
                   | None \<Rightarrow> verdict_total (va_matcher a) (length selected)))
      in \<lparr>ar_name = va_name a, ar_description = va_description a, ar_passed = passed, ar_message = message\<rparr>)"

definition run_asserts :: "(json \<Rightarrow> string) \<Rightarrow> vynil_assert list option \<Rightarrow> json list \<Rightarrow> assert_result list" where
  "run_asserts sh asserts generated =
     (case asserts of None \<Rightarrow> [] | Some list \<Rightarrow> map (run_assert sh generated) list)"

section \<open>Properties\<close>

lemma filter_enumerate_Nil: "filter (\<lambda>(i, e). \<not> P e) (List.enumerate n xs) = [] \<longleftrightarrow> list_all P xs"
  by (induction xs arbitrary: n) auto

text \<open>C32: the differences shown for an object that fails an expectation are complete: there is one exactly when
  the expectation does not match the object.\<close>

theorem diff_empty_iff_match:
  "json_subset_diff sh expected actual path = [] \<longleftrightarrow> json_subset_match expected actual"
proof (induction sh expected actual path rule: json_subset_diff.induct)
  case (1 sh exs act path)
  have "(case obj_get act k of None \<Rightarrow> [child_path path k @ '': expected '' @ sh v @ '', got <missing>'']
      | Some av \<Rightarrow> json_subset_diff sh v av (child_path path k)) = [] \<longleftrightarrow>
    (case obj_get act k of None \<Rightarrow> False | Some av \<Rightarrow> json_subset_match v av)" if "(k, v) \<in> set exs" for k v
    using 1 [OF that] by (simp split: option.split)
  then show ?case by (auto simp: list_all_iff)
next
  case (2 sh exs act path)
  show ?case by (simp add: filter_enumerate_Nil)
qed auto

text \<open>The objects in an actual value have each key once, as those read from JSON have.\<close>

fun json_keys_once :: "json \<Rightarrow> bool" where
  "json_keys_once (JObj m) \<longleftrightarrow> distinct (map fst m) \<and> list_all (\<lambda>(k, v). json_keys_once v) m"
| "json_keys_once (JArr xs) \<longleftrightarrow> list_all json_keys_once xs"
| "json_keys_once _ \<longleftrightarrow> True"

lemma match_refl: "json_keys_once v \<Longrightarrow> json_subset_match v v"
  by (induction v rule: json_keys_once.induct) (auto simp: list_all_iff list_ex_iff)

lemma match_trans:
  "json_subset_match a b \<Longrightarrow> json_subset_match b c \<Longrightarrow> json_subset_match a c"
proof (induction a b arbitrary: c rule: json_subset_match.induct)
  case (1 exs act)
  then obtain cs where c: "c = JObj cs" by (cases c) auto
  have "case obj_get cs k of None \<Rightarrow> False | Some cv \<Rightarrow> json_subset_match v cv" if kv: "(k, v) \<in> set exs" for k v
  proof -
    obtain av where av: "obj_get act k = Some av" "json_subset_match v av"
      using 1(2) kv by (auto simp: list_all_iff split: option.splits)
    with 1(3) c obtain cv where "obj_get cs k = Some cv" "json_subset_match av cv"
      by (fastforce simp: list_all_iff dest: map_of_SomeD split: option.splits)
    with 1(1) [OF kv refl av] show ?thesis by simp
  qed
  with c show ?case by (auto simp: list_all_iff)
next
  case (2 exs act)
  then obtain cs where c: "c = JArr cs" by (cases c) auto
  have "list_ex (json_subset_match e) cs" if e: "e \<in> set exs" for e
  proof -
    obtain a where a: "a \<in> set act" "json_subset_match e a"
      using 2(2) e by (auto simp: list_all_iff list_ex_iff)
    with 2(3) c obtain d where "d \<in> set cs" "json_subset_match a d" by (auto simp: list_all_iff list_ex_iff)
    with 2(1) [OF e a] show ?thesis by (auto simp: list_ex_iff)
  qed
  with c show ?case by (simp add: list_all_iff)
qed auto


end
