(* ===== verification/TestRun.thy ===== *)
theory TestRun
  imports TestMatch Package Paths
begin

text \<open>
  \<open>agent/src/testing/handler.rs\<close> and \<open>result.rs\<close>, with the command of \<open>agent/src/package/test.rs\<close>: loading the
  tests of a package, resolving one (its own mocks and assertions and those of the test sets it refers to, with
  their templates rendered), running it and collecting the results. Rendering, the readers of YAML documents
  and the script engine with its mocks are the record \<open>test_env\<close>; durations are left out.
\<close>

section \<open>Tests and test sets\<close>

record http_mock =
  hm_path :: string
  hm_method :: string
  hm_return :: "(string \<times> json) list"

record test_mocks =
  mo_http :: "http_mock list option"
  mo_kubernetes :: "json list option"

record test_instance =
  ti_name :: string
  ti_namespace :: string
  ti_options :: "(string \<times> json) list option"

record test_set_ref =
  tr_test_set :: string
  tr_variables :: "(string \<times> json) list option"

record vynil_test =
  vt_api_version :: string
  vt_kind :: string
  vt_name :: string
  vt_description :: "string option"
  vt_instance :: test_instance
  vt_test_sets :: "test_set_ref list option"
  vt_mocks :: "test_mocks option"
  vt_asserts :: "vynil_assert list option"

record set_variable =
  sv_type :: string
  sv_default :: "json option"

record vynil_test_set =
  ts_api_version :: string
  ts_kind :: string
  ts_name :: string
  ts_description :: "string option"
  ts_variables :: "(string \<times> set_variable) list option"
  ts_mocks :: "test_mocks option"
  ts_asserts :: "vynil_assert list option"

text \<open>
  The environment: rendering a template on a context, the package as JSON, a document read as a test or a test
  set, the documents of a YAML text, a directory, \<open>package.yaml\<close>, how values and errors are shown, and the script
  engine, whose state \<open>'e\<close> holds the mocks and the objects created so far.
\<close>

record 'e test_env =
  te_render :: "string \<Rightarrow> json \<Rightarrow> string result"
  te_package_json :: "package_source \<Rightarrow> json"
  te_parse_test :: "json \<Rightarrow> string + vynil_test"
  te_parse_set :: "json \<Rightarrow> string + vynil_test_set"
  te_docs :: "string \<Rightarrow> (string + json) list"
  te_dir :: "string \<Rightarrow> entries result"
  te_manifest :: "string \<Rightarrow> package_source result"
  te_show :: "json \<Rightarrow> string"
  te_error :: "verror \<Rightarrow> string"
  te_new_mock :: "string list \<Rightarrow> http_mock list \<Rightarrow> json list \<Rightarrow> 'e"
  te_eval :: "string \<Rightarrow> 'e \<Rightarrow> json result \<times> 'e"
  te_set_dynamic :: "string \<Rightarrow> json \<Rightarrow> 'e \<Rightarrow> 'e"
  te_created :: "'e \<Rightarrow> json list"

section \<open>Templates\<close>

fun template_json :: "(string \<Rightarrow> json \<Rightarrow> string result) \<Rightarrow> json \<Rightarrow> json \<Rightarrow> json result"
  and template_items :: "(string \<Rightarrow> json \<Rightarrow> string result) \<Rightarrow> json \<Rightarrow> json list \<Rightarrow> json list result"
  and template_members ::
    "(string \<Rightarrow> json \<Rightarrow> string result) \<Rightarrow> json \<Rightarrow> (string \<times> json) list \<Rightarrow> (string \<times> json) list \<Rightarrow>
     (string \<times> json) list result" where
  "template_json render ctx (JStr s) = result_bind (render s ctx) (\<lambda>t. Inr (JStr t))"
| "template_json render ctx (JArr xs) = result_bind (template_items render ctx xs) (\<lambda>ys. Inr (JArr ys))"
| "template_json render ctx (JObj m) = result_bind (template_members render ctx [] m) (\<lambda>out. Inr (JObj out))"
| "template_json render ctx JNull = Inr JNull"
| "template_json render ctx (JBool b) = Inr (JBool b)"
| "template_json render ctx (JNum n) = Inr (JNum n)"
| "template_items render ctx [] = Inr []"
| "template_items render ctx (x # xs) =
     result_bind (template_json render ctx x) (\<lambda>y.
     result_bind (template_items render ctx xs) (\<lambda>ys. Inr (y # ys)))"
| "template_members render ctx out [] = Inr out"
| "template_members render ctx out ((k, v) # m) =
     result_bind (render k ctx) (\<lambda>k'.
     result_bind (template_json render ctx v) (\<lambda>v'. template_members render ctx (obj_insert k' v' out) m))"

text \<open>The value of the engine is taken as its JSON, so its round trip through JSON is the identity.\<close>

definition template_rhai_map ::
  "(string \<Rightarrow> json \<Rightarrow> string result) \<Rightarrow> json \<Rightarrow> (string \<times> json) list \<Rightarrow> (string \<times> json) list result" where
  "template_rhai_map render ctx m =
     result_bind (template_json render ctx (JObj m)) (\<lambda>d.
       case as_map d of Some m' \<Rightarrow> Inr m' | None \<Rightarrow> Inl (Other ''expected map after templating''))"

definition template_http_mock ::
  "(string \<Rightarrow> json \<Rightarrow> string result) \<Rightarrow> json \<Rightarrow> http_mock \<Rightarrow> http_mock result" where
  "template_http_mock render ctx item =
     result_bind (render (hm_path item) ctx) (\<lambda>path.
     result_bind (template_rhai_map render ctx (hm_return item)) (\<lambda>ret.
       Inr (item\<lparr>hm_path := path, hm_return := ret\<rparr>)))"

text \<open>\<open>as_ref().map(f).transpose()\<close>, and \<open>f\<close> over a list until the first error.\<close>

definition map_optional :: "('a \<Rightarrow> 'b result) \<Rightarrow> 'a option \<Rightarrow> 'b option result" where
  "map_optional f x = (case x of None \<Rightarrow> Inr None | Some a \<Rightarrow> result_bind (f a) (\<lambda>b. Inr (Some b)))"

fun map_each :: "('a \<Rightarrow> 'b result) \<Rightarrow> 'a list \<Rightarrow> 'b list result" where
  "map_each f [] = Inr []"
| "map_each f (x # xs) = result_bind (f x) (\<lambda>y. result_bind (map_each f xs) (\<lambda>ys. Inr (y # ys)))"

definition template_assert ::
  "(string \<Rightarrow> json \<Rightarrow> string result) \<Rightarrow> json \<Rightarrow> vynil_assert \<Rightarrow> vynil_assert result" where
  "template_assert render ctx a =
     (let sel = va_selector a; ren = (\<lambda>s. render s ctx)
      in result_bind (map_optional ren (se_kind sel)) (\<lambda>kind.
         result_bind (map_optional ren (se_name sel)) (\<lambda>name.
         result_bind (map_optional ren (se_namespace sel)) (\<lambda>ns.
         result_bind (map_optional (template_json render ctx) (va_value a)) (\<lambda>val.
           Inr (a\<lparr>va_selector := \<lparr>se_kind = kind, se_name = name, se_namespace = ns\<rparr>, va_value := val\<rparr>))))))"

definition variable_value :: "(string \<times> json) list option \<Rightarrow> string \<times> set_variable \<Rightarrow> json" where
  "variable_value refs v =
     (case Option.bind refs (\<lambda>r. obj_get r (fst v)) of
        Some j \<Rightarrow> j
      | None \<Rightarrow> (case sv_default (snd v) of Some j \<Rightarrow> j | None \<Rightarrow> JNull))"

definition build_var_context :: "vynil_test_set \<Rightarrow> test_set_ref \<Rightarrow> (string \<times> json) list" where
  "build_var_context ts r =
     (let declared =
        (case ts_variables ts of None \<Rightarrow> []
         | Some vars \<Rightarrow> fold (\<lambda>v. obj_insert (fst v) (variable_value (tr_variables r) v)) vars [])
      in case tr_variables r of None \<Rightarrow> declared
         | Some refs \<Rightarrow>
             fold (\<lambda>(name, v) var. if obj_get var name = None then obj_insert name v var else var) refs declared)"

record collected =
  co_k8s :: "json list"
  co_http :: "http_mock list"
  co_asserts :: "vynil_assert list"

text \<open>The context is an object and holds itself under \<open>context\<close>; what was collected is appended to.\<close>

definition collect_templated ::
  "(string \<Rightarrow> json \<Rightarrow> string result) \<Rightarrow> (string \<times> json) list \<Rightarrow> test_mocks option \<Rightarrow> vynil_assert list option \<Rightarrow>
   collected \<Rightarrow> collected result" where
  "collect_templated render ctx mocks asserts co =
     (let context = JObj (obj_insert ''context'' (JObj ctx) ctx);
          k8s = (case Option.bind mocks mo_kubernetes of None \<Rightarrow> [] | Some l \<Rightarrow> l);
          http = (case Option.bind mocks mo_http of None \<Rightarrow> [] | Some l \<Rightarrow> l);
          list = (case asserts of None \<Rightarrow> [] | Some l \<Rightarrow> l)
      in result_bind (map_each (template_json render context) k8s) (\<lambda>ks.
         result_bind (map_each (template_http_mock render context) http) (\<lambda>hs.
         result_bind (map_each (template_assert render context) list) (\<lambda>as'.
           Inr (co\<lparr>co_k8s := co_k8s co @ ks, co_http := co_http co @ hs, co_asserts := co_asserts co @ as'\<rparr>)))))"

section \<open>The handler\<close>

record test_result =
  tr_test_name :: string
  tr_asserts :: "assert_result list"

record test_handler =
  th_package_dir :: string
  th_script_dir :: string
  th_config_dir :: string
  th_template_dir :: string
  th_package :: package_source
  th_results :: "test_result list"
  th_tests :: "(string \<times> vynil_test) list"
  th_test_sets :: "(string \<times> vynil_test_set) list"

definition API_VERSION :: string where
  "API_VERSION = ''vinyl.solidite.fr/v1beta1''"

definition kept_doc :: "string \<Rightarrow> json \<Rightarrow> (string \<times> json \<times> string) list" where
  "kept_doc display j =
     (if Option.bind (value_get j ''apiVersion'') as_str \<noteq> Some API_VERSION then []
      else (case Option.bind (value_get j ''kind'') as_str of Some kind \<Rightarrow> [(kind, j, display)] | None \<Rightarrow> []))"

fun read_docs :: "string \<Rightarrow> (string + json) list \<Rightarrow> (string \<times> json \<times> string) list result" where
  "read_docs display [] = Inr []"
| "read_docs display (Inl e # docs) = Inl (YamlError (display @ '': '' @ e))"
| "read_docs display (Inr j # docs) = result_bind (read_docs display docs) (\<lambda>rest. Inr (kept_doc display j @ rest))"

definition is_yaml :: "string \<Rightarrow> bool" where
  "is_yaml path \<longleftrightarrow> extension path = Some ''yml'' \<or> extension path = Some ''yaml''"

definition scan_yaml_file :: "'e test_env \<Rightarrow> string \<Rightarrow> string \<times> fs_entry \<Rightarrow> (string \<times> json \<times> string) list result" where
  "scan_yaml_file env dir e =
     (let path = path_join dir (fst e)
      in case snd e of
           F_Dir es \<Rightarrow> Inr []
         | F_File content \<Rightarrow>
             (if \<not> is_yaml path then Inr []
              else (case content of
                      None \<Rightarrow> Inl (Stdio path)
                    | Some c \<Rightarrow> read_docs path (te_docs env c))))"

definition scan_yaml_dir :: "'e test_env \<Rightarrow> string \<Rightarrow> (string \<times> json \<times> string) list result" where
  "scan_yaml_dir env dir =
     result_bind (te_dir env dir) (\<lambda>es.
     result_bind (map_each (scan_yaml_file env dir) es) (\<lambda>docs. Inr (concat docs)))"

definition duplicate :: "string \<Rightarrow> string \<Rightarrow> string \<Rightarrow> verror" where
  "duplicate file what name = YamlError (file @ '': duplicate '' @ what @ '' '' @ [CHR 0x27] @ name @ [CHR 0x27])"

definition load_set :: "'e test_env \<Rightarrow> json \<Rightarrow> string \<Rightarrow> test_handler \<Rightarrow> test_handler result" where
  "load_set env j file th =
     (case te_parse_set env j of
        Inl e \<Rightarrow> Inl (YamlError (file @ '': '' @ e))
      | Inr ts \<Rightarrow>
          (if obj_get (th_test_sets th) (ts_name ts) \<noteq> None then Inl (duplicate file ''TestSet'' (ts_name ts))
           else Inr (th\<lparr>th_test_sets := obj_insert (ts_name ts) ts (th_test_sets th)\<rparr>)))"

definition load_test :: "'e test_env \<Rightarrow> json \<Rightarrow> string \<Rightarrow> test_handler \<Rightarrow> test_handler result" where
  "load_test env j file th =
     (case te_parse_test env j of
        Inl e \<Rightarrow> Inl (YamlError (file @ '': '' @ e))
      | Inr t \<Rightarrow>
          (if obj_get (th_tests th) (vt_name t) \<noteq> None then Inl (duplicate file ''Test'' (vt_name t))
           else Inr (th\<lparr>th_tests := obj_insert (vt_name t) t (th_tests th)\<rparr>)))"

fun load_docs :: "'e test_env \<Rightarrow> (string \<times> json \<times> string) list \<Rightarrow> test_handler \<Rightarrow> test_handler result" where
  "load_docs env [] th = Inr th"
| "load_docs env ((kind, j, file) # docs) th =
     result_bind
       (if kind = ''Test'' then load_test env j file th
        else if kind = ''TestSet'' then load_set env j file th
        else Inr th) (\<lambda>th'. load_docs env docs th')"

definition load_tests_from_dir :: "'e test_env \<Rightarrow> string \<Rightarrow> test_handler \<Rightarrow> test_handler result" where
  "load_tests_from_dir env dir th = result_bind (scan_yaml_dir env dir) (\<lambda>docs. load_docs env docs th)"

definition load_testsets_from_dir :: "'e test_env \<Rightarrow> string \<Rightarrow> test_handler \<Rightarrow> test_handler result" where
  "load_testsets_from_dir env dir th =
     result_bind (scan_yaml_dir env dir) (\<lambda>docs. load_docs env (filter (\<lambda>d. fst d = ''TestSet'') docs) th)"

fun load_set_dirs :: "'e test_env \<Rightarrow> string list \<Rightarrow> test_handler \<Rightarrow> test_handler result" where
  "load_set_dirs env [] th = Inr th"
| "load_set_dirs env (d # ds) th = result_bind (load_testsets_from_dir env d th) (\<lambda>th'. load_set_dirs env ds th')"

definition new_test_handler ::
  "'e test_env \<Rightarrow> string \<Rightarrow> string \<Rightarrow> string \<Rightarrow> string \<Rightarrow> string list option \<Rightarrow> test_handler result" where
  "new_test_handler env package_dir script_dir config_dir template_dir testset_dirs =
     result_bind (te_manifest env (path_join package_dir ''package.yaml'')) (\<lambda>pkg.
     result_bind
       (load_set_dirs env (case testset_dirs of None \<Rightarrow> [] | Some ds \<Rightarrow> ds)
         \<lparr>th_package_dir = package_dir, th_script_dir = script_dir, th_config_dir = config_dir,
          th_template_dir = template_dir, th_package = pkg, th_results = [], th_tests = [], th_test_sets = []\<rparr>)
       (\<lambda>th. load_tests_from_dir env (path_join package_dir ''tests'') th))"

definition list_tests :: "test_handler \<Rightarrow> string list" where
  "list_tests th = map fst (th_tests th)"

section \<open>One test, resolved\<close>

definition instance_kind :: "package_type \<Rightarrow> string" where
  "instance_kind u =
     (case u of Service \<Rightarrow> ''ServiceInstance'' | System \<Rightarrow> ''SystemInstance'' | Tenant \<Rightarrow> ''TenantInstance'')"

text \<open>The serialized instance with its slug; an absent option is null.\<close>

definition instance_context :: "package_source \<Rightarrow> test_instance \<Rightarrow> (string \<times> json) list" where
  "instance_context pkg ti =
     obj_insert ''appslug'' (JStr (appslug (pm_name (ps_metadata pkg)) (ti_name ti)))
       [(''name'', JStr (ti_name ti)), (''namespace'', JStr (ti_namespace ti)),
        (''options'', case ti_options ti of None \<Rightarrow> JNull | Some m \<Rightarrow> JObj m)]"

definition base_context :: "'e test_env \<Rightarrow> package_source \<Rightarrow> test_instance \<Rightarrow> (string \<times> json) list" where
  "base_context env pkg ti =
     [(''instance'', JObj (instance_context pkg ti)), (''package'', te_package_json env pkg)]"

definition test_instance_spec :: "package_source \<Rightarrow> test_instance \<Rightarrow> (string \<times> json) list" where
  "test_instance_spec pkg ti =
     (let spec = [(''category'', JStr (pm_category (ps_metadata pkg))), (''package'', JStr (pm_name (ps_metadata pkg)))]
      in case ti_options ti of None \<Rightarrow> spec | Some opts \<Rightarrow> obj_insert ''options'' (JObj opts) spec)"

definition instance_mock :: "package_source \<Rightarrow> test_instance \<Rightarrow> json" where
  "instance_mock pkg ti =
     JObj [(''apiVersion'', JStr ''vynil.solidite.fr/v1''),
           (''kind'', JStr (instance_kind (pm_usage (ps_metadata pkg)))),
           (''metadata'', JObj [(''name'', JStr (ti_name ti)), (''namespace'', JStr (ti_namespace ti))]),
           (''spec'', JObj (test_instance_spec pkg ti)),
           (''status'', JObj [])]"

fun merge_sets ::
  "'e test_env \<Rightarrow> (string \<times> vynil_test_set) list \<Rightarrow> (string \<times> json) list \<Rightarrow> test_set_ref list \<Rightarrow> collected \<Rightarrow>
   collected result" where
  "merge_sets env sets base [] co = Inr co"
| "merge_sets env sets base (r # refs) co =
     (case obj_get sets (tr_test_set r) of
        None \<Rightarrow> Inl (Other (''TestSet '' @ [CHR 0x27] @ tr_test_set r @ [CHR 0x27] @ '' not found''))
      | Some ts \<Rightarrow>
          result_bind
            (collect_templated (te_render env) (obj_insert ''var'' (JObj (build_var_context ts r)) base)
              (ts_mocks ts) (ts_asserts ts) co)
            (\<lambda>co'. merge_sets env sets base refs co'))"

text \<open>The test as it is run: every list that is empty is left out.\<close>

definition none_if_empty :: "'a list \<Rightarrow> 'a list option" where
  "none_if_empty xs = (if xs = [] then None else Some xs)"

definition resolved_test :: "package_source \<Rightarrow> vynil_test \<Rightarrow> collected \<Rightarrow> vynil_test" where
  "resolved_test pkg t co =
     (let ti = vt_instance t;
          mocked = list_ex (is_mock (instance_kind (pm_usage (ps_metadata pkg))) (Some (ti_name ti))
             (Some (ti_namespace ti))) (co_k8s co);
          k8s = (if mocked then co_k8s co else co_k8s co @ [instance_mock pkg ti])
      in t\<lparr>vt_test_sets := None,
           vt_mocks :=
             (if k8s = [] \<and> co_http co = [] then None
              else Some \<lparr>mo_http = none_if_empty (co_http co), mo_kubernetes = none_if_empty k8s\<rparr>),
           vt_asserts := none_if_empty (co_asserts co)\<rparr>)"

definition get_templated_test :: "'e test_env \<Rightarrow> test_handler \<Rightarrow> string \<Rightarrow> vynil_test result" where
  "get_templated_test env th name =
     (case obj_get (th_tests th) name of
        None \<Rightarrow> Inl (Other (''Test '' @ [CHR 0x27] @ name @ [CHR 0x27] @ '' not found''))
      | Some t \<Rightarrow>
          (let base = base_context env (th_package th) (vt_instance t)
           in result_bind
                (collect_templated (te_render env) base (vt_mocks t) (vt_asserts t)
                  \<lparr>co_k8s = [], co_http = [], co_asserts = []\<rparr>) (\<lambda>co.
              result_bind
                (case vt_test_sets t of None \<Rightarrow> Inr co
                 | Some refs \<Rightarrow> merge_sets env (th_test_sets th) base refs co) (\<lambda>co'.
                  Inr (resolved_test (th_package th) t co')))))"

text \<open>Every test set a test refers to is there; the code never calls this check.\<close>

fun unknown_set :: "(string \<times> vynil_test_set) list \<Rightarrow> (string \<times> vynil_test) list \<Rightarrow> (string \<times> string) option" where
  "unknown_set sets [] = None"
| "unknown_set sets ((name, t) # tests) =
     (case find (\<lambda>r. obj_get sets (tr_test_set r) = None)
             (case vt_test_sets t of None \<Rightarrow> [] | Some refs \<Rightarrow> refs) of
        Some r \<Rightarrow> Some (name, tr_test_set r)
      | None \<Rightarrow> unknown_set sets tests)"

definition validate_refs :: "test_handler \<Rightarrow> unit result" where
  "validate_refs th =
     (case unknown_set (th_test_sets th) (th_tests th) of
        None \<Rightarrow> Inr ()
      | Some (name, set_name) \<Rightarrow>
          Inl (Other (''Test '' @ [CHR 0x27] @ name @ [CHR 0x27] @ '' references unknown TestSet '' @
            [CHR 0x27] @ set_name @ [CHR 0x27])))"

section \<open>Running a test\<close>

definition DEFAULT_AGENT_IMAGE :: string where
  "DEFAULT_AGENT_IMAGE = ''docker.io/sebt3/vynil-agent:0.7.7''"

definition type_dir :: "package_type \<Rightarrow> string" where
  "type_dir u = (case u of Tenant \<Rightarrow> ''tenant'' | System \<Rightarrow> ''system'' | Service \<Rightarrow> ''service'')"

definition resolver_path :: "test_handler \<Rightarrow> string list" where
  "resolver_path th =
     [th_package_dir th @ ''/scripts'', th_config_dir th,
      th_script_dir th @ ''/'' @ type_dir (pm_usage (ps_metadata (th_package th))), th_script_dir th @ ''/lib'']"

definition install_script :: "package_type \<Rightarrow> string" where
  "install_script u =
     (let q = [CHR 0x22]; nl = [CHR 0x0A];
          fun_name = (case u of Tenant \<Rightarrow> ''get_tenant_instance'' | System \<Rightarrow> ''get_system_instance''
            | Service \<Rightarrow> ''get_service_instance'')
      in ''import('' @ q @ ''context'' @ q @ '') as ctx;'' @ nl @
         ''let instance = '' @ fun_name @ ''(args.namespace, args.instance);'' @ nl @
         ''let context = ctx::run(instance, args);'' @ nl @
         ''import('' @ q @ ''install'' @ q @ '') as install;'' @ nl @
         ''install::run(instance, context);'')"

definition script_args :: "test_handler \<Rightarrow> test_instance \<Rightarrow> string \<Rightarrow> json" where
  "script_args th ti controller_values =
     JObj [(''agent_image'', JStr DEFAULT_AGENT_IMAGE), (''config_dir'', JStr (th_config_dir th)),
           (''controller_values'', JStr controller_values), (''instance'', JStr (ti_name ti)),
           (''namespace'', JStr (ti_namespace ti)), (''package_dir'', JStr (th_package_dir th)),
           (''script_dir'', JStr (th_script_dir th)), (''tag'', JStr ''0.1.0''),
           (''template_dir'', JStr (th_template_dir th)), (''vynil_namespace'', JStr ''vynil-system'')]"

definition value_script_result :: "bool \<Rightarrow> string \<Rightarrow> assert_result" where
  "value_script_result passed message =
     \<lparr>ar_name = ''value_script'', ar_description = Some ''Value script execution'', ar_passed = passed,
      ar_message = message\<rparr>"

text \<open>
  The value script answers a text and the results so far; when it fails, the test ends with its failure as the
  only result. An error of the install script is an error of the test.
\<close>

definition run_install ::
  "'e test_env \<Rightarrow> test_handler \<Rightarrow> vynil_test \<Rightarrow> string \<Rightarrow> assert_result list \<Rightarrow> 'e \<Rightarrow> assert_result list result" where
  "run_install env th t controller_values asserts rhai =
     (case te_eval env (install_script (pm_usage (ps_metadata (th_package th))))
             (te_set_dynamic env ''args'' (script_args th (vt_instance t) controller_values) rhai) of
        (Inl e, rhai') \<Rightarrow> Inl e
      | (Inr v, rhai') \<Rightarrow> Inr (asserts @ run_asserts (te_show env) (vt_asserts t) (te_created env rhai')))"

definition run_test_inner :: "'e test_env \<Rightarrow> test_handler \<Rightarrow> string \<Rightarrow> assert_result list result" where
  "run_test_inner env th name =
     result_bind (get_templated_test env th name) (\<lambda>t.
       let k8s = (case Option.bind (vt_mocks t) mo_kubernetes of None \<Rightarrow> [] | Some l \<Rightarrow> l);
           http = (case Option.bind (vt_mocks t) mo_http of None \<Rightarrow> [] | Some l \<Rightarrow> l);
           rhai = te_new_mock env (resolver_path th) http k8s
       in case ps_value_script (th_package th) of
            None \<Rightarrow> run_install env th t ''{}'' [] rhai
          | Some vs \<Rightarrow>
              (case te_eval env vs rhai of
                 (Inl e, rhai') \<Rightarrow> Inr [value_script_result False (te_error env e)]
               | (Inr v, rhai') \<Rightarrow>
                   run_install env th t (te_show env v)
                     [value_script_result True ''value script executed successfully''] rhai'))"

definition run_test :: "'e test_env \<Rightarrow> string \<Rightarrow> test_handler \<Rightarrow> test_handler" where
  "run_test env name th =
     (let asserts =
        (case run_test_inner env th name of
           Inr as' \<Rightarrow> as'
         | Inl e \<Rightarrow>
             [\<lparr>ar_name = ''execution'', ar_description = Some ''Test execution'', ar_passed = False,
               ar_message = te_error env e\<rparr>])
      in th\<lparr>th_results := th_results th @ [\<lparr>tr_test_name = name, tr_asserts = asserts\<rparr>]\<rparr>)"

definition run_all_tests :: "'e test_env \<Rightarrow> test_handler \<Rightarrow> test_handler" where
  "run_all_tests env th = fold (run_test env) (list_tests th) th"

section \<open>The results\<close>

definition total_asserts :: "test_result list \<Rightarrow> nat" where
  "total_asserts rs = sum_list (map (\<lambda>r. length (tr_asserts r)) rs)"

definition total_passed :: "test_result list \<Rightarrow> nat" where
  "total_passed rs = length (filter ar_passed (concat (map tr_asserts rs)))"

definition total_failed :: "test_result list \<Rightarrow> nat" where
  "total_failed rs = length (filter (\<lambda>a. \<not> ar_passed a) (concat (map tr_asserts rs)))"

definition all_passed :: "test_result list \<Rightarrow> bool" where
  "all_passed rs \<longleftrightarrow> list_all (\<lambda>r. list_all ar_passed (tr_asserts r)) rs"

text \<open>Which of the three the command was asked for; listing the tests runs none and succeeds.\<close>

datatype test_request = Run_All | Run_One string | List_Only

definition test_verdict :: "test_result list \<Rightarrow> unit result" where
  "test_verdict rs = (if all_passed rs then Inr () else Inl (TestFailure (total_failed rs) (total_asserts rs)))"

text \<open>
  What is printed of the results and the two output files are not here; the first argument says whether the
  package has a directory \<open>tests\<close>.
\<close>

definition run_package_tests ::
  "bool \<Rightarrow> 'e test_env \<Rightarrow> string \<Rightarrow> string \<Rightarrow> string \<Rightarrow> string \<Rightarrow> string option \<Rightarrow> test_request \<Rightarrow>
   test_result list \<times> unit result" where
  "run_package_tests has_tests env package_dir script_dir config_dir template_dir testset_dir req =
     (if \<not> has_tests then ([], Inl (MissingTestDirectory package_dir))
      else
        (case new_test_handler env package_dir script_dir config_dir template_dir
                (map_option (\<lambda>d. [d]) testset_dir) of
           Inl e \<Rightarrow> ([], Inl e)
         | Inr th \<Rightarrow>
             (case req of
                List_Only \<Rightarrow> ([], Inr ())
              | Run_All \<Rightarrow>
                  (let rs = th_results (run_all_tests env th) in (rs, test_verdict rs))
              | Run_One name \<Rightarrow>
                  (let rs = th_results (run_test env name th) in (rs, test_verdict rs)))))"

section \<open>Lemmas\<close>

text \<open>Running a test reads nothing of the results of those before it.\<close>

lemma templated_results [simp]: "get_templated_test env (th\<lparr>th_results := rs\<rparr>) name = get_templated_test env th name"
  by (simp add: get_templated_test_def Let_def cong: option.case_cong)

lemma install_results [simp]: "run_install env (th\<lparr>th_results := rs\<rparr>) t v as' e = run_install env th t v as' e"
  by (simp add: run_install_def script_args_def)

lemma inner_results [simp]: "run_test_inner env (th\<lparr>th_results := rs\<rparr>) name = run_test_inner env th name"
  by (simp add: run_test_inner_def resolver_path_def Let_def cong: option.case_cong prod.case_cong sum.case_cong)

text \<open>What is recorded for a test.\<close>

definition recorded :: "'e test_env \<Rightarrow> test_handler \<Rightarrow> string \<Rightarrow> test_result" where
  "recorded env th name =
     \<lparr>tr_test_name = name,
      tr_asserts =
        (case run_test_inner env th name of
           Inr as' \<Rightarrow> as'
         | Inl e \<Rightarrow>
             [\<lparr>ar_name = ''execution'', ar_description = Some ''Test execution'', ar_passed = False,
               ar_message = te_error env e\<rparr>])\<rparr>"

lemma run_test_records: "run_test env name th = th\<lparr>th_results := th_results th @ [recorded env th name]\<rparr>"
  by (simp add: run_test_def recorded_def)

lemma recorded_results [simp]: "recorded env (th\<lparr>th_results := rs\<rparr>) name = recorded env th name"
  by (simp add: recorded_def)

lemma fold_run_test:
  "fold (run_test env) names th = th\<lparr>th_results := th_results th @ map (recorded env th) names\<rparr>"
  by (induction names arbitrary: th) (simp_all add: run_test_records)

lemma recorded_passes:
  "list_all ar_passed (tr_asserts (recorded env th name)) \<longleftrightarrow>
     (\<exists>as'. run_test_inner env th name = Inr as' \<and> list_all ar_passed as')"
  by (simp add: recorded_def split: sum.split)

lemma load_docs_results:
  "load_docs env docs th = Inr th' \<Longrightarrow> th_results th' = th_results th"
proof (induction docs arbitrary: th)
  case (Cons d docs)
  obtain kind j fl where d: "d = (kind, j, fl)" by (cases d)
  obtain th1 where th1: "load_docs env docs th1 = Inr th'"
    "(if kind = ''Test'' then load_test env j fl th else if kind = ''TestSet'' then load_set env j fl th else Inr th) = Inr th1"
    using Cons.prems unfolding d by (auto simp: result_bind_Inr simp del: not_None_eq)
  have "th_results th1 = th_results th"
    using th1(2) by (auto simp: load_test_def load_set_def split: if_splits sum.splits)
  with Cons.IH [OF th1(1)] show ?case by simp
qed simp

lemma new_handler_results:
  assumes "new_test_handler env pd sd cd td sets = Inr th" shows "th_results th = []"
proof -
  have sets: "load_set_dirs env ds h = Inr h' \<Longrightarrow> th_results h' = th_results h" for ds h h'
  proof (induction ds arbitrary: h)
    case (Cons d ds)
    then show ?case
      by (force simp: result_bind_Inr load_testsets_from_dir_def dest: load_docs_results)
  qed simp
  from assms show ?thesis
    by (auto simp: new_test_handler_def load_tests_from_dir_def result_bind_Inr dest!: sets load_docs_results)
qed

section \<open>Properties\<close>


text \<open>The totals of a report agree: every assertion either passed or failed, and the verdict is a success
  exactly when none failed.\<close>

theorem report_totals:
  "total_passed rs + total_failed rs = total_asserts rs \<and> (test_verdict rs = Inr () \<longleftrightarrow> total_failed rs = 0)"
proof -
  let ?all = "concat (map tr_asserts rs)"
  have "total_asserts rs = length ?all" by (simp add: total_asserts_def length_concat comp_def)
  then have "total_passed rs + total_failed rs = total_asserts rs"
    unfolding total_passed_def total_failed_def using sum_length_filter_compl [of ar_passed ?all] by simp
  moreover have "all_passed rs \<longleftrightarrow> total_failed rs = 0"
    by (simp add: all_passed_def total_failed_def filter_empty_conv list_all_iff)
  ultimately show ?thesis by (simp add: test_verdict_def)
qed

lemma instance_mocked:
  "is_mock (instance_kind (pm_usage (ps_metadata pkg))) (Some (ti_name ti)) (Some (ti_namespace ti)) (instance_mock pkg ti)"
  by (simp add: is_mock_def instance_mock_def as_map_def str_member_def meta_str_def meta_of_def as_string_def)

text \<open>The scripts of a test always find the instance the test is about: the mocks of a resolved test hold an
  object of the kind of the package with its name and namespace, given by the test or added for it.\<close>

theorem tested_instance_mocked:
  assumes "get_templated_test env th name = Inr t"
  shows "\<exists>mocks objs. vt_mocks t = Some mocks \<and> mo_kubernetes mocks = Some objs \<and>
    list_ex (is_mock (instance_kind (pm_usage (ps_metadata (th_package th)))) (Some (ti_name (vt_instance t)))
      (Some (ti_namespace (vt_instance t)))) objs"
proof -
  obtain t0 co where t: "t = resolved_test (th_package th) t0 co"
    using assms by (auto simp: get_templated_test_def Let_def result_bind_Inr split: option.splits)
  let ?is = "is_mock (instance_kind (pm_usage (ps_metadata (th_package th)))) (Some (ti_name (vt_instance t0)))
    (Some (ti_namespace (vt_instance t0)))"
  show ?thesis
  proof (cases "list_ex ?is (co_k8s co)")
    case True
    then have "co_k8s co \<noteq> []" by auto
    with True show ?thesis by (simp add: t resolved_test_def none_if_empty_def Let_def)
  next
    case False
    then show ?thesis
      by (simp add: t resolved_test_def none_if_empty_def Let_def instance_mocked)
  qed
qed

text \<open>A rendering that changes nothing, an engine whose scripts do nothing, one test without an assertion.\<close>

definition demo_test :: vynil_test where
  "demo_test =
     \<lparr>vt_api_version = API_VERSION, vt_kind = ''Test'', vt_name = ''t'', vt_description = None,
      vt_instance = \<lparr>ti_name = ''i'', ti_namespace = ''n'', ti_options = None\<rparr>,
      vt_test_sets = None, vt_mocks = None, vt_asserts = None\<rparr>"

definition demo_tested_package :: package_source where
  "demo_tested_package =
     \<lparr>ps_api_version = ''vinyl.solidite.fr/v1beta1'', ps_kind = ''Package'',
      ps_metadata = \<lparr>pm_name = ''p'', pm_category = ''c'', pm_description = [], pm_app_version = None,
        pm_usage = Tenant, pm_features = [], pm_backup_affinity = None\<rparr>,
      ps_requirements = [], ps_recommandations = None, ps_options = None, ps_images = None, ps_resources = None,
      ps_value_script = None\<rparr>"

definition demo_test_env :: "json list test_env" where
  "demo_test_env =
     \<lparr>te_render = (\<lambda>s ctx. Inr s), te_package_json = (\<lambda>p. JObj []), te_parse_test = (\<lambda>j. Inr demo_test),
      te_parse_set = (\<lambda>j. Inl []), te_docs = (\<lambda>s. []), te_dir = (\<lambda>d. Inr []), te_manifest = (\<lambda>p. Inr demo_tested_package),
      te_show = (\<lambda>j. []), te_error = (\<lambda>e. []), te_new_mock = (\<lambda>path http k8s. k8s), te_eval = (\<lambda>s e. (Inr JNull, e)),
      te_set_dynamic = (\<lambda>n v e. e), te_created = (\<lambda>e. e)\<rparr>"

definition demo_handler :: test_handler where
  "demo_handler =
     \<lparr>th_package_dir = ''/p'', th_script_dir = ''/s'', th_config_dir = ''.'', th_template_dir = ''/t'',
      th_package = demo_tested_package, th_results = [], th_tests = [(''t'', demo_test)], th_test_sets = []\<rparr>"

theorem tested_instance_mocked_witness:
  "\<exists>t mocks objs. get_templated_test demo_test_env demo_handler ''t'' = Inr t \<and>
     vt_mocks t = Some mocks \<and> mo_kubernetes mocks = Some objs \<and>
     list_ex (is_mock ''TenantInstance'' (Some ''i'') (Some ''n'')) objs"
proof -
  obtain t where t: "get_templated_test demo_test_env demo_handler ''t'' = Inr t" "vt_instance t = vt_instance demo_test"
    by (simp add: get_templated_test_def demo_handler_def demo_test_def collect_templated_def resolved_test_def Let_def)
  from tested_instance_mocked [OF t(1)] t show ?thesis
    by (auto simp: demo_handler_def demo_tested_package_def demo_test_def instance_kind_def)
qed

lemma declared_variables:
  assumes "distinct (map fst vars)"
  shows "obj_get (fold (\<lambda>v. obj_insert (fst v) (f v)) vars acc) name =
    (case map_of vars name of Some sv \<Rightarrow> Some (f (name, sv)) | None \<Rightarrow> obj_get acc name)"
  using assms
proof (induction vars arbitrary: acc)
  case (Cons x vars)
  then have "map_of vars (fst x) = None" by (simp add: map_of_eq_None_iff)
  with Cons show ?case by (cases x) (auto split: option.split)
qed simp

lemma extra_variables:
  "obj_get (fold (\<lambda>(name, v) var. if obj_get var name = None then obj_insert name v var else var) refs acc) name =
    (case obj_get acc name of Some j \<Rightarrow> Some j | None \<Rightarrow> map_of refs name)"
proof (induction refs arbitrary: acc)
  case (Cons x refs)
  have "obj_get (if obj_get acc (fst x) = None then obj_insert (fst x) (snd x) acc else acc) name =
    (case obj_get acc name of Some j \<Rightarrow> Some j | None \<Rightarrow> if name = fst x then Some (snd x) else None)"
    by (auto split: option.split)
  then show ?case by (cases x) (auto simp: Cons.IH split: option.split)
qed (simp split: option.split)

text \<open>The variables a test set sees: the value its reference gives, or else the default of its declaration,
  or null when it has none; a variable the reference gives without a declaration is there too, and no other.\<close>

theorem set_variables_lookup:
  assumes "\<And>vars. ts_variables ts = Some vars \<Longrightarrow> distinct (map fst vars)"
  shows "obj_get (build_var_context ts r) name =
    (case Option.bind (tr_variables r) (\<lambda>refs. obj_get refs name) of
       Some v \<Rightarrow> Some v
     | None \<Rightarrow>
         map_option (\<lambda>sv. case sv_default sv of Some d \<Rightarrow> d | None \<Rightarrow> JNull)
           (Option.bind (ts_variables ts) (\<lambda>vars. map_of vars name)))"
proof -
  have "obj_get (case ts_variables ts of None \<Rightarrow> []
      | Some vars \<Rightarrow> fold (\<lambda>v. obj_insert (fst v) (variable_value (tr_variables r) v)) vars []) name =
    map_option (\<lambda>sv. variable_value (tr_variables r) (name, sv)) (Option.bind (ts_variables ts) (\<lambda>vars. map_of vars name))"
    using assms by (cases "ts_variables ts") (auto simp: declared_variables split: option.split)
  then show ?thesis
    by (cases "tr_variables r"; cases "Option.bind (ts_variables ts) (\<lambda>vars. map_of vars name)")
      (auto simp: build_var_context_def extra_variables variable_value_def Let_def split: option.splits)
qed

theorem set_variables_lookup_witness:
  "obj_get (build_var_context
      \<lparr>ts_api_version = API_VERSION, ts_kind = ''TestSet'', ts_name = ''s'', ts_description = None,
       ts_variables = Some [(''a'', \<lparr>sv_type = ''string'', sv_default = Some (JStr ''x'')\<rparr>),
                            (''b'', \<lparr>sv_type = ''string'', sv_default = None\<rparr>)],
       ts_mocks = None, ts_asserts = None\<rparr>
      \<lparr>tr_test_set = ''s'', tr_variables = Some [(''c'', JNull)]\<rparr>) ''a'' = Some (JStr ''x'')"
  by (subst set_variables_lookup) simp_all

lemma load_doc_tests:
  assumes "(if kind = ''Test'' then load_test env j fl th else if kind = ''TestSet'' then load_set env j fl th
    else Inr th) = Inr th'"
  shows "obj_get (th_tests th') n = Some t \<longleftrightarrow>
    obj_get (th_tests th) n = Some t \<or> kind = ''Test'' \<and> te_parse_test env j = Inr t \<and> vt_name t = n"
proof (cases "kind = ''Test''")
  case True
  with assms show ?thesis by (auto simp: load_test_def split: sum.splits if_splits)
next
  case False
  with assms have "th_tests th' = th_tests th" by (auto simp: load_set_def split: sum.splits if_splits)
  with False show ?thesis by simp
qed

lemma load_docs_tests:
  "load_docs env docs th = Inr th' \<Longrightarrow> obj_get (th_tests th') n = Some t \<longleftrightarrow>
     obj_get (th_tests th) n = Some t \<or>
     (\<exists>j file. (''Test'', j, file) \<in> set docs \<and> te_parse_test env j = Inr t \<and> vt_name t = n)"
proof (induction docs arbitrary: th)
  case (Cons d docs)
  obtain kind j fl where d: "d = (kind, j, fl)" by (cases d)
  obtain th1 where th1: "load_docs env docs th1 = Inr th'"
    "(if kind = ''Test'' then load_test env j fl th else if kind = ''TestSet'' then load_set env j fl th else Inr th) = Inr th1"
    using Cons.prems unfolding d by (auto simp: result_bind_Inr simp del: not_None_eq)
  show ?case unfolding Cons.IH [OF th1(1)] load_doc_tests [OF th1(2)] d by auto
qed simp

text \<open>Loading the documents of a directory succeeds only when no test is lost: every document of kind
  \<open>Test\<close> is then the test under its name, and there is no other; a second test of a name is an error.\<close>

theorem loaded_tests:
  assumes "load_docs env docs th = Inr th'" and "th_tests th = []"
  shows "obj_get (th_tests th') n = Some t \<longleftrightarrow>
    (\<exists>j file. (''Test'', j, file) \<in> set docs \<and> te_parse_test env j = Inr t \<and> vt_name t = n)"
  using load_docs_tests [OF assms(1)] assms(2) by simp

theorem loaded_tests_witness:
  "\<exists>th'. load_docs demo_test_env [(''Test'', JNull, ''a.yaml'')] (demo_handler\<lparr>th_tests := []\<rparr>) = Inr th' \<and>
     obj_get (th_tests th') ''t'' = Some demo_test"
proof -
  obtain th' where l: "load_docs demo_test_env [(''Test'', JNull, ''a.yaml'')] (demo_handler\<lparr>th_tests := []\<rparr>) = Inr th'"
    by (simp add: load_test_def demo_test_env_def)
  have "obj_get (th_tests th') ''t'' = Some demo_test"
    unfolding loaded_tests [OF l, simplified] by (simp add: demo_test_env_def demo_test_def)
  with l show ?thesis by blast
qed

end
