(* ===== verification/FileBox.thy ===== *)
theory FileBox
  imports Package Paths "HOL-Library.Multiset"
begin

text \<open>
  \<open>common/src/jukebox_file.rs\<close>: the list of packages of a box kept in a directory, one YAML file for each
  category and name and an index of them. The directory is a map from paths to contents; the YAML writer
  and reader are the record \<open>yaml_codec\<close>, and a write that fails is an argument. What a file holds has a type
  of its own, \<open>'c\<close>: the code only moves it between the directory and the YAML library.
\<close>

section \<open>The cache\<close>

record cache_index_entry =
  ie_category :: string
  ie_name :: string
  ie_file :: string

type_synonym cache_index = "cache_index_entry list"

record 'c yaml_codec =
  yc_index_out :: "cache_index \<Rightarrow> 'c"
  yc_index_in :: "'c \<Rightarrow> string + cache_index"
  yc_packages_out :: "package list \<Rightarrow> 'c"
  yc_packages_in :: "'c \<Rightarrow> string + package list"

text \<open>What is written is read back as it was.\<close>

definition codec_ok :: "'c yaml_codec \<Rightarrow> bool" where
  "codec_ok yc \<longleftrightarrow>
     (\<forall>i. yc_index_in yc (yc_index_out yc i) = Inr i) \<and> (\<forall>ps. yc_packages_in yc (yc_packages_out yc ps) = Inr ps)"

type_synonym 'c dir = "string \<rightharpoonup> 'c"

record 'c file_juke_box =
  fj_cache_dir :: string
  fj_codec :: "'c yaml_codec"
  fj_writable :: "string \<Rightarrow> bool"

definition index_path :: "'c file_juke_box \<Rightarrow> string" where
  "index_path fb = path_join (fj_cache_dir fb) ''index.yaml''"

definition read_index :: "'c file_juke_box \<Rightarrow> 'c dir \<Rightarrow> cache_index option result" where
  "read_index fb d =
     (case d (index_path fb) of
        None \<Rightarrow> Inr None
      | Some content \<Rightarrow>
          (case yc_index_in (fj_codec fb) content of Inl e \<Rightarrow> Inl (YamlError e) | Inr i \<Rightarrow> Inr (Some i)))"

fun read_entries :: "'c file_juke_box \<Rightarrow> 'c dir \<Rightarrow> cache_index \<Rightarrow> package list result" where
  "read_entries fb d [] = Inr []"
| "read_entries fb d (entry # rest) =
     (case d (path_join (fj_cache_dir fb) (ie_file entry)) of
        None \<Rightarrow> read_entries fb d rest
      | Some content \<Rightarrow>
          (case yc_packages_in (fj_codec fb) content of
             Inl e \<Rightarrow> Inl (YamlError e)
           | Inr pkgs \<Rightarrow> result_bind (read_entries fb d rest) (\<lambda>all. Inr (pkgs @ all))))"

definition read_all_from_cache :: "'c file_juke_box \<Rightarrow> 'c dir \<Rightarrow> package list result" where
  "read_all_from_cache fb d =
     result_bind (read_index fb d) (\<lambda>i. case i of None \<Rightarrow> Inr [] | Some index \<Rightarrow> read_entries fb d index)"

type_synonym group = "(string \<times> string) \<times> package list"

text \<open>The packages by category and name, in the order of the keys of a \<open>BTreeMap\<close>.\<close>

definition package_key :: "package \<Rightarrow> string \<times> string" where
  "package_key p = (pm_category (pk_metadata p), pm_name (pk_metadata p))"

fun add_to_group :: "string \<times> string \<Rightarrow> package \<Rightarrow> group list \<Rightarrow> group list" where
  "add_to_group k p [] = [(k, [p])]"
| "add_to_group k p ((k', ps) # gs) =
     (if k < k' then (k, [p]) # (k', ps) # gs
      else if k = k' then (k', ps @ [p]) # gs
      else (k', ps) # add_to_group k p gs)"

definition grouped :: "package list \<Rightarrow> group list" where
  "grouped packages = fold (\<lambda>p. add_to_group (package_key p) p) packages []"

definition cache_file :: "string \<times> string \<Rightarrow> string" where
  "cache_file k = fst k @ ''_'' @ snd k @ ''.yaml''"

definition write_file :: "'c file_juke_box \<Rightarrow> string \<Rightarrow> 'c \<Rightarrow> ('c dir, unit) io" where
  "write_file fb path content d =
     (if fj_writable fb path then (Inr (), d(path \<mapsto> content)) else (Inl (Stdio path), d))"

definition add_entry :: "string \<times> string \<Rightarrow> cache_index \<Rightarrow> cache_index" where
  "add_entry k index =
     (if list_ex (\<lambda>e. ie_category e = fst k \<and> ie_name e = snd k) index then index
      else index @ [\<lparr>ie_category = fst k, ie_name = snd k, ie_file = cache_file k\<rparr>])"

fun write_groups :: "'c file_juke_box \<Rightarrow> group list \<Rightarrow> cache_index \<Rightarrow> ('c dir, cache_index) io" where
  "write_groups fb [] index = io_return index"
| "write_groups fb ((k, pkgs) # gs) index =
     io_seq
       (write_file fb (path_join (fj_cache_dir fb) (cache_file k)) (yc_packages_out (fj_codec fb) pkgs))
       (write_groups fb gs (add_entry k index))"

text \<open>The filter is not used.\<close>

definition write_to_cache :: "'c file_juke_box \<Rightarrow> package list \<Rightarrow> string option \<Rightarrow> ('c dir, unit) io" where
  "write_to_cache fb packages scan_filter d =
     (case read_index fb d of
        Inl e \<Rightarrow> (Inl e, d)
      | Inr i \<Rightarrow>
          io_bind (write_groups fb (grouped packages) (case i of None \<Rightarrow> [] | Some index \<Rightarrow> index))
            (\<lambda>index. write_file fb (index_path fb) (yc_index_out (fj_codec fb) index)) d)"

definition file_set_status_updated :: "'c file_juke_box \<Rightarrow> package list \<Rightarrow> ('c dir, unit) io" where
  "file_set_status_updated fb packages = write_to_cache fb packages None"

definition file_set_status_packages_merge :: "'c file_juke_box \<Rightarrow> string \<Rightarrow> package list \<Rightarrow> ('c dir, unit) io" where
  "file_set_status_packages_merge fb scan_filter packages = write_to_cache fb packages (Some scan_filter)"

definition file_set_status_failed :: "string \<Rightarrow> ('c dir, unit) io" where
  "file_set_status_failed reason = io_throw (Other (''SCAN-FILE-001: Scan failed: '' @ reason))"

section \<open>Lemmas\<close>

lemma mset_add_to_group:
  "mset (concat (map snd (add_to_group k p gs))) = add_mset p (mset (concat (map snd gs)))"
  by (induction k p gs rule: add_to_group.induct) simp_all

lemma mset_grouped: "mset (concat (map snd (grouped packages))) = mset packages"
proof -
  have "mset (concat (map snd (fold (\<lambda>p. add_to_group (package_key p) p) packages gs))) =
    mset packages + mset (concat (map snd gs))" for gs
    by (induction packages arbitrary: gs) (simp_all add: mset_add_to_group)
  then show ?thesis by (simp add: grouped_def)
qed

lemma keys_add_to_group: "fst ` set (add_to_group k p gs) = insert k (fst ` set gs)"
  by (induction k p gs rule: add_to_group.induct) auto

lemma distinct_add_to_group:
  "sorted_wrt (<) (map fst gs) \<Longrightarrow> sorted_wrt (<) (map fst (add_to_group k p gs))"
proof (induction k p gs rule: add_to_group.induct)
  case (2 k p k' ps gs)
  then show ?case
    using keys_add_to_group [of k p gs] by (auto simp: not_less le_less)
qed simp

lemma keys_grouped:
  "fst ` set (grouped packages) = package_key ` set packages" "distinct (map fst (grouped packages))"
proof -
  have "fst ` set (fold (\<lambda>p. add_to_group (package_key p) p) packages gs) = package_key ` set packages \<union> fst ` set gs" for gs
    by (induction packages arbitrary: gs) (auto simp: keys_add_to_group)
  then show "fst ` set (grouped packages) = package_key ` set packages" by (simp add: grouped_def)
  have "sorted_wrt (<) (map fst gs) \<Longrightarrow>
    sorted_wrt (<) (map fst (fold (\<lambda>p. add_to_group (package_key p) p) packages gs))" for gs
    by (induction packages arbitrary: gs) (simp_all add: distinct_add_to_group)
  then have "sorted_wrt (<) (map fst (grouped packages))" by (simp add: grouped_def)
  then show "distinct (map fst (grouped packages))" by (simp add: strict_sorted_iff)
qed

text \<open>The directory after the files of some groups are written, and the index with their keys.\<close>

definition key_path :: "'c file_juke_box \<Rightarrow> string \<times> string \<Rightarrow> string" where
  "key_path fb k = path_join (fj_cache_dir fb) (cache_file k)"

definition group_files :: "'c file_juke_box \<Rightarrow> group list \<Rightarrow> 'c dir \<Rightarrow> 'c dir" where
  "group_files fb gs d = fold (\<lambda>(k, pkgs) d. d(key_path fb k \<mapsto> yc_packages_out (fj_codec fb) pkgs)) gs d"

lemma group_files_Cons [simp]:
  "group_files fb ((k, pkgs) # gs) d = group_files fb gs (d(key_path fb k \<mapsto> yc_packages_out (fj_codec fb) pkgs))"
  by (simp add: group_files_def)

lemma group_files_other: "path \<notin> key_path fb ` fst ` set gs \<Longrightarrow> group_files fb gs d path = d path"
  by (induction gs arbitrary: d) (auto simp: group_files_def)

lemma group_files_own:
  assumes "inj_on (key_path fb) (fst ` set gs)" "distinct (map fst gs)" "(k, pkgs) \<in> set gs"
  shows "group_files fb gs d (key_path fb k) = Some (yc_packages_out (fj_codec fb) pkgs)"
  using assms
proof (induction gs arbitrary: d)
  case (Cons g gs)
  show ?case
  proof (cases "g = (k, pkgs)")
    case True
    with Cons.prems have "key_path fb k \<notin> key_path fb ` fst ` set gs" by (auto simp: inj_on_def)
    with True show ?thesis by (simp add: group_files_other)
  next
    case False
    with Cons show ?thesis by (cases g) (auto simp: inj_on_def)
  qed
qed simp

lemma write_groups_result:
  assumes "write_groups fb gs index d = (Inr i, d')"
  shows "i = fold add_entry (map fst gs) index \<and> d' = group_files fb gs d"
  using assms
proof (induction gs arbitrary: index d)
  case Nil
  then show ?case by (simp add: io_return_def group_files_def)
next
  case (Cons g gs)
  obtain k pkgs where g: "g = (k, pkgs)" by (cases g)
  from Cons.prems obtain d1 where
    w: "write_file fb (path_join (fj_cache_dir fb) (cache_file k)) (yc_packages_out (fj_codec fb) pkgs) d = (Inr (), d1)"
    "write_groups fb gs (add_entry k index) d1 = (Inr i, d')"
    unfolding g write_groups.simps by (elim io_seq_InrE) simp
  then show ?case
    using Cons.IH [OF w(2)] by (simp add: g write_file_def key_path_def split: if_splits)
qed

lemma write_groups_ok:
  "(\<And>path. fj_writable fb path) \<Longrightarrow>
     write_groups fb gs index d = (Inr (fold add_entry (map fst gs) index), group_files fb gs d)"
  by (induction gs arbitrary: index d)
    (auto simp: io_return_def group_files_def io_seq_def io_bind_def write_file_def key_path_def)

lemma add_entry_keeps: "set index \<subseteq> set (fold add_entry ks index)"
  by (induction ks arbitrary: index) (force simp: add_entry_def split: if_splits)+

definition entry_of :: "string \<times> string \<Rightarrow> cache_index_entry" where
  "entry_of k = \<lparr>ie_category = fst k, ie_name = snd k, ie_file = cache_file k\<rparr>"

lemma add_entries_new:
  assumes "distinct ks" "set ks \<inter> set js = {}"
  shows "fold add_entry ks (map entry_of js) = map entry_of (js @ ks)"
  using assms
proof (induction ks arbitrary: js)
  case (Cons k ks)
  then have "add_entry k (map entry_of js) = map entry_of (js @ [k])"
    by (auto simp: add_entry_def entry_of_def list_ex_iff prod_eq_iff)
  with Cons.IH [of "js @ [k]"] Cons.prems show ?case by simp
qed simp

lemma read_entries_groups:
  assumes "codec_ok (fj_codec fb)"
    and "\<And>k pkgs. (k, pkgs) \<in> set gs \<Longrightarrow> d (key_path fb k) = Some (yc_packages_out (fj_codec fb) (f k pkgs))"
  shows "read_entries fb d (map (entry_of \<circ> fst) gs) = Inr (concat (map (\<lambda>(k, pkgs). f k pkgs) gs))"
  using assms(2)
proof (induction gs)
  case (Cons g gs)
  obtain k pkgs where g: "g = (k, pkgs)" by (cases g)
  have "d (path_join (fj_cache_dir fb) (cache_file k)) = Some (yc_packages_out (fj_codec fb) (f k pkgs))"
    using Cons.prems [of k pkgs] by (simp add: g key_path_def)
  with Cons assms(1) show ?case by (simp add: g entry_of_def codec_ok_def)
qed simp

lemma read_entries_in:
  assumes "read_entries fb d index = Inr all" "e \<in> set index"
    and "d (path_join (fj_cache_dir fb) (ie_file e)) = Some content" "yc_packages_in (fj_codec fb) content = Inr ps"
  shows "set ps \<subseteq> set all"
  using assms
proof (induction index arbitrary: all)
  case (Cons x index)
  then show ?case
    by (cases "x = e") (fastforce simp: result_bind_def split: option.splits sum.splits)+
qed simp

section \<open>Properties\<close>

text \<open>C31: what a scan writes to an empty cache is what is read back: the same packages, each as often, as long as
  no two of their categories and names make the same file name.\<close>

theorem cache_round_trip:
  assumes "codec_ok (fj_codec fb)" and "\<And>path. fj_writable fb path" and "d (index_path fb) = None"
    and "inj_on (key_path fb) (package_key ` set packages)" and "index_path fb \<notin> key_path fb ` package_key ` set packages"
  shows "\<exists>d' all. write_to_cache fb packages scan_filter d = (Inr (), d') \<and>
    read_all_from_cache fb d' = Inr all \<and> mset all = mset packages"
proof -
  let ?gs = "grouped packages"
  let ?d1 = "group_files fb ?gs d"
  let ?index = "map (entry_of \<circ> fst) ?gs"
  let ?d = "?d1(index_path fb \<mapsto> yc_index_out (fj_codec fb) ?index)"
  have "fold add_entry (map fst ?gs) [] = ?index"
    using add_entries_new [of "map fst ?gs" "[]"] keys_grouped(2) by simp
  then have w: "write_to_cache fb packages scan_filter d = (Inr (), ?d)"
    using write_groups_ok [OF assms(2), of ?gs "[]" d] assms(2,3)
    by (simp add: write_to_cache_def read_index_def io_bind_def write_file_def)
  have "?d (key_path fb k) = Some (yc_packages_out (fj_codec fb) pkgs)" if "(k, pkgs) \<in> set ?gs" for k pkgs
  proof -
    have "k \<in> package_key ` set packages" using that keys_grouped(1) [of packages] by force
    then have "key_path fb k \<noteq> index_path fb" using assms(5) by (metis imageI)
    with group_files_own [of fb ?gs k pkgs d] that assms(4) keys_grouped [of packages] show ?thesis by simp
  qed
  from read_entries_groups [OF assms(1), of ?gs ?d "\<lambda>k pkgs. pkgs", OF this]
  have "read_all_from_cache fb ?d = Inr (concat (map snd ?gs))"
    using assms(1) by (simp add: read_all_from_cache_def read_index_def codec_ok_def case_prod_beta')
  with w mset_grouped show ?thesis by blast
qed

text \<open>A scan never forgets: a package file the index knows is read after any later scan whose packages do
  not make that file name, so a package that was removed from the registry stays in the list.\<close>

theorem scan_keeps_stale:
  assumes "codec_ok (fj_codec fb)" and "write_to_cache fb packages scan_filter d = (Inr (), d')"
    and "read_index fb d = Inr (Some index)" and "e \<in> set index"
    and "d (path_join (fj_cache_dir fb) (ie_file e)) = Some content" "yc_packages_in (fj_codec fb) content = Inr ps"
    and "path_join (fj_cache_dir fb) (ie_file e) \<notin> insert (index_path fb) (key_path fb ` package_key ` set packages)"
    and "read_all_from_cache fb d' = Inr all"
  shows "set ps \<subseteq> set all"
proof -
  from assms(2,3) obtain i d1 where w: "write_groups fb (grouped packages) index d = (Inr i, d1)"
    "write_file fb (index_path fb) (yc_index_out (fj_codec fb) i) d1 = (Inr (), d')"
    by (auto simp: write_to_cache_def elim!: io_bind_InrE)
  have i: "i = fold add_entry (map fst (grouped packages)) index" "d1 = group_files fb (grouped packages) d"
    using write_groups_result [OF w(1)] by simp_all
  have d': "d' = d1(index_path fb \<mapsto> yc_index_out (fj_codec fb) i)"
    using w(2) by (simp add: write_file_def split: if_splits)
  have held: "d' (path_join (fj_cache_dir fb) (ie_file e)) = Some content"
    using assms(5,7) group_files_other [of _ fb "grouped packages" d] keys_grouped(1) [of packages]
    by (simp add: d' i)
  have reads: "read_entries fb d' i = Inr all"
    using assms(1,8) by (simp add: read_all_from_cache_def read_index_def d' codec_ok_def)
  have "e \<in> set i" using assms(4) add_entry_keeps i(1) by blast
  from read_entries_in [OF reads this held assms(6)] show ?thesis .
qed

text \<open>A directory whose files hold what was given to the writer, and a package.\<close>

definition demo_codec :: "(cache_index + package list) yaml_codec" where
  "demo_codec =
     \<lparr>yc_index_out = Inl, yc_index_in = (\<lambda>c. case c of Inl i \<Rightarrow> Inr i | Inr _ \<Rightarrow> Inl ''not an index''),
      yc_packages_out = Inr, yc_packages_in = (\<lambda>c. case c of Inr ps \<Rightarrow> Inr ps | Inl _ \<Rightarrow> Inl ''not a list'')\<rparr>"

definition demo_file_box :: "(cache_index + package list) file_juke_box" where
  "demo_file_box = \<lparr>fj_cache_dir = ''/c'', fj_codec = demo_codec, fj_writable = (\<lambda>_. True)\<rparr>"

definition box_package :: "string \<Rightarrow> string \<Rightarrow> package" where
  "box_package category name =
     \<lparr>pk_registry = ''docker.io'', pk_image = ''i'', pk_tag = ''1.0.0'',
      pk_metadata = \<lparr>pm_name = name, pm_category = category, pm_description = [], pm_app_version = None,
        pm_usage = Service, pm_features = [], pm_backup_affinity = None\<rparr>,
      pk_requirements = [], pk_recommandations = None, pk_options = None, pk_value_script = None\<rparr>"

lemma demo_codec_ok: "codec_ok (fj_codec demo_file_box)"
  by (simp add: codec_ok_def demo_file_box_def demo_codec_def)

lemma demo_paths:
  "index_path demo_file_box = ''/c/index.yaml''" "key_path demo_file_box (a, b) = path_join ''/c'' (a @ ''_'' @ b @ ''.yaml'')"
  by (simp_all add: index_path_def key_path_def demo_file_box_def path_join_def starts_with_def cache_file_def)

theorem cache_round_trip_witness:
  "\<exists>d' all. write_to_cache demo_file_box [box_package ''db'' ''pg''] None Map.empty = (Inr (), d') \<and>
     read_all_from_cache demo_file_box d' = Inr all \<and> mset all = {#box_package ''db'' ''pg''#}"
proof -
  have "package_key (box_package ''db'' ''pg'') = (''db'', ''pg'')" by (simp add: package_key_def box_package_def)
  then show ?thesis
    using cache_round_trip [OF demo_codec_ok, of "Map.empty" "[box_package ''db'' ''pg'']" None]
    by (simp add: demo_paths path_join_def starts_with_def) (simp add: demo_file_box_def)
qed

text \<open>A cache that lists one package, and a scan that finds none.\<close>

definition demo_dir :: "(cache_index + package list) dir" where
  "demo_dir = [''/c/index.yaml'' \<mapsto> Inl [entry_of (''db'', ''pg'')], ''/c/db_pg.yaml'' \<mapsto> Inr [box_package ''db'' ''pg'']]"

theorem scan_keeps_stale_witness:
  "\<exists>d' all. write_to_cache demo_file_box [] None demo_dir = (Inr (), d') \<and> read_all_from_cache demo_file_box d' = Inr all \<and>
     box_package ''db'' ''pg'' \<in> set all"
proof -
  let ?d = "demo_dir(''/c/index.yaml'' \<mapsto> Inl [entry_of (''db'', ''pg'')])"
  have r: "read_index demo_file_box d = Inr (Some [entry_of (''db'', ''pg'')])" if "d ''/c/index.yaml'' = Some (Inl [entry_of (''db'', ''pg'')])" for d
    using that by (simp add: read_index_def demo_paths) (simp add: demo_file_box_def demo_codec_def)
  have i: "demo_dir ''/c/index.yaml'' = Some (Inl [entry_of (''db'', ''pg'')])" by (simp add: demo_dir_def)
  have w: "write_to_cache demo_file_box [] None demo_dir = (Inr (), ?d)"
    by (simp add: write_to_cache_def r [of demo_dir, OF i] grouped_def io_bind_def io_return_def write_file_def demo_paths)
      (simp add: demo_file_box_def demo_codec_def)
  have p: "path_join (fj_cache_dir demo_file_box) (ie_file (entry_of (''db'', ''pg''))) = ''/c/db_pg.yaml''"
    by (simp add: demo_file_box_def entry_of_def cache_file_def path_join_def starts_with_def)
  have a: "read_all_from_cache demo_file_box ?d = Inr [box_package ''db'' ''pg'']"
    unfolding read_all_from_cache_def using r [of ?d] p
    by (simp add: demo_dir_def) (simp add: demo_file_box_def demo_codec_def)
  have "set [box_package ''db'' ''pg''] \<subseteq> set [box_package ''db'' ''pg'']"
    by (rule scan_keeps_stale [OF demo_codec_ok w r [of demo_dir, OF i] _ _ _ _ a, of "entry_of (''db'', ''pg'')" "Inr [box_package ''db'' ''pg'']"])
      (simp_all add: p demo_paths, simp_all add: demo_dir_def demo_file_box_def demo_codec_def)
  with w a show ?thesis by auto
qed

end
