(* ===== verification/Scrub.thy ===== *)
theory Scrub
  imports Json
begin

text \<open>
  \<open>server/src/anonymize.rs\<close>: before the diagnostic server answers, the values of the secrets of the
  instance's namespace are replaced in the text. The set of values has no order in the code (a
  \<open>HashSet\<close>), so the order it is listed in is the parameter \<open>sp_order\<close>; base64, UTF-8 validation, the
  regular expressions of \<open>apply_patterns\<close>, the API server and the JSON text are parameters too.
\<close>

section \<open>The operations\<close>

definition ANONYMIZED_TEXT :: string where
  "ANONYMIZED_TEXT = ''<anonymized>''"

definition MIN_SECRET_LEN :: nat where
  "MIN_SECRET_LEN = 8"

definition COMMON_DENYLIST :: "string list" where
  "COMMON_DENYLIST = [''true'', ''false'', ''default'', ''vynil'', ''system'', ''kubernetes'', ''cluster'',
     ''enabled'', ''disabled'', ''password'', ''username'']"

definition is_scrubbable :: "string \<Rightarrow> bool" where
  "is_scrubbable value \<longleftrightarrow>
     MIN_SECRET_LEN \<le> length value \<and> map ascii_lower value \<notin> set COMMON_DENYLIST"

record secret_obj =
  sec_data :: "(string \<times> string) list option"
  sec_string_data :: "(string \<times> string) list option"

record 'w scrub_api =
  sp_utf8 :: "string \<Rightarrow> bool"
  sp_b64_encode :: "string \<Rightarrow> string"
  sp_b64_decode :: "string \<Rightarrow> string option"
  sp_list_secrets :: "string \<Rightarrow> ('w, secret_obj list) kube_call"
  sp_order :: "string set \<Rightarrow> string list"
  sp_patterns :: "string \<Rightarrow> string"
  sp_json :: "json \<Rightarrow> string"
  sp_parse :: "string \<Rightarrow> string + json"

definition data_values :: "(string \<times> string) list option \<Rightarrow> string list" where
  "data_values d = (case d of None \<Rightarrow> [] | Some m \<Rightarrow> map snd m)"

text \<open>The third pass reads the \<open>data\<close> of the secret written as JSON, that is encoded, and decodes it.\<close>

definition extract_secret_values :: "'w scrub_api \<Rightarrow> secret_obj \<Rightarrow> string set \<Rightarrow> string set" where
  "extract_secret_values api secret values =
     values \<union>
     set (filter (sp_utf8 api) (data_values (sec_data secret))) \<union>
     set (data_values (sec_string_data secret)) \<union>
     set (filter (sp_utf8 api)
       (concat (map (\<lambda>v. case sp_b64_decode api (sp_b64_encode api v) of None \<Rightarrow> [] | Some t \<Rightarrow> [t])
          (data_values (sec_data secret)))))"

definition list_secrets_or_none :: "'w scrub_api \<Rightarrow> string \<Rightarrow> 'w \<Rightarrow> secret_obj list \<times> 'w" where
  "list_secrets_or_none api ns w =
     (case sp_list_secrets api ns w of (Inl _, w') \<Rightarrow> ([], w') | (Inr l, w') \<Rightarrow> (l, w'))"

definition collect_secret_values :: "'w scrub_api \<Rightarrow> string \<Rightarrow> string \<Rightarrow> 'w \<Rightarrow> string list \<times> 'w" where
  "collect_secret_values api namespace vynil_namespace w =
     (let (mine, w1) = list_secrets_or_none api namespace w;
          v1 = fold (extract_secret_values api) mine {};
          (sys, w2) = (if namespace \<noteq> vynil_namespace then list_secrets_or_none api vynil_namespace w1 else ([], w1));
          v2 = fold (extract_secret_values api) sys v1
      in (filter is_scrubbable (sp_order api v2), w2))"

record scrub_stats =
  ss_distinct :: nat
  ss_occurrences :: nat

fun scrub_loop :: "string list \<Rightarrow> string \<times> scrub_stats \<Rightarrow> string \<times> scrub_stats" where
  "scrub_loop [] acc = acc"
| "scrub_loop (secret # secrets) (result, stats) =
     (if secret = [] then scrub_loop secrets (result, stats)
      else
        (let count = count_matches result secret
         in if count > 0
            then scrub_loop secrets (replace_all result secret ANONYMIZED_TEXT,
                   \<lparr>ss_distinct = ss_distinct stats + 1, ss_occurrences = ss_occurrences stats + count\<rparr>)
            else scrub_loop secrets (result, stats)))"

definition scrub_secrets :: "string \<Rightarrow> string list \<Rightarrow> string \<times> scrub_stats" where
  "scrub_secrets txt secrets = scrub_loop secrets (txt, \<lparr>ss_distinct = 0, ss_occurrences = 0\<rparr>)"

definition scrub ::
  "'w scrub_api \<Rightarrow> string \<Rightarrow> string \<Rightarrow> string \<Rightarrow> 'w \<Rightarrow> (string \<times> scrub_stats) \<times> 'w" where
  "scrub api txt namespace vynil_namespace w =
     (let (secret_values, w') = collect_secret_values api namespace vynil_namespace w;
          (result, stats) = scrub_secrets txt secret_values
      in ((sp_patterns api result, stats), w'))"

definition scrub_json ::
  "'w scrub_api \<Rightarrow> json \<Rightarrow> string \<Rightarrow> string \<Rightarrow> 'w \<Rightarrow> (string + json \<times> scrub_stats) \<times> 'w" where
  "scrub_json api value namespace vynil_namespace w =
     (let ((scrubbed, stats), w') = scrub api (sp_json api value) namespace vynil_namespace w
      in (case sp_parse api scrubbed of Inl e \<Rightarrow> Inl e | Inr v \<Rightarrow> Inr (v, stats), w'))"

section \<open>Replacing\<close>

text \<open>
  What \<open>replace_all\<close> cuts the text into: the pieces between the matches. The text is the pieces joined
  by the pattern, the result the pieces joined by the replacement.
\<close>

function pieces :: "string \<Rightarrow> string \<Rightarrow> string list" where
  "pieces s p =
     (if s = [] \<or> p = [] then [s]
      else if starts_with s p then [] # pieces (drop (length p) s) p
      else (case pieces (tl s) p of [] \<Rightarrow> [] | q # qs \<Rightarrow> (hd s # q) # qs))"
  by pat_completeness auto
termination
  by (relation "measure (\<lambda>(s, p). length s)") auto

declare pieces.simps [simp del]

lemma pieces_nonempty [simp]: "pieces s p \<noteq> []"
  by (induction s p rule: pieces.induct) (subst pieces.simps, auto split: list.splits)

lemma join_Cons: "xs \<noteq> [] \<Longrightarrow> join sep (x # xs) = x @ sep @ join sep xs"
  by (cases xs) auto

lemma join_hd: "xs \<noteq> [] \<Longrightarrow> join sep ((c # hd xs) # tl xs) = c # join sep xs"
  by (cases xs; cases "tl xs") auto

lemma replace_pieces: "replace_all s p r = join r (pieces s p)"
proof (induction s p rule: pieces.induct)
  case (1 s p)
  show ?case
  proof (cases "s = [] \<or> p = []")
    case True
    then show ?thesis by (subst replace_all.simps, subst pieces.simps) simp
  next
    case False
    show ?thesis
    proof (cases "starts_with s p")
      case True
      with False 1(1) show ?thesis
        by (subst replace_all.simps, subst pieces.simps) (simp add: join_Cons)
    next
      case no: False
      obtain q qs where q: "pieces (tl s) p = q # qs" by (cases "pieces (tl s) p") auto
      with False no 1(2) join_hd [of "q # qs" r "hd s"] show ?thesis
        by (subst replace_all.simps, subst pieces.simps) simp
    qed
  qed
qed

lemma join_pieces: "join p (pieces s p) = s"
proof (induction s p rule: pieces.induct)
  case (1 s p)
  show ?case
  proof (cases "s = [] \<or> p = []")
    case True
    then show ?thesis by (subst pieces.simps) simp
  next
    case False
    show ?thesis
    proof (cases "starts_with s p")
      case True
      then have "s = p @ drop (length p) s" by (auto simp: starts_with_iff)
      with False True 1(1) show ?thesis by (subst pieces.simps) (simp add: join_Cons)
    next
      case no: False
      obtain q qs where q: "pieces (tl s) p = q # qs" by (cases "pieces (tl s) p") auto
      with False no 1(2) join_hd [of "q # qs" p "hd s"] show ?thesis
        by (subst pieces.simps) simp
    qed
  qed
qed

lemma count_zero: "p \<noteq> [] \<Longrightarrow> count_matches s p = 0 \<longleftrightarrow> \<not> contains s p"
proof (induction s p rule: count_matches.induct)
  case (1 s p)
  show ?case
  proof (cases s)
    case Nil
    with 1(3) show ?thesis by (subst count_matches.simps) (simp add: contains_iff)
  next
    case (Cons c cs)
    have "contains (c # cs) p \<longleftrightarrow> starts_with (c # cs) p \<or> contains cs p"
      unfolding contains_def using 1(3) by simp
    with Cons 1 show ?thesis by (subst count_matches.simps) auto
  qed
qed

lemma count_pos: "p \<noteq> [] \<Longrightarrow> 0 < count_matches s p \<longleftrightarrow> contains s p"
  using count_zero [of p s] by auto

text \<open>No piece contains the pattern.\<close>

lemma pieces_free:
  assumes "p \<noteq> []"
  shows "q \<in> set (pieces s p) \<Longrightarrow> \<not> contains q p"
proof -
  have "(\<forall>q \<in> set (pieces s p). \<not> contains q p) \<and> (\<exists>t. s = hd (pieces s p) @ t)" using assms
  proof (induction s p rule: pieces.induct)
    case (1 s p)
    show ?case
    proof (cases "s = []")
      case True
      with 1(3) show ?thesis by (subst (1 2) pieces.simps) (simp add: contains_iff)
    next
      case False
      show ?thesis
      proof (cases "starts_with s p")
        case True
        with False 1 show ?thesis by (subst (1 2) pieces.simps) (simp add: contains_iff)
      next
        case no: False
        obtain q qs where q: "pieces (tl s) p = q # qs" by (cases "pieces (tl s) p") auto
        with 1(2) [OF _ no] 1(3) False obtain t where t: "tl s = q @ t" and free: "\<forall>x \<in> set (q # qs). \<not> contains x p"
          by auto
        have s: "s = hd s # q @ t" using False t by (cases s) auto
        have "\<not> starts_with (hd s # q) p"
        proof
          assume "starts_with (hd s # q) p"
          then obtain v where "hd s # q = p @ v" by (auto simp: starts_with_iff)
          with s have "s = p @ v @ t" by (metis append.assoc append_Cons)
          with no show False by simp
        qed
        with free have "\<not> contains (hd s # q) p" using 1(3) by (simp add: contains_def)
        with free no False 1(3) q s show ?thesis by (subst (1 2) pieces.simps) auto
      qed
    qed
  qed
  then show "q \<in> set (pieces s p) \<Longrightarrow> \<not> contains q p" by blast
qed

section \<open>What the replacement guarantees\<close>

text \<open>
  A value that can be looked for without meeting the replacement text: it has no angle bracket and does
  not occur inside the word the replacement is made of.
\<close>

definition apart_from_mark :: "string \<Rightarrow> bool" where
  "apart_from_mark v \<longleftrightarrow>
     v \<noteq> [] \<and> CHR ''<'' \<notin> set v \<and> CHR ''>'' \<notin> set v \<and> \<not> contains ''anonymized'' v"

lemma contains_across:
  assumes "c \<notin> set v"
  shows "contains (a @ c # b) v \<longleftrightarrow> contains a v \<or> contains b v"
proof
  assume "contains (a @ c # b) v"
  then obtain x y where eq: "a @ c # b = x @ v @ y" by (auto simp: contains_iff)
  show "contains a v \<or> contains b v"
  proof (cases "length (x @ v) \<le> length a")
    case True
    from eq have "take (length (x @ v)) (a @ c # b) = x @ v" by simp
    with True have "a = (x @ v) @ drop (length (x @ v)) a" by (metis append_take_drop_id take_append diff_is_0_eq take0 append_Nil2)
    then show ?thesis by (metis append.assoc contains_iff)
  next
    case long: False
    show ?thesis
    proof (cases "length a < length x")
      case True
      from eq have "drop (Suc (length a)) (a @ c # b) = drop (Suc (length a)) (x @ v @ y)" by simp
      with True have "b = drop (Suc (length a)) x @ v @ y" by simp
      then show ?thesis by (auto simp: contains_iff)
    next
      case False
      from eq have "(a @ c # b) ! length a = (x @ v @ y) ! length a" by simp
      moreover have "(x @ v @ y) ! length a = v ! (length a - length x)"
        using False long by (auto simp: nth_append not_less)
      moreover have "length a - length x < length v" using False long by simp
      ultimately have "c \<in> set v" by (metis nth_append_length nth_mem)
      with assms show ?thesis by simp
    qed
  qed
next
  assume "contains a v \<or> contains b v"
  then show "contains (a @ c # b) v"
    unfolding contains_iff by (metis append.assoc append_Cons)
qed

lemma contains_mark:
  assumes "apart_from_mark v"
  shows "contains (a @ ANONYMIZED_TEXT @ b) v \<longleftrightarrow> contains a v \<or> contains b v"
proof -
  have lt: "CHR ''<'' \<notin> set v" and gt: "CHR ''>'' \<notin> set v" and w: "\<not> contains ''anonymized'' v"
    using assms by (auto simp: apart_from_mark_def)
  have "a @ ANONYMIZED_TEXT @ b = a @ CHR ''<'' # (''anonymized'' @ CHR ''>'' # b)"
    by (simp add: ANONYMIZED_TEXT_def)
  with contains_across [OF lt] contains_across [OF gt] w show ?thesis by metis
qed

lemma contains_join:
  assumes "apart_from_mark v" "contains (join ANONYMIZED_TEXT qs) v"
  shows "\<exists>q \<in> set qs. contains q v"
  using assms(2)
proof (induction qs)
  case Nil
  with assms(1) show ?case by (auto simp: contains_iff apart_from_mark_def)
next
  case (Cons q qs)
  then show ?case
    by (cases "qs = []") (auto simp: join_Cons contains_mark [OF assms(1)])
qed

lemma piece_inside: "q \<in> set qs \<Longrightarrow> contains (join sep qs) q"
proof (induction qs)
  case (Cons x qs)
  show ?case
  proof (cases "qs = []")
    case True
    with Cons show ?thesis by (auto simp: contains_iff intro: exI [of _ "[]"])
  next
    case False
    with Cons show ?thesis
      by (auto simp: join_Cons contains_iff) (metis append.assoc append_Nil)+
  qed
qed simp

lemma contains_trans: "contains s q \<Longrightarrow> contains q v \<Longrightarrow> contains s v"
  unfolding contains_iff by (metis append.assoc)

text \<open>No replacement brings a value back, and its own replacement removes it.\<close>

lemma replace_keeps_absent:
  assumes "apart_from_mark v" "contains (replace_all s p ANONYMIZED_TEXT) v"
  shows "contains s v"
proof -
  obtain q where "q \<in> set (pieces s p)" "contains q v"
    using contains_join [OF assms(1)] assms(2) by (auto simp: replace_pieces)
  with piece_inside [of q "pieces s p" p] contains_trans show ?thesis by (auto simp: join_pieces)
qed

lemma replace_removes:
  assumes "apart_from_mark v"
  shows "\<not> contains (replace_all s v ANONYMIZED_TEXT) v"
  using contains_join [OF assms] pieces_free assms by (auto simp: replace_pieces apart_from_mark_def)

lemma scrub_loop_absent:
  "apart_from_mark v \<Longrightarrow> \<not> contains t v \<Longrightarrow> \<not> contains (fst (scrub_loop ss (t, st))) v"
  by (induction ss arbitrary: t st) (auto simp: Let_def dest: replace_keeps_absent)

lemma scrub_loop_removes:
  "apart_from_mark v \<Longrightarrow> v \<in> set ss \<Longrightarrow> \<not> contains (fst (scrub_loop ss (t, st))) v"
proof (induction ss arbitrary: t st)
  case (Cons s ss)
  show ?case
  proof (cases "s = v")
    case True
    from Cons.prems(1) have "v \<noteq> []" by (simp add: apart_from_mark_def)
    with True Cons.prems show ?thesis
      by (auto simp: Let_def count_pos dest: replace_removes scrub_loop_absent)
  next
    case False
    with Cons show ?thesis by (auto simp: Let_def)
  qed
qed simp

lemma scrub_loop_no_match:
  "(\<And>s. s \<in> set ss \<Longrightarrow> \<not> contains t s) \<Longrightarrow> scrub_loop ss (t, st) = (t, st)"
  by (induction ss) (auto simp: Let_def count_pos)

section \<open>Properties\<close>

text \<open>C38: Whatever order the values of the secrets come in, a value of the list that can be told from the
  replacement text does not occur in the scrubbed text any more: neither a value scrubbed before it nor one
  scrubbed after it brings it back.\<close>

theorem scrub_removes:
  assumes "v \<in> set secrets" "apart_from_mark v"
  shows "\<not> contains (fst (scrub_secrets txt secrets)) v"
  using assms by (simp add: scrub_secrets_def scrub_loop_removes)

theorem scrub_removes_witness:
  "\<not> contains (fst (scrub_secrets ''a Sup3rL0ngP4ss b'' [''Sup3rL0ngP4ss'', ''ngP4ss b''])) ''ngP4ss b''"
  by (rule scrub_removes) (simp, code_simp)

lemma replace_whole: "p \<noteq> [] \<Longrightarrow> replace_all (p @ q) p r = r @ replace_all q p r"
  by (subst replace_all.simps) (auto simp: starts_with_iff)

lemma replace_absent: "p \<noteq> [] \<Longrightarrow> \<not> contains q p \<Longrightarrow> replace_all q p r = q"
proof (induction q p r rule: replace_all.induct)
  case (1 q p r)
  show ?case
  proof (cases q)
    case (Cons c cs)
    then have "contains (c # cs) p \<longleftrightarrow> starts_with (c # cs) p \<or> contains cs p"
      unfolding contains_def using 1(3) by simp
    with Cons 1 show ?thesis by (subst replace_all.simps) auto
  qed (subst replace_all.simps, simp)
qed

text \<open>The order of the values decides what is left: of a value and a longer one it is a prefix of,
  scrubbing the longer one first leaves the mark alone, scrubbing the shorter one first leaves the rest of
  the longer value in clear. The code takes the values out of a hash set, in no order.\<close>

theorem scrub_prefix_leaks:
  assumes "apart_from_mark p" "apart_from_mark (p @ q)" "\<not> contains q p"
  shows "map (\<lambda>secrets. fst (scrub_secrets (p @ q) secrets)) [[p @ q, p], [p, p @ q]] =
         [ANONYMIZED_TEXT, ANONYMIZED_TEXT @ q]"
proof -
  have ne: "p \<noteq> []" using assms(1) by (simp add: apart_from_mark_def)
  have found: "count_matches (p @ q) p > 0" "count_matches (p @ q) (p @ q) > 0"
    using ne by (subst count_matches.simps; auto simp: starts_with_iff)+
  have nil: "\<not> contains [] p" "\<not> contains [] (p @ q)" using ne by (auto simp: contains_iff)
  have short: "\<not> contains q (p @ q)" using ne by (auto simp: contains_iff dest: arg_cong [where f = length])
  have "replace_all (p @ q) (p @ q) ANONYMIZED_TEXT = ANONYMIZED_TEXT"
    using replace_whole [of "p @ q" "[]" ANONYMIZED_TEXT] ne by (simp add: replace_all.simps)
  moreover have "\<not> contains ANONYMIZED_TEXT p"
    using contains_mark [OF assms(1), of "[]" "[]"] nil by simp
  ultimately have long_first: "fst (scrub_secrets (p @ q) [p @ q, p]) = ANONYMIZED_TEXT"
    using found ne by (simp add: scrub_secrets_def Let_def count_pos)
  have "replace_all (p @ q) p ANONYMIZED_TEXT = ANONYMIZED_TEXT @ q"
    using replace_whole replace_absent assms(3) ne by metis
  moreover have "\<not> contains (ANONYMIZED_TEXT @ q) (p @ q)"
    using contains_mark [OF assms(2), of "[]" q] nil short by simp
  ultimately have "fst (scrub_secrets (p @ q) [p, p @ q]) = ANONYMIZED_TEXT @ q"
    using found ne by (simp add: scrub_secrets_def Let_def count_pos)
  with long_first show ?thesis by simp
qed

theorem scrub_prefix_leaks_witness:
  "map (\<lambda>secrets. fst (scrub_secrets (''hunter22'' @ ''-prod'') secrets))
     [[''hunter22'' @ ''-prod'', ''hunter22''], [''hunter22'', ''hunter22'' @ ''-prod'']] =
   [ANONYMIZED_TEXT, ANONYMIZED_TEXT @ ''-prod'']"
  by (rule scrub_prefix_leaks) code_simp+

lemma contains_set: "contains s p \<Longrightarrow> set p \<subseteq> set s"
  by (auto simp: contains_iff)

text \<open>A secret whose value has a line break (a certificate, a key file) is never found by \<open>scrub_json\<close>:
  it looks for the values in the JSON text, where a line break is written as an escape. When all the values
  are such, nothing is replaced and the count is zero; only the patterns apply.\<close>

theorem scrub_json_misses_multiline:
  assumes found: "collect_secret_values api ns vns w = (secrets, w')"
    and multiline: "\<And>s. s \<in> set secrets \<Longrightarrow> CHR 0x0A \<in> set s"
    and escaped: "CHR 0x0A \<notin> set (sp_json api value)"
  shows "scrub_json api value ns vns w =
    (case sp_parse api (sp_patterns api (sp_json api value)) of
       Inl e \<Rightarrow> Inl e | Inr v \<Rightarrow> Inr (v, \<lparr>ss_distinct = 0, ss_occurrences = 0\<rparr>), w')"
proof -
  have "\<not> contains (sp_json api value) s" if "s \<in> set secrets" for s
    using multiline [OF that] escaped contains_set by blast
  then show ?thesis
    by (simp add: scrub_json_def scrub_def found scrub_secrets_def scrub_loop_no_match)
qed

definition demo_scrub_api :: "unit scrub_api" where
  "demo_scrub_api = \<lparr>sp_utf8 = (\<lambda>_. True), sp_b64_encode = (\<lambda>s. s), sp_b64_decode = Some,
     sp_list_secrets = (\<lambda>_ w. (Inr [\<lparr>sec_data = Some [(''tls.key'', ''abcdefg'' @ [CHR 0x0A])], sec_string_data = None\<rparr>], w)),
     sp_order = (\<lambda>vs. if (''abcdefg'' @ [CHR 0x0A]) \<in> vs then [''abcdefg'' @ [CHR 0x0A]] else []),
     sp_patterns = (\<lambda>s. s), sp_json = (\<lambda>_. [CHR 0x22] @ ''abcdefg'' @ [CHR 0x5C] @ ''n'' @ [CHR 0x22]),
     sp_parse = (\<lambda>s. Inr (JStr s))\<rparr>"

theorem scrub_json_misses_multiline_witness:
  "scrub_json demo_scrub_api JNull ''a'' ''a'' () =
    (case sp_parse demo_scrub_api (sp_patterns demo_scrub_api (sp_json demo_scrub_api JNull)) of
       Inl e \<Rightarrow> Inl e | Inr v \<Rightarrow> Inr (v, \<lparr>ss_distinct = 0, ss_occurrences = 0\<rparr>), ())"
proof (rule scrub_json_misses_multiline)
  show "collect_secret_values demo_scrub_api ''a'' ''a'' () = ([''abcdefg'' @ [CHR 0x0A]], ())"
    by (simp add: collect_secret_values_def list_secrets_or_none_def demo_scrub_api_def
        extract_secret_values_def data_values_def is_scrubbable_def MIN_SECRET_LEN_def COMMON_DENYLIST_def
        ascii_lower_def)
qed (auto simp: demo_scrub_api_def)

end
