(* ===== verification/Access.thy ===== *)
theory Access
  imports Instance Scrub
begin

text \<open>
  \<open>server/src/auth.rs\<close> and \<open>authz.rs\<close> with \<open>error.rs\<close>: who calls the diagnostic server and what they may see.
  Each operation answers or fails and appends the calls it makes of the Kubernetes API to a log, so that what
  the server asks the cluster, and when, can be stated. The answers of the cluster are the record
  \<open>diag_api\<close>.
\<close>

section \<open>Calls and answers\<close>

record identity =
  id_user :: string
  id_groups :: "string list"

record log_params =
  lp_container :: "string option"
  lp_previous :: bool
  lp_since_seconds :: "64 word option"    \<comment> \<open>\<open>i64\<close>\<close>

datatype call =
    C_TokenReview string
  | C_AccessReview identity string string string     \<comment> \<open>who, resource, namespace, name; the verb is \<open>get\<close>\<close>
  | C_Instance string string string                  \<comment> \<open>resource, namespace, name\<close>
  | C_Instances string
  | C_Object string string string                    \<comment> \<open>kind, namespace, name\<close>
  | C_Objects string string "string option"          \<comment> \<open>kind, namespace, label selector\<close>
  | C_ClusterObjects string
  | C_Logs string string log_params                  \<comment> \<open>namespace, pod\<close>
  | C_Secrets string
  | C_Version
  | C_Groups

record token_user =
  tu_username :: "string option"
  tu_groups :: "string list option"

record token_status =
  tk_authenticated :: "bool option"
  tk_user :: "token_user option"

type_synonym labels = "(string \<times> string) list"

record owner_ref =
  or_kind :: string
  or_name :: string

record pod =
  po_name :: "string option"
  po_labels :: "labels option"
  po_owners :: "owner_ref list option"
  po_containers :: "string list option"     \<comment> \<open>the names of the containers of the spec\<close>

record workload =
  wl_match_labels :: "labels option option"  \<comment> \<open>of the selector of the spec\<close>
  wl_json :: json

record node =
  no_name :: "string option"
  no_labels :: "labels option"
  no_kubelet_version :: "string option"

record deployment =
  dp_labels :: "labels option"
  dp_images :: "string option list option"   \<comment> \<open>the images of the containers of the template\<close>

record storage_class =
  sc_name :: "string option"
  sc_provisioner :: string
  sc_annotations :: "labels option"

type_synonym 'a answer = "kube_error + 'a"

record diag_api =
  da_token_review :: "string \<Rightarrow> token_status option answer"
  da_access_review :: "identity \<Rightarrow> string \<Rightarrow> string \<Rightarrow> string \<Rightarrow> bool option answer"
  da_instance :: "string \<Rightarrow> string \<Rightarrow> string \<Rightarrow> instance_obj answer"
  da_instances :: "string \<Rightarrow> instance_obj list answer"
  da_job_names :: "string \<Rightarrow> string \<Rightarrow> string option list answer"
  da_pods :: "string \<Rightarrow> string option \<Rightarrow> pod list answer"
  da_pod :: "string \<Rightarrow> string \<Rightarrow> pod answer"
  da_logs :: "string \<Rightarrow> string \<Rightarrow> log_params \<Rightarrow> string answer"
  da_object :: "string \<Rightarrow> string \<Rightarrow> string \<Rightarrow> workload answer"
  da_config_map :: "string \<Rightarrow> string \<Rightarrow> (string \<times> string) list option answer"
  da_nodes :: "node list answer"
  da_deployments :: "string \<Rightarrow> deployment list answer"
  da_storage_classes :: "storage_class list answer"
  da_ingress_classes :: "string option list answer"
  da_version :: "string answer"
  da_api_groups :: "string list answer"
  da_secrets :: "string \<Rightarrow> secret_obj list answer"
  da_show_error :: "kube_error \<Rightarrow> string"
  da_instance_json :: "instance_obj \<Rightarrow> string + json"
  da_child :: "json \<Rightarrow> child option"
  da_yaml :: "json \<Rightarrow> string + string"
  da_utf8 :: "string \<Rightarrow> bool"
  da_b64_encode :: "string \<Rightarrow> string"
  da_b64_decode :: "string \<Rightarrow> string option"
  da_order :: "string set \<Rightarrow> string list"
  da_patterns :: "string \<Rightarrow> string"
  da_json :: "json \<Rightarrow> string"
  da_parse :: "string \<Rightarrow> string + json"

section \<open>Errors\<close>

datatype diag_error =
    AuthorizationDenied | InstanceNotFound | InvalidNameFormat | UnknownKind | UnknownItem
  | AuthenticationRequired | PackagesDisabled
  | InternalError string
  | DiagKube kube_error
  | DiagSerialization string
  | DiagYaml string

fun code :: "diag_error \<Rightarrow> string" where
  "code AuthorizationDenied = ''DIAG-001''"
| "code InstanceNotFound = ''DIAG-002''"
| "code InvalidNameFormat = ''DIAG-003''"
| "code UnknownKind = ''DIAG-004''"
| "code UnknownItem = ''DIAG-005''"
| "code AuthenticationRequired = ''DIAG-006''"
| "code PackagesDisabled = ''DIAG-007''"
| "code (InternalError m) = ''DIAG-500''"
| "code (DiagKube e) = ''DIAG-500''"
| "code (DiagSerialization e) = ''DIAG-500''"
| "code (DiagYaml e) = ''DIAG-500''"

fun status_code :: "diag_error \<Rightarrow> nat" where
  "status_code AuthorizationDenied = 403"
| "status_code InstanceNotFound = 404"
| "status_code InvalidNameFormat = 400"
| "status_code UnknownKind = 404"
| "status_code UnknownItem = 404"
| "status_code AuthenticationRequired = 401"
| "status_code PackagesDisabled = 404"
| "status_code (InternalError m) = 500"
| "status_code (DiagKube e) = 500"
| "status_code (DiagSerialization e) = 500"
| "status_code (DiagYaml e) = 500"

section \<open>Operations with a log of calls\<close>

type_synonym 'a srv = "call list \<Rightarrow> (diag_error + 'a) \<times> call list"

definition s_return :: "'a \<Rightarrow> 'a srv" where
  "s_return a w = (Inr a, w)"

definition s_fail :: "diag_error \<Rightarrow> 'a srv" where
  "s_fail e w = (Inl e, w)"

definition s_bind :: "'a srv \<Rightarrow> ('a \<Rightarrow> 'b srv) \<Rightarrow> 'b srv" where
  "s_bind m f w = (case m w of (Inl e, w') \<Rightarrow> (Inl e, w') | (Inr a, w') \<Rightarrow> f a w')"

text \<open>A call and its answer; an error of it is an error of the server, or is looked at.\<close>

definition s_answer :: "call \<Rightarrow> 'a answer \<Rightarrow> 'a answer srv" where
  "s_answer c a w = (Inr a, w @ [c])"

definition s_call :: "call \<Rightarrow> 'a answer \<Rightarrow> 'a srv" where
  "s_call c a = s_bind (s_answer c a) (\<lambda>r. case r of Inl e \<Rightarrow> s_fail (DiagKube e) | Inr x \<Rightarrow> s_return x)"

fun s_each :: "('a \<Rightarrow> 'b srv) \<Rightarrow> 'a list \<Rightarrow> 'b list srv" where
  "s_each f [] = s_return []"
| "s_each f (x # xs) = s_bind (f x) (\<lambda>y. s_bind (s_each f xs) (\<lambda>ys. s_return (y # ys)))"

section \<open>Authentication\<close>

text \<open>The values of a header that is not text are \<open>None\<close>; names are in their canonical form.\<close>

type_synonym headers = "(string \<times> string option) list"

definition get_all :: "headers \<Rightarrow> string \<Rightarrow> string option list" where
  "get_all hs name = map snd (filter (\<lambda>h. fst h = name) hs)"

definition request_header_identity :: "headers \<Rightarrow> identity option" where
  "request_header_identity hs =
     (case map_of hs ''x-remote-user'' of
        Some (Some user) \<Rightarrow>
          (if user = [] then None
           else Some \<lparr>id_user = user,
                  id_groups = concat (map (\<lambda>h. case h of Some g \<Rightarrow> [g] | None \<Rightarrow> []) (get_all hs ''x-remote-group''))\<rparr>)
      | _ \<Rightarrow> None)"

definition or_default :: "'a \<Rightarrow> 'a option \<Rightarrow> 'a" where
  "or_default d x = (case x of Some a \<Rightarrow> a | None \<Rightarrow> d)"

definition validate_token :: "diag_api \<Rightarrow> string \<Rightarrow> identity srv" where
  "validate_token api token =
     s_bind (s_answer (C_TokenReview token) (da_token_review api token)) (\<lambda>r.
       case r of
         Inl e \<Rightarrow> s_fail AuthenticationRequired
       | Inr status \<Rightarrow>
           (let st = or_default \<lparr>tk_authenticated = None, tk_user = None\<rparr> status
            in if or_default False (tk_authenticated st)
               then (let user = or_default \<lparr>tu_username = None, tu_groups = None\<rparr> (tk_user st)
                     in s_return \<lparr>id_user = or_default [] (tu_username user),
                                  id_groups = or_default [] (tu_groups user)\<rparr>)
               else s_fail AuthenticationRequired))"

definition extract_identity :: "diag_api \<Rightarrow> headers \<Rightarrow> bool \<Rightarrow> identity srv" where
  "extract_identity api hs trust_request_header =
     (case (if trust_request_header then request_header_identity hs else None) of
        Some i \<Rightarrow> s_return i
      | None \<Rightarrow>
          (case map_of hs ''authorization'' of
             Some None \<Rightarrow> s_fail AuthenticationRequired
           | Some (Some v) \<Rightarrow>
               (case strip_prefix v ''Bearer '' of
                  Some token \<Rightarrow> validate_token api token
                | None \<Rightarrow> s_fail AuthenticationRequired)
           | None \<Rightarrow> s_fail AuthenticationRequired))"

section \<open>Authorization\<close>

definition VALID_KINDS :: "string list" where
  "VALID_KINDS = [''tenantinstances'', ''serviceinstances'', ''systeminstances'']"

definition check_instance_access :: "diag_api \<Rightarrow> identity \<Rightarrow> string \<Rightarrow> string \<Rightarrow> string \<Rightarrow> bool srv" where
  "check_instance_access api who kind ns name =
     (if kind \<notin> set VALID_KINDS then s_fail UnknownKind
      else s_bind (s_answer (C_AccessReview who kind ns name) (da_access_review api who kind ns name)) (\<lambda>r.
        case r of
          Inl e \<Rightarrow> s_fail (InternalError (''SubjectAccessReview failed: '' @ da_show_error api e))
        | Inr status \<Rightarrow> s_return (or_default False status)))"

definition is_instance_scoped_item :: "string \<Rightarrow> bool" where
  "is_instance_scoped_item item \<longleftrightarrow>
     item \<in> set [''state'', ''children'', ''agentlog'', ''childlogs'', ''operatorlog'']"

definition check_item_access ::
  "diag_api \<Rightarrow> identity \<Rightarrow> string \<Rightarrow> string \<Rightarrow> string \<Rightarrow> string \<Rightarrow> bool \<Rightarrow> unit srv" where
  "check_item_access api who kind ns name item packages_enabled =
     (if is_instance_scoped_item item
      then s_bind (check_instance_access api who kind ns name)
             (\<lambda>allowed. if allowed then s_return () else s_fail AuthorizationDenied)
      else if item = ''packages'' \<and> \<not> packages_enabled then s_fail PackagesDisabled
      else s_return ())"

end
