(* ===== verification/DiagCollect.thy ===== *)
theory DiagCollect
  imports Access
begin

text \<open>
  \<open>server/src/collect\<close>: what the diagnostic server reads of the cluster for each of its items: the state of an
  instance, its children, the three kinds of logs, the packages, the configuration and the cluster. Texts of an
  instance are scrubbed of secret values by the operations of \<open>Scrub\<close>.
\<close>

section \<open>Scrubbing\<close>

text \<open>The scrubber reads the secrets through the same log of calls.\<close>

definition scrubber :: "diag_api \<Rightarrow> call list scrub_api" where
  "scrubber api =
     \<lparr>sp_utf8 = da_utf8 api, sp_b64_encode = da_b64_encode api, sp_b64_decode = da_b64_decode api,
      sp_list_secrets = (\<lambda>ns w. (da_secrets api ns, w @ [C_Secrets ns])),
      sp_order = da_order api, sp_patterns = da_patterns api, sp_json = da_json api, sp_parse = da_parse api\<rparr>"

definition scrub_text :: "diag_api \<Rightarrow> string \<Rightarrow> string \<Rightarrow> string \<Rightarrow> (string \<times> scrub_stats) srv" where
  "scrub_text api txt ns vynil_ns w = (case scrub (scrubber api) txt ns vynil_ns w of (r, w') \<Rightarrow> (Inr r, w'))"

definition scrub_value :: "diag_api \<Rightarrow> json \<Rightarrow> string \<Rightarrow> string \<Rightarrow> (json \<times> scrub_stats) srv" where
  "scrub_value api v ns vynil_ns w =
     (case scrub_json (scrubber api) v ns vynil_ns w of
        (Inl e, w') \<Rightarrow> (Inl (DiagSerialization e), w')
      | (Inr r, w') \<Rightarrow> (Inr r, w'))"

definition no_stats :: scrub_stats where
  "no_stats = \<lparr>ss_distinct = 0, ss_occurrences = 0\<rparr>"

definition from_serde :: "string + 'a \<Rightarrow> 'a srv" where
  "from_serde r = (case r of Inl e \<Rightarrow> s_fail (DiagSerialization e) | Inr x \<Rightarrow> s_return x)"

section \<open>The state of an instance\<close>

definition get_instance :: "diag_api \<Rightarrow> string \<Rightarrow> string \<Rightarrow> string \<Rightarrow> instance_obj srv" where
  "get_instance api kind ns name =
     (if kind \<notin> set VALID_KINDS then s_fail UnknownKind
      else s_call (C_Instance kind ns name) (da_instance api kind ns name))"

definition strip_states :: "instance_obj \<Rightarrow> instance_obj" where
  "strip_states i = i\<lparr>in_status := map_option (\<lambda>s. s\<lparr>st_tfstate := None, st_rhaistate := None\<rparr>) (in_status i)\<rparr>"

definition get_instance_state ::
  "diag_api \<Rightarrow> string \<Rightarrow> string \<Rightarrow> string \<Rightarrow> string \<Rightarrow> (string \<times> scrub_stats) srv" where
  "get_instance_state api kind ns name vynil_ns =
     s_bind (get_instance api kind ns name) (\<lambda>i.
     s_bind (from_serde (da_instance_json api (strip_states i))) (\<lambda>j.
       case da_yaml api j of
         Inl e \<Rightarrow> s_fail (DiagYaml e)
       | Inr yaml \<Rightarrow> scrub_text api yaml ns vynil_ns))"

section \<open>The children of an instance\<close>

definition CHILD_CATEGORIES :: "string list" where
  "CHILD_CATEGORIES =
     [''befores'', ''vitals'', ''scalables'', ''others'', ''posts'', ''systems'', ''services'']"

definition extract_children_from_json :: "diag_api \<Rightarrow> json list \<Rightarrow> child list" where
  "extract_children_from_json api vs = List.map_filter (da_child api) vs"

definition all_children_from_status :: "diag_api \<Rightarrow> json \<Rightarrow> child list" where
  "all_children_from_status api j =
     (case Option.bind (value_get j ''status'') as_object of
        None \<Rightarrow> []
      | Some status \<Rightarrow>
          concat (map (\<lambda>cat. case Option.bind (obj_get status cat) as_array of
              Some arr \<Rightarrow> extract_children_from_json api arr | None \<Rightarrow> []) CHILD_CATEGORIES))"

definition child_namespace :: "child \<Rightarrow> string \<Rightarrow> string" where
  "child_namespace c ns = or_default ns (ch_namespace c)"

definition shown_kinds :: "string list" where
  "shown_kinds = [''Deployment'', ''StatefulSet'', ''DaemonSet'', ''Service'', ''ConfigMap'']"

definition get_child_state ::
  "diag_api \<Rightarrow> child \<Rightarrow> string \<Rightarrow> string \<Rightarrow> (json option \<times> scrub_stats) srv" where
  "get_child_state api c instance_ns vynil_ns =
     (let ns = child_namespace c instance_ns
      in if ch_kind c \<notin> set shown_kinds then s_return (None, no_stats)
         else s_bind (s_answer (C_Object (ch_kind c) ns (ch_name c)) (da_object api (ch_kind c) ns (ch_name c))) (\<lambda>r.
           case r of
             Inl e \<Rightarrow> s_return (None, no_stats)
           | Inr obj \<Rightarrow>
               s_bind (scrub_value api (wl_json obj) ns vynil_ns) (\<lambda>(v, stats). s_return (Some v, stats))))"

definition add_stats :: "scrub_stats \<Rightarrow> scrub_stats \<Rightarrow> scrub_stats" where
  "add_stats a b =
     \<lparr>ss_distinct = ss_distinct a + ss_distinct b, ss_occurrences = ss_occurrences a + ss_occurrences b\<rparr>"

definition get_children ::
  "diag_api \<Rightarrow> string \<Rightarrow> string \<Rightarrow> string \<Rightarrow> string \<Rightarrow> ((child \<times> json option) list \<times> scrub_stats) srv" where
  "get_children api kind ns name vynil_ns =
     s_bind (get_instance api kind ns name) (\<lambda>i.
       let children = (case da_instance_json api i of Inl e \<Rightarrow> [] | Inr j \<Rightarrow> all_children_from_status api j)
       in s_bind (s_each (\<lambda>c. s_bind (get_child_state api c ns vynil_ns) (\<lambda>(st, stats). s_return ((c, st), stats))) children)
            (\<lambda>rs. s_return (map fst rs, fold (\<lambda>r acc. add_stats acc (snd r)) rs no_stats)))"

section \<open>The logs\<close>

definition kind_camel :: "string \<Rightarrow> string option" where
  "kind_camel kind =
     (if kind = ''tenantinstances'' then Some ''TenantInstance''
      else if kind = ''serviceinstances'' then Some ''ServiceInstance''
      else if kind = ''systeminstances'' then Some ''SystemInstance'' else None)"

definition kind_type_label :: "string \<Rightarrow> string option" where
  "kind_type_label kind =
     (if kind = ''tenantinstances'' then Some ''tenant''
      else if kind = ''serviceinstances'' then Some ''service''
      else if kind = ''systeminstances'' then Some ''system'' else None)"

definition install_job_selector :: "string \<Rightarrow> string \<Rightarrow> string \<Rightarrow> string option" where
  "install_job_selector kind name ns =
     map_option (\<lambda>t. ''instance='' @ name @ '',namespace='' @ ns @ '',type='' @ t) (kind_type_label kind)"

definition instance_object_ref :: "string \<Rightarrow> string \<Rightarrow> string \<Rightarrow> string option" where
  "instance_object_ref kind name ns =
     map_option (\<lambda>k. k @ ''.v1.vynil.solidite.fr/'' @ name @ ''.'' @ ns) (kind_camel kind)"

definition newline :: string where
  "newline = [CHR 0x0A]"

definition filter_operator_lines :: "string \<Rightarrow> string \<Rightarrow> string" where
  "filter_operator_lines logs object_ref = join newline (filter (\<lambda>l. contains l object_ref) (lines logs))"

definition current_logs :: log_params where
  "current_logs = \<lparr>lp_container = None, lp_previous = False, lp_since_seconds = None\<rparr>"

definition get_pod_logs :: "diag_api \<Rightarrow> string \<Rightarrow> string \<Rightarrow> string srv" where
  "get_pod_logs api ns pod_name =
     s_bind (s_answer (C_Logs ns pod_name current_logs) (da_logs api ns pod_name current_logs)) (\<lambda>r.
       s_return (case r of Inl e \<Rightarrow> [] | Inr logs \<Rightarrow> logs))"

definition owned_by_job :: "string \<Rightarrow> pod \<Rightarrow> bool" where
  "owned_by_job job_name p =
     (case po_owners p of None \<Rightarrow> False
      | Some refs \<Rightarrow> list_ex (\<lambda>r. or_kind r = ''Job'' \<and> or_name r = job_name) refs)"

definition list_pods :: "diag_api \<Rightarrow> string \<Rightarrow> string option \<Rightarrow> pod list srv" where
  "list_pods api ns sel = s_call (C_Objects ''Pod'' ns sel) (da_pods api ns sel)"

definition get_job_pods :: "diag_api \<Rightarrow> string \<Rightarrow> string \<Rightarrow> pod list srv" where
  "get_job_pods api ns job_name =
     s_bind (list_pods api ns None) (\<lambda>pods. s_return (filter (owned_by_job job_name) pods))"

text \<open>The part of a pod in a log, with its heading; nothing when there is no line.\<close>

definition log_part :: "string \<Rightarrow> string \<Rightarrow> string" where
  "log_part heading logs = (if logs = [] then [] else ''=== '' @ heading @ '' ==='' @ newline @ logs @ newline)"

definition pod_part :: "diag_api \<Rightarrow> string \<Rightarrow> pod \<Rightarrow> string srv" where
  "pod_part api ns p =
     (let pod_name = or_default [] (po_name p)
      in s_bind (get_pod_logs api ns pod_name) (\<lambda>logs. s_return (log_part (''pod/'' @ pod_name) logs)))"

text \<open>An empty log is answered as it is, another is scrubbed.\<close>

definition scrubbed_log :: "diag_api \<Rightarrow> string \<Rightarrow> string \<Rightarrow> string \<Rightarrow> (string \<times> scrub_stats) srv" where
  "scrubbed_log api all_logs ns vynil_ns =
     (if all_logs = [] then s_return ([], no_stats) else scrub_text api all_logs ns vynil_ns)"

definition get_agent_log ::
  "diag_api \<Rightarrow> string \<Rightarrow> string \<Rightarrow> string \<Rightarrow> string \<Rightarrow> (string \<times> scrub_stats) srv" where
  "get_agent_log api kind ns name vynil_ns =
     (case install_job_selector kind name ns of
        None \<Rightarrow> s_fail UnknownKind
      | Some sel \<Rightarrow>
          s_bind (s_call (C_Objects ''Job'' vynil_ns (Some sel)) (da_job_names api vynil_ns sel)) (\<lambda>jobs.
          s_bind (s_each (\<lambda>job.
              s_bind (get_job_pods api vynil_ns (or_default [] job)) (\<lambda>pods.
              s_bind (s_each (pod_part api vynil_ns) pods) (\<lambda>parts. s_return (concat parts)))) jobs) (\<lambda>parts.
            scrubbed_log api (concat parts) ns vynil_ns)))"

definition get_instance_children :: "diag_api \<Rightarrow> string \<Rightarrow> string \<Rightarrow> string \<Rightarrow> child list srv" where
  "get_instance_children api kind ns name =
     s_bind (get_instance api kind ns name) (\<lambda>i.
     s_bind (from_serde (da_instance_json api i)) (\<lambda>j. s_return (all_children_from_status api j)))"

definition pod_kinds :: "string list" where
  "pod_kinds = [''Deployment'', ''StatefulSet'', ''DaemonSet'', ''ReplicaSet'']"

definition selector_text :: "labels \<Rightarrow> string" where
  "selector_text ls = join '','' (map (\<lambda>(k, v). k @ ''='' @ v) ls)"

definition get_child_pods :: "diag_api \<Rightarrow> string \<Rightarrow> child \<Rightarrow> pod list srv" where
  "get_child_pods api ns c =
     (if ch_kind c \<notin> set pod_kinds then s_return []
      else s_bind (s_answer (C_Object (ch_kind c) ns (ch_name c)) (da_object api (ch_kind c) ns (ch_name c))) (\<lambda>r.
        case r of
          Inl e \<Rightarrow> s_return []
        | Inr w \<Rightarrow>
            (case wl_match_labels w of
               Some (Some ls) \<Rightarrow>
                 if ls = [] then s_return [] else list_pods api ns (Some (selector_text ls))
             | _ \<Rightarrow> s_return [])))"

text \<open>The longest prefix of at most \<open>max\<close> bytes that ends between two characters, marked when it is not all.\<close>

fun boundary_below :: "string \<Rightarrow> nat \<Rightarrow> nat" where
  "boundary_below logs 0 = 0"
| "boundary_below logs (Suc n) = (if is_continuation (logs ! Suc n) then boundary_below logs n else Suc n)"

definition truncated_mark :: string where
  "truncated_mark = newline @ ''... [truncated]''"

definition cap :: "string \<Rightarrow> nat \<Rightarrow> string" where
  "cap logs max_bytes =
     (if length logs \<le> max_bytes then logs else take (boundary_below logs max_bytes) logs @ truncated_mark)"

text \<open>\<open>(log_since_hours * 3600) as i64\<close> in a release build, where the product wraps.\<close>

definition since_seconds :: "64 word \<Rightarrow> 64 word" where
  "since_seconds hours = hours * 3600"

definition container_logs ::
  "diag_api \<Rightarrow> string \<Rightarrow> string \<Rightarrow> 64 word \<Rightarrow> nat \<Rightarrow> string \<Rightarrow> bool \<Rightarrow> string srv" where
  "container_logs api ns pod_name hours cap_bytes container previous =
     (let params = \<lparr>lp_container = Some container, lp_previous = previous, lp_since_seconds = Some (since_seconds hours)\<rparr>
      in s_bind (s_answer (C_Logs ns pod_name params) (da_logs api ns pod_name params)) (\<lambda>r.
           s_return (case r of
               Inl e \<Rightarrow> []
             | Inr logs \<Rightarrow>
                 (if logs = [] then []
                  else ''=== container/'' @ container @ (if previous then '' (previous) ==='' else '' ==='') @ newline @
                       cap logs cap_bytes @ newline))))"

definition get_pod_logs_with_options ::
  "diag_api \<Rightarrow> string \<Rightarrow> string \<Rightarrow> 64 word \<Rightarrow> nat \<Rightarrow> string srv" where
  "get_pod_logs_with_options api ns pod_name hours cap_bytes =
     s_bind (s_call (C_Object ''Pod'' ns pod_name) (da_pod api ns pod_name)) (\<lambda>p.
     s_bind (s_each (\<lambda>container.
         s_bind (container_logs api ns pod_name hours cap_bytes container False) (\<lambda>now.
         s_bind (container_logs api ns pod_name hours cap_bytes container True) (\<lambda>before. s_return (now @ before))))
         (or_default [] (po_containers p))) (\<lambda>parts. s_return (concat parts)))"

definition child_part :: "diag_api \<Rightarrow> string \<Rightarrow> 64 word \<Rightarrow> nat \<Rightarrow> child \<Rightarrow> string srv" where
  "child_part api instance_ns hours cap_bytes c =
     (let ns = child_namespace c instance_ns
      in s_bind (get_child_pods api ns c) (\<lambda>pods.
         s_bind (s_each (\<lambda>p.
             let pod_name = or_default [] (po_name p)
             in s_bind (get_pod_logs_with_options api ns pod_name hours cap_bytes) (\<lambda>logs.
                  s_return (log_part (''pod/'' @ pod_name @ '' ('' @ ch_kind c @ ''/'' @ ch_name c @ '')'') logs))) pods)
           (\<lambda>parts. s_return (concat parts))))"

definition get_child_logs ::
  "diag_api \<Rightarrow> string \<Rightarrow> string \<Rightarrow> string \<Rightarrow> 64 word \<Rightarrow> nat \<Rightarrow> string \<Rightarrow> (string \<times> scrub_stats) srv" where
  "get_child_logs api kind ns name hours cap_bytes vynil_ns =
     s_bind (get_instance_children api kind ns name) (\<lambda>children.
     s_bind (s_each (child_part api ns hours cap_bytes) children) (\<lambda>parts.
       scrubbed_log api (concat parts) ns vynil_ns))"

definition is_vynil :: "labels option \<Rightarrow> bool" where
  "is_vynil ls = (case ls of None \<Rightarrow> False | Some m \<Rightarrow> map_of m ''app.kubernetes.io/name'' = Some ''vynil'')"

definition operator_part :: "diag_api \<Rightarrow> string \<Rightarrow> string \<Rightarrow> pod \<Rightarrow> string srv" where
  "operator_part api vynil_ns object_ref p =
     (if \<not> is_vynil (po_labels p) then s_return []
      else
        (let pod_name = or_default [] (po_name p)
         in s_bind (get_pod_logs api vynil_ns pod_name) (\<lambda>logs.
              s_return (log_part (''pod/'' @ pod_name) (filter_operator_lines logs object_ref)))))"

definition get_operator_log ::
  "diag_api \<Rightarrow> string \<Rightarrow> string \<Rightarrow> string \<Rightarrow> string \<Rightarrow> (string \<times> scrub_stats) srv" where
  "get_operator_log api kind ns name vynil_ns =
     (case instance_object_ref kind name ns of
        None \<Rightarrow> s_fail UnknownKind
      | Some object_ref \<Rightarrow>
          s_bind (list_pods api vynil_ns None) (\<lambda>pods.
          s_bind (s_each (operator_part api vynil_ns object_ref) pods) (\<lambda>parts.
            if concat parts = []
            then s_return (''# no operator log lines matched instance '' @ ns @ ''/'' @ name @
                   '' in the retained window'' @ newline, no_stats)
            else scrub_text api (concat parts) ns vynil_ns)))"

section \<open>What is not about one instance\<close>

record package_state =
  ks_kind :: string
  ks_namespace :: string
  ks_name :: string
  ks_package :: string
  ks_tag :: "string option"
  ks_ready :: bool

definition is_ready :: "instance_status \<Rightarrow> bool" where
  "is_ready s = (case find (\<lambda>c. condition_type c = Ready) (st_conditions s) of
     Some c \<Rightarrow> cond_status c | None \<Rightarrow> False)"

definition package_state_of :: "string \<Rightarrow> instance_obj \<Rightarrow> package_state option" where
  "package_state_of kind i =
     (case (md_namespace (in_meta i), md_name (in_meta i), in_status i) of
        (Some ns, Some name, Some s) \<Rightarrow>
          Some \<lparr>ks_kind = kind, ks_namespace = ns, ks_name = name, ks_package = spec_package (in_spec i),
                ks_tag = st_tag s, ks_ready = is_ready s\<rparr>
      | _ \<Rightarrow> None)"

definition packages_of :: "diag_api \<Rightarrow> string \<Rightarrow> string \<Rightarrow> package_state list srv" where
  "packages_of api resource_kind kind =
     s_bind (s_call (C_Instances resource_kind) (da_instances api resource_kind))
       (\<lambda>is. s_return (List.map_filter (package_state_of kind) is))"

definition get_packages :: "diag_api \<Rightarrow> package_state list srv" where
  "get_packages api =
     s_bind (packages_of api ''serviceinstances'' ''ServiceInstance'') (\<lambda>a.
     s_bind (packages_of api ''systeminstances'' ''SystemInstance'') (\<lambda>b. s_return (a @ b)))"

definition get_vynil_config :: "diag_api \<Rightarrow> string \<Rightarrow> string \<Rightarrow> (string \<times> scrub_stats) srv" where
  "get_vynil_config api vynil_ns ns =
     s_bind (s_answer (C_Object ''ConfigMap'' vynil_ns ''vynil'') (da_config_map api vynil_ns ''vynil'')) (\<lambda>r.
       case r of
         Inl e \<Rightarrow> s_return (''---'', no_stats)
       | Inr d \<Rightarrow>
           (let m = or_default [] d
            in if m = [] then s_return (''---'', no_stats)
               else (case da_yaml api (JObj (map (\<lambda>(k, v). (k, JStr v)) m)) of
                       Inl e \<Rightarrow> s_fail (DiagYaml e)
                     | Inr yaml \<Rightarrow> scrub_text api yaml ns vynil_ns)))"

end
