(* ===== verification/DiagServer.thy ===== *)
theory DiagServer
  imports DiagCollect
begin

text \<open>
  \<open>server/src/server.rs\<close>: the handler of the diagnostic server, from the path of a request to its answer, with
  \<open>collect/clusterinfo.rs\<close> and the guards at its start. What the server asks of the cluster before it knows who
  calls, and what an answer about an instance rests on, are the properties.
\<close>

section \<open>The cluster\<close>

record node_info =
  ni_name :: string
  ni_roles :: "string list"
  ni_instance_type :: "string option"
  ni_arch :: "string option"
  ni_os :: "string option"
  ni_kubelet_version :: "string option"

definition label :: "labels option \<Rightarrow> string \<Rightarrow> string option" where
  "label ls k = Option.bind ls (\<lambda>m. map_of m k)"

definition first_label :: "labels option \<Rightarrow> string list \<Rightarrow> string option" where
  "first_label ls ks = (case List.map_filter (label ls) ks of [] \<Rightarrow> None | v # vs \<Rightarrow> Some v)"

definition extract_roles :: "node \<Rightarrow> string list" where
  "extract_roles n =
     (let ls = no_labels n; has = (\<lambda>k. label ls k \<noteq> None);
          roles =
            (if has ''node-role.kubernetes.io/control-plane'' \<or> has ''node-role.kubernetes.io/master''
             then [''control-plane''] else []) @
            (if has ''node-role.kubernetes.io/worker'' then [''worker''] else []) @
            (if has ''node-role.kubernetes.io/infra'' then [''infra''] else []);
          roles =
            (if label ls ''kubernetes.io/role'' = Some ''master'' \<and> ''control-plane'' \<notin> set roles
             then roles @ [''control-plane''] else roles)
      in if roles = [] then [''node''] else roles)"

definition node_info_of :: "node \<Rightarrow> node_info" where
  "node_info_of n =
     (let ls = no_labels n
      in \<lparr>ni_name = or_default [] (no_name n), ni_roles = extract_roles n,
          ni_instance_type = first_label ls [''node.kubernetes.io/instance-type'', ''k8s.amazonaws.com/instance-type'',
            ''cloud.google.com/machine-type''],
          ni_arch = first_label ls [''kubernetes.io/arch'', ''beta.kubernetes.io/arch''],
          ni_os = first_label ls [''kubernetes.io/os'', ''beta.kubernetes.io/os''],
          ni_kubelet_version = no_kubelet_version n\<rparr>)"

definition get_nodes :: "diag_api \<Rightarrow> node_info list srv" where
  "get_nodes api =
     s_bind (s_call (C_ClusterObjects ''Node'') (da_nodes api)) (\<lambda>ns. s_return (map node_info_of ns))"

definition node_distribution :: "node \<Rightarrow> string option" where
  "node_distribution n =
     (let has = (\<lambda>k. label (no_labels n) k \<noteq> None)
      in if has ''cloud.google.com/machine-type'' then Some ''GKE''
         else if has ''eks.amazonaws.com/nodegroup'' then Some ''EKS''
         else if has ''kubernetes.azure.com/agentpool'' then Some ''AKS''
         else None)"

definition detect_distribution :: "diag_api \<Rightarrow> string srv" where
  "detect_distribution api =
     s_bind (s_call (C_ClusterObjects ''Node'') (da_nodes api)) (\<lambda>ns.
       case List.map_filter node_distribution ns of
         d # ds \<Rightarrow> s_return d
       | [] \<Rightarrow>
           s_bind (s_answer C_Groups (da_api_groups api)) (\<lambda>r.
             s_return (case r of
                 Inl e \<Rightarrow> ''Unknown''
               | Inr groups \<Rightarrow>
                   (if list_ex (\<lambda>g. ends_with g ''openshift.io'') groups then ''OpenShift'' else ''Unknown''))))"

text \<open>The version is the second part of the image of the first container at its colons.\<close>

definition image_version :: "deployment \<Rightarrow> string option" where
  "image_version d =
     (case dp_images d of
        Some (Some img # rest) \<Rightarrow>
          (case split_on (CHR '':'') img of a # tag # ts \<Rightarrow> Some tag | _ \<Rightarrow> None)
      | _ \<Rightarrow> None)"

definition get_diag_vynil_version :: "diag_api \<Rightarrow> string \<Rightarrow> string option srv" where
  "get_diag_vynil_version api vynil_ns =
     s_bind (s_answer (C_Objects ''Deployment'' vynil_ns None) (da_deployments api vynil_ns)) (\<lambda>r.
       s_return (case r of
           Inl e \<Rightarrow> None
         | Inr ds \<Rightarrow> (case find (\<lambda>d. is_vynil (dp_labels d)) ds of None \<Rightarrow> None | Some d \<Rightarrow> image_version d)))"

record storage_class_info =
  si_name :: string
  si_provisioner :: string
  si_is_default :: bool

definition get_storage_classes :: "diag_api \<Rightarrow> storage_class_info list srv" where
  "get_storage_classes api =
     s_bind (s_call (C_ClusterObjects ''StorageClass'') (da_storage_classes api)) (\<lambda>scs.
       s_return (map (\<lambda>sc. \<lparr>si_name = or_default [] (sc_name sc), si_provisioner = sc_provisioner sc,
           si_is_default = (label (sc_annotations sc) ''storageclass.kubernetes.io/is-default-class'' = Some ''true'')\<rparr>) scs))"

definition get_ingress_classes :: "diag_api \<Rightarrow> string list srv" where
  "get_ingress_classes api =
     s_bind (s_call (C_ClusterObjects ''IngressClass'') (da_ingress_classes api)) (\<lambda>ics.
       s_return (List.map_filter (\<lambda>n. n) ics))"

record cluster_info =
  cf_nodes :: "node_info list"
  cf_distribution :: string
  cf_kubernetes_version :: string
  cf_vynil_version :: "string option"
  cf_storage_classes :: "storage_class_info list"
  cf_ingress_classes :: "string list"

definition get_cluster_info :: "diag_api \<Rightarrow> string \<Rightarrow> cluster_info srv" where
  "get_cluster_info api vynil_ns =
     s_bind (get_nodes api) (\<lambda>nodes.
     s_bind (detect_distribution api) (\<lambda>distribution.
     s_bind (s_call C_Version (da_version api)) (\<lambda>kubernetes_version.
     s_bind (get_diag_vynil_version api vynil_ns) (\<lambda>vynil_version.
     s_bind (get_storage_classes api) (\<lambda>storage_classes.
     s_bind (get_ingress_classes api) (\<lambda>ingress_classes.
       s_return \<lparr>cf_nodes = nodes, cf_distribution = distribution, cf_kubernetes_version = kubernetes_version,
         cf_vynil_version = vynil_version, cf_storage_classes = storage_classes,
         cf_ingress_classes = ingress_classes\<rparr>))))))"

section \<open>The handler\<close>

record diag_config =
  dc_bind :: string
  dc_insecure_no_tls :: bool
  dc_tls_cert :: "string option"
  dc_tls_key :: "string option"
  dc_trust_request_header :: bool
  dc_requestheader_ca :: "string option"
  dc_vynil_namespace :: string
  dc_log_since_hours :: "64 word"
  dc_log_cap_bytes :: nat
  dc_enable_packages :: bool

definition VALID_ITEMS :: "string list" where
  "VALID_ITEMS = [''clusterinfo'', ''vynilconfig'', ''packages'', ''state'', ''children'', ''agentlog'', ''childlogs'',
     ''operatorlog'']"

text \<open>\<open>^[a-z0-9]([-a-z0-9.]*[a-z0-9])?$\<close>\<close>

definition dns_end :: "char \<Rightarrow> bool" where
  "dns_end c \<longleftrightarrow>
     (let n = (of_char c :: nat) in (97 \<le> n \<and> n \<le> 122) \<or> (48 \<le> n \<and> n \<le> 57))"

definition validate_dns1123 :: "string \<Rightarrow> bool" where
  "validate_dns1123 name \<longleftrightarrow>
     name \<noteq> [] \<and> dns_end (hd name) \<and> dns_end (last name) \<and>
     list_all (\<lambda>c. dns_end c \<or> c = CHR ''-'' \<or> c = CHR ''.'') name"

text \<open>The answers; those of an instance carry what was redacted.\<close>

datatype response =
    Cluster_Info cluster_info
  | Packages "package_state list"
  | Yaml string scrub_stats
  | Text string scrub_stats
  | Child_States "(child \<times> json option) list" scrub_stats

text \<open>The value of the header \<open>X-Diag-Redactions\<close> that goes with what was redacted.\<close>

definition add_scrub_header :: "scrub_stats \<Rightarrow> string" where
  "add_scrub_header stats =
     ''distinct='' @ dec (ss_distinct stats) @ '';occurrences='' @ dec (ss_occurrences stats)"

definition check_instance_exists :: "diag_api \<Rightarrow> string \<Rightarrow> string \<Rightarrow> string \<Rightarrow> bool srv" where
  "check_instance_exists api kind ns name =
     (if kind \<notin> set VALID_KINDS then s_return False
      else s_bind (s_answer (C_Instance kind ns name) (da_instance api kind ns name))
             (\<lambda>r. s_return (case r of Inl e \<Rightarrow> False | Inr i \<Rightarrow> True)))"

definition answer_item ::
  "diag_api \<Rightarrow> diag_config \<Rightarrow> string \<Rightarrow> string \<Rightarrow> string \<Rightarrow> string \<Rightarrow> response srv" where
  "answer_item api cfg ns kind name item =
     (let vns = dc_vynil_namespace cfg
      in if item = ''clusterinfo'' then s_bind (get_cluster_info api vns) (\<lambda>c. s_return (Cluster_Info c))
         else if item = ''vynilconfig'' then s_bind (get_vynil_config api vns ns) (\<lambda>(y, st). s_return (Yaml y st))
         else if item = ''packages'' then s_bind (get_packages api) (\<lambda>p. s_return (Packages p))
         else if item = ''state'' then s_bind (get_instance_state api kind ns name vns) (\<lambda>(y, st). s_return (Yaml y st))
         else if item = ''children'' then s_bind (get_children api kind ns name vns) (\<lambda>(c, st). s_return (Child_States c st))
         else if item = ''agentlog'' then s_bind (get_agent_log api kind ns name vns) (\<lambda>(t, st). s_return (Text t st))
         else if item = ''childlogs''
         then s_bind (get_child_logs api kind ns name (dc_log_since_hours cfg) (dc_log_cap_bytes cfg) vns)
                (\<lambda>(t, st). s_return (Text t st))
         else if item = ''operatorlog'' then s_bind (get_operator_log api kind ns name vns) (\<lambda>(t, st). s_return (Text t st))
         else s_fail UnknownItem)"

definition instance_handler ::
  "diag_api \<Rightarrow> diag_config \<Rightarrow> headers \<Rightarrow> string \<Rightarrow> string \<Rightarrow> string \<Rightarrow> string \<Rightarrow> response srv" where
  "instance_handler api cfg hs ns kind name item =
     (if \<not> validate_dns1123 ns \<or> \<not> validate_dns1123 name then s_fail InvalidNameFormat
      else if kind \<notin> set VALID_KINDS then s_fail UnknownKind
      else if item \<notin> set VALID_ITEMS then s_fail UnknownItem
      else
        s_bind (extract_identity api hs (dc_trust_request_header cfg)) (\<lambda>who.
        s_bind (check_item_access api who kind ns name item (dc_enable_packages cfg)) (\<lambda>_.
        s_bind (if is_instance_scoped_item item then check_instance_exists api kind ns name else s_return True) (\<lambda>there.
          if there then answer_item api cfg ns kind name item else s_fail InstanceNotFound))))"

text \<open>How the server starts: how it listens, or the error it stops with. The parser of addresses and the file
  system are parameters; building the configuration of \<open>rustls\<close> from the certificates is left to that library.\<close>

datatype transport = Plain string | Server_TLS string string string | Mutual_TLS string string string string

definition load_requestheader_ca :: "diag_api \<Rightarrow> (string \<Rightarrow> string + string) \<Rightarrow> diag_config \<Rightarrow> string srv" where
  "load_requestheader_ca api read_file cfg =
     (case dc_requestheader_ca cfg of
        Some path \<Rightarrow>
          (case read_file path of
             Inl e \<Rightarrow> s_fail (InternalError (''requestheader CA file: '' @ e))
           | Inr pem \<Rightarrow> s_return pem)
      | None \<Rightarrow>
          s_bind (s_call (C_Object ''ConfigMap'' ''kube-system'' ''extension-apiserver-authentication'')
              (da_config_map api ''kube-system'' ''extension-apiserver-authentication'')) (\<lambda>data.
            case Option.bind data (\<lambda>d. map_of d ''requestheader-client-ca-file'') of
              Some pem \<Rightarrow> s_return pem
            | None \<Rightarrow> s_fail (InternalError
                ''requestheader-client-ca-file absent de extension-apiserver-authentication'')))"

definition run_server ::
  "diag_api \<Rightarrow> (string \<Rightarrow> string + string) \<Rightarrow> (string \<Rightarrow> string + string) \<Rightarrow> diag_config \<Rightarrow> transport srv" where
  "run_server api parse_addr read_file cfg =
     (case parse_addr (dc_bind cfg) of
        Inl e \<Rightarrow> s_fail (InternalError (''Invalid bind address: '' @ e))
      | Inr addr \<Rightarrow>
          if dc_trust_request_header cfg \<and> dc_insecure_no_tls cfg
          then s_fail (InternalError (''DIAG-CONFIG: --trust-request-header requires TLS (mandatory mTLS). '' @
                 ''Refusing to start in an impersonable configuration.''))
          else if dc_insecure_no_tls cfg then s_return (Plain addr)
          else (case (dc_tls_cert cfg, dc_tls_key cfg) of
                  (Some cert, Some key) \<Rightarrow>
                    if dc_trust_request_header cfg
                    then s_bind (load_requestheader_ca api read_file cfg) (\<lambda>ca. s_return (Mutual_TLS addr cert key ca))
                    else s_return (Server_TLS addr cert key)
                | _ \<Rightarrow> s_fail (InternalError ''TLS certificates not provided for HTTPS server'')))"

section \<open>Lemmas\<close>

text \<open>The calls an operation adds to the log all satisfy a predicate.\<close>

definition emits :: "(call \<Rightarrow> bool) \<Rightarrow> 'a srv \<Rightarrow> bool" where
  "emits P m \<longleftrightarrow> (\<forall>w. \<exists>cs. snd (m w) = w @ cs \<and> list_all P cs)"

named_theorems emit_rules

lemma emits_return [emit_rules]: "emits P (s_return a)"
  by (simp add: emits_def s_return_def)

lemma emits_fail [emit_rules]: "emits P (s_fail e)"
  by (simp add: emits_def s_fail_def)

lemma emits_answer [emit_rules]: "P c \<Longrightarrow> emits P (s_answer c a)"
  by (simp add: emits_def s_answer_def)

lemma emits_bind [emit_rules]:
  assumes "emits P m" "\<And>a. emits P (f a)" shows "emits P (s_bind m f)"
  unfolding emits_def
proof
  fix w
  obtain r w1 where m: "m w = (r, w1)" by (cases "m w")
  obtain cs where cs: "w1 = w @ cs" "list_all P cs" using assms(1) m by (auto simp: emits_def dest!: spec [of _ w])
  show "\<exists>cs. snd (s_bind m f w) = w @ cs \<and> list_all P cs"
  proof (cases r)
    case (Inl e)
    with m cs show ?thesis by (simp add: s_bind_def)
  next
    case (Inr a)
    obtain ds where "snd (f a w1) = w1 @ ds" "list_all P ds" using assms(2) by (auto simp: emits_def)
    with m cs Inr show ?thesis by (intro exI [of _ "cs @ ds"]) (simp add: s_bind_def)
  qed
qed

lemma emits_log: "emits P m \<Longrightarrow> list_all P (snd (m []))"
  by (auto simp: emits_def dest!: spec [of _ "[]"])

lemma token_calls: "emits (\<lambda>c. \<exists>t. c = C_TokenReview t) (extract_identity api hs trust)"
  unfolding extract_identity_def validate_token_def Let_def
  by (auto intro!: emit_rules split: option.split sum.split)

lemma access_calls:
  "emits (\<lambda>c. \<exists>who k n m. c = C_AccessReview who k n m) (check_item_access api who kind ns name item enabled)"
  unfolding check_item_access_def check_instance_access_def Let_def
  by (auto intro!: emit_rules split: sum.split)

lemma identity_of_log: "fst (extract_identity api hs trust w) = fst (extract_identity api hs trust [])"
  by (simp add: extract_identity_def validate_token_def s_bind_def s_answer_def s_fail_def s_return_def Let_def
      split: option.split sum.split)

lemma access_granted:
  assumes "check_item_access api who kind ns name item enabled w = (Inr (), w')" "is_instance_scoped_item item"
  shows "da_access_review api who kind ns name = Inr (Some True) \<and> w' = w @ [C_AccessReview who kind ns name]"
  using assms
  by (auto simp: check_item_access_def check_instance_access_def s_bind_def s_answer_def s_fail_def s_return_def
      or_default_def split: if_splits sum.splits option.splits)

text \<open>A call that asks about the caller, not about the cluster.\<close>

definition review :: "call \<Rightarrow> bool" where
  "review c \<longleftrightarrow> (\<exists>t. c = C_TokenReview t) \<or> (\<exists>who k n m. c = C_AccessReview who k n m)"

lemma emits_review_token: "emits review (extract_identity api hs trust)"
  using token_calls by (force simp: emits_def review_def list_all_iff)

lemma emits_review_access: "emits review (check_item_access api who kind ns name item enabled)"
  using access_calls by (force simp: emits_def review_def list_all_iff)

text \<open>A cluster that grants every access to a known token and has no instance, and a server that trusts its proxy,
  for the witnesses.\<close>

definition demo_cluster :: diag_api where
  "demo_cluster =
     \<lparr>da_token_review = (\<lambda>t. Inr (Some \<lparr>tk_authenticated = Some (t = ''t0''), tk_user = None\<rparr>)),
      da_access_review = (\<lambda>who k n m. Inr (Some True)),
      da_instance = (\<lambda>k n m. Inl (KApi ''NotFound'')), da_instances = (\<lambda>k. Inr []), da_job_names = (\<lambda>n sel. Inr []),
      da_pods = (\<lambda>n sel. Inr []), da_pod = (\<lambda>n m. Inl (KApi ''NotFound'')), da_logs = (\<lambda>n m ps. Inr []),
      da_object = (\<lambda>k n m. Inl (KApi ''NotFound'')), da_config_map = (\<lambda>n m. Inr (Some [(''requestheader-client-ca-file'', ''PEM'')])),
      da_nodes = Inr [], da_deployments = (\<lambda>n. Inr []), da_storage_classes = Inr [], da_ingress_classes = Inr [],
      da_version = Inr ''v1.30'', da_api_groups = Inr [], da_secrets = (\<lambda>n. Inr []), da_show_error = (\<lambda>e. ''error''),
      da_instance_json = (\<lambda>i. Inl ''no''), da_child = (\<lambda>j. None), da_yaml = (\<lambda>j. Inl ''no''), da_utf8 = (\<lambda>s. True),
      da_b64_encode = (\<lambda>s. s), da_b64_decode = (\<lambda>s. Some s), da_order = (\<lambda>S. []), da_patterns = (\<lambda>s. s),
      da_json = (\<lambda>j. []), da_parse = (\<lambda>s. Inl ''no'')\<rparr>"

definition demo_config :: "bool \<Rightarrow> diag_config" where
  "demo_config trust =
     \<lparr>dc_bind = ''0.0.0.0:8443'', dc_insecure_no_tls = False, dc_tls_cert = Some ''/tls/crt'',
      dc_tls_key = Some ''/tls/key'', dc_trust_request_header = trust, dc_requestheader_ca = None,
      dc_vynil_namespace = ''vynil-system'', dc_log_since_hours = 24, dc_log_cap_bytes = 1024,
      dc_enable_packages = False\<rparr>"

definition demo_headers :: headers where
  "demo_headers = [(''x-remote-user'', Some ''mallory''), (''authorization'', Some ''Bearer t1'')]"

lemmas demo_defs = demo_cluster_def demo_config_def demo_headers_def
lemmas srv_defs = s_bind_def s_answer_def s_call_def s_fail_def s_return_def

lemma demo_rejected: "fst (extract_identity demo_cluster demo_headers (dc_trust_request_header (demo_config False)) []) =
    Inl AuthenticationRequired"
  by (simp add: demo_defs srv_defs extract_identity_def validate_token_def or_default_def strip_prefix_def)

lemma demo_instance_call:
  "C_Instance ''tenantinstances'' ''media'' ''gitea'' \<in>
     set (snd (instance_handler demo_cluster (demo_config True) demo_headers ''media'' ''tenantinstances'' ''gitea'' ''state'' []))"
  by (simp add: demo_defs srv_defs instance_handler_def validate_dns1123_def dns_end_def VALID_KINDS_def VALID_ITEMS_def
      extract_identity_def request_header_identity_def get_all_def check_item_access_def check_instance_access_def
      is_instance_scoped_item_def check_instance_exists_def or_default_def)

section \<open>Properties\<close>

text \<open>A caller who is not authenticated learns nothing of the cluster: the server answers with an error, and
  the only calls it has made are token reviews.\<close>

theorem unauthenticated_sees_nothing:
  assumes "fst (extract_identity api hs (dc_trust_request_header cfg) []) = Inl e"
  shows "(\<exists>e'. fst (instance_handler api cfg hs ns kind name item []) = Inl e') \<and>
    list_all (\<lambda>c. \<exists>t. c = C_TokenReview t) (snd (instance_handler api cfg hs ns kind name item []))"
proof -
  obtain w where w: "extract_identity api hs (dc_trust_request_header cfg) [] = (Inl e, w)"
    using assms by (cases "extract_identity api hs (dc_trust_request_header cfg) []") simp
  have "list_all (\<lambda>c. \<exists>t. c = C_TokenReview t) w"
    using emits_log [OF token_calls, of api hs "dc_trust_request_header cfg"] w by simp
  with w show ?thesis by (simp add: instance_handler_def s_bind_def s_fail_def)
qed

lemma unauthenticated_sees_nothing_witness:
  "\<exists>e'. fst (instance_handler demo_cluster (demo_config False) demo_headers ''media'' ''tenantinstances'' ''gitea'' ''state'' [])
    = Inl e'"
  using unauthenticated_sees_nothing [OF demo_rejected] by blast



definition is_remote :: "string \<times> string option \<Rightarrow> bool" where
  "is_remote h \<longleftrightarrow> fst h = ''x-remote-user'' \<or> fst h = ''x-remote-group''"

lemma other_header: "\<not> is_remote (k, v) \<Longrightarrow> map_of (filter (\<lambda>h. \<not> is_remote h) hs) k = map_of hs k"
  by (induction hs) (auto simp: is_remote_def)

lemma identity_without_remote:
  "extract_identity api (filter (\<lambda>h. \<not> is_remote h) hs) False = extract_identity api hs False"
proof -
  have "\<not> is_remote (''authorization'', None)" by (simp add: is_remote_def)
  from other_header [OF this, of hs] show ?thesis by (simp add: extract_identity_def)
qed

lemma boundary_below: "boundary_below s n \<le> n" "0 < boundary_below s n \<Longrightarrow> \<not> is_continuation (s ! boundary_below s n)"
  by (induction s n rule: boundary_below.induct) auto

text \<open>Unless the server was started to trust them, the identity headers of a proxy change nothing.\<close>

theorem untrusted_headers_ignored:
  assumes "\<not> dc_trust_request_header cfg"
  shows "instance_handler api cfg (filter (\<lambda>h. \<not> is_remote h) hs) ns kind name item =
    instance_handler api cfg hs ns kind name item"
  using assms by (simp add: instance_handler_def identity_without_remote)

lemma untrusted_headers_ignored_witness:
  "instance_handler demo_cluster (demo_config False) [(''authorization'', Some ''Bearer t1'')] ''media'' ''tenantinstances''
     ''gitea'' ''state'' =
   instance_handler demo_cluster (demo_config False) demo_headers ''media'' ''tenantinstances'' ''gitea'' ''state''"
proof -
  have "filter (\<lambda>h. \<not> is_remote h) demo_headers = [(''authorization'', Some ''Bearer t1'')]"
    by (simp add: demo_headers_def is_remote_def)
  with untrusted_headers_ignored [of "demo_config False" demo_cluster demo_headers] show ?thesis
    by (simp add: demo_config_def)
qed

text \<open>The server trusts those headers only behind mutual TLS: started to trust them, it listens only with a
  certificate authority that the certificate of the caller is checked against, or does not start.\<close>

theorem trusted_headers_need_mutual_tls:
  assumes "dc_trust_request_header cfg" and "run_server api parse_addr read_file cfg w = (Inr t, w')"
  shows "\<exists>addr cert key ca. t = Mutual_TLS addr cert key ca \<and> dc_tls_cert cfg = Some cert \<and>
    dc_tls_key cfg = Some key \<and> fst (load_requestheader_ca api read_file cfg w) = Inr ca"
  using assms
  by (auto simp: run_server_def s_fail_def s_return_def s_bind_def split: sum.splits if_splits option.splits prod.splits)

lemma trusted_headers_need_mutual_tls_witness:
  "\<exists>addr cert key ca. Mutual_TLS ''0.0.0.0:8443'' ''/tls/crt'' ''/tls/key'' ''PEM'' = Mutual_TLS addr cert key ca \<and>
    dc_tls_cert (demo_config True) = Some cert \<and> dc_tls_key (demo_config True) = Some key \<and>
    fst (load_requestheader_ca demo_cluster (\<lambda>p. Inl ''no'') (demo_config True) []) = Inr ca"
  by (rule trusted_headers_need_mutual_tls
        [where parse_addr = Inr and w' = "[C_Object ''ConfigMap'' ''kube-system'' ''extension-apiserver-authentication'']"])
    (simp_all add: demo_defs srv_defs run_server_def load_requestheader_ca_def)

text \<open>The filter of the operator log is not exact: a log whose every line is about an instance of a namespace
  that extends the asked one, with the same kind and name, is shown whole, so who may read \<open>gitea\<close> in
  \<open>media\<close> reads the log of \<open>gitea\<close> in \<open>media-test\<close>.\<close>

theorem operator_log_leaks_longer_namespace:
  assumes "instance_object_ref kind name ns = Some mine" and "instance_object_ref kind name (ns @ x) = Some other"
    and "list_all (\<lambda>l. contains l other) (lines logs)"
  shows "filter_operator_lines logs mine = join newline (lines logs)"
proof -
  have "other = mine @ x" using assms(1,2) by (auto simp: instance_object_ref_def)
  with assms(3) have "list_all (\<lambda>l. contains l mine) (lines logs)"
    by (fastforce simp: contains_iff list_all_iff)
  then show ?thesis by (simp add: filter_operator_lines_def list_all_iff filter_id_conv)
qed

lemma operator_log_leaks_longer_namespace_witness:
  "filter_operator_lines ''reconciled TenantInstance.v1.vynil.solidite.fr/gitea.media-test''
     ''TenantInstance.v1.vynil.solidite.fr/gitea.media'' =
   join newline (lines ''reconciled TenantInstance.v1.vynil.solidite.fr/gitea.media-test'')"
  by (rule operator_log_leaks_longer_namespace [of "''tenantinstances''" "''gitea''" "''media''" _ "''-test''"
        "''TenantInstance.v1.vynil.solidite.fr/gitea.media-test''"])
    code_simp+

text \<open>A capped log is the log, or a prefix of it of at most the given number of bytes that ends between two
  characters, with a mark.\<close>

lemma cap_bounds:
  "cap s n = (if length s \<le> n then s else take (boundary_below s n) s @ truncated_mark) \<and>
   boundary_below s n \<le> n \<and> (0 < boundary_below s n \<longrightarrow> \<not> is_continuation (s ! boundary_below s n)) \<and>
   length (cap s n) \<le> max (length s) (n + length truncated_mark)"
proof -
  have "boundary_below s n \<le> n" by (rule boundary_below)
  then show ?thesis using boundary_below [of s n] by (auto simp: cap_def)
qed

end
