(* ===== verification/Kubectl.thy ===== *)
theory Kubectl
  imports DiagServer
begin

text \<open>
  The diagnostic half of \<open>kubectl-vynil\<close>, the command line that asks the diagnostic server: the items
  (\<open>kubectl-vynil/src/items.rs\<close>), how one is fetched (\<open>transport.rs\<close>), the archive made of them
  (\<open>bundle.rs\<close>) and the verbs that use them (\<open>actions.rs\<close>). The HTTP clients, the clock, the archive writer and the
  YAML and JSON printers are parameters.
\<close>

section \<open>Items\<close>

record instance_target =
  tg_namespace :: string
  tg_kind :: string
  tg_name :: string

record instance_kind_info =
  ik_plural :: string
  ik_kind :: string
  ik_type_label :: string

definition TENANT_INSTANCE :: instance_kind_info where
  "TENANT_INSTANCE = \<lparr>ik_plural = ''tenantinstances'', ik_kind = ''TenantInstance'', ik_type_label = ''tenant''\<rparr>"

definition SERVICE_INSTANCE :: instance_kind_info where
  "SERVICE_INSTANCE = \<lparr>ik_plural = ''serviceinstances'', ik_kind = ''ServiceInstance'', ik_type_label = ''service''\<rparr>"

definition SYSTEM_INSTANCE :: instance_kind_info where
  "SYSTEM_INSTANCE = \<lparr>ik_plural = ''systeminstances'', ik_kind = ''SystemInstance'', ik_type_label = ''system''\<rparr>"

definition ALL_ITEMS :: "string list" where
  "ALL_ITEMS = [''clusterinfo'', ''vynilconfig'', ''packages'', ''state'', ''children'', ''agentlog'', ''childlogs'',
     ''operatorlog'']"

definition resolve_items :: "string list option \<Rightarrow> string list" where
  "resolve_items wanted =
     (case wanted of
        Some items \<Rightarrow> if items \<noteq> [] then filter (\<lambda>i. i \<in> set items) ALL_ITEMS else ALL_ITEMS
      | None \<Rightarrow> ALL_ITEMS)"

text \<open>An unknown item is a panic, here \<open>None\<close>.\<close>

definition item_path :: "string \<Rightarrow> string option" where
  "item_path item = map_of
     [(''clusterinfo'', ''cluster/clusterinfo''), (''vynilconfig'', ''config/vynilconfig''),
      (''packages'', ''packages/packages''), (''state'', ''instance/state''), (''children'', ''instance/children''),
      (''agentlog'', ''logs/agentlog''), (''childlogs'', ''logs/childlogs''), (''operatorlog'', ''logs/operatorlog'')] item"

text \<open>A content type is ASCII, since it was read as the text of a header.\<close>

definition extension_for_content_type :: "string \<Rightarrow> string" where
  "extension_for_content_type content_type =
     (let ct = map ascii_lower content_type
      in if contains ct ''application/json'' then ''.json''
         else if contains ct ''application/yaml'' \<or> contains ct ''text/yaml'' then ''.yaml''
         else if contains ct ''text/plain'' then ''.log''
         else ''.txt'')"

definition api_path :: "instance_target \<Rightarrow> string \<Rightarrow> string" where
  "api_path target item =
     ''/apis/diag.vynil.solidite.fr/v1/namespaces/'' @ tg_namespace target @ ''/'' @ tg_kind target @ ''/'' @
     tg_name target @ ''/'' @ item"

section \<open>Fetching an item\<close>

record get_result =
  gr_status :: nat               \<comment> \<open>\<open>u16\<close>\<close>
  gr_body :: string
  gr_content_type :: string
  gr_redactions :: "(nat \<times> nat) option"

datatype transport_mode = Aggregation | Direct string string bool    \<comment> \<open>server, token, insecure\<close>

fun redaction_parts :: "string list \<Rightarrow> nat option \<Rightarrow> nat option \<Rightarrow> (nat \<times> nat) option" where
  "redaction_parts [] d occ = (case (d, occ) of (Some d, Some occ) \<Rightarrow> Some (d, occ) | _ \<Rightarrow> None)"
| "redaction_parts (p # ps) d occ =
     (let part = trim p
      in case strip_prefix part ''distinct='' of
           Some v \<Rightarrow> (case parse_u64 v of None \<Rightarrow> None | Some n \<Rightarrow> redaction_parts ps (Some n) occ)
         | None \<Rightarrow>
             (case strip_prefix part ''occurrences='' of
                Some v \<Rightarrow> (case parse_u64 v of None \<Rightarrow> None | Some n \<Rightarrow> redaction_parts ps d (Some n))
              | None \<Rightarrow> redaction_parts ps d occ))"

definition parse_redactions :: "string \<Rightarrow> (nat \<times> nat) option" where
  "parse_redactions v = redaction_parts (split_on (CHR '';'') v) None None"

text \<open>An answer of a server, with the headers that are text; the body is \<open>None\<close> when it cannot be read.\<close>

record http_answer =
  ha_status :: nat
  ha_content_type :: "string option"
  ha_redactions :: "string option"
  ha_body :: "string option"

text \<open>
  The two clients: whether each can be built, and what a request to a path or URL gives. The path of a
  request over the aggregation layer has to be a valid one.
\<close>

record transports =
  tp_kube_client :: "string + unit"
  tp_kube_request :: "string \<Rightarrow> string + unit"
  tp_kube_send :: "string \<Rightarrow> string + http_answer"
  tp_http_client :: "bool \<Rightarrow> string + unit"
  tp_http_send :: "string \<Rightarrow> string \<Rightarrow> string + http_answer"      \<comment> \<open>URL, value of the header \<open>Authorization\<close>\<close>
  tp_sa_token :: "string + string"

definition unreachable :: "string \<Rightarrow> get_result" where
  "unreachable e = \<lparr>gr_status = 0, gr_body = ''DIAG-ERR: '' @ e, gr_content_type = ''text/plain'', gr_redactions = None\<rparr>"

definition answered :: "http_answer \<Rightarrow> get_result" where
  "answered a =
     \<lparr>gr_status = ha_status a, gr_body = or_default [] (ha_body a),
      gr_content_type = or_default ''application/octet-stream'' (ha_content_type a),
      gr_redactions = Option.bind (ha_redactions a) parse_redactions\<rparr>"

definition fetch_aggregation :: "transports \<Rightarrow> string \<Rightarrow> get_result" where
  "fetch_aggregation tp path =
     (case tp_kube_client tp of
        Inl e \<Rightarrow> unreachable e
      | Inr _ \<Rightarrow>
          (case tp_kube_request tp path of
             Inl e \<Rightarrow> unreachable e
           | Inr _ \<Rightarrow> (case tp_kube_send tp path of Inl e \<Rightarrow> unreachable e | Inr a \<Rightarrow> answered a)))"

definition fetch_direct :: "transports \<Rightarrow> string \<Rightarrow> string \<Rightarrow> string \<Rightarrow> bool \<Rightarrow> get_result" where
  "fetch_direct tp server_url path token insecure =
     (let url = trim_end_matches server_url ''/'' @ path
      in case tp_http_client tp insecure of
           Inl e \<Rightarrow> unreachable e
         | Inr _ \<Rightarrow>
             (case tp_http_send tp url (''Bearer '' @ token) of Inl e \<Rightarrow> unreachable e | Inr a \<Rightarrow> answered a))"

definition get_item :: "transports \<Rightarrow> transport_mode \<Rightarrow> instance_target \<Rightarrow> string \<Rightarrow> get_result" where
  "get_item tp mode target item =
     (let path = api_path target item
      in case mode of
           Aggregation \<Rightarrow> fetch_aggregation tp path
         | Direct server_url token insecure \<Rightarrow> fetch_direct tp server_url path token insecure)"

record transport_args =
  ta_server_url :: "string option"
  ta_token :: "string option"
  ta_insecure :: bool

definition transport_mode_of :: "transports \<Rightarrow> transport_args \<Rightarrow> string + transport_mode \<times> string" where
  "transport_mode_of tp t =
     (case ta_server_url t of
        Some url \<Rightarrow>
          (case ta_token t of
             Some tok \<Rightarrow> Inr (Direct url tok (ta_insecure t), ''direct'')
           | None \<Rightarrow>
               (case tp_sa_token tp of
                  Inl e \<Rightarrow> Inl ''DIAG-ERR-01: no --token provided and cannot read in-cluster SA token''
                | Inr tok \<Rightarrow> Inr (Direct url tok (ta_insecure t), ''direct'')))
      | None \<Rightarrow> Inr (Aggregation, ''aggregation''))"

section \<open>The archive\<close>

record redaction_counts =
  rd_distinct :: nat
  rd_occurrences :: nat

record manifest_item =
  mi_item :: string
  mi_file :: string
  mi_http_status :: nat
  mi_content_type :: string
  mi_bytes :: nat
  mi_redactions :: "redaction_counts option"
  mi_truncated :: bool

record manifest =
  mf_tool_version :: string
  mf_api :: string
  mf_target :: instance_target
  mf_collected_at :: string
  mf_transport :: string
  mf_items :: "manifest_item list"

record redaction_report =
  rr_per_item :: "string \<rightharpoonup> redaction_counts"
  rr_total :: redaction_counts

type_synonym collected_item = "string \<times> get_result"

definition TRUNC_MARKER :: string where
  "TRUNC_MARKER = ''... [truncated]''"

definition counts_of :: "nat \<times> nat \<Rightarrow> redaction_counts" where
  "counts_of r = \<lparr>rd_distinct = fst r, rd_occurrences = snd r\<rparr>"

text \<open>The path of an item below the root of the archive; \<open>None\<close> for an unknown item.\<close>

definition bundle_file :: "collected_item \<Rightarrow> string option" where
  "bundle_file c = map_option (\<lambda>base. base @ extension_for_content_type (gr_content_type (snd c))) (item_path (fst c))"

definition manifest_item_of :: "collected_item \<Rightarrow> manifest_item option" where
  "manifest_item_of c =
     map_option (\<lambda>path. \<lparr>mi_item = fst c, mi_file = path, mi_http_status = gr_status (snd c),
         mi_content_type = gr_content_type (snd c), mi_bytes = length (gr_body (snd c)),
         mi_redactions = map_option counts_of (gr_redactions (snd c)),
         mi_truncated = contains (gr_body (snd c)) TRUNC_MARKER\<rparr>)
       (bundle_file c)"

definition total_redactions :: "collected_item list \<Rightarrow> redaction_counts" where
  "total_redactions items =
     (let rs = List.map_filter (\<lambda>c. gr_redactions (snd c)) items
      in \<lparr>rd_distinct = sum_list (map fst rs), rd_occurrences = sum_list (map snd rs)\<rparr>)"

definition redaction_report_of :: "collected_item list \<Rightarrow> redaction_report" where
  "redaction_report_of items =
     \<lparr>rr_per_item = fold (\<lambda>c m. case gr_redactions (snd c) of None \<Rightarrow> m | Some r \<Rightarrow> m(fst c \<mapsto> counts_of r)) items Map.empty,
      rr_total = total_redactions items\<rparr>"

text \<open>The dash that stands for a missing value.\<close>

definition dash :: string where
  "dash = [CHR 0xE2, CHR 0x80, CHR 0x94]"

definition code_quoted :: "string \<Rightarrow> string" where
  "code_quoted s = [CHR 0x60] @ s @ [CHR 0x60]"

definition summary_row :: "collected_item \<Rightarrow> string" where
  "summary_row c =
     ''| '' @ fst c @ '' | '' @ or_default [] (bundle_file c) @ '' | '' @ dec (gr_status (snd c)) @ '' | '' @
     dec (length (gr_body (snd c))) @ '' | '' @
     (case gr_redactions (snd c) of Some (d, occ) \<Rightarrow> dec d @ ''/'' @ dec occ | None \<Rightarrow> dash) @ '' |'' @ newline"

text \<open>The conditions of the state, when it was answered and parses; \<open>yaml\<close> is the parser.\<close>

definition state_conditions :: "(string \<Rightarrow> json option) \<Rightarrow> collected_item list \<Rightarrow> json list option" where
  "state_conditions yaml items =
     (case find (\<lambda>c. fst c = ''state'') items of
        None \<Rightarrow> None
      | Some c \<Rightarrow>
          if gr_status (snd c) = 200
          then Option.bind (yaml (gr_body (snd c))) (\<lambda>doc.
               Option.bind (value_get doc ''status'') (\<lambda>status.
               Option.bind (value_get status ''conditions'') as_array))
          else None)"

definition condition_row :: "json \<Rightarrow> string" where
  "condition_row cond =
     (let cell = (\<lambda>k. or_default dash (Option.bind (value_get cond k) as_str))
      in ''| '' @ cell ''type'' @ '' | '' @ cell ''status'' @ '' | '' @ cell ''reason'' @ '' | '' @ cell ''message'' @ '' |'' @ newline)"

definition build_summary ::
  "(string \<Rightarrow> json option) \<Rightarrow> instance_target \<Rightarrow> string \<Rightarrow> string \<Rightarrow> collected_item list \<Rightarrow> redaction_report \<Rightarrow> string" where
  "build_summary yaml target tool_version ts items report =
     ''# Vynil Diagnostic Bundle'' @ newline @ newline @
     ''- **Instance**: '' @ code_quoted (tg_kind target @ ''/'' @ tg_namespace target @ ''/'' @ tg_name target) @ newline @
     ''- **Collected**: '' @ ts @ newline @
     ''- **Tool version**: '' @ tool_version @ newline @ newline @
     ''## Collected Items'' @ newline @ newline @
     ''| Item | File | HTTP Status | Bytes | Redactions (distinct / occurrences) |'' @ newline @
     ''|------|------|-------------|-------|--------------------------------------|'' @ newline @
     concat (map summary_row items) @
     newline @ ''## Redactions Summary'' @ newline @ newline @
     ''- **Total distinct values redacted**: '' @ dec (rd_distinct (rr_total report)) @ newline @
     ''- **Total occurrences replaced**: '' @ dec (rd_occurrences (rr_total report)) @ newline @ newline @
     ''## How to Read This Bundle'' @ newline @ newline @
     ''1. '' @ code_quoted ''instance/state'' @ '' '' @ dash @
       '' instance conditions, tags, Terraform/Rhai state (anonymized).'' @ newline @
     ''2. '' @ code_quoted ''logs/'' @ '' '' @ dash @
       '' agent, operator, and child logs for error investigation (anonymized).'' @ newline @
     ''3. '' @ code_quoted ''cluster/'' @ '' and '' @ code_quoted ''config/'' @ '' '' @ dash @
       '' cluster context and Vynil configuration.'' @ newline @
     ''4. '' @ code_quoted ''redactions.json'' @ '' '' @ dash @ '' audit trail of anonymized values.'' @ newline @
     newline @ ''All artefacts are anonymized: secret values are replaced with '' @ code_quoted ''<anonymized>'' @ ''.'' @ newline @
     (case state_conditions yaml items of
        None \<Rightarrow> []
      | Some conds \<Rightarrow>
          newline @ ''## Instance Conditions'' @ newline @ newline @
          ''| Type | Status | Reason | Message |'' @ newline @
          ''|------|--------|--------|---------|'' @ newline @
          concat (map condition_row conds))"

text \<open>
  The archive writer: an archive under construction of type \<open>'a\<close>, created at a path, to which files are
  appended. Its errors, and those of the printers, end the command.
\<close>

record 'a archiver =
  av_create :: "string \<Rightarrow> string + 'a"
  av_append :: "string \<Rightarrow> string \<Rightarrow> 'a \<Rightarrow> string + 'a"     \<comment> \<open>path, contents\<close>
  av_finish :: "'a \<Rightarrow> string + 'a"
  av_manifest :: "manifest \<Rightarrow> string + string"
  av_report :: "redaction_report \<Rightarrow> string + string"
  av_yaml :: "string \<Rightarrow> json option"
  av_ts :: string
  av_collected_at :: string
  av_version :: string

record bundle_summary =
  bs_output_path :: string
  bs_item_count :: nat
  bs_redactions :: redaction_counts
  bs_error_items :: "string list"

definition then_do :: "'e + 'a \<Rightarrow> ('a \<Rightarrow> 'e + 'b) \<Rightarrow> 'e + 'b" where
  "then_do r f = (case r of Inl e \<Rightarrow> Inl e | Inr a \<Rightarrow> f a)"

fun append_items :: "'a archiver \<Rightarrow> string \<Rightarrow> collected_item list \<Rightarrow> 'a \<Rightarrow> string + 'a" where
  "append_items av rdir [] t = Inr t"
| "append_items av rdir (c # cs) t =
     then_do (av_append av (rdir @ ''/'' @ or_default [] (bundle_file c)) (gr_body (snd c)) t) (append_items av rdir cs)"

definition root_dir :: "'a archiver \<Rightarrow> instance_target \<Rightarrow> string" where
  "root_dir av target =
     tg_namespace target @ ''_'' @ tg_kind target @ ''_'' @ tg_name target @ ''-diag-'' @ av_ts av"

definition manifest_of :: "'a archiver \<Rightarrow> instance_target \<Rightarrow> string \<Rightarrow> manifest_item list \<Rightarrow> manifest" where
  "manifest_of av target via mis =
     \<lparr>mf_tool_version = av_version av, mf_api = ''diag.vynil.solidite.fr/v1'', mf_target = target,
      mf_collected_at = av_collected_at av, mf_transport = via, mf_items = mis\<rparr>"

text \<open>The items are those of \<open>resolve_items\<close>, for which the paths exist (lemma \<open>known_items\<close>).\<close>

definition build_bundle ::
  "'a archiver \<Rightarrow> instance_target \<Rightarrow> string \<Rightarrow> collected_item list \<Rightarrow> string \<Rightarrow> string + 'a \<times> bundle_summary" where
  "build_bundle av target via items output =
     (let rdir = root_dir av target; report = redaction_report_of items;
          mf = manifest_of av target via (List.map_filter manifest_item_of items)
      in then_do (av_create av output) (\<lambda>t.
         then_do (append_items av rdir items t) (\<lambda>t.
         then_do (av_manifest av mf) (\<lambda>y.
         then_do (av_append av (rdir @ ''/manifest.yaml'') y t) (\<lambda>t.
         then_do (av_report av report) (\<lambda>j.
         then_do (av_append av (rdir @ ''/redactions.json'') j t) (\<lambda>t.
         then_do (av_append av (rdir @ ''/SUMMARY.md'')
             (build_summary (av_yaml av) target (av_version av) (av_ts av) items report) t) (\<lambda>t.
         then_do (av_finish av t) (\<lambda>t.
           Inr (t, \<lparr>bs_output_path = output, bs_item_count = length items, bs_redactions = total_redactions items,
             bs_error_items = map fst (filter (\<lambda>c. 400 \<le> gr_status (snd c)) items)\<rparr>))))))))))"

section \<open>The verbs\<close>

record diagnostic_args =
  dg_items :: "string list option"
  dg_output :: "string option"
  dg_transport :: transport_args

definition run_diagnostic ::
  "transports \<Rightarrow> 'a archiver \<Rightarrow> instance_kind_info \<Rightarrow> string \<Rightarrow> string \<Rightarrow> diagnostic_args \<Rightarrow> string + 'a \<times> bundle_summary" where
  "run_diagnostic tp av info ns name args =
     (let target = \<lparr>tg_namespace = ns, tg_kind = ik_plural info, tg_name = name\<rparr>;
          items = resolve_items (dg_items args)
      in then_do (transport_mode_of tp (dg_transport args)) (\<lambda>(mode, via).
         let collected = map (\<lambda>i. (i, get_item tp mode target i)) items;
             output = or_default (name @ ''-diag-'' @ av_ts av @ ''.tar.gz'') (dg_output args)
         in build_bundle av target via collected output))"

text \<open>What is printed of a single item, and the error the command ends with.\<close>

definition run_item ::
  "transports \<Rightarrow> instance_kind_info \<Rightarrow> string \<Rightarrow> string \<Rightarrow> string \<Rightarrow> transport_args \<Rightarrow> string option \<times> (string + unit)" where
  "run_item tp info ns name item transport =
     (let target = \<lparr>tg_namespace = ns, tg_kind = ik_plural info, tg_name = name\<rparr>
      in case transport_mode_of tp transport of
           Inl e \<Rightarrow> (None, Inl e)
         | Inr (mode, via) \<Rightarrow>
             (let result = get_item tp mode target item
              in (Some (gr_body result),
                  if 400 \<le> gr_status result \<or> gr_status result = 0
                  then Inl (''DIAG-ERR-03: item '' @ [CHR 0x27] @ item @ [CHR 0x27] @ '' returned status '' @ dec (gr_status result))
                  else Inr ())))"

section \<open>Lemmas\<close>

lemma known_items: "i \<in> set (resolve_items wanted) \<Longrightarrow> i \<in> set ALL_ITEMS"
  by (auto simp: resolve_items_def split: option.splits if_splits)

lemma items_distinct: "distinct (resolve_items wanted)"
  by (simp add: resolve_items_def ALL_ITEMS_def split: option.splits)

lemma item_pathE:
  assumes "i \<in> set ALL_ITEMS" obtains base where "item_path i = Some base"
  using assms by (auto simp: ALL_ITEMS_def item_path_def)

text \<open>The paths of two items are different whatever their types, and none is that of a report.\<close>

definition extensions :: "string list" where
  "extensions = [''.json'', ''.yaml'', ''.log'', ''.txt'']"

definition possible_files :: "(string \<times> string) list" where
  "possible_files = concat (map (\<lambda>i. map (\<lambda>e. (i, or_default [] (item_path i) @ e)) extensions) ALL_ITEMS)"

definition report_files :: "string list" where
  "report_files = [''manifest.yaml'', ''redactions.json'', ''SUMMARY.md'']"

lemma possible_files_distinct: "distinct (map snd possible_files @ report_files)"
  by code_simp

lemma extension_known: "extension_for_content_type ct \<in> set extensions"
  by (simp add: extension_for_content_type_def extensions_def Let_def)

lemma possible_files_iff:
  "(i, q) \<in> set possible_files \<longleftrightarrow> i \<in> set ALL_ITEMS \<and> (\<exists>e \<in> set extensions. q = or_default [] (item_path i) @ e)"
proof -
  have "set possible_files = (\<Union>i \<in> set ALL_ITEMS. (\<lambda>e. (i, or_default [] (item_path i) @ e)) ` set extensions)"
    unfolding possible_files_def by (simp only: set_concat set_map image_image)
  then show ?thesis by auto
qed

lemma bundle_file_possible:
  assumes "fst c \<in> set ALL_ITEMS"
  obtains path where "bundle_file c = Some path" "(fst c, path) \<in> set possible_files"
proof -
  obtain base where base: "item_path (fst c) = Some base" using item_pathE [OF assms] .
  then have "bundle_file c = Some (base @ extension_for_content_type (gr_content_type (snd c)))"
    by (simp add: bundle_file_def)
  moreover have "(fst c, base @ extension_for_content_type (gr_content_type (snd c))) \<in> set possible_files"
    unfolding possible_files_iff using base assms extension_known by (auto simp: or_default_def)
  ultimately show ?thesis by (rule that)
qed

lemma snd_distinctD: "distinct (map snd xs) \<Longrightarrow> (a, p) \<in> set xs \<Longrightarrow> (b, p) \<in> set xs \<Longrightarrow> a = b"
  by (force simp: distinct_map inj_on_def)

lemma bundle_files_distinct:
  assumes "distinct (map fst cs)" and "list_all (\<lambda>c. fst c \<in> set ALL_ITEMS) cs"
  shows "distinct (map (\<lambda>c. or_default [] (bundle_file c)) cs @ report_files)"
proof -
  have d: "distinct (map snd possible_files)" "set (map snd possible_files) \<inter> set report_files = {}"
    "distinct report_files"
    using possible_files_distinct by (simp_all only: distinct_append)
  have named: "(fst c, or_default [] (bundle_file c)) \<in> set possible_files" if "c \<in> set cs" for c
  proof -
    have "fst c \<in> set ALL_ITEMS" using assms(2) that by (simp add: list_all_iff)
    then obtain path where "bundle_file c = Some path" "(fst c, path) \<in> set possible_files"
      by (rule bundle_file_possible)
    then show ?thesis by (simp add: or_default_def)
  qed
  have "inj_on (\<lambda>c. or_default [] (bundle_file c)) (set cs)"
  proof (rule inj_onI)
    fix c e assume ce: "c \<in> set cs" "e \<in> set cs" "or_default [] (bundle_file c) = or_default [] (bundle_file e)"
    have "fst c = fst e" using snd_distinctD [OF d(1) named [OF ce(1)]] named [OF ce(2)] ce(3) by simp
    with assms(1) ce show "c = e" by (auto simp: distinct_map inj_on_def)
  qed
  moreover have "distinct cs" using assms(1) by (simp add: distinct_map)
  moreover have "set (map (\<lambda>c. or_default [] (bundle_file c)) cs) \<inter> set report_files = {}"
    using named d(2) by (force simp: image_iff)
  ultimately show ?thesis using d(3) by (simp add: distinct_map)
qed

text \<open>
  What a writer does, told by the files of the archive it builds: it starts with none, a file is added at the
  end, finishing changes none.
\<close>

definition archive_laws :: "'a archiver \<Rightarrow> ('a \<Rightarrow> (string \<times> string) list) \<Rightarrow> bool" where
  "archive_laws av files \<longleftrightarrow>
     (\<forall>p t. av_create av p = Inr t \<longrightarrow> files t = []) \<and>
     (\<forall>p c t t'. av_append av p c t = Inr t' \<longrightarrow> files t' = files t @ [(p, c)]) \<and>
     (\<forall>t t'. av_finish av t = Inr t' \<longrightarrow> files t' = files t)"

lemma then_do_Inr: "then_do r f = Inr b \<longleftrightarrow> (\<exists>a. r = Inr a \<and> f a = Inr b)"
  by (simp add: then_do_def split: sum.split)

lemma append_items_files:
  assumes "archive_laws av files"
  shows "append_items av rdir cs t = Inr t' \<Longrightarrow>
    files t' = files t @ map (\<lambda>c. (rdir @ ''/'' @ or_default [] (bundle_file c), gr_body (snd c))) cs"
  using assms by (induction cs arbitrary: t) (auto simp: then_do_Inr archive_laws_def)

lemma build_bundle_files:
  assumes "archive_laws av files" and "build_bundle av target via items output = Inr (t, s)"
  shows "\<exists>y j. av_manifest av (manifest_of av target via (List.map_filter manifest_item_of items)) = Inr y \<and>
      av_report av (redaction_report_of items) = Inr j \<and>
      files t = map (\<lambda>c. (root_dir av target @ ''/'' @ or_default [] (bundle_file c), gr_body (snd c))) items @
        [(root_dir av target @ ''/manifest.yaml'', y), (root_dir av target @ ''/redactions.json'', j),
         (root_dir av target @ ''/SUMMARY.md'',
          build_summary (av_yaml av) target (av_version av) (av_ts av) items (redaction_report_of items))]"
  using assms(2)
  by (auto simp: build_bundle_def Let_def then_do_Inr dest!: append_items_files [OF assms(1)]
      assms(1) [unfolded archive_laws_def, THEN conjunct1, rule_format]
      assms(1) [unfolded archive_laws_def, THEN conjunct2, THEN conjunct1, rule_format]
      assms(1) [unfolded archive_laws_def, THEN conjunct2, THEN conjunct2, rule_format])

lemma redaction_header_parts: "split_on (CHR '';'') (add_scrub_header st) =
    [''distinct='' @ dec (ss_distinct st), ''occurrences='' @ dec (ss_occurrences st)]"
proof -
  have no: "CHR '';'' \<notin> set (dec n)" for n by (rule dec_digits) (simp add: digit_val_def)
  have "CHR '';'' \<notin> set (''distinct='' @ dec (ss_distinct st))" using no by simp
  from split_on_append [OF this, of "''occurrences='' @ dec (ss_occurrences st)"]
  show ?thesis using no by (simp add: add_scrub_header_def split_on_id)
qed

lemma trim_counted: "trim (''distinct='' @ dec n) = ''distinct='' @ dec n"
  "trim (''occurrences='' @ dec n) = ''occurrences='' @ dec n"
proof -
  have blank: "list_all (\<lambda>c. digit_val c = None) (map last ws_seqs)" by code_simp
  have "last (dec n) \<in> set (dec n)" by simp
  then have "digit_val (last (dec n)) \<noteq> None" using dec_digits by blast
  with blank have "last (p @ dec n) \<notin> set (map last ws_seqs)" for p
    by (auto simp: list_all_iff)
  then show "trim (''distinct='' @ dec n) = ''distinct='' @ dec n"
    "trim (''occurrences='' @ dec n) = ''occurrences='' @ dec n"
    by (intro trim_id; simp add: ws_seqs_def)+
qed

section \<open>Properties\<close>

text \<open>The client reads the counts of redactions that the server writes: the header of the server parses to the
  two counts.\<close>

theorem redactions_round_trip:
  assumes "ss_distinct st < 2 ^ 64" and "ss_occurrences st < 2 ^ 64"
  shows "parse_redactions (add_scrub_header st) = Some (ss_distinct st, ss_occurrences st)"
proof -
  have "strip_prefix (''occurrences='' @ dec n) ''distinct='' = None" for n
    by (simp add: strip_prefix_def starts_with_def)
  with assms show ?thesis
    by (simp add: parse_redactions_def redaction_header_parts trim_counted parse_uint_dec del: append.simps)
qed

lemma resolve_items_filter:
  "resolve_items wanted = filter (\<lambda>i. case wanted of Some (w # ws) \<Rightarrow> i \<in> set (w # ws) | _ \<Rightarrow> True) ALL_ITEMS"
proof (cases wanted)
  case (Some ws)
  then show ?thesis by (cases ws) (simp_all add: resolve_items_def)
qed (simp add: resolve_items_def)

lemma manifest_lists:
  assumes "list_all (\<lambda>c. fst c \<in> set ALL_ITEMS) cs"
  shows "map mi_item (List.map_filter manifest_item_of cs) = map fst cs"
    "map mi_file (List.map_filter manifest_item_of cs) = map (\<lambda>c. or_default [] (bundle_file c)) cs"
proof -
  have one: "\<exists>path. bundle_file c = Some path" if "fst c \<in> set ALL_ITEMS" for c
    using bundle_file_possible [OF that] by blast
  have "map mi_item (List.map_filter manifest_item_of cs) = map fst cs \<and>
    map mi_file (List.map_filter manifest_item_of cs) = map (\<lambda>c. or_default [] (bundle_file c)) cs"
    using assms
  proof (induction cs)
    case (Cons c cs)
    then have "fst c \<in> set ALL_ITEMS" by simp
    from one [OF this] obtain path where "bundle_file c = Some path" ..
    with Cons show ?case by (simp add: manifest_item_of_def or_default_def List.map_filter_simps)
  qed (simp add: List.map_filter_simps)
  then show "map mi_item (List.map_filter manifest_item_of cs) = map fst cs"
    "map mi_file (List.map_filter manifest_item_of cs) = map (\<lambda>c. or_default [] (bundle_file c)) cs" by auto
qed

text \<open>A diagnostic bundle that was written holds exactly one file for each known item that was asked, in order and
  with the bytes that were answered, then the manifest, the report of redactions and the summary; no two files
  have the same path, and the manifest lists the items with their paths.\<close>

theorem bundle_complete:
  assumes "archive_laws av files" and "run_diagnostic tp av info ns name args = Inr (t, s)"
  shows "\<exists>mode via rdir y j sm mf. transport_mode_of tp (dg_transport args) = Inr (mode, via) \<and>
    (let asked = map (\<lambda>i. (i, get_item tp mode \<lparr>tg_namespace = ns, tg_kind = ik_plural info, tg_name = name\<rparr> i))
           (filter (\<lambda>i. case dg_items args of Some (w # ws) \<Rightarrow> i \<in> set (w # ws) | _ \<Rightarrow> True) ALL_ITEMS)
     in files t = map (\<lambda>c. (rdir @ ''/'' @ or_default [] (bundle_file c), gr_body (snd c))) asked @
          [(rdir @ ''/manifest.yaml'', y), (rdir @ ''/redactions.json'', j), (rdir @ ''/SUMMARY.md'', sm)] \<and>
        distinct (map fst (files t)) \<and>
        av_manifest av mf = Inr y \<and> map mi_item (mf_items mf) = map fst asked \<and>
        map mi_file (mf_items mf) = map (\<lambda>c. or_default [] (bundle_file c)) asked)"
proof -
  let ?target = "\<lparr>tg_namespace = ns, tg_kind = ik_plural info, tg_name = name\<rparr>"
  obtain mode via where mode: "transport_mode_of tp (dg_transport args) = Inr (mode, via)"
    and built: "build_bundle av ?target via (map (\<lambda>i. (i, get_item tp mode ?target i)) (resolve_items (dg_items args)))
      (or_default (name @ ''-diag-'' @ av_ts av @ ''.tar.gz'') (dg_output args)) = Inr (t, s)"
    using assms(2) by (auto simp: run_diagnostic_def Let_def then_do_Inr)
  define asked where "asked = map (\<lambda>i. (i, get_item tp mode ?target i)) (resolve_items (dg_items args))"
  have known: "list_all (\<lambda>c. fst c \<in> set ALL_ITEMS) asked" "distinct (map fst asked)"
    by (auto simp: asked_def list_all_iff comp_def items_distinct dest: known_items)
  let ?rdir = "root_dir av ?target"
  let ?mf = "manifest_of av ?target via (List.map_filter manifest_item_of asked)"
  obtain y j sm where y: "av_manifest av ?mf = Inr y"
    and fs: "files t = map (\<lambda>c. (?rdir @ ''/'' @ or_default [] (bundle_file c), gr_body (snd c))) asked @
        [(?rdir @ ''/manifest.yaml'', y), (?rdir @ ''/redactions.json'', j),
         (?rdir @ ''/SUMMARY.md'', sm)]"
    using build_bundle_files(1) [OF assms(1) built] by (auto simp: asked_def)
  have "map fst (files t) = map (\<lambda>p. ?rdir @ ''/'' @ p) (map (\<lambda>c. or_default [] (bundle_file c)) asked @ report_files)"
    by (simp add: fs report_files_def)
  then have "distinct (map fst (files t))"
    using bundle_files_distinct [OF known(2,1)] by (simp only: distinct_map) (simp add: inj_on_def)
  moreover have "map mi_item (mf_items ?mf) = map fst asked"
    "map mi_file (mf_items ?mf) = map (\<lambda>c. or_default [] (bundle_file c)) asked"
    using manifest_lists [OF known(1)] by (simp_all add: manifest_of_def)
  moreover note mode fs y
  ultimately show ?thesis
    unfolding Let_def resolve_items_filter [symmetric]
    by - (rule exI [of _ mode], rule exI [of _ via], rule exI [of _ ?rdir], rule exI [of _ y],
        rule exI [of _ j], rule exI [of _ sm], rule exI [of _ ?mf], unfold asked_def [symmetric], blast)
qed

lemma unreachable_item: "tp_kube_client tp = Inl e \<Longrightarrow> get_item tp Aggregation target i = unreachable e"
  by (simp add: get_item_def fetch_aggregation_def)

lemma bundle_errors:
  "build_bundle av target via items output = Inr (t, s) \<Longrightarrow>
    bs_error_items s = map fst (filter (\<lambda>c. 400 \<le> gr_status (snd c)) items)"
  by (auto simp: build_bundle_def Let_def then_do_Inr)

text \<open>A server that cannot be reached does not count as an error of the bundle: when no client of the cluster can be
  built, the verb \<open>diagnostic\<close> writes its bundle of eight error texts and names no item with an error, although the
  verb of each item on its own fails.\<close>

theorem unreachable_not_reported:
  assumes "tp_kube_client tp = Inl e" and "ta_server_url (dg_transport args) = None"
    and "run_diagnostic tp av info ns name args = Inr (t, s)"
  shows "bs_error_items s = [] \<and> (\<exists>err. snd (run_item tp info ns name item (dg_transport args)) = Inl err)"
proof -
  have mode: "transport_mode_of tp (dg_transport args) = Inr (Aggregation, ''aggregation'')"
    using assms(2) by (simp add: transport_mode_of_def)
  have "bs_error_items s = []"
    using assms(3) unfolding run_diagnostic_def Let_def mode
    by (auto simp: then_do_def unreachable_item [OF assms(1)] unreachable_def filter_empty_conv dest!: bundle_errors)
  then show ?thesis
    by (simp add: run_item_def Let_def mode unreachable_item [OF assms(1)] unreachable_def)
qed

text \<open>What the client asks, the server knows: its items are those of the server, in the same order, its three kinds
  those of the server, with the same names and job labels.\<close>

theorem client_and_server_agree:
  "resolve_items None = VALID_ITEMS \<and>
   map ik_plural [TENANT_INSTANCE, SERVICE_INSTANCE, SYSTEM_INSTANCE] = VALID_KINDS \<and>
   list_all (\<lambda>k. kind_camel (ik_plural k) = Some (ik_kind k) \<and> kind_type_label (ik_plural k) = Some (ik_type_label k))
     [TENANT_INSTANCE, SERVICE_INSTANCE, SYSTEM_INSTANCE]"
  by (simp add: resolve_items_def ALL_ITEMS_def VALID_ITEMS_def VALID_KINDS_def TENANT_INSTANCE_def SERVICE_INSTANCE_def
      SYSTEM_INSTANCE_def kind_camel_def kind_type_label_def)

section \<open>Witnesses\<close>

text \<open>An archive that is the list of its files, and a cluster that cannot be reached.\<close>

definition list_archiver :: "(string \<times> string) list archiver" where
  "list_archiver =
     \<lparr>av_create = (\<lambda>p. Inr []), av_append = (\<lambda>p c t. Inr (t @ [(p, c)])), av_finish = Inr, av_manifest = (\<lambda>m. Inr ''m''),
      av_report = (\<lambda>r. Inr ''r''), av_yaml = (\<lambda>s. None), av_ts = ''t'', av_collected_at = ''t'', av_version = ''1''\<rparr>"

definition demo_transports :: transports where
  "demo_transports =
     \<lparr>tp_kube_client = Inl ''no kubeconfig'', tp_kube_request = (\<lambda>p. Inr ()), tp_kube_send = (\<lambda>p. Inl ''no''),
      tp_http_client = (\<lambda>i. Inr ()), tp_http_send = (\<lambda>u a. Inl ''no''), tp_sa_token = Inl ''no''\<rparr>"

definition demo_args :: diagnostic_args where
  "demo_args = \<lparr>dg_items = Some [''state'', ''unknown'', ''packages''], dg_output = None,
     dg_transport = \<lparr>ta_server_url = None, ta_token = None, ta_insecure = False\<rparr>\<rparr>"

lemma list_archive: "archive_laws list_archiver (\<lambda>t. t)"
  by (simp add: archive_laws_def list_archiver_def)

lemma demo_run: "\<exists>t s. run_diagnostic demo_transports list_archiver TENANT_INSTANCE ''media'' ''gitea'' demo_args = Inr (t, s)"
  by (simp add: run_diagnostic_def demo_args_def transport_mode_of_def then_do_def build_bundle_def Let_def
      list_archiver_def resolve_items_def ALL_ITEMS_def)

lemma redactions_round_trip_witness:
  "parse_redactions (add_scrub_header \<lparr>ss_distinct = 3, ss_occurrences = 12\<rparr>) = Some (3, 12)"
  using redactions_round_trip [of "\<lparr>ss_distinct = 3, ss_occurrences = 12\<rparr>"] by simp

lemma bundle_complete_witness:
  "\<exists>t s. run_diagnostic demo_transports list_archiver TENANT_INSTANCE ''media'' ''gitea'' demo_args = Inr (t, s) \<and>
    distinct (map fst t) \<and> length t = 5"
proof -
  obtain t s where run: "run_diagnostic demo_transports list_archiver TENANT_INSTANCE ''media'' ''gitea'' demo_args = Inr (t, s)"
    using demo_run by blast
  from bundle_complete [OF list_archive run] have "distinct (map fst t) \<and> length t = 5"
    by (auto simp: Let_def demo_args_def ALL_ITEMS_def)
  with run show ?thesis by blast
qed

lemma unreachable_not_reported_witness:
  "\<exists>t s. run_diagnostic demo_transports list_archiver TENANT_INSTANCE ''media'' ''gitea'' demo_args = Inr (t, s) \<and>
    bs_error_items s = []"
proof -
  obtain t s where run: "run_diagnostic demo_transports list_archiver TENANT_INSTANCE ''media'' ''gitea'' demo_args = Inr (t, s)"
    using demo_run by blast
  have "bs_error_items s = [] \<and>
    (\<exists>err. snd (run_item demo_transports TENANT_INSTANCE ''media'' ''gitea'' ''state'' (dg_transport demo_args)) = Inl err)"
    by (rule unreachable_not_reported [OF _ _ run]) (simp_all add: demo_transports_def demo_args_def)
  with run show ?thesis by blast
qed

end
