(* ===== verification/TtlCache.thy ===== *)
theory TtlCache
  imports VPrelude
begin

text \<open>
  \<open>common/src/ttl_cache.rs\<close>: one value kept for \<open>ttl\<close> behind a read-write lock.
  \<open>get_or_refresh\<close> looks under the read lock, looks again under the write lock, and only then calls
  the refresh, holding the write lock until the value is stored. The model is the interleaving of any
  number of callers: a caller is in one of the phases below, the lock is the writer (readers only
  look, in one step), the monotonic clock ticks between the steps, and the refresh answers anything.
\<close>

section \<open>The cache\<close>

type_synonym 'v cell = "(nat \<times> 'v) option"

text \<open>\<open>ts.elapsed() < self.ttl\<close> on the stored pair, the value when it is fresh.\<close>

definition lookup_fresh :: "nat \<Rightarrow> nat \<Rightarrow> 'v cell \<Rightarrow> 'v option" where
  "lookup_fresh ttl now c =
     (case c of None \<Rightarrow> None | Some (ts, v) \<Rightarrow> (if now - ts < ttl then Some v else None))"

text \<open>A whole call by one caller that nobody interleaves with: the cell is read twice, at the time of
  the call, and a refreshed value is stamped with the time after the refresh.\<close>

definition get_or_refresh ::
  "nat \<Rightarrow> ('w \<Rightarrow> nat) \<Rightarrow> ('w, 'v) io \<Rightarrow> 'v cell \<Rightarrow> 'w \<Rightarrow> ('v result \<times> 'v cell) \<times> 'w" where
  "get_or_refresh ttl now refresh c w =
     (case lookup_fresh ttl (now w) c of
        Some v \<Rightarrow> ((Inr v, c), w)
      | None \<Rightarrow>
          (case lookup_fresh ttl (now w) c of
             Some v \<Rightarrow> ((Inr v, c), w)
           | None \<Rightarrow>
               (case refresh w of
                  (Inl e, w') \<Rightarrow> ((Inl e, c), w')
                | (Inr v, w') \<Rightarrow> ((Inr v, Some (now w', v)), w'))))"

section \<open>Concurrent callers\<close>

datatype 'v phase =
    Looking                 \<comment> \<open>before the read lock\<close>
  | Waiting                 \<comment> \<open>missed, waits for the write lock\<close>
  | Refreshing              \<comment> \<open>holds the write lock, the refresh is running\<close>
  | Got 'v nat              \<comment> \<open>returned this value, at this time\<close>
  | Failed verror

record 'v ttl_state =
  tc_now :: nat
  tc_cell :: "'v cell"
  tc_writer :: "nat option"
  tc_phase :: "nat \<Rightarrow> 'v phase"
  tc_stored :: "(nat \<times> 'v) list"   \<comment> \<open>every pair ever stored, the last one first\<close>

definition set_phase :: "nat \<Rightarrow> 'v phase \<Rightarrow> 'v ttl_state \<Rightarrow> 'v ttl_state" where
  "set_phase i p s = s\<lparr>tc_phase := (tc_phase s)(i := p)\<rparr>"

inductive ttl_step :: "nat \<Rightarrow> 'v ttl_state \<Rightarrow> 'v ttl_state \<Rightarrow> bool" for ttl where
  tick: "ttl_step ttl s (s\<lparr>tc_now := Suc (tc_now s)\<rparr>)"
| read_hit: "tc_phase s i = Looking \<Longrightarrow> tc_writer s = None \<Longrightarrow>
     lookup_fresh ttl (tc_now s) (tc_cell s) = Some v \<Longrightarrow>
     ttl_step ttl s (set_phase i (Got v (tc_now s)) s)"
| read_miss: "tc_phase s i = Looking \<Longrightarrow> tc_writer s = None \<Longrightarrow>
     lookup_fresh ttl (tc_now s) (tc_cell s) = None \<Longrightarrow>
     ttl_step ttl s (set_phase i Waiting s)"
| write_hit: "tc_phase s i = Waiting \<Longrightarrow> tc_writer s = None \<Longrightarrow>
     lookup_fresh ttl (tc_now s) (tc_cell s) = Some v \<Longrightarrow>
     ttl_step ttl s (set_phase i (Got v (tc_now s)) s)"
| write_miss: "tc_phase s i = Waiting \<Longrightarrow> tc_writer s = None \<Longrightarrow>
     lookup_fresh ttl (tc_now s) (tc_cell s) = None \<Longrightarrow>
     ttl_step ttl s (set_phase i Refreshing (s\<lparr>tc_writer := Some i\<rparr>))"
| stored: "tc_phase s i = Refreshing \<Longrightarrow>
     ttl_step ttl s (set_phase i (Got v (tc_now s))
       (s\<lparr>tc_writer := None, tc_cell := Some (tc_now s, v), tc_stored := (tc_now s, v) # tc_stored s\<rparr>))"
| failed: "tc_phase s i = Refreshing \<Longrightarrow>
     ttl_step ttl s (set_phase i (Failed e) (s\<lparr>tc_writer := None\<rparr>))"
| again: "tc_phase s i = Got v t \<or> tc_phase s i = Failed e \<Longrightarrow>
     ttl_step ttl s (set_phase i Looking s)"

inductive_cases ttl_stepE: "ttl_step ttl s t"

definition ttl_start :: "'v ttl_state \<Rightarrow> bool" where
  "ttl_start s \<longleftrightarrow> tc_cell s = None \<and> tc_writer s = None \<and> tc_stored s = [] \<and> (\<forall>i. tc_phase s i = Looking)"

section \<open>The invariant\<close>

text \<open>Two values are never stored less than \<open>ttl\<close> apart.\<close>

fun spaced :: "nat \<Rightarrow> nat list \<Rightarrow> bool" where
  "spaced d [] = True"
| "spaced d [t] = True"
| "spaced d (t # u # ts) \<longleftrightarrow> u + d \<le> t \<and> spaced d (u # ts)"

definition returned_ok :: "nat \<Rightarrow> (nat \<times> 'v) list \<Rightarrow> 'v phase \<Rightarrow> bool" where
  "returned_ok ttl ps p =
     (case p of
        Got v t \<Rightarrow> list_ex (\<lambda>(ts, u). u = v \<and> ts \<le> t \<and> t - ts < ttl) ps
      | _ \<Rightarrow> True)"

definition ttl_ok :: "nat \<Rightarrow> 'v ttl_state \<Rightarrow> bool" where
  "ttl_ok ttl s \<longleftrightarrow>
     tc_cell s = (case tc_stored s of [] \<Rightarrow> None | p # _ \<Rightarrow> Some p) \<and>
     (\<forall>p \<in> set (tc_stored s). fst p \<le> tc_now s) \<and>
     spaced ttl (map fst (tc_stored s)) \<and>
     (\<forall>i. tc_phase s i = Refreshing \<longleftrightarrow> tc_writer s = Some i) \<and>
     (tc_writer s \<noteq> None \<longrightarrow> lookup_fresh ttl (tc_now s) (tc_cell s) = None) \<and>
     (\<forall>i. returned_ok ttl (tc_stored s) (tc_phase s i))"

lemma lookup_stale: "lookup_fresh ttl now c = None \<Longrightarrow> now \<le> now' \<Longrightarrow> lookup_fresh ttl now' c = None"
  by (auto simp: lookup_fresh_def split: option.splits if_splits)

lemma lookup_SomeD: "lookup_fresh ttl now c = Some v \<Longrightarrow> \<exists>ts. c = Some (ts, v) \<and> now - ts < ttl"
  by (auto simp: lookup_fresh_def split: option.splits if_splits)

lemma spaced_Cons:
  "spaced d (t # ts) \<longleftrightarrow> (case ts of [] \<Rightarrow> True | u # _ \<Rightarrow> u + d \<le> t) \<and> spaced d ts"
  by (cases ts) auto

lemma returned_simps [simp]:
  "returned_ok ttl s Looking" "returned_ok ttl s Waiting" "returned_ok ttl s Refreshing"
  "returned_ok ttl s (Failed e)"
  by (simp_all add: returned_ok_def)

lemma returned_stored: "returned_ok ttl ps p \<Longrightarrow> returned_ok ttl (q # ps) p"
  by (auto simp: returned_ok_def split: phase.splits)

lemma got_hit:
  assumes "ttl_ok ttl s" and "lookup_fresh ttl (tc_now s) (tc_cell s) = Some v"
  shows "returned_ok ttl (tc_stored s) (Got v (tc_now s))"
  using assms(1) lookup_SomeD [OF assms(2)]
  by (auto simp: ttl_ok_def returned_ok_def split: list.splits)

text \<open>A caller that does not hold the lock moves to a phase that does not need it.\<close>

lemma set_phase_ok:
  assumes "ttl_ok ttl s" and "tc_phase s i \<noteq> Refreshing" and "p \<noteq> Refreshing" and "returned_ok ttl (tc_stored s) p"
  shows "ttl_ok ttl (set_phase i p s)"
  unfolding ttl_ok_def set_phase_def
  using assms unfolding ttl_ok_def by auto

text \<open>The writer moves on and gives the lock back.\<close>

lemma release_ok:
  assumes "ttl_ok ttl s" and "tc_phase s i = Refreshing" and "p \<noteq> Refreshing" and "returned_ok ttl (tc_stored s) p"
  shows "ttl_ok ttl (set_phase i p (s\<lparr>tc_writer := None\<rparr>))"
proof -
  have "\<forall>j. tc_phase s j = Refreshing \<longleftrightarrow> j = i" using assms(1,2) by (auto simp: ttl_ok_def)
  then show ?thesis using assms unfolding ttl_ok_def set_phase_def by auto
qed

lemma store_spaced:
  assumes ok: "ttl_ok ttl s" and "tc_phase s i = Refreshing"
  shows "spaced ttl (map fst ((tc_now s, v) # tc_stored s))"
proof (cases "tc_stored s")
  case (Cons p ps)
  with assms have "lookup_fresh ttl (tc_now s) (Some p) = None" "fst p \<le> tc_now s"
      "spaced ttl (map fst (tc_stored s))"
    by (auto simp: ttl_ok_def)
  with Cons show ?thesis by (cases p) (auto simp: lookup_fresh_def spaced_Cons split: if_splits)
qed simp

lemma ttl_store_ok:
  assumes ok: "ttl_ok ttl s" and "tc_phase s i = Refreshing" and "0 < ttl"
  shows "ttl_ok ttl (set_phase i (Got v (tc_now s))
       (s\<lparr>tc_writer := None, tc_cell := Some (tc_now s, v), tc_stored := (tc_now s, v) # tc_stored s\<rparr>))"
proof -
  have o: "\<forall>j. tc_phase s j = Refreshing \<longleftrightarrow> j = i" using assms(1,2) by (auto simp: ttl_ok_def)
  have g: "returned_ok ttl ((tc_now s, v) # tc_stored s) (tc_phase s j)" for j
    using ok by (auto simp: ttl_ok_def intro: returned_stored)
  have v: "returned_ok ttl ((tc_now s, v) # tc_stored s) (Got v (tc_now s))"
    using \<open>0 < ttl\<close> by (simp add: returned_ok_def)
  have "\<forall>p \<in> set (tc_stored s). fst p \<le> tc_now s" using ok by (simp add: ttl_ok_def)
  then show ?thesis
    using store_spaced [OF ok assms(2), of v] o g v
    unfolding ttl_ok_def set_phase_def by simp
qed

lemma ttl_step_ok:
  assumes "ttl_step ttl s t" and ok: "ttl_ok ttl s" and "0 < ttl"
  shows "ttl_ok ttl t"
  using assms(1)
proof cases
  case tick
  with ok show ?thesis
    by (auto simp: ttl_ok_def intro: lookup_stale le_SucI)
next
  case (write_miss i)
  with ok show ?thesis by (auto simp: ttl_ok_def set_phase_def)
next
  case (stored i v)
  with ttl_store_ok [OF ok stored(2) \<open>0 < ttl\<close>] show ?thesis by simp
qed (simp_all add: set_phase_ok release_ok ok got_hit, auto simp: set_phase_ok ok)

interpretation ttl: step_system "ttl_step ttl" "\<lambda>s. 0 < ttl \<and> ttl_ok ttl s"
  by unfold_locales (auto intro: ttl_step_ok)

lemma ttl_start_ok: "ttl_start s \<Longrightarrow> ttl_ok ttl s"
  by (simp add: ttl_start_def ttl_ok_def)

lemma ttl_reach: "ttl_start s \<Longrightarrow> 0 < ttl \<Longrightarrow> (ttl_step ttl)\<^sup>*\<^sup>* s t \<Longrightarrow> ttl_ok ttl t"
  using ttl.reach_inv [of ttl s t] ttl_start_ok [of s ttl] by blast

section \<open>The properties\<close>

definition demo_ttl :: "nat ttl_state" where
  "demo_ttl = \<lparr>tc_now = 5, tc_cell = None, tc_writer = None, tc_phase = (\<lambda>_. Looking), tc_stored = []\<rparr>"

definition demo_ttl' :: "nat ttl_state" where
  "demo_ttl' = set_phase 0 (Got 7 5) (demo_ttl\<lparr>tc_cell := Some (5, 7), tc_stored := [(5, 7)]\<rparr>)"

lemma demo_ttl_run: "ttl_start demo_ttl" "(ttl_step 30)\<^sup>*\<^sup>* demo_ttl demo_ttl'"
proof -
  show "ttl_start demo_ttl" by (simp add: ttl_start_def demo_ttl_def)
  let ?a = "set_phase 0 Waiting demo_ttl"
  let ?b = "set_phase 0 Refreshing (?a\<lparr>tc_writer := Some 0\<rparr>)"
  have "ttl_step 30 demo_ttl ?a"
    by (rule read_miss) (simp_all add: demo_ttl_def lookup_fresh_def)
  moreover have "ttl_step 30 ?a ?b"
    by (rule write_miss) (simp_all add: demo_ttl_def lookup_fresh_def set_phase_def)
  moreover have "ttl_step 30 ?b (set_phase 0 (Got 7 (tc_now ?b))
       (?b\<lparr>tc_writer := None, tc_cell := Some (tc_now ?b, 7), tc_stored := (tc_now ?b, 7) # tc_stored ?b\<rparr>))"
    by (rule stored) (simp add: set_phase_def)
  moreover have "set_phase 0 (Got 7 (tc_now ?b))
       (?b\<lparr>tc_writer := None, tc_cell := Some (tc_now ?b, 7), tc_stored := (tc_now ?b, 7) # tc_stored ?b\<rparr>) = demo_ttl'"
    by (simp add: demo_ttl'_def demo_ttl_def set_phase_def)
  ultimately show "(ttl_step 30)\<^sup>*\<^sup>* demo_ttl demo_ttl'"
    by (metis converse_rtranclp_into_rtranclp rtranclp.rtrancl_refl)
qed

text \<open>C29: however callers interleave, a refresh is never stored less than the time to live after the one
  before it: the second look under the write lock makes concurrent misses refresh once.\<close>

theorem ttl_refreshes_spaced:
  assumes "0 < ttl" and "ttl_start s" and "(ttl_step ttl)\<^sup>*\<^sup>* s t"
  shows "spaced ttl (map fst (tc_stored t))"
  using ttl_reach [OF assms(2,1,3)] by (simp add: ttl_ok_def)

theorem ttl_refreshes_spaced_witness: "spaced 30 (map fst (tc_stored demo_ttl')) \<and> tc_stored demo_ttl' = [(5, 7)]"
  using ttl_refreshes_spaced [OF _ demo_ttl_run] by (simp add: demo_ttl'_def set_phase_def)

text \<open>Whatever a caller of the cache gets was stored by a refresh less than the time to live before
  the moment it was returned.\<close>

theorem ttl_value_fresh:
  assumes "0 < ttl" and "ttl_start s" and "(ttl_step ttl)\<^sup>*\<^sup>* s t" and "tc_phase t i = Got v r"
  shows "\<exists>ts. (ts, v) \<in> set (tc_stored t) \<and> ts \<le> r \<and> r < ts + ttl"
proof -
  have "returned_ok ttl (tc_stored t) (tc_phase t i)" using ttl_reach [OF assms(2,1,3)] by (simp add: ttl_ok_def)
  then obtain ts where "(ts, v) \<in> set (tc_stored t)" "ts \<le> r" "r - ts < ttl"
    using assms(4) by (auto simp: returned_ok_def list_ex_iff)
  then show ?thesis by auto
qed

theorem ttl_value_fresh_witness: "\<exists>ts. (ts, 7) \<in> set (tc_stored demo_ttl') \<and> ts \<le> 5 \<and> (5::nat) < ts + 30"
  using ttl_value_fresh [OF _ demo_ttl_run, of 0 7 5] by (simp add: demo_ttl'_def set_phase_def)

end
