(* ===== verification/Requirements.thy ===== *)
theory Requirements
  imports Instance TtlCache
begin

text \<open>
  What an instance needs from the cluster before it is installed: the services and tenants of
  \<open>common/src/instanceservice.rs\<close> and \<open>common/src/instancetenant.rs\<close>, and the three checks of
  \<open>VynilPackageRequirement\<close> in \<open>common/src/vynilpackage.rs\<close>. The calls to the API server, the process
  environment and the rhai engine are the record \<open>kube_api\<close>.
\<close>

section \<open>The cluster as the operator sees it\<close>

text \<open>
  A list with a timeout answers \<open>None\<close> when it elapsed. \<open>ka_cell\<close> and \<open>ka_set_cell\<close> are the static
  cache of \<open>get_all_services_names\<close>, which lives in the process.
\<close>

record 'w kube_api =
  ka_list_services :: "'w \<Rightarrow> (kube_error + instance_obj list) option \<times> 'w"
  ka_list_system :: "('w, instance_obj list) kube_call"
  ka_list_tenant :: "('w, instance_obj list) kube_call"
  ka_list_tenant_in :: "string \<Rightarrow> ('w, instance_obj list) kube_call"
  ka_crd_exists :: "string \<Rightarrow> ('w, bool) kube_call"
  ka_ns_labels :: "string \<Rightarrow> ('w, (string \<times> string) list option) kube_call"
  ka_ns_select :: "string \<Rightarrow> ('w, string option list) kube_call"
  ka_api_version :: "('w, json) io"
  ka_eval_truth :: "instance_obj \<Rightarrow> string \<Rightarrow> ('w, bool) io"
  ka_env :: "string \<Rightarrow> string option"
  ka_json :: "json \<Rightarrow> string"
  ka_semver :: semver_crate
  ka_now :: "'w \<Rightarrow> nat"
  ka_cell :: "'w \<Rightarrow> string list cell"
  ka_set_cell :: "string list cell \<Rightarrow> 'w \<Rightarrow> 'w"

section \<open>Services and tenants\<close>

definition service_keys :: "instance_obj \<Rightarrow> string list" where
  "service_keys i = map pub_key (get_services i)"

definition refresh_services :: "'w kube_api \<Rightarrow> ('w, string list) io" where
  "refresh_services api w =
     (case ka_list_services api w of
        (None, w') \<Rightarrow> (Inl (Other ''E_LIST_SERVICES_TIMEOUT: get_all_services_names exceeded 30s''), w')
      | (Some (Inl e), w') \<Rightarrow> (Inl (KubeError e), w')
      | (Some (Inr all), w') \<Rightarrow> (Inr (sort (concat (map service_keys all))), w'))"

definition get_all_services_names :: "'w kube_api \<Rightarrow> ('w, string list) io" where
  "get_all_services_names api w =
     (case get_or_refresh 30 (ka_now api) (refresh_services api) (ka_cell api w) w of
        ((r, c), w') \<Rightarrow> (r, ka_set_cell api c w'))"

definition label_key :: "'w kube_api \<Rightarrow> string" where
  "label_key api =
     (case ka_env api ''TENANT_LABEL'' of Some k \<Rightarrow> k | None \<Rightarrow> ''vynil.solidite.fr/tenant'')"

definition my_namespace :: "instance_obj \<Rightarrow> string result" where
  "my_namespace self = unwrap ''namespace.clone().unwrap()'' (md_namespace (in_meta self))"

definition get_tenant_name :: "'w kube_api \<Rightarrow> instance_obj \<Rightarrow> ('w, string) io" where
  "get_tenant_name api self =
     io_bind (io_lift (my_namespace self)) (\<lambda>my_ns.
     io_bind (io_kube (ka_ns_labels api my_ns)) (\<lambda>labels.
     (case labels of
        Some ls \<Rightarrow>
          (case obj_get ls (label_key api) of
             Some v \<Rightarrow> io_return v
           | None \<Rightarrow> io_return my_ns)
      | None \<Rightarrow> io_return my_ns)))"

fun unwrap_names :: "string option list \<Rightarrow> string list result" where
  "unwrap_names [] = Inr []"
| "unwrap_names (None # ns) = Inl (Panicked ''metadata.name.unwrap()'')"
| "unwrap_names (Some n # ns) = result_bind (unwrap_names ns) (\<lambda>r. Inr (n # r))"

definition get_tenant_namespaces :: "'w kube_api \<Rightarrow> instance_obj \<Rightarrow> ('w, string list) io" where
  "get_tenant_namespaces api self =
     io_bind (io_lift (my_namespace self)) (\<lambda>my_ns.
     io_bind (io_kube (ka_ns_labels api my_ns)) (\<lambda>labels.
     (case labels of
        Some ls \<Rightarrow>
          (case obj_get ls (label_key api) of
             Some tenant_name \<Rightarrow>
               io_bind (io_kube (ka_ns_select api (label_key api @ ''=='' @ tenant_name))) (\<lambda>my_nss.
               io_lift (unwrap_names my_nss))
           | None \<Rightarrow> io_return [my_ns])
      | None \<Rightarrow> io_return [my_ns])))"

fun tenant_services :: "'w kube_api \<Rightarrow> string list \<Rightarrow> ('w, string list) io" where
  "tenant_services api [] = io_return []"
| "tenant_services api (ns # nss) =
     io_bind (io_kube (ka_list_tenant_in api ns)) (\<lambda>tnts.
     io_bind (tenant_services api nss) (\<lambda>rest.
     io_return (concat (map service_keys tnts) @ rest)))"

definition get_tenant_services_names :: "'w kube_api \<Rightarrow> instance_obj \<Rightarrow> ('w, string list) io" where
  "get_tenant_services_names api self =
     io_bind (get_tenant_namespaces api self) (\<lambda>nss.
     io_bind (tenant_services api nss) (\<lambda>res.
     io_return (sort res)))"

section \<open>The checks\<close>

text \<open>
  A check answers whether the requirement holds, the message to record when it does not, and the
  delay in seconds before the next try. The arms the three methods have alike come first.
\<close>

type_synonym verdict = "bool \<times> string \<times> nat"

definition check_vynil_version :: "'w kube_api \<Rightarrow> string \<Rightarrow> ('w, verdict) io" where
  "check_vynil_version api v =
     io_bind (io_lift (semver_parse (ka_semver api) v)) (\<lambda>requested.
     io_bind (io_lift (semver_parse (ka_semver api) VERSION)) (\<lambda>current.
     io_return (semver_le (ka_semver api) requested current,
       ''Requested vynil version '' @ v @ '' is over current version '' @ VERSION @
         ''. Please upgrade vynil first'', 15 * 60)))"

definition check_cluster_version :: "'w kube_api \<Rightarrow> nat \<Rightarrow> nat \<Rightarrow> ('w, verdict) io" where
  "check_cluster_version api major minor =
     io_bind (ka_api_version api) (\<lambda>ver.
     io_bind (io_lift (version_field (ka_json api) ver ''major'')) (\<lambda>maj.
     io_bind (io_lift (version_field (ka_json api) ver ''minor'')) (\<lambda>mnr.
     io_return (cluster_at_least (major, minor) maj mnr,
       ''Requested api-server version '' @ dec major @ ''.'' @ dec minor @
         '' is over current version '' @ dec maj @ ''.'' @ dec mnr @
         ''. Please upgrade your cluster first'', 15 * 60))))"

definition check_crd :: "'w kube_api \<Rightarrow> string \<Rightarrow> ('w, verdict) io" where
  "check_crd api crd =
     io_bind (io_kube (ka_crd_exists api crd)) (\<lambda>r.
     io_return (r, ''CRD '' @ crd @ '' is not installed'', 5 * 60))"

definition check_prefly :: "'w kube_api \<Rightarrow> instance_obj \<Rightarrow> string \<Rightarrow> string \<Rightarrow> ('w, verdict) io" where
  "check_prefly api inst script name =
     io_bind (ka_eval_truth api inst script) (\<lambda>r.
     io_return (r, ''Requirement '' @ name @ '' failed'', 5 * 60))"

definition check_system_package :: "'w kube_api \<Rightarrow> string \<Rightarrow> string \<Rightarrow> ('w, verdict) io" where
  "check_system_package api category name =
     io_bind (io_kube (ka_list_system api)) (\<lambda>lst.
     io_return (list_ex (\<lambda>i. spec_category (in_spec i) = category \<and> spec_package (in_spec i) = name) lst,
       ''System package '' @ category @ ''/'' @ name @ '' is not installed'', 15 * 60))"

definition check_storage :: "storage_capability \<Rightarrow> ('w, verdict) io" where
  "check_storage capa =
     io_return (True,
       ''Storage capability '' @ (case capa of RWX \<Rightarrow> ''RWX'' | ROX \<Rightarrow> ''ROX'') @ '' isn't available'', 15 * 60)"

definition check_system_service :: "'w kube_api \<Rightarrow> string \<Rightarrow> ('w, verdict) io" where
  "check_system_service api svc =
     io_bind (get_all_services_names api) (\<lambda>lst.
     io_return (list_ex (\<lambda>i. svc = i) lst, ''System Service '' @ svc @ '' is not available'', 15 * 60))"

text \<open>\<open>any\<close> stops at the first match and unwraps the namespace of the instances it reaches.\<close>

fun any_tenant_package :: "string list \<Rightarrow> string \<Rightarrow> string \<Rightarrow> instance_obj list \<Rightarrow> bool result" where
  "any_tenant_package allowed category name [] = Inr False"
| "any_tenant_package allowed category name (i # lst) =
     (if spec_category (in_spec i) = category \<and> spec_package (in_spec i) = name
      then (case md_namespace (in_meta i) of
              None \<Rightarrow> Inl (Panicked ''metadata.namespace.unwrap()'')
            | Some ns \<Rightarrow> if ns \<in> set allowed then Inr True
                         else any_tenant_package allowed category name lst)
      else any_tenant_package allowed category name lst)"

definition check_tenant_package ::
  "'w kube_api \<Rightarrow> instance_obj \<Rightarrow> string \<Rightarrow> string \<Rightarrow> ('w, verdict) io" where
  "check_tenant_package api inst category name =
     io_bind (get_tenant_namespaces api inst) (\<lambda>allowed.
     io_bind (io_kube (ka_list_tenant api)) (\<lambda>lst.
     io_bind (io_lift (any_tenant_package allowed category name lst)) (\<lambda>r.
     io_return (r, ''Tenant package '' @ category @ ''/'' @ name @ '' is not installed'', 15 * 60))))"

definition check_tenant_service :: "'w kube_api \<Rightarrow> instance_obj \<Rightarrow> string \<Rightarrow> ('w, verdict) io" where
  "check_tenant_service api inst svc =
     io_bind (get_tenant_services_names api inst) (\<lambda>lst.
     io_return (list_ex (\<lambda>i. i = svc) lst, ''Tenant service '' @ svc @ '' is not installed'', 15 * 60))"

fun check_system :: "'w kube_api \<Rightarrow> instance_obj \<Rightarrow> requirement \<Rightarrow> ('w, verdict) io" where
  "check_system api inst (R_VynilVersion v) = check_vynil_version api v"
| "check_system api inst (R_ClusterVersion major minor) = check_cluster_version api major minor"
| "check_system api inst (R_CustomResourceDefinition crd) = check_crd api crd"
| "check_system api inst (R_Prefly script name) = check_prefly api inst script name"
| "check_system api inst (R_SystemPackage category name) = check_system_package api category name"
| "check_system api inst (R_TenantPackage category name) =
     io_return (True, ''Tenant package '' @ category @ ''/'' @ name @ '' is not installed'', 15 * 60)"
| "check_system api inst (R_StorageCapability capa) = check_storage capa"
| "check_system api inst (R_MinimumPreviousVersion _) = io_return (True, [], 15 * 60)"
| "check_system api inst (R_SystemService svc) = check_system_service api svc"
| "check_system api inst _ = io_return (True, [], 15 * 60)"

fun check_tenant :: "'w kube_api \<Rightarrow> instance_obj \<Rightarrow> requirement \<Rightarrow> ('w, verdict) io" where
  "check_tenant api inst (R_VynilVersion v) = check_vynil_version api v"
| "check_tenant api inst (R_ClusterVersion major minor) = check_cluster_version api major minor"
| "check_tenant api inst (R_CustomResourceDefinition crd) = check_crd api crd"
| "check_tenant api inst (R_Prefly script name) = check_prefly api inst script name"
| "check_tenant api inst (R_SystemPackage category name) = check_system_package api category name"
| "check_tenant api inst (R_TenantPackage category name) = check_tenant_package api inst category name"
| "check_tenant api inst (R_TenantService svc) = check_tenant_service api inst svc"
| "check_tenant api inst (R_StorageCapability capa) = check_storage capa"
| "check_tenant api inst (R_MinimumPreviousVersion _) = io_return (True, [], 15 * 60)"
| "check_tenant api inst (R_SystemService svc) = check_system_service api svc"
| "check_tenant api inst _ = io_return (True, [], 15 * 60)"

fun check_service :: "'w kube_api \<Rightarrow> instance_obj \<Rightarrow> requirement \<Rightarrow> ('w, verdict) io" where
  "check_service api inst (R_VynilVersion v) = check_vynil_version api v"
| "check_service api inst (R_ClusterVersion major minor) = check_cluster_version api major minor"
| "check_service api inst (R_CustomResourceDefinition crd) = check_crd api crd"
| "check_service api inst (R_Prefly script name) = check_prefly api inst script name"
| "check_service api inst (R_SystemPackage category name) = check_system_package api category name"
| "check_service api inst (R_StorageCapability capa) = check_storage capa"
| "check_service api inst (R_MinimumPreviousVersion _) = io_return (True, [], 15 * 60)"
| "check_service api inst (R_SystemService svc) = check_system_service api svc"
| "check_service api inst _ = io_return (True, [], 15 * 60)"

definition check :: "'w kube_api \<Rightarrow> instance_obj \<Rightarrow> requirement \<Rightarrow> ('w, verdict) io" where
  "check api inst =
     (case in_kind inst of
        Tenant \<Rightarrow> check_tenant api inst | System \<Rightarrow> check_system api inst | Service \<Rightarrow> check_service api inst)"

section \<open>Lemmas\<close>

text \<open>\<open>serde_json\<close> writes a string between quotes.\<close>

definition json_quotes :: "(json \<Rightarrow> string) \<Rightarrow> bool" where
  "json_quotes js \<longleftrightarrow> (\<forall>s. \<exists>t. js (JStr s) = CHR 0x22 # t)"

lemma parse_quoted: "parse_u64 (CHR 0x22 # t) = None"
  by (simp add: parse_uint_def starts_with_def digit_val_def)

lemma check_shared:
  "check api inst (R_ClusterVersion major minor) = check_cluster_version api major minor"
  "check api inst (R_SystemService svc) = check_system_service api svc"
  by (simp_all add: check_def split: package_type.splits)

lemma any_tenant_iff:
  assumes "\<forall>i \<in> set lst. md_namespace (in_meta i) \<noteq> None"
  shows "any_tenant_package allowed category name lst =
    Inr (\<exists>i \<in> set lst. spec_category (in_spec i) = category \<and> spec_package (in_spec i) = name \<and>
           (\<exists>ns \<in> set allowed. md_namespace (in_meta i) = Some ns))"
  using assms by (induction lst) auto

lemma tenant_services_run:
  assumes "\<forall>ns \<in> set nss. \<forall>w. ka_list_tenant_in api ns w = (Inr (objs ns), w)"
  shows "tenant_services api nss w = (Inr (concat (map (\<lambda>ns. concat (map service_keys (objs ns))) nss)), w)"
  using assms by (induction nss) (simp_all add: io_bind_def io_kube_def io_return_def)

section \<open>The properties\<close>

text \<open>A concrete cluster: one tenant of two namespaces, with a database in one of them.\<close>

definition demo_tenant :: "string \<Rightarrow> string \<Rightarrow> published list \<Rightarrow> instance_obj" where
  "demo_tenant ns pkg svcs =
     \<lparr>in_kind = Tenant,
      in_meta = \<lparr>md_name = Some pkg, md_generate_name = None, md_namespace = Some ns, md_uid = None,
                 md_generation = Some 1, md_annotations = []\<rparr>,
      in_spec = \<lparr>spec_jukebox = ''jb'', spec_category = ''db'', spec_package = pkg,
                 spec_init_from = None, spec_options = None\<rparr>,
      in_status = Some \<lparr>st_conditions = [], st_tag = Some ''1.0.0'', st_digest = None, st_tfstate = None,
        st_rhaistate = None, st_befores = None, st_vitals = None, st_scalables = None, st_others = None,
        st_posts = None, st_systems = None, st_crds = None, st_services = Some svcs\<rparr>\<rparr>"

definition demo_service :: "string \<Rightarrow> published" where
  "demo_service k = \<lparr>pub_key = k, pub_tenant = None, pub_service = None, pub_definition = None\<rparr>"

definition demo_list :: "string \<Rightarrow> instance_obj list" where
  "demo_list ns = (if ns = ''a'' then [demo_tenant ''a'' ''pg'' [demo_service ''sql'', demo_service ''cache'']] else [])"

definition demo_api :: "(nat \<times> string list cell) kube_api" where
  "demo_api =
     \<lparr>ka_list_services = (\<lambda>w. (Some (Inr (demo_list ''a'')), w)),
      ka_list_system = (\<lambda>w. (Inr [], w)),
      ka_list_tenant = (\<lambda>w. (Inr (demo_list ''a''), w)),
      ka_list_tenant_in = (\<lambda>ns w. (Inr (demo_list ns), w)),
      ka_crd_exists = (\<lambda>crd w. (Inr False, w)),
      ka_ns_labels = (\<lambda>ns w. (Inr (Some [(''vynil.solidite.fr/tenant'', ''t1'')]), w)),
      ka_ns_select = (\<lambda>sel w. (Inr [Some ''a'', Some ''b''], w)),
      ka_api_version = (\<lambda>w. (Inr (JObj [(''major'', JStr ''1''), (''minor'', JStr ''31'')]), w)),
      ka_eval_truth = (\<lambda>i s w. (Inr True, w)),
      ka_env = (\<lambda>v. None),
      ka_json = (\<lambda>j. case j of JStr s \<Rightarrow> [CHR 0x22] @ s @ [CHR 0x22] | _ \<Rightarrow> ''null''),
      ka_semver = demo_crate,
      ka_now = fst, ka_cell = snd, ka_set_cell = (\<lambda>c w. (fst w, c))\<rparr>"

lemma demo_api_namespaces:
  "get_tenant_namespaces demo_api (demo_tenant ''b'' ''app'' []) w = (Inr [''a'', ''b''], w)"
  by (simp add: get_tenant_namespaces_def my_namespace_def demo_tenant_def io_bind_def io_lift_def io_kube_def
      label_key_def demo_api_def)

text \<open>On a cluster whose \<open>/version\<close> gives the major version as a string, as Kubernetes does, the
  cluster-version requirement can never be met nor refused: the quotes of the JSON text stay in the
  way of the number, and the check fails for every kind of instance.\<close>

theorem cluster_version_never_decides:
  assumes "json_quotes (ka_json api)" and "ka_api_version api w = (Inr (JObj m), w')"
    and "obj_get m ''major'' = Some (JStr s)"
  shows "check api inst (R_ClusterVersion major minor) w = (Inl ParseInt, w')"
proof -
  obtain t where "ka_json api (JStr s) = CHR 0x22 # t" using assms(1) by (auto simp: json_quotes_def)
  with assms(2,3) parse_quoted [of t] show ?thesis
    by (simp add: check_shared check_cluster_version_def io_bind_def version_field_def io_lift_def del: power_numeral)
qed

theorem cluster_version_never_decides_witness:
  "check demo_api (demo_tenant ''a'' ''pg'' []) (R_ClusterVersion 1 20) (0, None) = (Inl ParseInt, (0, None))"
proof -
  have "json_quotes (ka_json demo_api)" by (simp add: json_quotes_def demo_api_def)
  moreover have "ka_api_version demo_api (0, None) = (Inr (JObj [(''major'', JStr ''1''), (''minor'', JStr ''31'')]), (0, None))"
    by (simp add: demo_api_def)
  ultimately show ?thesis by (rule cluster_version_never_decides [where s = "''1''"]) simp
qed

text \<open>The tenant-package requirement looks no further than the tenant: it holds exactly when an
  instance of that package exists in one of the namespaces of the instance's own tenant.\<close>

theorem tenant_package_verdict:
  assumes "get_tenant_namespaces api inst w = (Inr allowed, w1)" and "ka_list_tenant api w1 = (Inr lst, w2)"
    and "\<forall>i \<in> set lst. md_namespace (in_meta i) \<noteq> None"
  shows "\<exists>msg. check_tenant api inst (R_TenantPackage category name) w =
    (Inr (\<exists>i \<in> set lst. spec_category (in_spec i) = category \<and> spec_package (in_spec i) = name \<and>
            (\<exists>ns \<in> set allowed. md_namespace (in_meta i) = Some ns), msg, 900), w2)"
  using assms by (simp add: check_tenant_package_def io_bind_def io_kube_def io_lift_def any_tenant_iff io_return_def)

theorem tenant_package_verdict_witness:
  "\<exists>msg. check_tenant demo_api (demo_tenant ''b'' ''app'' []) (R_TenantPackage ''db'' ''pg'') (0, None) =
     (Inr (True, msg, 900), (0, None))"
proof -
  have l: "ka_list_tenant demo_api (0, None) = (Inr (demo_list ''a''), (0, None))" by (simp add: demo_api_def)
  have "\<forall>i \<in> set (demo_list ''a''). md_namespace (in_meta i) \<noteq> None" by (simp add: demo_list_def demo_tenant_def)
  from tenant_package_verdict [OF demo_api_namespaces l this, of "''db''" "''pg''"]
  show ?thesis by (simp add: demo_list_def demo_tenant_def)
qed

text \<open>The services of a tenant are, in order, the keys that the instances of its namespaces publish,
  none forgotten and none invented.\<close>

theorem tenant_services_complete:
  assumes "get_tenant_namespaces api inst w = (Inr nss, w1)"
    and "\<forall>ns \<in> set nss. \<forall>w. ka_list_tenant_in api ns w = (Inr (objs ns), w)"
  shows "\<exists>l. get_tenant_services_names api inst w = (Inr l, w1) \<and> sorted l \<and>
    set l = {k. \<exists>ns \<in> set nss. \<exists>i \<in> set (objs ns). \<exists>s \<in> set (get_services i). k = pub_key s}"
  using assms(1) tenant_services_run [OF assms(2), of w1]
  by (auto simp: get_tenant_services_names_def io_bind_def io_return_def service_keys_def)

theorem tenant_services_complete_witness:
  "\<exists>l. get_tenant_services_names demo_api (demo_tenant ''b'' ''app'' []) (0, None) = (Inr l, (0, None)) \<and>
     set l = {''sql'', ''cache''}"
proof -
  have "\<forall>ns \<in> set [''a'', ''b'']. \<forall>w. ka_list_tenant_in demo_api ns w = (Inr (demo_list ns), w)"
    by (simp add: demo_api_def)
  from tenant_services_complete [OF demo_api_namespaces this, of "(0, None)"]
  show ?thesis by (auto simp: demo_list_def demo_tenant_def demo_service_def get_services_def)
qed

text \<open>The names of the services are read from the cluster at most every 30 seconds: what a call
  answered is answered again, without a request, until 30 seconds after the list was taken.\<close>

theorem services_names_cached:
  assumes "\<forall>c w. ka_cell api (ka_set_cell api c w) = c"
    and "get_all_services_names api w = (Inr l, w1)"
    and "lookup_fresh 30 (ka_now api w) (ka_cell api w) = None"
  shows "\<exists>ts. ka_cell api w1 = Some (ts, l) \<and>
     (\<forall>w2. ka_cell api w2 = ka_cell api w1 \<and> ka_now api w2 < ts + 30 \<longrightarrow>
        get_all_services_names api w2 = (Inr l, ka_set_cell api (Some (ts, l)) w2))"
proof -
  obtain w' where "w1 = ka_set_cell api (Some (ka_now api w', l)) w'"
    using assms(2,3)
    by (auto simp: get_all_services_names_def get_or_refresh_def split: prod.splits sum.splits)
  then have c: "ka_cell api w1 = Some (ka_now api w', l)" using assms(1) by simp
  have "get_all_services_names api w2 = (Inr l, ka_set_cell api (Some (ka_now api w', l)) w2)"
    if "ka_cell api w2 = ka_cell api w1" "ka_now api w2 < ka_now api w' + 30" for w2
  proof -
    have "lookup_fresh 30 (ka_now api w2) (ka_cell api w2) = Some l"
      using that c by (simp add: lookup_fresh_def)
    with that c show ?thesis by (simp add: get_all_services_names_def get_or_refresh_def)
  qed
  with c show ?thesis by blast
qed

theorem services_names_cached_witness:
  "\<exists>l ts. get_all_services_names demo_api (7, None) = (Inr l, (7, Some (ts, l))) \<and>
     get_all_services_names demo_api (30, Some (ts, l)) = (Inr l, (30, Some (ts, l)))"
proof -
  obtain l where l: "get_all_services_names demo_api (7, None) = (Inr l, (7, Some (7, l)))"
    by (simp add: get_all_services_names_def get_or_refresh_def refresh_services_def demo_api_def lookup_fresh_def)
  have "\<forall>c w. ka_cell demo_api (ka_set_cell demo_api c w) = c" "lookup_fresh 30 (ka_now demo_api (7, None)) (ka_cell demo_api (7, None)) = None"
    by (simp_all add: demo_api_def lookup_fresh_def)
  from services_names_cached [OF this(1) l this(2)] l show ?thesis
    by (auto simp: demo_api_def)
qed

end
