(* ===== verification/Effects.thy ===== *)
theory Effects
  imports VPrelude
begin

text \<open>
  Reasoning about what a run of an effectful operation can change. \<open>keeps obs m\<close>: the operation \<open>m\<close>
  never changes the observation \<open>obs\<close> of the world. \<open>changes_by obs m R\<close>: when it changes it, then from
  one value to another that \<open>R\<close> relates. The rules follow the shape of the operation, and the collection \<open>keeps\<close> gathers
  those that discharge the parts that touch nothing.
\<close>

named_theorems keeps \<open>operations that keep an observation\<close>

definition keeps :: "('w \<Rightarrow> 'o) \<Rightarrow> ('w \<Rightarrow> 'r \<times> 'w) \<Rightarrow> bool" where
  "keeps obs m \<longleftrightarrow> (\<forall>w. obs (snd (m w)) = obs w)"

definition changes_by :: "('w \<Rightarrow> 'o) \<Rightarrow> ('w \<Rightarrow> 'r \<times> 'w) \<Rightarrow> ('o \<Rightarrow> 'o \<Rightarrow> bool) \<Rightarrow> bool" where
  "changes_by obs m R \<longleftrightarrow> (\<forall>w. obs (snd (m w)) \<noteq> obs w \<longrightarrow> R (obs w) (obs (snd (m w))))"

lemma keepsI: "(\<And>w r w'. m w = (r, w') \<Longrightarrow> obs w' = obs w) \<Longrightarrow> keeps obs m"
  unfolding keeps_def by (metis prod.collapse)

lemma keepsD: "keeps obs m \<Longrightarrow> m w = (r, w') \<Longrightarrow> obs w' = obs w"
  unfolding keeps_def by (metis snd_conv)

lemma keeps_return [keeps]: "keeps obs (io_return a)"
  by (simp add: keeps_def io_return_def)

lemma keeps_throw [keeps]: "keeps obs (io_throw e)"
  by (simp add: keeps_def io_throw_def)

lemma keeps_lift [keeps]: "keeps obs (io_lift r)"
  by (simp add: keeps_def io_lift_def)

lemma keeps_kube [keeps]: "keeps obs m \<Longrightarrow> keeps obs (io_kube m)"
  by (rule keepsI) (auto simp: io_kube_def dest: keepsD split: prod.splits sum.splits)

lemma keeps_bind [keeps]:
  assumes "keeps obs m" and "\<And>a. keeps obs (f a)"
  shows "keeps obs (io_bind m f)"
proof (rule keepsI)
  fix w r w'
  assume run: "io_bind m f w = (r, w')"
  show "obs w' = obs w"
  proof (cases "m w")
    case (Pair x w1)
    with run keepsD [OF assms(1) Pair] keepsD [OF assms(2)] show ?thesis
      by (cases x) (auto simp: io_bind_def)
  qed
qed

lemma keeps_seq [keeps]: "keeps obs m \<Longrightarrow> keeps obs n \<Longrightarrow> keeps obs (io_seq m n)"
  unfolding io_seq_def by (rule keeps_bind)

lemma keeps_changes: "keeps obs m \<Longrightarrow> changes_by obs m R"
  by (simp add: keeps_def changes_by_def)

lemma changesD: "changes_by obs m R \<Longrightarrow> m w = (r, w') \<Longrightarrow> obs w' \<noteq> obs w \<Longrightarrow> R (obs w) (obs w')"
  unfolding changes_by_def by (metis snd_conv)

lemma changes_mono: "changes_by obs m R \<Longrightarrow> (\<And>x y. R x y \<Longrightarrow> S x y) \<Longrightarrow> changes_by obs m S"
  by (auto simp: changes_by_def)

text \<open>After a part that keeps the observation, what it answered may be used.\<close>

lemma changes_bind:
  assumes "keeps obs m" and "\<And>a w w'. m w = (Inr a, w') \<Longrightarrow> changes_by obs (f a) R"
  shows "changes_by obs (io_bind m f) R"
  unfolding changes_by_def
proof (intro allI impI)
  fix w
  assume ne: "obs (snd (io_bind m f w)) \<noteq> obs w"
  obtain x w1 where m: "m w = (x, w1)" by (cases "m w")
  with keepsD [OF assms(1)] have o: "obs w1 = obs w" by blast
  show "R (obs w) (obs (snd (io_bind m f w)))"
  proof (cases x)
    case (Inl e)
    with m ne o show ?thesis by (simp add: io_bind_def)
  next
    case (Inr a)
    with m ne o have "obs (snd (f a w1)) \<noteq> obs w1" and b: "io_bind m f w = f a w1"
      by (simp_all add: io_bind_def)
    with assms(2) [OF m [unfolded Inr], unfolded changes_by_def, rule_format, of w1] o show ?thesis by simp
  qed
qed

lemma changes_seq:
  "keeps obs m \<Longrightarrow> changes_by obs n R \<Longrightarrow> changes_by obs (io_seq m n) R"
  unfolding io_seq_def by (rule changes_bind)

text \<open>A part that changes it, then one that keeps it.\<close>

lemma changes_then:
  assumes "changes_by obs m R" and "keeps obs n"
  shows "changes_by obs (io_seq m n) R"
  unfolding changes_by_def
proof (intro allI impI)
  fix w
  assume ne: "obs (snd (io_seq m n w)) \<noteq> obs w"
  obtain x w1 where m: "m w = (x, w1)" by (cases "m w")
  have "obs (snd (io_seq m n w)) = obs w1"
    using m assms(2) by (cases x) (auto simp: io_seq_def io_bind_def keeps_def)
  with ne changesD [OF assms(1) m] show "R (obs w) (obs (snd (io_seq m n w)))" by simp
qed

text \<open>The answers an operation can give, whatever the world.\<close>

definition answers :: "('w, 'a) io \<Rightarrow> ('a \<Rightarrow> bool) \<Rightarrow> bool" where
  "answers m Q \<longleftrightarrow> (\<forall>w a. fst (m w) = Inr a \<longrightarrow> Q a)"

lemma answersD: "answers m Q \<Longrightarrow> m w = (Inr a, w') \<Longrightarrow> Q a"
  unfolding answers_def by (metis fst_conv)

lemma answers_return: "Q a \<Longrightarrow> answers (io_return a) Q"
  by (simp add: answers_def io_return_def)

lemma answers_throw: "answers (io_throw e) Q"
  by (simp add: answers_def io_throw_def)

lemma answers_bind:
  assumes "\<And>a w w'. m w = (Inr a, w') \<Longrightarrow> answers (f a) Q"
  shows "answers (io_bind m f) Q"
  unfolding answers_def
proof (intro allI impI)
  fix w b
  assume "fst (io_bind m f w) = Inr b"
  then obtain w' where "io_bind m f w = (Inr b, w')" by (metis prod.collapse)
  then obtain a w1 where "m w = (Inr a, w1)" "f a w1 = (Inr b, w')" by (rule io_bind_InrE)
  with assms show "Q b" by (blast dest: answersD)
qed

lemma answers_seq: "answers n Q \<Longrightarrow> answers (io_seq m n) Q"
  unfolding io_seq_def by (rule answers_bind)

end
