(* ===== verification/Reconcile.thy ===== *)
theory Reconcile
  imports Requirements PackageCache Effects
begin

text \<open>
  \<open>operator/src/instance_common.rs\<close> with the three implementations of \<open>InstanceKind\<close> in
  \<open>operator/src/instance{tenant,service,system}.rs\<close>, and the registry access of \<open>core/src/oci.rs\<close>
  that the resolution of an initial version uses: what the operator does when an instance changes
  (\<open>do_reconcile\<close>) or is deleted (\<open>do_cleanup\<close>). The API server, the registry, the template renderer
  and the rhai engine are the record \<open>op_api\<close>.
\<close>

section \<open>The environment of the operator\<close>

datatype action = Requeue nat | AwaitChange

datatype registry_auth = Anonymous | Basic string string

text \<open>Waiting for a condition under \<open>tokio::time::timeout\<close>.\<close>

datatype wait_outcome = TimedOut | WaitFailed string | WaitDone

definition io_wait :: "('w \<Rightarrow> wait_outcome \<times> 'w) \<Rightarrow> ('w, unit) io" where
  "io_wait m w =
     (case m w of
        (TimedOut, w') \<Rightarrow> (Inl Elapsed, w')
      | (WaitFailed e, w') \<Rightarrow> (Inl (KubeWaitError e), w')
      | (WaitDone, w') \<Rightarrow> (Inr (), w'))"

text \<open>
  \<open>oa_secret\<close> is the \<open>data\<close> of a secret, when there is a secret, when it has data. \<open>oa_job_delete\<close>
  answers \<open>Some uid\<close> when the deletion is in progress (\<open>Either::Left\<close>, the uid of the job) and \<open>None\<close>
  when it is done. \<open>oa_pull_manifest\<close> asks the registry for a manifest: found, not found (the codes
  that \<open>verify_tag_in_registry\<close> recognises) or another error.
\<close>

datatype manifest_answer = ManifestFound | ManifestUnknown | ManifestError string

record 'w op_api =
  oa_kube :: "'w kube_api"
  oa_cluster :: "'w cluster"
  oa_my_ns :: string
  oa_base_context :: "(string \<times> json) list"
  oa_secret :: "string \<Rightarrow> string \<Rightarrow> ('w, (string \<times> string) list option option) kube_call"
  oa_parse_json :: "string \<Rightarrow> string + json"
  oa_b64_decode :: "string \<Rightarrow> string + string"
  oa_utf8 :: "string \<Rightarrow> bool"
  oa_pull_manifest :: "string \<Rightarrow> string \<Rightarrow> string \<Rightarrow> registry_auth \<Rightarrow> 'w \<Rightarrow> manifest_answer \<times> 'w"
  oa_eval_map_string :: "instance_obj \<Rightarrow> string \<Rightarrow> ('w, string) io"
  oa_debug :: "string \<Rightarrow> string"
  oa_render :: "string \<Rightarrow> json \<Rightarrow> string result"
  oa_yaml_to_json :: "string \<Rightarrow> json result"
  oa_as_job :: "json \<Rightarrow> string option"
  oa_job_exists :: "string \<Rightarrow> ('w, bool) kube_call"
  oa_job_patch :: "string \<Rightarrow> json \<Rightarrow> ('w, unit) kube_call"
  oa_job_create :: "json \<Rightarrow> ('w, unit) kube_call"
  oa_job_delete :: "string \<Rightarrow> ('w, string option option) kube_call"
  oa_await_deleted :: "string \<Rightarrow> string \<Rightarrow> 'w \<Rightarrow> wait_outcome \<times> 'w"
  oa_await_completed :: "string \<Rightarrow> 'w \<Rightarrow> wait_outcome \<times> 'w"
  oa_remove_annotation :: "package_type \<Rightarrow> string \<Rightarrow> string \<Rightarrow> string \<Rightarrow> ('w, unit) kube_call"

section \<open>The kinds of instances\<close>

definition type_name :: "package_type \<Rightarrow> string" where
  "type_name k = (case k of Tenant \<Rightarrow> ''tenant'' | Service \<Rightarrow> ''service'' | System \<Rightarrow> ''system'')"

definition current_tag :: "instance_obj \<Rightarrow> string" where
  "current_tag inst =
     (case in_status inst of
        None \<Rightarrow> []
      | Some s \<Rightarrow> (case st_tag s of None \<Rightarrow> [] | Some t \<Rightarrow> t))"

definition init_from_version :: "instance_obj \<Rightarrow> string option" where
  "init_from_version inst =
     (if in_kind inst = System then None
      else (case spec_init_from (in_spec inst) of None \<Rightarrow> None | Some i \<Rightarrow> if_version i))"

definition have_child :: "instance_obj \<Rightarrow> bool" where
  "have_child inst =
     (case in_kind inst of
        Tenant \<Rightarrow> tenant_have_child inst
      | Service \<Rightarrow> service_have_child inst
      | System \<Rightarrow> system_have_child inst)"

definition record_missing_init_version :: "'w op_api \<Rightarrow> instance_obj \<Rightarrow> string \<Rightarrow> ('w, instance_obj) io" where
  "record_missing_init_version api inst v =
     (if in_kind inst = System then io_return inst else set_missing_init_version (oa_cluster api) inst v)"

definition ns_of :: "instance_obj \<Rightarrow> string" where
  "ns_of inst = (case md_namespace (in_meta inst) of None \<Rightarrow> [] | Some n \<Rightarrow> n)"

definition error_policy :: "instance_obj \<Rightarrow> verror \<Rightarrow> action" where
  "error_policy inst e = Requeue (5 * 60)"

text \<open>\<open>check_requirements\<close>, the same loop in the three implementations over their own \<open>check_...\<close>.\<close>

fun check_requirements :: "'w op_api \<Rightarrow> instance_obj \<Rightarrow> requirement list \<Rightarrow> ('w, action option) io" where
  "check_requirements api inst [] = io_return None"
| "check_requirements api inst (req # reqs) =
     io_bind (check (oa_kube api) inst req) (\<lambda>(res, mes, requeue).
       if \<not> res
       then io_seq (set_missing_requirement (oa_cluster api) inst mes) (io_return (Some (Requeue requeue)))
       else check_requirements api inst reqs)"

section \<open>Recommendations\<close>

record reco_context =
  rc_crds :: "string list"
  rc_system_services :: "string list"
  rc_tenant_services :: "string list"

fun base_recos ::
  "'w op_api \<Rightarrow> string list \<Rightarrow> recommandation list \<Rightarrow> ('w, string list \<times> string list) io" where
  "base_recos api svcs [] = io_return ([], [])"
| "base_recos api svcs (Rec_CustomResourceDefinition crd # recos) =
     io_bind (io_kube (ka_crd_exists (oa_kube api) crd)) (\<lambda>present.
     io_bind (base_recos api svcs recos) (\<lambda>(crds, services).
     io_return (if present then crd # crds else crds, services)))"
| "base_recos api svcs (Rec_SystemService svc # recos) =
     io_bind (base_recos api svcs recos) (\<lambda>(crds, services).
     io_return (crds, if svc \<in> set svcs then svc # services else services))"
| "base_recos api svcs (Rec_TenantService svc # recos) = base_recos api svcs recos"

definition build_base_recommendations ::
  "'w op_api \<Rightarrow> recommandation list option \<Rightarrow> ('w, string list \<times> string list) io" where
  "build_base_recommendations api recos =
     (case recos of
        None \<Rightarrow> io_return ([], [])
      | Some rs \<Rightarrow>
          io_bind (get_all_services_names (oa_kube api)) (\<lambda>current_system_services.
          io_bind (base_recos api current_system_services rs) (\<lambda>(crds, services).
          io_return (sort crds, sort services))))"

definition is_tenant_reco :: "recommandation \<Rightarrow> bool" where
  "is_tenant_reco r = (case r of Rec_TenantService _ \<Rightarrow> True | _ \<Rightarrow> False)"

fun tenant_recos :: "string list \<Rightarrow> recommandation list \<Rightarrow> string list" where
  "tenant_recos svcs [] = []"
| "tenant_recos svcs (Rec_TenantService svc # recos) =
     (if svc \<in> set svcs then svc # tenant_recos svcs recos else tenant_recos svcs recos)"
| "tenant_recos svcs (_ # recos) = tenant_recos svcs recos"

definition build_recommendations ::
  "'w op_api \<Rightarrow> instance_obj \<Rightarrow> recommandation list option \<Rightarrow> ('w, reco_context) io" where
  "build_recommendations api inst recos =
     (case in_kind inst of
        Tenant \<Rightarrow>
          io_bind (get_tenant_services_names (oa_kube api) inst) (\<lambda>current_tenant_services.
          let rs = (case recos of None \<Rightarrow> [] | Some rs \<Rightarrow> rs);
              services = sort (tenant_recos current_tenant_services (filter is_tenant_reco rs));
              base = filter (\<lambda>r. \<not> is_tenant_reco r) rs
          in io_bind (build_base_recommendations api (Some base)) (\<lambda>(crds, system_services).
             io_return \<lparr>rc_crds = crds, rc_system_services = system_services, rc_tenant_services = services\<rparr>))
      | _ \<Rightarrow>
          io_bind (build_base_recommendations api recos) (\<lambda>(crds, system_services).
          io_return \<lparr>rc_crds = crds, rc_system_services = system_services, rc_tenant_services = []\<rparr>))"

section \<open>The registry\<close>

text \<open>Indexing a \<open>serde_json::Value\<close> with a string: \<open>Null\<close> when there is no such member.\<close>

definition json_index :: "json \<Rightarrow> string \<Rightarrow> json" where
  "json_index v k =
     (case v of
        JObj m \<Rightarrow> (case obj_get m k of Some x \<Rightarrow> x | None \<Rightarrow> JNull)
      | _ \<Rightarrow> JNull)"

definition splitn2 :: "char \<Rightarrow> string \<Rightarrow> (string \<times> string) option" where
  "splitn2 c s =
     (if c \<in> set s then Some (takeWhile (\<lambda>x. x \<noteq> c) s, tl (dropWhile (\<lambda>x. x \<noteq> c) s)) else None)"

definition auth_of_config :: "'w op_api \<Rightarrow> string \<Rightarrow> string \<Rightarrow> registry_auth result" where
  "auth_of_config api registry raw =
     (case oa_parse_json api raw of
        Inl e \<Rightarrow> Inl (SerializationError e)
      | Inr config \<Rightarrow>
          (let auth_b64 = (case json_index (json_index (json_index config ''auths'') registry) ''auth'' of
                             JStr s \<Rightarrow> s | _ \<Rightarrow> [])
           in if auth_b64 = [] then Inr Anonymous
              else (case oa_b64_decode api auth_b64 of
                      Inl e \<Rightarrow> Inl (Base64DecodeError e)
                    | Inr decoded \<Rightarrow>
                        (if \<not> oa_utf8 api decoded then Inl UTF8
                         else (case splitn2 (CHR '':'') decoded of
                                 Some (user, pass) \<Rightarrow> Inr (Basic user pass)
                               | None \<Rightarrow> Inr Anonymous)))))"

definition resolve_registry_auth ::
  "'w op_api \<Rightarrow> string \<Rightarrow> string \<Rightarrow> string \<Rightarrow> ('w, registry_auth) io" where
  "resolve_registry_auth api secret_name registry ns =
     io_bind (io_kube (oa_secret api secret_name ns)) (\<lambda>secret.
     (case secret of
        None \<Rightarrow> io_return Anonymous
      | Some None \<Rightarrow> io_return Anonymous
      | Some (Some data) \<Rightarrow>
          (case obj_get data ''.dockerconfigjson'' of
             None \<Rightarrow> io_return Anonymous
           | Some raw \<Rightarrow> io_lift (auth_of_config api registry raw))))"

definition verify_tag_in_registry ::
  "'w op_api \<Rightarrow> string \<Rightarrow> string \<Rightarrow> string \<Rightarrow> registry_auth \<Rightarrow> ('w, bool) io" where
  "verify_tag_in_registry api registry img tag auth w =
     (case oa_pull_manifest api registry img tag auth w of
        (ManifestFound, w') \<Rightarrow> (Inr True, w')
      | (ManifestUnknown, w') \<Rightarrow> (Inr False, w')
      | (ManifestError e, w') \<Rightarrow> (Inl (OCIDistrib e), w'))"

definition in_cache :: "instance_obj \<Rightarrow> string \<Rightarrow> package list \<Rightarrow> bool" where
  "in_cache inst requested cached =
     list_ex (\<lambda>p. pm_name (pk_metadata p) = spec_package (in_spec inst) \<and>
       pm_category (pk_metadata p) = spec_category (in_spec inst) \<and>
       pm_usage (pk_metadata p) = in_kind inst \<and> pk_tag p = requested) cached"

definition resolve_init_version ::
  "'w op_api \<Rightarrow> instance_obj \<Rightarrow> package \<Rightarrow> package list \<Rightarrow> string option \<Rightarrow> ('w, string option) io" where
  "resolve_init_version api inst pck cached pull_secret =
     (case init_from_version inst of
        None \<Rightarrow> io_return None
      | Some requested \<Rightarrow>
          if current_tag inst \<noteq> [] then io_return None
          else if in_cache inst requested cached then io_return (Some requested)
          else
            io_bind (case pull_secret of
                       Some secret_name \<Rightarrow>
                         resolve_registry_auth api secret_name (pk_registry pck) (oa_my_ns api)
                     | None \<Rightarrow> io_return Anonymous) (\<lambda>auth.
            io_bind (verify_tag_in_registry api (pk_registry pck) (pk_image pck) requested auth) (\<lambda>exists.
            if exists then io_return (Some requested)
            else io_seq (record_missing_init_version api inst requested)
                   (io_throw (MissingInitVersion requested)))))"

section \<open>Jobs\<close>

definition uid_or_default :: "string option \<Rightarrow> string" where
  "uid_or_default u = (case u of None \<Rightarrow> [] | Some s \<Rightarrow> s)"

definition delete_job_and_wait :: "'w op_api \<Rightarrow> string \<Rightarrow> ('w, unit) io" where
  "delete_job_and_wait api job_name w =
     (case oa_job_delete api job_name w of
        (Inl e, w') \<Rightarrow> (Inr (), w')
      | (Inr None, w') \<Rightarrow> (Inr (), w')
      | (Inr (Some uid), w') \<Rightarrow> io_wait (oa_await_deleted api job_name (uid_or_default uid)) w')"

definition job_gone :: "'w op_api \<Rightarrow> string \<Rightarrow> ('w, unit) io" where
  "job_gone api job_name w =
     (case oa_job_exists api job_name w of
        (Inr True, w') \<Rightarrow> delete_job_and_wait api job_name w'
      | (_, w') \<Rightarrow> (Inr (), w'))"

definition create_job :: "'w op_api \<Rightarrow> json \<Rightarrow> ('w, unit) io" where
  "create_job api job_def =
     (case oa_as_job api job_def of
        Some e \<Rightarrow> io_throw (SerializationError e)
      | None \<Rightarrow> io_kube (oa_job_create api job_def))"

definition recreate_job :: "'w op_api \<Rightarrow> string \<Rightarrow> json \<Rightarrow> ('w, unit) io" where
  "recreate_job api job_name job_def =
     io_bind (io_kube (oa_job_delete api job_name)) (\<lambda>eith.
     io_seq (case eith of
               Some uid \<Rightarrow> io_wait (oa_await_deleted api job_name (uid_or_default uid))
             | None \<Rightarrow> io_return ())
       (create_job api job_def))"

definition upsert_job :: "'w op_api \<Rightarrow> string \<Rightarrow> json \<Rightarrow> ('w, unit) io" where
  "upsert_job api job_name job_def w =
     (case oa_job_patch api job_name job_def w of
        (Inr _, w') \<Rightarrow> (Inr (), w')
      | (Inl e, w') \<Rightarrow> recreate_job api job_name job_def w')"

section \<open>The rendering context\<close>

text \<open>Insertions into the context, in the order of the code.\<close>

definition ctx_put :: "(string \<times> json) list \<Rightarrow> (string \<times> json) list \<Rightarrow> (string \<times> json) list" where
  "ctx_put kvs ctx = fold (\<lambda>(k, v). obj_insert k v) kvs ctx"

definition job_name_of :: "instance_obj \<Rightarrow> string" where
  "job_name_of inst = type_name (in_kind inst) @ ''--'' @ ns_of inst @ ''--'' @ name_any (in_meta inst)"

definition start_context :: "'w op_api \<Rightarrow> instance_obj \<Rightarrow> string \<Rightarrow> (string \<times> json) list" where
  "start_context api inst act =
     ctx_put
       [(''name'', JStr (name_any (in_meta inst))),
        (''namespace'', JStr (ns_of inst)),
        (''package_type'', JStr (type_name (in_kind inst))),
        (''package_action'', JStr act),
        (''job_name'', JStr (job_name_of inst)),
        (''digest'', JStr (get_options_digest (oa_cluster api) inst)),
        (''oci_mount'', JBool False)] (oa_base_context api)"

definition secret_context :: "string option \<Rightarrow> (string \<times> json) list \<Rightarrow> (string \<times> json) list" where
  "secret_context pull_secret ctx =
     (case pull_secret of
        Some ps \<Rightarrow> ctx_put [(''use_secret'', JBool True), (''pull_secret'', JStr ps)] ctx
      | None \<Rightarrow> ctx_put [(''use_secret'', JBool False)] ctx)"

definition image_context :: "string \<Rightarrow> package \<Rightarrow> (string \<times> json) list \<Rightarrow> (string \<times> json) list" where
  "image_context tag pck ctx =
     ctx_put [(''tag'', JStr tag), (''image'', JStr (pk_image pck)), (''registry'', JStr (pk_registry pck))] ctx"

definition reco_put :: "reco_context \<Rightarrow> (string \<times> json) list \<Rightarrow> (string \<times> json) list" where
  "reco_put recos ctx =
     ctx_put
       [(''rec_crds'', JStr (join '','' (rc_crds recos))),
        (''rec_system_services'', JStr (join '','' (rc_system_services recos))),
        (''rec_tenant_services'', JStr (join '','' (rc_tenant_services recos)))] ctx"

definition value_context ::
  "'w op_api \<Rightarrow> instance_obj \<Rightarrow> package \<Rightarrow> (string \<times> json) list \<Rightarrow> ('w, (string \<times> json) list) io" where
  "value_context api inst pck ctx =
     (case pk_value_script pck of
        Some value_script \<Rightarrow>
          (case oa_parse_json api value_script of
             Inr (JStr script) \<Rightarrow>
               io_bind (oa_eval_map_string api inst script) (\<lambda>val.
               io_return (ctx_put [(''ctrl_values'', JStr (oa_debug api val))] ctx))
           | Inr _ \<Rightarrow> io_throw (JsonError ''invalid type, expected a string'')
           | Inl e \<Rightarrow> io_throw (JsonError e))
      | None \<Rightarrow> io_return (ctx_put [(''ctrl_values'', JStr [CHR 0x22, CHR 0x7B, CHR 0x7D, CHR 0x22])] ctx))"

section \<open>Reconciliation\<close>

definition selects :: "'w op_api \<Rightarrow> instance_obj \<Rightarrow> package \<Rightarrow> bool" where
  "selects api inst p \<longleftrightarrow>
     pm_name (pk_metadata p) = spec_package (in_spec inst) \<and>
     pm_category (pk_metadata p) = spec_category (in_spec inst) \<and>
     pm_usage (pk_metadata p) = in_kind inst \<and>
     is_min_version_ok (ka_semver (oa_kube api)) p (current_tag inst) \<and>
     is_vynil_version_ok (ka_semver (oa_kube api)) p"

definition force_reinstall :: "'w op_api \<Rightarrow> instance_obj \<Rightarrow> ('w, unit) io" where
  "force_reinstall api inst =
     (if annotation (in_meta inst) ''vynil.solidite.fr/force-reinstall'' \<noteq> None
      then io_seq (io_kube (oa_remove_annotation api (in_kind inst) (ns_of inst) (name_any (in_meta inst))
                    ''/metadata/annotations/vynil.solidite.fr~1force-reinstall''))
             (job_gone api (job_name_of inst))
      else io_return ())"

text \<open>From the found package to the job.\<close>

definition install :: "'w op_api \<Rightarrow> instance_obj \<Rightarrow> package \<Rightarrow> cache_item \<Rightarrow> ('w, action) io" where
  "install api inst pck item =
     io_bind (resolve_init_version api inst pck (ci_packages item) (ci_pull_secret item)) (\<lambda>resolved.
     let effective_tag = (case resolved of Some v \<Rightarrow> v | None \<Rightarrow> pk_tag pck);
         ctx = image_context effective_tag pck
                 (secret_context (ci_pull_secret item) (start_context api inst ''install''))
     in io_bind (check_requirements api inst (pk_requirements pck)) (\<lambda>refused.
        case refused of
          Some act \<Rightarrow> io_return act
        | None \<Rightarrow>
            io_bind (build_recommendations api inst (pk_recommandations pck)) (\<lambda>recos.
            io_bind (value_context api inst pck (reco_put recos ctx)) (\<lambda>ctx.
            io_seq (force_reinstall api inst)
              (io_bind (io_lift (oa_render api ''{{> package.yaml }}'' (JObj ctx))) (\<lambda>job_def_str.
               io_bind (io_lift (oa_yaml_to_json api job_def_str)) (\<lambda>job_def.
               io_seq (upsert_job api (job_name_of inst) job_def)
                 (io_return (Requeue (15 * 60))))))))))"

definition do_reconcile :: "'w op_api \<Rightarrow> instance_obj \<Rightarrow> package_cache \<Rightarrow> ('w, action) io" where
  "do_reconcile api inst packages =
     (if annotation (in_meta inst) ''vynil.solidite.fr/suspend'' = Some ''true''
      then io_return (Requeue (15 * 60))
      else
        (case obj_get packages (spec_jukebox (in_spec inst)) of
           None \<Rightarrow>
             io_seq (set_missing_box (oa_cluster api) inst (spec_jukebox (in_spec inst)))
               (io_return (Requeue (15 * 60)))
         | Some item \<Rightarrow>
             (case find (selects api inst) (ci_packages item) of
                None \<Rightarrow>
                  io_seq (set_missing_package (oa_cluster api) inst (spec_category (in_spec inst))
                           (spec_package (in_spec inst)))
                    (io_return (Requeue (15 * 60)))
              | Some pck \<Rightarrow> install api inst pck item)))"

section \<open>Cleanup\<close>

definition uninstall :: "'w op_api \<Rightarrow> instance_obj \<Rightarrow> package \<Rightarrow> cache_item \<Rightarrow> ('w, action) io" where
  "uninstall api inst pck item =
     (let ctx = ctx_put [(''rec_crds'', JStr []), (''rec_system_services'', JStr []),
                         (''rec_tenant_services'', JStr [])]
                  (image_context (pk_tag pck) pck
                    (secret_context (ci_pull_secret item) (start_context api inst ''delete'')))
      in io_bind (value_context api inst pck ctx) (\<lambda>ctx.
         io_seq (job_gone api (job_name_of inst))
           (io_bind (io_lift (oa_render api ''{{> package.yaml }}'' (JObj ctx))) (\<lambda>job_def_str.
            io_bind (io_lift (oa_yaml_to_json api job_def_str)) (\<lambda>job_def.
            io_seq (create_job api job_def)
              (io_seq (io_wait (oa_await_completed api (job_name_of inst)))
                 (\<lambda>w. (Inr AwaitChange, snd (oa_job_delete api (job_name_of inst) w)))))))))"

definition do_cleanup :: "'w op_api \<Rightarrow> instance_obj \<Rightarrow> package_cache \<Rightarrow> ('w, action) io" where
  "do_cleanup api inst packages =
     (case obj_get packages (spec_jukebox (in_spec inst)) of
        None \<Rightarrow> io_return AwaitChange
      | Some item \<Rightarrow>
          (case find (selects api inst) (ci_packages item) of
             None \<Rightarrow>
               (if have_child inst
                then io_throw (Other ''This install have child but the package cannot be found'')
                else io_return AwaitChange)
           | Some pck \<Rightarrow> uninstall api inst pck item))"

end
