(* ===== verification/InstanceLaws.thy ===== *)
theory InstanceLaws
  imports Instance
begin

text \<open>
  What the status operations of an instance guarantee. Every operation is one step of an agent
  session: it computes a patch from the agent's copy of the object, the API server merges it into
  the stored object, and the answer becomes the agent's copy. \<open>outcome\<close> is the abstract step all
  operations refine; the invariants of the conditions are proved once for it.
\<close>

section \<open>The operations as data\<close>

datatype inst_op =
    OpAgentStarted | OpMissingBox string | OpMissingPackage string string
  | OpMissingRequirement string | OpMissingInitVersion string
  | OpTfstate string | OpTofuFailed string string | OpRhaistate string | OpRhaiFailed string string
  | OpReady string | OpServices "published list"
  | OpBefores "child list" | OpBeforeFailed string | OpVitals "child list" | OpVitalFailed string
  | OpScalables "child list" | OpScalableFailed string | OpOthers "child list" | OpOtherFailed string
  | OpPosts "child list" | OpPostFailed string | OpInitFailed string | OpScheduleBackupFailed string
  | OpCrds "string list" | OpCrdFailed string | OpSystems "child list" | OpSystemFailed string

text \<open>Which kinds have an operation: the macros each module invokes.\<close>

fun op_of_kind :: "package_type \<Rightarrow> inst_op \<Rightarrow> bool" where
  "op_of_kind k OpAgentStarted = True"
| "op_of_kind k (OpMissingBox _) = True"
| "op_of_kind k (OpMissingPackage _ _) = True"
| "op_of_kind k (OpMissingRequirement _) = True"
| "op_of_kind k (OpTfstate _) = True"
| "op_of_kind k (OpTofuFailed _ _) = True"
| "op_of_kind k (OpRhaistate _) = True"
| "op_of_kind k (OpRhaiFailed _ _) = True"
| "op_of_kind k (OpReady _) = True"
| "op_of_kind k (OpCrds _) = (k \<noteq> Tenant)"
| "op_of_kind k (OpCrdFailed _) = (k \<noteq> Tenant)"
| "op_of_kind k (OpSystems _) = (k = System)"
| "op_of_kind k (OpSystemFailed _) = (k = System)"
| "op_of_kind k _ = (k \<noteq> System)"

fun run_op :: "'w cluster \<Rightarrow> inst_op \<Rightarrow> instance_obj \<Rightarrow> ('w, instance_obj) io" where
  "run_op cl OpAgentStarted self = set_agent_started cl self"
| "run_op cl (OpMissingBox j) self = set_missing_box cl self j"
| "run_op cl (OpMissingPackage c p) self = set_missing_package cl self c p"
| "run_op cl (OpMissingRequirement r) self = set_missing_requirement cl self r"
| "run_op cl (OpMissingInitVersion v) self = set_missing_init_version cl self v"
| "run_op cl (OpTfstate s) self = set_tfstate cl self s"
| "run_op cl (OpTofuFailed s r) self = set_status_tofu_failed cl self s r"
| "run_op cl (OpRhaistate s) self = set_rhaistate cl self s"
| "run_op cl (OpRhaiFailed s r) self = set_status_rhai_failed cl self s r"
| "run_op cl (OpReady t) self =
     (if in_kind self = System then system_set_status_ready cl self t else set_status_ready cl self t)"
| "run_op cl (OpServices ss) self = set_services cl self ss"
| "run_op cl (OpBefores cs) self = set_status_befores cl self cs"
| "run_op cl (OpBeforeFailed r) self = set_status_before_failed cl self r"
| "run_op cl (OpVitals cs) self = set_status_vitals cl self cs"
| "run_op cl (OpVitalFailed r) self = set_status_vital_failed cl self r"
| "run_op cl (OpScalables cs) self = set_status_scalables cl self cs"
| "run_op cl (OpScalableFailed r) self = set_status_scalable_failed cl self r"
| "run_op cl (OpOthers cs) self = set_status_others cl self cs"
| "run_op cl (OpOtherFailed r) self = set_status_other_failed cl self r"
| "run_op cl (OpPosts cs) self = set_status_posts cl self cs"
| "run_op cl (OpPostFailed r) self = set_status_post_failed cl self r"
| "run_op cl (OpInitFailed r) self = set_status_init_failed cl self r"
| "run_op cl (OpScheduleBackupFailed r) self = set_status_schedule_backup_failed cl self r"
| "run_op cl (OpCrds cs) self = set_status_crds cl self cs"
| "run_op cl (OpCrdFailed r) self = set_status_crd_failed cl self r"
| "run_op cl (OpSystems cs) self = set_status_systems cl self cs"
| "run_op cl (OpSystemFailed r) self = set_status_system_failed cl self r"

section \<open>The server\<close>

text \<open>
  A JSON merge patch replaces the members it names and keeps the others. \<open>merge_server\<close> states
  that the API server does so: \<open>obj\<close> is what it stores, an accepted patch stores and answers the
  merged object, a refused patch and an event change nothing.
\<close>

fun apply_field :: "status_field \<Rightarrow> instance_status \<Rightarrow> instance_status" where
  "apply_field (F_conditions cs) s = s\<lparr>st_conditions := cs\<rparr>"
| "apply_field (F_tag t) s = s\<lparr>st_tag := Some t\<rparr>"
| "apply_field (F_digest t) s = s\<lparr>st_digest := Some t\<rparr>"
| "apply_field (F_tfstate t) s = s\<lparr>st_tfstate := Some t\<rparr>"
| "apply_field (F_rhaistate t) s = s\<lparr>st_rhaistate := Some t\<rparr>"
| "apply_field (F_befores t) s = s\<lparr>st_befores := Some t\<rparr>"
| "apply_field (F_vitals t) s = s\<lparr>st_vitals := Some t\<rparr>"
| "apply_field (F_scalables t) s = s\<lparr>st_scalables := Some t\<rparr>"
| "apply_field (F_others t) s = s\<lparr>st_others := Some t\<rparr>"
| "apply_field (F_posts t) s = s\<lparr>st_posts := Some t\<rparr>"
| "apply_field (F_systems t) s = s\<lparr>st_systems := Some t\<rparr>"
| "apply_field (F_crds t) s = s\<lparr>st_crds := Some t\<rparr>"
| "apply_field (F_services t) s = s\<lparr>st_services := Some t\<rparr>"

definition empty_status :: instance_status where
  "empty_status = \<lparr>st_conditions = [], st_tag = None, st_digest = None, st_tfstate = None,
     st_rhaistate = None, st_befores = None, st_vitals = None, st_scalables = None, st_others = None,
     st_posts = None, st_systems = None, st_crds = None, st_services = None\<rparr>"

definition status_of :: "instance_obj \<Rightarrow> instance_status" where
  "status_of o' = (case in_status o' of None \<Rightarrow> empty_status | Some s \<Rightarrow> s)"

definition merged :: "status_field list \<Rightarrow> instance_obj \<Rightarrow> instance_obj" where
  "merged fs o' = o'\<lparr>in_status := Some (fold apply_field fs (status_of o'))\<rparr>"

type_synonym obj_key = "package_type \<times> string \<times> string"

definition merge_server :: "'w cluster \<Rightarrow> ('w \<Rightarrow> obj_key \<Rightarrow> instance_obj option) \<Rightarrow> bool" where
  "merge_server cl obj \<longleftrightarrow>
     (\<forall>k ns n fs w. case cl_patch_status cl k ns n fs w of
         (Inl e, w') \<Rightarrow> obj w' = obj w
       | (Inr r, w') \<Rightarrow> (\<exists>old. obj w (k, ns, n) = Some old \<and> r = merged fs old \<and>
                             obj w' = (obj w)((k, ns, n) \<mapsto> r))) \<and>
     (\<forall>self ev w. obj (snd (cl_publish cl self ev w)) = obj w)"

definition key_of :: "instance_obj \<Rightarrow> obj_key option" where
  "key_of o' = (case (md_namespace (in_meta o'), md_name (in_meta o')) of
                  (Some ns, Some n) \<Rightarrow> Some (in_kind o', ns, n) | _ \<Rightarrow> None)"

section \<open>The abstract step\<close>

definition conds :: "instance_obj \<Rightarrow> cond_type condition list" where
  "conds self = st_conditions (status_of self)"

text \<open>
  \<open>outcome cl self P w r w'\<close>: either nothing was sent, and a success returns the copy unchanged;
  or a patch satisfying \<open>P\<close> was sent to the object and refused; or it was accepted, at most an event
  followed, and a success returns the server's answer.
\<close>

inductive outcome ::
  "'w cluster \<Rightarrow> instance_obj \<Rightarrow> (status_field list \<Rightarrow> bool) \<Rightarrow> 'w \<Rightarrow> instance_obj result \<Rightarrow> 'w \<Rightarrow> bool"
  for cl self P w where
  unchanged: "r = Inr self \<or> (\<exists>e. r = Inl e) \<Longrightarrow> outcome cl self P w r w"
| refused: "key_of self = Some (k, ns, n) \<Longrightarrow> P fs \<Longrightarrow>
     cl_patch_status cl k ns n fs w = (Inl e, w') \<Longrightarrow> outcome cl self P w (Inl (KubeError e)) w'"
| accepted: "key_of self = Some (k, ns, n) \<Longrightarrow> P fs \<Longrightarrow>
     cl_patch_status cl k ns n fs w = (Inr a, w1) \<Longrightarrow>
     w' = w1 \<or> (\<exists>ev. w' = snd (cl_publish cl self ev w1)) \<Longrightarrow>
     r = Inr a \<or> (\<exists>e. r = Inl e) \<Longrightarrow> outcome cl self P w r w'"

lemma get_conditions_excluding_conds [simp]:
  "get_conditions_excluding self ex = excluding ex (conds self)"
  by (auto simp: get_conditions_excluding_def conds_def status_of_def empty_status_def
      split: option.splits)

lemma send_event_world: "send_event cl self ev w = (r, w') \<Longrightarrow> w' = snd (cl_publish cl self ev w)"
  by (auto simp: send_event_def split: prod.splits sum.splits kube_error.splits)

text \<open>The patch, then whatever follows it without a second patch.\<close>

lemma patch_outcome:
  assumes "P fs"
    and "io_bind (patch_status cl self fs) f w = (r, w')"
    and "\<And>a w1 r w'. f a w1 = (r, w') \<Longrightarrow>
           (w' = w1 \<or> (\<exists>ev. w' = snd (cl_publish cl self ev w1))) \<and> (r = Inr a \<or> (\<exists>e. r = Inl e))"
  shows "outcome cl self P w r w'"
proof (cases "key_of self")
  case None
  then have "r \<in> range Inl \<and> w' = w"
    using assms(2)
    by (auto simp: key_of_def patch_status_def io_bind_def io_lift_def unwrap_def
        split: option.splits)
  then show ?thesis by (auto intro: outcome.unchanged)
next
  case (Some key)
  then obtain k ns n where key: "key_of self = Some (k, ns, n)" by (cases key) auto
  then have k: "k = in_kind self" "md_namespace (in_meta self) = Some ns" "md_name (in_meta self) = Some n"
    by (auto simp: key_of_def split: option.splits)
  obtain x w1 where x: "cl_patch_status cl k ns n fs w = (x, w1)" by fastforce
  show ?thesis
  proof (cases x)
    case (Inl e)
    with x k assms(2) have "r = Inl (KubeError e) \<and> w' = w1"
      by (simp add: patch_status_def io_bind_def io_lift_def io_kube_def)
    with x Inl key assms(1) show ?thesis by (auto intro: outcome.refused)
  next
    case (Inr a)
    with x k assms(2) have "f a w1 = (r, w')"
      by (simp add: patch_status_def io_bind_def io_lift_def io_kube_def)
    from assms(3) [OF this] x Inr key assms(1) show ?thesis by (auto intro: outcome.accepted)
  qed
qed

lemma tell_result:
  assumes "io_seq (send_event cl self ev) (io_return a) w1 = (r, w')"
  shows "(w' = w1 \<or> (\<exists>ev. w' = snd (cl_publish cl self ev w1))) \<and> (r = Inr a \<or> (\<exists>e. r = Inl e))"
  using assms send_event_world [of cl self ev w1]
  by (auto simp: io_seq_def io_bind_def io_return_def split: prod.splits sum.splits)

lemma noted_result:
  assumes "io_bind (io_lift x) (\<lambda>n. io_seq (send_event cl self (ev n)) (io_return a)) w1 = (r, w')"
  shows "(w' = w1 \<or> (\<exists>ev. w' = snd (cl_publish cl self ev w1))) \<and> (r = Inr a \<or> (\<exists>e. r = Inl e))"
proof (cases x)
  case (Inl e)
  with assms show ?thesis by (auto simp: io_bind_def io_lift_def)
next
  case (Inr n)
  with assms have "io_seq (send_event cl self (ev n)) (io_return a) w1 = (r, w')"
    by (simp add: io_bind_def io_lift_def)
  then show ?thesis by (rule tell_result)
qed

lemma clock_bind [io_simps]: "io_bind (clock cl) f w = f (cl_now cl w) w"
  by (simp add: clock_def io_bind_def)

lemma patch_and_tell_outcome:
  "P fs \<Longrightarrow> patch_and_tell cl self fs ev w = (r, w') \<Longrightarrow> outcome cl self P w r w'"
  unfolding patch_and_tell_def by (rule patch_outcome) (auto dest: tell_result)

lemma status_failed_outcome:
  assumes "\<And>now. P (F_conditions (failed_conditions now self (ko now reason (generation self)) reason) # extra)"
    and "status_failed cl self ko reason extra rsn act w = (r, w')"
  shows "outcome cl self P w r w'"
  using assms(2) unfolding status_failed_def clock_bind
  by (rule patch_outcome [where P = P, OF assms(1)]) (erule noted_result)

lemma status_applied_outcome:
  assumes "\<And>now. P [F_conditions (excluding [condition_type (ok now (generation self))] (conds self) @
                     [ok now (generation self)]), field]"
    and "status_applied cl self ok field rsn note act w = (r, w')"
  shows "outcome cl self P w r w'"
  using assms(2) unfolding status_applied_def clock_bind Let_def get_conditions_excluding_conds
  by (rule patch_and_tell_outcome [where P = P, OF assms(1)])

lemma status_once_outcome:
  assumes "\<And>now. P [F_conditions (excluding [condition_type (mk now)] (conds self) @ [mk now])]"
    and "status_once cl self mk note ty rsn has_note act w = (r, w')"
  shows "outcome cl self P w r w'"
proof (cases "have_condition self (mk (cl_now cl w))")
  case True
  with assms(2) have "r = Inr self \<and> w' = w"
    by (simp add: status_once_def io_simps Let_def)
  then show ?thesis by (auto intro: outcome.unchanged)
next
  case False
  with assms(2) show ?thesis
    unfolding status_once_def clock_bind Let_def get_conditions_excluding_conds
    by (simp only: if_True not_False_eq_True)
       (rule patch_outcome [where P = P, OF assms(1)], assumption, erule noted_result)
qed

section \<open>What every patch respects\<close>

definition kind_types :: "package_type \<Rightarrow> cond_type list" where
  "kind_types k = (case k of Tenant \<Rightarrow> tenant_condition_types
                   | Service \<Rightarrow> service_condition_types | System \<Rightarrow> system_condition_types)"

text \<open>The fields of the status struct of each kind.\<close>

fun field_ok :: "package_type \<Rightarrow> status_field \<Rightarrow> bool" where
  "field_ok k (F_systems _) = (k = System)"
| "field_ok k (F_crds _) = (k \<noteq> Tenant)"
| "field_ok k (F_befores _) = (k \<noteq> System)"
| "field_ok k (F_vitals _) = (k \<noteq> System)"
| "field_ok k (F_scalables _) = (k \<noteq> System)"
| "field_ok k (F_others _) = (k \<noteq> System)"
| "field_ok k (F_posts _) = (k \<noteq> System)"
| "field_ok k (F_services _) = (k \<noteq> System)"
| "field_ok k _ = True"

text \<open>
  Well-formed conditions: at most one of each type, only types the kind declares, and a \<open>Ready\<close>
  condition whenever there is an \<open>Installed\<close> one.
\<close>

definition conds_ok :: "package_type \<Rightarrow> cond_type condition list \<Rightarrow> bool" where
  "conds_ok k cs \<longleftrightarrow> distinct (types cs) \<and> set (types cs) \<subseteq> set (kind_types k) \<and>
     (Installed \<in> set (types cs) \<longrightarrow> Ready \<in> set (types cs))"

definition good_conditions :: "package_type \<Rightarrow> instance_obj \<Rightarrow> bool \<Rightarrow> cond_type condition list \<Rightarrow> bool" where
  "good_conditions k self tagged cs \<longleftrightarrow>
     (conds_ok k (conds self) \<longrightarrow> conds_ok k cs) \<and>
     (is_true Ready cs \<longleftrightarrow> is_true Ready (conds self) \<or> tagged)"

fun is_tag :: "status_field \<Rightarrow> bool" where
  "is_tag (F_tag _) = True" | "is_tag _ = False"

fun is_conditions :: "status_field \<Rightarrow> bool" where
  "is_conditions (F_conditions _) = True" | "is_conditions _ = False"

text \<open>
  A patch has the fields of the kind only, and starts with its conditions if it has any; these are
  well-formed when the copy's are, and \<open>Ready\<close> is true in them if and only if it was true in the copy
  or the patch records a tag.
\<close>

fun good_patch :: "package_type \<Rightarrow> instance_obj \<Rightarrow> status_field list \<Rightarrow> bool" where
  "good_patch k self (F_conditions cs # fs) =
     (good_conditions k self (list_ex is_tag fs) cs \<and> list_all (field_ok k) fs \<and>
      \<not> list_ex is_conditions fs)"
| "good_patch k self fs = (list_all (field_ok k) fs \<and> \<not> list_ex is_conditions fs \<and> \<not> list_ex is_tag fs)"

lemma good_applied:
  assumes "condition_type c = t" and "t \<in> set (kind_types k)"
    and "t \<noteq> Ready" and "t \<noteq> Installed"
  shows "good_conditions k self False (excluding [t] (conds self) @ [c])"
  using assms by (auto simp: good_conditions_def conds_ok_def)

lemma good_failed:
  assumes "condition_type ko \<in> set (kind_types k)"
    and "condition_type ko \<notin> {Ready, Installed, AgentStarted}"
  shows "good_conditions k self False (failed_conditions now self ko reason)"
proof -
  have kt: "Ready \<in> set (kind_types k)" "Installed \<in> set (kind_types k)"
    by (cases k; simp add: kind_types_def tenant_condition_types_def service_condition_types_def
        system_condition_types_def)+
  show ?thesis
    using assms kt
    by (auto simp: good_conditions_def conds_ok_def failed_conditions_def push_ready_ko_def
        has_type_iff ready_ko_def installed_ko_def)
qed

lemma good_ready:
  assumes "Ready \<in> set ex" and "Installed \<in> set ex"
  shows "good_conditions k self True (excluding ex (conds self) @ [ready_ok now g, installed_ok now g])"
proof -
  have kt: "Ready \<in> set (kind_types k)" "Installed \<in> set (kind_types k)"
    by (cases k; simp add: kind_types_def tenant_condition_types_def service_condition_types_def
        system_condition_types_def)+
  show ?thesis
    using assms kt by (auto simp: good_conditions_def conds_ok_def ready_ok_def installed_ok_def)
qed

section \<open>Every operation is an abstract step\<close>

lemmas kind_type_defs =
  kind_types_def tenant_condition_types_def service_condition_types_def system_condition_types_def

lemmas op_defs =
  set_agent_started_def set_missing_box_def set_missing_package_def set_missing_requirement_def
  set_missing_init_version_def set_status_befores_def set_status_before_failed_def
  set_status_vitals_def set_status_vital_failed_def set_status_scalables_def
  set_status_scalable_failed_def set_status_others_def set_status_other_failed_def
  set_status_posts_def set_status_post_failed_def set_status_init_failed_def
  set_status_schedule_backup_failed_def set_status_crds_def set_status_crd_failed_def
  set_status_systems_def set_status_system_failed_def

lemma applied_outcome:
  assumes "status_applied cl self ok field rsn note act w = (r, w')"
    and "\<And>now g. condition_type (ok now g) = condition_type (ok 0 0)"
    and "condition_type (ok 0 0) \<in> set (kind_types k) - {Ready, Installed}"
    and "field_ok k field" and "\<not> is_tag field" and "\<not> is_conditions field"
  shows "outcome cl self (good_patch k self) w r w'"
proof (rule status_applied_outcome [OF _ assms(1)])
  fix now
  have "good_conditions k self False (excluding [condition_type (ok now (generation self))] (conds self) @
          [ok now (generation self)])"
    by (rule good_applied [OF refl])
       (use assms(2) [of now "generation self"] assms(3) in auto)
  with assms(4-6) show "good_patch k self [F_conditions (excluding
      [condition_type (ok now (generation self))] (conds self) @ [ok now (generation self)]), field]"
    by simp
qed

lemma failed_outcome:
  assumes "status_failed cl self ko reason extra rsn act w = (r, w')"
    and "\<And>now m g. condition_type (ko now m g) = condition_type (ko 0 [] 0)"
    and "condition_type (ko 0 [] 0) \<in> set (kind_types k) - {Ready, Installed, AgentStarted}"
    and "list_all (\<lambda>f. field_ok k f \<and> \<not> is_tag f \<and> \<not> is_conditions f) extra"
  shows "outcome cl self (good_patch k self) w r w'"
proof (rule status_failed_outcome [OF _ assms(1)])
  fix now
  have "\<not> list_ex is_tag extra" "list_all (field_ok k) extra" "\<not> list_ex is_conditions extra"
    using assms(4) by (auto simp: list_all_iff list_ex_iff)
  moreover have "good_conditions k self False
      (failed_conditions now self (ko now reason (generation self)) reason)"
    using assms(2) [of now reason "generation self"] assms(3) by (intro good_failed) auto
  ultimately show "good_patch k self
      (F_conditions (failed_conditions now self (ko now reason (generation self)) reason) # extra)"
    by simp
qed

lemma once_outcome:
  assumes "status_once cl self mk note ty rsn has_note act w = (r, w')"
    and "\<And>now. condition_type (mk now) = condition_type (mk 0)"
    and "condition_type (mk 0) \<in> set (kind_types k) - {Ready, Installed}"
  shows "outcome cl self (good_patch k self) w r w'"
proof (rule status_once_outcome [OF _ assms(1)])
  fix now
  have "good_conditions k self False (excluding [condition_type (mk now)] (conds self) @ [mk now])"
    by (rule good_applied [OF refl]) (use assms(2) [of now] assms(3) in auto)
  then show "good_patch k self [F_conditions (excluding [condition_type (mk now)] (conds self) @ [mk now])]"
    by simp
qed

lemma ready_outcome:
  assumes "patch_and_tell cl self [F_conditions (excluding ex (conds self) @
             [ready_ok now g, installed_ok now g]), F_tag t, F_digest d] ev w = (r, w')"
    and "Ready \<in> set ex" and "Installed \<in> set ex"
  shows "outcome cl self (good_patch k self) w r w'"
  using assms good_ready by (intro patch_and_tell_outcome [OF _ assms(1)]) simp

lemma encoded_outcome:
  assumes "io_bind (io_lift x) f w = (r, w')"
    and "\<And>y. f y w = (r, w') \<Longrightarrow> outcome cl self P w r w'"
  shows "outcome cl self P w r w'"
  using assms by (cases x) (auto simp: io_bind_def io_lift_def intro: outcome.unchanged)

lemma run_op_outcome:
  assumes "op_of_kind (in_kind self) op" and run: "run_op cl op self w = (r, w')"
  shows "outcome cl self (good_patch (in_kind self) self) w r w'"
proof (cases op)
  case (OpTfstate s)
  with run show ?thesis
    by (simp add: set_tfstate_def)
       (erule encoded_outcome, erule applied_outcome;
        cases "in_kind self"; simp add: tofu_ok_def kind_type_defs)
next
  case (OpTofuFailed s m)
  with run show ?thesis
    by (simp add: set_status_tofu_failed_def)
       (erule encoded_outcome, erule failed_outcome;
        cases "in_kind self"; simp add: tofu_ko_def kind_type_defs)
next
  case (OpRhaistate s)
  with run show ?thesis
    by (simp add: set_rhaistate_def)
       (erule encoded_outcome, erule applied_outcome;
        cases "in_kind self"; simp add: rhai_ok_def kind_type_defs)
next
  case (OpRhaiFailed s m)
  with run show ?thesis
    by (simp add: set_status_rhai_failed_def)
       (erule encoded_outcome, erule failed_outcome;
        cases "in_kind self"; simp add: rhai_ko_def kind_type_defs)
next
  case (OpReady t)
  with run show ?thesis
    by (auto simp: set_status_ready_def system_set_status_ready_def io_simps Let_def
        split: if_splits intro: ready_outcome)
next
  case (OpServices ss)
  with run assms(1) show ?thesis
    unfolding OpServices run_op.simps set_services_def
    by (intro patch_outcome [of _ "[F_services ss]", where f = "\<lambda>result. io_return result"])
       (auto simp: io_return_def)
qed (insert assms, cases "in_kind self";
      simp add: op_defs;
      (erule applied_outcome | erule failed_outcome | erule once_outcome);
      simp add: condition_defs kind_type_defs)+

section \<open>Well-formed objects\<close>

fun fields_of_kind :: "package_type \<Rightarrow> instance_status \<Rightarrow> bool" where
  "fields_of_kind Tenant s = (st_systems s = None \<and> st_crds s = None)"
| "fields_of_kind Service s = (st_systems s = None)"
| "fields_of_kind System s =
     (st_befores s = None \<and> st_vitals s = None \<and> st_scalables s = None \<and> st_others s = None \<and>
      st_posts s = None \<and> st_services s = None)"

text \<open>
  A well-formed object: well-formed conditions, only the status fields of its kind, and a recorded
  tag whenever it says it is ready.
\<close>

definition obj_ok :: "instance_obj \<Rightarrow> bool" where
  "obj_ok o' \<longleftrightarrow> conds_ok (in_kind o') (conds o') \<and> fields_of_kind (in_kind o') (status_of o') \<and>
     (is_true Ready (conds o') \<longrightarrow> st_tag (status_of o') \<noteq> None)"

lemma fold_conditions: "\<not> list_ex is_conditions fs \<Longrightarrow> st_conditions (fold apply_field fs s) = st_conditions s"
proof (induction fs arbitrary: s)
  case (Cons f fs)
  then show ?case by (cases f) auto
qed simp

lemma fold_tag: "st_tag (fold apply_field fs s) \<noteq> None \<longleftrightarrow> list_ex is_tag fs \<or> st_tag s \<noteq> None"
proof (induction fs arbitrary: s)
  case (Cons f fs)
  then show ?case by (cases f) auto
qed simp

lemma fold_fields:
  "list_all (field_ok k) fs \<Longrightarrow> fields_of_kind k s \<Longrightarrow> fields_of_kind k (fold apply_field fs s)"
proof (induction fs arbitrary: s)
  case (Cons f fs)
  then have "fields_of_kind k (apply_field f s)" by (cases f; cases k) auto
  with Cons show ?case by simp
qed simp

lemma merged_simps [simp]:
  "in_kind (merged fs o') = in_kind o'" "in_meta (merged fs o') = in_meta o'"
  "in_spec (merged fs o') = in_spec o'" "key_of (merged fs o') = key_of o'"
  "generation (merged fs o') = generation o'"
  "status_of (merged fs o') = fold apply_field fs (status_of o')"
  by (simp_all add: merged_def key_of_def generation_def status_of_def split: option.split)

lemma conds_merged:
  assumes "good_patch k self fs"
  shows "conds (merged fs old) =
           (case fs of F_conditions cs # _ \<Rightarrow> cs | _ \<Rightarrow> conds old)"
proof (cases "\<exists>cs fs'. fs = F_conditions cs # fs'")
  case True
  with assms show ?thesis by (auto simp: conds_def fold_conditions)
next
  case False
  then have "\<not> list_ex is_conditions fs"
    using assms by (cases fs rule: list.exhaust; cases "hd fs") auto
  with False show ?thesis
    by (cases fs; cases "hd fs") (auto simp: conds_def fold_conditions)
qed

lemma merged_ok:
  assumes "good_patch (in_kind old) self fs" and "obj_ok old"
    and "conds_ok (in_kind old) (conds self)"
    and "is_true Ready (conds self) \<longrightarrow> st_tag (status_of old) \<noteq> None"
  shows "obj_ok (merged fs old)"
proof (cases "\<exists>cs fs'. fs = F_conditions cs # fs'")
  case True
  then obtain cs fs' where fs: "fs = F_conditions cs # fs'" by blast
  have "conds (merged fs old) = cs"
    using conds_merged [OF assms(1), of old] fs by simp
  moreover have "fields_of_kind (in_kind old) (fold apply_field fs (status_of old))"
    using assms(1,2) fs by (intro fold_fields) (auto simp: obj_ok_def)
  ultimately show ?thesis
    using assms fs unfolding obj_ok_def
    by (simp add: good_conditions_def fold_tag del: not_None_eq fold_simps)
next
  case False
  then have c: "conds (merged fs old) = conds old"
    using conds_merged [OF assms(1), of old] by (simp split: list.split status_field.split)
  have "list_all (field_ok (in_kind old)) fs"
    using assms(1) False by (cases fs; cases "hd fs") auto
  then have "fields_of_kind (in_kind old) (fold apply_field fs (status_of old))"
    using assms(2) by (intro fold_fields) (auto simp: obj_ok_def)
  with c assms(2) show ?thesis
    unfolding obj_ok_def by (simp add: fold_tag del: not_None_eq)
qed

lemma merged_ready:
  assumes "good_patch (in_kind self) self fs" and "is_true Ready (conds self)"
  shows "is_true Ready (conds (merged fs self))"
  using assms conds_merged [OF assms(1), of self]
  by (cases fs; cases "hd fs") (auto simp: good_conditions_def)

section \<open>Sessions\<close>

text \<open>
  A session of an agent: a sequence of successful operations of the object's kind, each on the copy
  the previous one answered.
\<close>

inductive op_step :: "'w cluster \<Rightarrow> instance_obj \<times> 'w \<Rightarrow> instance_obj \<times> 'w \<Rightarrow> bool"
  for cl where
  op_stepI: "op_of_kind (in_kind self) op \<Longrightarrow> run_op cl op self w = (Inr self', w') \<Longrightarrow>
     op_step cl (self, w) (self', w')"

inductive_cases op_stepE: "op_step cl (self, w) t"

abbreviation session :: "'w cluster \<Rightarrow> instance_obj \<times> 'w \<Rightarrow> instance_obj \<times> 'w \<Rightarrow> bool" where
  "session cl \<equiv> (op_step cl)\<^sup>*\<^sup>*"

lemma merge_server_accepted:
  assumes "merge_server cl obj" and "cl_patch_status cl k ns n fs w = (Inr r, w')"
  obtains old where "obj w (k, ns, n) = Some old" and "r = merged fs old"
    and "obj w' = (obj w)((k, ns, n) \<mapsto> r)"
  using assms unfolding merge_server_def by (auto split: prod.splits sum.splits) (metis old.sum.simps(6))

lemma merge_server_refused:
  assumes "merge_server cl obj" and "cl_patch_status cl k ns n fs w = (Inl e, w')"
  shows "obj w' = obj w"
  using assms unfolding merge_server_def
  by (auto split: prod.splits sum.splits) (metis old.sum.simps(5))

lemma merge_server_publish: "merge_server cl obj \<Longrightarrow> obj (snd (cl_publish cl self ev w)) = obj w"
  by (simp add: merge_server_def)

text \<open>One operation on a copy that agrees with the server.\<close>

lemma synced_step:
  assumes srv: "merge_server cl obj" and key: "key_of self = Some key" and syn: "obj w key = Some self"
    and ok: "obj_ok self" and op: "op_of_kind (in_kind self) op" and run: "run_op cl op self w = (r, w')"
  shows "\<exists>o'. obj w' key = Some o' \<and> key_of o' = Some key \<and> obj_ok o' \<and> in_kind o' = in_kind self \<and>
           (is_true Ready (conds self) \<longrightarrow> is_true Ready (conds o')) \<and> (\<forall>a. r = Inr a \<longrightarrow> a = o')"
  using run_op_outcome [OF op run]
proof cases
  case unchanged
  with key syn ok show ?thesis by auto
next
  case (refused k ns n fs e)
  with merge_server_refused [OF srv refused(4)] key syn ok show ?thesis by auto
next
  case (accepted k ns n fs a w1)
  from srv accepted(3) obtain old where
    o1: "obj w (k, ns, n) = Some old" "a = merged fs old" "obj w1 = (obj w)((k, ns, n) \<mapsto> a)"
    by (rule merge_server_accepted)
  have k: "key = (k, ns, n)" using key accepted(1) by simp
  with o1 syn have old: "old = self" by simp
  have w': "obj w' = obj w1"
    using accepted(4) merge_server_publish [OF srv] by auto
  have "obj_ok (merged fs self)"
    using ok by (intro merged_ok [OF accepted(2)]) (auto simp: obj_ok_def)
  moreover have "is_true Ready (conds self) \<longrightarrow> is_true Ready (conds (merged fs self))"
    using merged_ready [OF accepted(2)] by blast
  ultimately show ?thesis
    using accepted(5) o1 w' k old key by auto
qed

definition synced :: "'w cluster \<Rightarrow> ('w \<Rightarrow> obj_key \<Rightarrow> instance_obj option) \<Rightarrow> obj_key \<Rightarrow> instance_obj \<times> 'w \<Rightarrow> bool" where
  "synced cl obj key s \<longleftrightarrow> merge_server cl obj \<and> key_of (fst s) = Some key \<and>
     obj (snd s) key = Some (fst s) \<and> obj_ok (fst s)"

interpretation inst: ready_system "op_step cl" "synced cl obj key" "\<lambda>s. is_true Ready (conds (fst s))"
proof
  fix s t :: "instance_obj \<times> 'a"
  obtain self w where s: "s = (self, w)" by (cases s)
  assume "op_step cl s t" and inv: "synced cl obj key s"
  then obtain op self' w' where op: "op_of_kind (in_kind self) op" "run_op cl op self w = (Inr self', w')"
      and t: "t = (self', w')"
    unfolding s by (auto elim: op_stepE)
  have "merge_server cl obj" "key_of self = Some key" "obj w key = Some self" "obj_ok self"
    using inv by (simp_all add: synced_def s)
  note st = synced_step [OF this op]
  with inv show "synced cl obj key t" by (auto simp: synced_def t)
  assume "is_true Ready (conds (fst s))"
  with st show "is_true Ready (conds (fst t))" by (auto simp: s t)
qed

text \<open>The setters that patch and tell, on a copy that agrees with the server.\<close>

lemma patch_and_tell_synced:
  assumes "merge_server cl obj" and "key_of self = Some key" and "obj w key = Some self"
    and "patch_and_tell cl self fs ev w = (Inr r, w')"
  shows "r = merged fs self \<and> obj w' key = Some r"
proof -
  from assms(4) [unfolded patch_and_tell_def] obtain a w1
    where pa: "patch_status cl self fs w = (Inr a, w1)"
      and ta: "io_seq (send_event cl self ev) (io_return a) w1 = (Inr r, w')"
    by (rule io_bind_InrE)
  from tell_result [OF ta] have "a = r" by auto
  with pa ta have p: "patch_status cl self fs w = (Inr r, w1)"
      and t: "io_seq (send_event cl self ev) (io_return r) w1 = (Inr r, w')" by simp_all
  obtain k ns n where key: "key = (k, ns, n)" by (cases key)
  with assms(2) have "k = in_kind self" "md_namespace (in_meta self) = Some ns" "md_name (in_meta self) = Some n"
    by (auto simp: key_of_def split: option.splits)
  with p have acc: "cl_patch_status cl k ns n fs w = (Inr r, w1)"
    by (simp add: patch_status_def io_bind_def io_lift_def io_kube_def split: prod.splits sum.splits)
  obtain old where old: "obj w (k, ns, n) = Some old" "r = merged fs old"
      "obj w1 = (obj w)((k, ns, n) \<mapsto> r)"
    by (rule merge_server_accepted [OF assms(1) acc])
  have "obj w' = obj w1"
    using tell_result [OF t] by (elim conjE disjE exE) (simp_all add: merge_server_publish [OF assms(1)])
  with old assms(3) key show ?thesis by simp
qed

section \<open>A concrete cluster for the examples\<close>

text \<open>A store of objects with a list of published events; compression and encoding are tagged copies.\<close>

record ref_world =
  rw_obj :: "obj_key \<Rightarrow> instance_obj option"
  rw_events :: "event list"

definition ref_cluster :: "ref_world cluster" where
  "ref_cluster =
     \<lparr>cl_now = (\<lambda>w. int (length (rw_events w))),
      cl_patch_status = (\<lambda>k ns n fs w.
        case rw_obj w (k, ns, n) of
          None \<Rightarrow> (Inl (KApi ''not found''), w)
        | Some old \<Rightarrow> (Inr (merged fs old), w\<lparr>rw_obj := (rw_obj w)((k, ns, n) \<mapsto> merged fs old)\<rparr>)),
      cl_publish = (\<lambda>self ev w. (Inr (), w\<lparr>rw_events := rw_events w @ [ev]\<rparr>)),
      cl_gzip = (\<lambda>s. Inr (''gz:'' @ s)), cl_gunzip = (\<lambda>s. Inr (drop 3 s)),
      cl_b64_encode = (\<lambda>s. ''b64:'' @ s), cl_b64_decode = (\<lambda>s. Inr (drop 4 s)),
      cl_sha256 = (\<lambda>s. s), cl_json = (\<lambda>j. ''json'')\<rparr>"

lemma ref_server: "merge_server ref_cluster rw_obj"
  unfolding merge_server_def ref_cluster_def by (auto split: option.splits)

definition demo_instance :: instance_obj where
  "demo_instance =
     \<lparr>in_kind = Tenant,
      in_meta = \<lparr>md_name = Some ''test'', md_generate_name = None, md_namespace = Some ''default'', md_uid = Some ''u1'',
                 md_generation = Some 2, md_annotations = []\<rparr>,
      in_spec = \<lparr>spec_jukebox = ''jb'', spec_category = ''cat'', spec_package = ''pkg'',
                 spec_init_from = None, spec_options = None\<rparr>,
      in_status = None\<rparr>"

definition demo_obj_key :: obj_key where
  "demo_obj_key = (Tenant, ''default'', ''test'')"

definition demo_world :: ref_world where
  "demo_world = \<lparr>rw_obj = [demo_obj_key \<mapsto> demo_instance], rw_events = []\<rparr>"

lemma demo_ok:
  "key_of demo_instance = Some demo_obj_key" "rw_obj demo_world demo_obj_key = Some demo_instance"
  "obj_ok demo_instance" "in_kind demo_instance = Tenant" "generation demo_instance = 2"
  by (simp_all add: demo_instance_def demo_obj_key_def demo_world_def key_of_def obj_ok_def conds_def
      status_of_def empty_status_def conds_ok_def generation_def)

lemma ref_patch:
  assumes "key_of self = Some key" and "rw_obj w key = Some old"
  shows "patch_status ref_cluster self fs w =
           (Inr (merged fs old), w\<lparr>rw_obj := (rw_obj w)(key \<mapsto> merged fs old)\<rparr>)"
  using assms
  by (auto simp: patch_status_def io_bind_def io_lift_def io_kube_def ref_cluster_def key_of_def
      split: option.splits)

lemma ref_send [simp]:
  "send_event ref_cluster self ev w = (Inr (), w\<lparr>rw_events := rw_events w @ [ev]\<rparr>)"
  by (simp add: send_event_def ref_cluster_def)

lemma ref_tell:
  assumes "key_of self = Some key" and "rw_obj w key = Some old"
  shows "patch_and_tell ref_cluster self fs ev w =
           (Inr (merged fs old), w\<lparr>rw_obj := (rw_obj w)(key \<mapsto> merged fs old),
                                  rw_events := rw_events w @ [ev]\<rparr>)"
  using ref_patch [OF assms]
  by (simp add: patch_and_tell_def io_bind_def io_seq_def io_return_def)

lemma demo_have [simp]: "\<not> have_condition demo_instance c"
  by (simp add: have_condition_def demo_instance_def)

lemma demo_started:
  "\<exists>a w. set_agent_started ref_cluster demo_instance demo_world = (Inr a, w) \<and> rw_events w \<noteq> []"
  using ref_patch [OF demo_ok(1,2)]
  by (simp add: set_agent_started_def status_once_def clock_def Let_def io_bind_def
      io_seq_def io_return_def io_lift_def)

section \<open>The properties\<close>

text \<open>C3: along any session of status operations on an object the server merges patches into, the
  agent's copy and the stored object stay equal and well-formed: one condition per type, only the
  types and fields of the kind, a Ready condition beside every Installed one, a recorded tag when
  ready; and an instance that became ready stays ready.\<close>

theorem session_keeps_instance_ok:
  assumes "merge_server cl obj" and "session cl (self0, w0) (self, w)"
    and "key_of self0 = Some key" and "obj w0 key = Some self0" and "obj_ok self0"
  shows "obj w key = Some self \<and> obj_ok self \<and>
         (is_true Ready (conds self0) \<longrightarrow> is_true Ready (conds self))"
proof -
  have s: "synced cl obj key (self0, w0)" using assms by (simp add: synced_def)
  show ?thesis
    using inst.reach_inv [OF assms(2) s] inst.reach_ready [OF assms(2) s] by (auto simp: synced_def)
qed

theorem session_keeps_instance_ok_witness:
  "\<exists>self w. session ref_cluster (demo_instance, demo_world) (self, w) \<and> w \<noteq> demo_world \<and>
     rw_obj w demo_obj_key = Some self \<and> obj_ok self"
proof -
  obtain a w where aw: "set_agent_started ref_cluster demo_instance demo_world = (Inr a, w)"
      and "rw_events w \<noteq> []"
    using demo_started by blast
  have s: "session ref_cluster (demo_instance, demo_world) (a, w)"
    using aw by (intro r_into_rtranclp op_stepI [where op = OpAgentStarted]) simp_all
  have "w \<noteq> demo_world" using \<open>rw_events w \<noteq> []\<close> by (auto simp: demo_world_def)
  with session_keeps_instance_ok [OF ref_server s demo_ok(1-3)] s show ?thesis by blast
qed


definition panicking_reason :: string where
  "panicking_reason = replicate 1022 (CHR ''e'') @ [CHR 0xC3, CHR 0xA9]"

lemma panicking_note: "str_truncate 1023 panicking_reason = None"
  by (simp add: str_truncate_def panicking_reason_def nth_append is_continuation_def)

lemma vital_failed_panics:
  assumes "key_of self = Some key" and "rw_obj w key = Some old" and "str_truncate 1023 reason = None"
  shows "\<exists>e w'. set_status_vital_failed ref_cluster self reason w = (Inl (Panicked e), w') \<and>
                rw_events w' = rw_events w"
  using ref_patch [OF assms(1,2)] assms(3)
  by (simp add: set_status_vital_failed_def status_failed_def clock_def io_bind_def io_lift_def
      truncated_note_def)




text \<open>The conditions the operator writes when it cannot start the agent are written once: after a
  successful \<open>set_missing_package\<close>, a second call with the same arguments sends nothing.\<close>

theorem set_missing_package_once:
  assumes "merge_server cl obj" and "key_of self = Some key" and "obj w key = Some self"
    and "set_missing_package cl self c p w = (Inr r, w')"
  shows "set_missing_package cl r c p w'' = (Inr r, w'')"
proof -
  have same: "have_condition r (missing_package now' c p (generation r))" for now'
  proof (cases "have_condition self (missing_package (cl_now cl w) c p (generation self))")
    case True
    with assms(4) have "r = self"
      by (simp add: set_missing_package_def status_once_def clock_bind Let_def io_return_def)
    with True show ?thesis
      by (auto simp: have_condition_def same_condition_def missing_package_def split: option.splits)
  next
    case False
    let ?c = "missing_package (cl_now cl w) c p (generation self)"
    let ?ev = "mk_event Warning ''MissingPackage''
        (Some (''Package '' @ c @ ''/'' @ p @ '' doesnt exist'')) ''AgentStart''"
    have "patch_and_tell cl self [F_conditions (excluding [AgentStarted] (conds self) @ [?c])] ?ev w = (Inr r, w')"
      using assms(4) False
      by (simp add: set_missing_package_def status_once_def clock_bind Let_def patch_and_tell_def
          io_lift_bind missing_package_def)
    from patch_and_tell_synced [OF assms(1-3) this]
    have r: "r = merged [F_conditions (excluding [AgentStarted] (conds self) @ [?c])] self" by blast
    then show ?thesis
      by (simp add: r merged_def have_condition_def same_condition_def missing_package_def generation_def)
  qed
  then show ?thesis
    by (simp add: set_missing_package_def status_once_def clock_bind Let_def io_return_def)
qed

theorem set_missing_package_once_witness:
  "\<exists>r w'. set_missing_package ref_cluster demo_instance ''core'' ''pg'' demo_world = (Inr r, w') \<and>
     set_missing_package ref_cluster r ''core'' ''pg'' w' = (Inr r, w')"
proof -
  obtain r w' where run: "set_missing_package ref_cluster demo_instance ''core'' ''pg'' demo_world = (Inr r, w')"
    using ref_patch [OF demo_ok(1,2)]
    by (simp add: set_missing_package_def status_once_def clock_def io_lift_def io_bind_def
        io_seq_def io_return_def Let_def)
  from set_missing_package_once [OF ref_server demo_ok(1,2) run] run show ?thesis by blast
qed

text \<open>The stored terraform state and rhai state are compressed, then encoded as text.\<close>

definition codec_laws :: "'w cluster \<Rightarrow> bool" where
  "codec_laws cl =
     ((\<forall>b. cl_b64_decode cl (cl_b64_encode cl b) = Inr b) \<and>
      (\<forall>s b. cl_gzip cl s = Inr b \<longrightarrow> cl_gunzip cl b = Inr s))"

lemma ref_codec: "codec_laws ref_cluster"
  by (simp add: codec_laws_def ref_cluster_def)

lemma encode_decode:
  "codec_laws cl \<Longrightarrow> encode_base64_gz cl s = Inr e \<Longrightarrow> base64_gz_decode cl e = Inr s"
  by (auto simp: codec_laws_def encode_base64_gz_def base64_gz_decode_def split: sum.splits)

lemma status_applied_tells:
  "status_applied cl self ok field rsn note act w =
     patch_and_tell cl self [F_conditions (excluding [condition_type (ok (cl_now cl w) (generation self))]
       (conds self) @ [ok (cl_now cl w) (generation self)]), field] (mk_event Normal rsn note act) w"
  by (simp add: status_applied_def clock_bind Let_def)

text \<open>The state an OpenTofu run leaves is recovered: after a successful \<open>set_tfstate\<close> the object the
  agent holds decodes to exactly the state that was given, whatever conditions it carried.\<close>

theorem tfstate_roundtrip:
  assumes "merge_server cl obj" and "codec_laws cl"
    and "key_of self = Some key" and "obj w key = Some self"
    and "set_tfstate cl self tf w = (Inr r, w')"
  shows "get_tfstate cl r = Inr (Some tf)"
proof -
  from assms(5) [unfolded set_tfstate_def] obtain e w1
    where e: "io_lift (encode_base64_gz cl tf) w = (Inr e, w1)"
      and a: "status_applied cl self tofu_ok (F_tfstate e) ''TofuApplySucceed'' None ''TofuApply'' w1 = (Inr r, w')"
    by (rule io_bind_InrE)
  from e have enc: "encode_base64_gz cl tf = Inr e" and w1: "w1 = w" by (simp_all add: io_lift_def)
  from patch_and_tell_synced [OF assms(1,3,4) a [unfolded status_applied_tells w1]]
  have "st_tfstate (status_of r) = Some e" and "in_status r \<noteq> None"
    by (simp_all add: merged_def status_of_def)
  then show ?thesis
    using encode_decode [OF assms(2) enc] by (auto simp: get_tfstate_def status_of_def)
qed

theorem tfstate_roundtrip_witness:
  "\<exists>r w'. set_tfstate ref_cluster demo_instance ''tf'' demo_world = (Inr r, w') \<and>
     get_tfstate ref_cluster r = Inr (Some ''tf'')"
proof -
  obtain e where e: "encode_base64_gz ref_cluster ''tf'' = Inr e"
    by (simp add: encode_base64_gz_def ref_cluster_def)
  obtain r w' where run: "set_tfstate ref_cluster demo_instance ''tf'' demo_world = (Inr r, w')"
    using ref_tell [OF demo_ok(1,2)] by (simp add: set_tfstate_def e io_lift_bind status_applied_tells)
  from tfstate_roundtrip [OF ref_server ref_codec demo_ok(1,2) run] run show ?thesis by blast
qed

text \<open>A failed vital step whose message has a character across byte 1023 aborts the agent after the
  status was written and before the event is sent: the condition is recorded, nobody is told.\<close>

theorem vital_failure_can_abort:
  assumes "md_namespace (in_meta self) = Some ns" and "md_name (in_meta self) = Some n"
    and "str_truncate 1023 reason = None"
    and "cl_patch_status cl (in_kind self) ns n
           [F_conditions (failed_conditions (cl_now cl w) self
              (vital_ko (cl_now cl w) reason (generation self)) reason)] w = (Inr a, w1)"
  shows "set_status_vital_failed cl self reason w =
           (Inl (Panicked ''assertion failed: self.is_char_boundary(new_len)''), w1)"
  using assms
  by (simp add: set_status_vital_failed_def status_failed_def patch_status_def
      io_kube_def io_bind_def truncated_note_def io_throw_def clock_def io_lift_def)

theorem vital_failure_can_abort_witness:
  "\<exists>w1. set_status_vital_failed ref_cluster demo_instance panicking_reason demo_world =
           (Inl (Panicked ''assertion failed: self.is_char_boundary(new_len)''), w1) \<and>
         rw_events w1 = []"
proof -
  have m: "md_namespace (in_meta demo_instance) = Some ''default''" "md_name (in_meta demo_instance) = Some ''test''"
    by (simp_all add: demo_instance_def)
  obtain a w1 where p: "cl_patch_status ref_cluster (in_kind demo_instance) ''default'' ''test''
      [F_conditions (failed_conditions (cl_now ref_cluster demo_world) demo_instance
         (vital_ko (cl_now ref_cluster demo_world) panicking_reason (generation demo_instance)) panicking_reason)]
      demo_world = (Inr a, w1)" and "rw_events w1 = []"
    by (simp add: ref_cluster_def demo_world_def demo_ok demo_obj_key_def)
  from vital_failure_can_abort [OF m panicking_note p] \<open>rw_events w1 = []\<close> show ?thesis by blast
qed

end
