(* ===== verification/ReconcileLaws.thy ===== *)
theory ReconcileLaws
  imports Reconcile InstanceLaws
begin

text \<open>
  What the reconciliation and the cleanup of an instance guarantee. The observation of the cluster is
  \<open>submitted\<close>, the list of the job definitions the API server accepted; \<open>job_log\<close> says that accepting a
  job appends it there and that no other call of the operator changes the list.
\<close>

section \<open>Observing the submitted jobs\<close>

definition kube_quiet :: "'w kube_api \<Rightarrow> ('w \<Rightarrow> 'o) \<Rightarrow> bool" where
  "kube_quiet api obs \<longleftrightarrow>
     keeps obs (ka_list_services api) \<and> keeps obs (ka_list_system api) \<and> keeps obs (ka_list_tenant api) \<and>
     (\<forall>ns. keeps obs (ka_list_tenant_in api ns)) \<and> (\<forall>crd. keeps obs (ka_crd_exists api crd)) \<and>
     (\<forall>ns. keeps obs (ka_ns_labels api ns)) \<and> (\<forall>sel. keeps obs (ka_ns_select api sel)) \<and>
     keeps obs (ka_api_version api) \<and> (\<forall>i s. keeps obs (ka_eval_truth api i s)) \<and>
     (\<forall>c w. obs (ka_set_cell api c w) = obs w)"

definition cluster_quiet :: "'w cluster \<Rightarrow> ('w \<Rightarrow> 'o) \<Rightarrow> bool" where
  "cluster_quiet cl obs \<longleftrightarrow>
     (\<forall>k ns n fs. keeps obs (cl_patch_status cl k ns n fs)) \<and> (\<forall>i ev. keeps obs (cl_publish cl i ev))"

definition job_log :: "'w op_api \<Rightarrow> ('w \<Rightarrow> json list) \<Rightarrow> bool" where
  "job_log api submitted \<longleftrightarrow>
     kube_quiet (oa_kube api) submitted \<and> cluster_quiet (oa_cluster api) submitted \<and>
     (\<forall>s ns. keeps submitted (oa_secret api s ns)) \<and>
     (\<forall>r i t a. keeps submitted (oa_pull_manifest api r i t a)) \<and>
     (\<forall>i s. keeps submitted (oa_eval_map_string api i s)) \<and>
     (\<forall>n. keeps submitted (oa_job_exists api n)) \<and> (\<forall>n. keeps submitted (oa_job_delete api n)) \<and>
     (\<forall>n u. keeps submitted (oa_await_deleted api n u)) \<and> (\<forall>n. keeps submitted (oa_await_completed api n)) \<and>
     (\<forall>k ns n p. keeps submitted (oa_remove_annotation api k ns n p)) \<and>
     (\<forall>n d w. case oa_job_patch api n d w of
        (Inl _, w') \<Rightarrow> submitted w' = submitted w | (Inr _, w') \<Rightarrow> submitted w' = submitted w @ [d]) \<and>
     (\<forall>d w. case oa_job_create api d w of
        (Inl _, w') \<Rightarrow> submitted w' = submitted w | (Inr _, w') \<Rightarrow> submitted w' = submitted w @ [d])"

text \<open>The parts that submit nothing.\<close>

lemma wait_keeps [keeps]: "keeps obs m \<Longrightarrow> keeps obs (io_wait m)"
  by (rule keepsI) (auto simp: io_wait_def dest: keepsD split: prod.splits wait_outcome.splits)

lemma clock_keeps [keeps]: "keeps obs (clock cl)"
  by (simp add: keeps_def clock_def)

lemma send_event_keeps [keeps]: "cluster_quiet cl obs \<Longrightarrow> keeps obs (send_event cl self ev)"
proof (rule keepsI)
  fix w r w'
  assume "cluster_quiet cl obs" and run: "send_event cl self ev w = (r, w')"
  then have k: "keeps obs (cl_publish cl self ev)" by (simp add: cluster_quiet_def)
  from run show "obs w' = obs w"
    by (auto simp: send_event_def dest: keepsD [OF k] split: prod.splits sum.splits kube_error.splits)
qed

lemma patch_status_keeps [keeps]: "cluster_quiet cl obs \<Longrightarrow> keeps obs (patch_status cl self fs)"
  unfolding patch_status_def by (intro keeps) (simp add: cluster_quiet_def)

lemma status_once_keeps [keeps]: "cluster_quiet cl obs \<Longrightarrow> keeps obs (status_once cl self mk note ty rsn h act)"
  unfolding status_once_def Let_def by (auto intro!: keeps)

lemma missing_keeps [keeps]:
  assumes "cluster_quiet cl obs"
  shows "keeps obs (set_missing_box cl self j)" "keeps obs (set_missing_package cl self c p)"
    "keeps obs (set_missing_requirement cl self m)" "keeps obs (set_missing_init_version cl self v)"
  using assms
  by (auto simp: set_missing_box_def set_missing_package_def set_missing_requirement_def
      set_missing_init_version_def intro!: keeps)

lemma services_keeps [keeps]:
  assumes "kube_quiet api obs"
  shows "keeps obs (get_all_services_names api)"
proof (rule keepsI)
  have r: "keeps obs (refresh_services api)"
    using assms by (intro keepsI)
      (auto simp: refresh_services_def kube_quiet_def dest: keepsD split: prod.splits option.splits sum.splits)
  fix w x w'
  assume "get_all_services_names api w = (x, w')"
  then show "obs w' = obs w"
    using assms
    by (auto simp: get_all_services_names_def get_or_refresh_def kube_quiet_def dest!: keepsD [OF r]
        split: prod.splits option.splits sum.splits)
qed

lemma tenant_namespaces_keeps [keeps]: "kube_quiet api obs \<Longrightarrow> keeps obs (get_tenant_namespaces api inst)"
  unfolding get_tenant_namespaces_def
  by (auto intro!: keeps simp: kube_quiet_def split: option.splits)

lemma tenant_services_list_keeps: "kube_quiet api obs \<Longrightarrow> keeps obs (tenant_services api nss)"
  by (induction nss) (auto intro!: keeps simp: kube_quiet_def)

lemma tenant_services_keeps [keeps]: "kube_quiet api obs \<Longrightarrow> keeps obs (get_tenant_services_names api inst)"
  unfolding get_tenant_services_names_def by (auto intro!: keeps tenant_services_list_keeps)

lemma check_keeps [keeps]:
  assumes "kube_quiet api obs"
  shows "keeps obs (check api inst req)"
proof -
  have q: "\<And>crd. keeps obs (ka_crd_exists api crd)" "keeps obs (ka_api_version api)"
      "\<And>i s. keeps obs (ka_eval_truth api i s)" "keeps obs (ka_list_system api)" "keeps obs (ka_list_tenant api)"
    using assms by (auto simp: kube_quiet_def)
  show ?thesis
    by (cases req; cases "in_kind inst")
      (auto simp: check_def check_vynil_version_def check_cluster_version_def check_crd_def check_prefly_def
        check_system_package_def check_storage_def check_system_service_def check_tenant_package_def
        check_tenant_service_def intro!: keeps q assms)
qed

lemma check_requirements_keeps [keeps]:
  assumes "kube_quiet (oa_kube api) obs" and "cluster_quiet (oa_cluster api) obs"
  shows "keeps obs (check_requirements api inst reqs)"
  using assms by (induction reqs) (auto intro!: keeps split: prod.splits)

lemma base_recos_keeps: "kube_quiet (oa_kube api) obs \<Longrightarrow> keeps obs (base_recos api svcs recos)"
  by (induction api svcs recos rule: base_recos.induct) (auto intro!: keeps simp: kube_quiet_def split: prod.splits)

lemma base_recommendations_keeps [keeps]:
  "kube_quiet (oa_kube api) obs \<Longrightarrow> keeps obs (build_base_recommendations api recos)"
  unfolding build_base_recommendations_def
  by (auto intro!: keeps base_recos_keeps split: option.splits prod.splits)

lemma recommendations_keeps [keeps]:
  "kube_quiet (oa_kube api) obs \<Longrightarrow> keeps obs (build_recommendations api inst recos)"
  unfolding build_recommendations_def Let_def
  by (auto intro!: keeps split: package_type.splits prod.splits)

lemma log_quiet:
  assumes "job_log api obs"
  shows "kube_quiet (oa_kube api) obs" "cluster_quiet (oa_cluster api) obs"
  using assms by (simp_all add: job_log_def)

lemma log_keeps:
  assumes "job_log api obs"
  shows "keeps obs (oa_secret api s ns)" "keeps obs (oa_pull_manifest api r i t au)"
    "keeps obs (oa_eval_map_string api inst scr)" "keeps obs (oa_job_exists api n)"
    "keeps obs (oa_job_delete api n)" "keeps obs (oa_await_deleted api n u)"
    "keeps obs (oa_await_completed api n)" "keeps obs (oa_remove_annotation api k ns n p)"
  using assms by (simp_all add: job_log_def)

lemma verify_keeps [keeps]:
  assumes "job_log api obs"
  shows "keeps obs (verify_tag_in_registry api r i t au)"
  by (rule keepsI) (auto simp: verify_tag_in_registry_def dest: keepsD [OF log_keeps(2) [OF assms]]
      split: prod.splits manifest_answer.splits)

lemma registry_auth_keeps [keeps]: "job_log api obs \<Longrightarrow> keeps obs (resolve_registry_auth api s r ns)"
  unfolding resolve_registry_auth_def by (auto intro!: keeps log_keeps split: option.splits)

lemma init_version_keeps [keeps]:
  "job_log api obs \<Longrightarrow> keeps obs (resolve_init_version api inst pck cached ps)"
  unfolding resolve_init_version_def record_missing_init_version_def
  by (auto intro!: keeps log_quiet split: option.splits)

lemma delete_wait_keeps [keeps]:
  assumes "job_log api obs"
  shows "keeps obs (delete_job_and_wait api n)"
proof -
  have w: "keeps obs (io_wait (oa_await_deleted api n u))" for u by (intro keeps log_keeps assms)
  show ?thesis
    by (rule keepsI) (auto simp: delete_job_and_wait_def dest!: keepsD [OF log_keeps(5) [OF assms]] keepsD [OF w]
        split: prod.splits sum.splits option.splits)
qed

lemma job_gone_keeps [keeps]:
  assumes "job_log api obs"
  shows "keeps obs (job_gone api n)"
  by (rule keepsI) (auto simp: job_gone_def dest!: keepsD [OF log_keeps(4) [OF assms]]
      keepsD [OF delete_wait_keeps [OF assms]] split: prod.splits sum.splits bool.splits)

lemma force_reinstall_keeps [keeps]: "job_log api obs \<Longrightarrow> keeps obs (force_reinstall api inst)"
  unfolding force_reinstall_def by (auto intro!: keeps log_keeps)

lemma value_context_keeps [keeps]: "job_log api obs \<Longrightarrow> keeps obs (value_context api inst pck ctx)"
  unfolding value_context_def
  by (auto intro!: keeps log_keeps split: option.splits sum.splits json.splits)

text \<open>The parts that submit: one job, the one they are given.\<close>

definition submits :: "(json \<Rightarrow> bool) \<Rightarrow> json list \<Rightarrow> json list \<Rightarrow> bool" where
  "submits Q old new \<longleftrightarrow> (\<exists>d. new = old @ [d] \<and> Q d)"

lemma create_submits:
  assumes "job_log api obs"
  shows "changes_by obs (create_job api d) (submits (\<lambda>x. x = d))"
proof (cases "oa_as_job api d")
  case None
  have c: "case oa_job_create api d w of (Inl _, w') \<Rightarrow> obs w' = obs w | (Inr _, w') \<Rightarrow> obs w' = obs w @ [d]" for w
    using assms by (simp add: job_log_def)
  have "obs (snd (io_kube (oa_job_create api d) w)) \<in> {obs w, obs w @ [d]}" for w
    using c [of w] by (auto simp: io_kube_def split: prod.splits sum.splits)
  then show ?thesis by (auto simp: create_job_def None changes_by_def submits_def)
next
  case (Some e)
  then show ?thesis by (simp add: create_job_def keeps_changes keeps_throw)
qed

lemma recreate_submits:
  assumes "job_log api obs"
  shows "changes_by obs (recreate_job api n d) (submits (\<lambda>x. x = d))"
  unfolding recreate_job_def
  by (intro changes_bind changes_seq create_submits keeps log_keeps assms)
    (auto intro!: keeps log_keeps assms split: option.splits)

lemma upsert_submits:
  assumes "job_log api obs"
  shows "changes_by obs (upsert_job api n d) (submits (\<lambda>x. x = d))"
  unfolding changes_by_def
proof (intro allI impI)
  fix w
  assume ne: "obs (snd (upsert_job api n d w)) \<noteq> obs w"
  have p: "case oa_job_patch api n d w of (Inl _, w') \<Rightarrow> obs w' = obs w | (Inr _, w') \<Rightarrow> obs w' = obs w @ [d]"
    using assms by (simp add: job_log_def)
  obtain x w1 where m: "oa_job_patch api n d w = (x, w1)" by (cases "oa_job_patch api n d w")
  show "submits (\<lambda>x. x = d) (obs w) (obs (snd (upsert_job api n d w)))"
  proof (cases x)
    case (Inl e)
    with m p have "obs w1 = obs w" "upsert_job api n d w = recreate_job api n d w1" by (auto simp: upsert_job_def)
    with ne changesD [OF recreate_submits [OF assms] prod.collapse [symmetric], of n d w1] show ?thesis by simp
  next
    case (Inr u)
    with m p show ?thesis by (simp add: upsert_job_def submits_def)
  qed
qed

section \<open>What a submitted job is\<close>

text \<open>
  The job of an installation: the rendering of the package template on a context that names the image,
  registry and tag of a package.
\<close>

definition install_job :: "'w op_api \<Rightarrow> instance_obj \<Rightarrow> package \<Rightarrow> json \<Rightarrow> bool" where
  "install_job api inst p d \<longleftrightarrow>
     (\<exists>ctx s t. oa_render api ''{{> package.yaml }}'' (JObj ctx) = Inr s \<and> oa_yaml_to_json api s = Inr d \<and>
        obj_get ctx ''image'' = Some (JStr (pk_image p)) \<and>
        obj_get ctx ''registry'' = Some (JStr (pk_registry p)) \<and>
        obj_get ctx ''package_action'' = Some (JStr ''install'') \<and>
        obj_get ctx ''tag'' = Some (JStr t) \<and>
        (t = pk_tag p \<or> init_from_version inst = Some t \<and> current_tag inst = []))"

lemma resolve_answers:
  assumes "resolve_init_version api inst pck cached ps w = (Inr (Some v), w')"
  shows "init_from_version inst = Some v \<and> current_tag inst = []"
proof -
  have "answers (resolve_init_version api inst pck cached ps)
      (\<lambda>r. \<forall>v. r = Some v \<longrightarrow> init_from_version inst = Some v \<and> current_tag inst = [])"
    unfolding resolve_init_version_def
    by (auto intro!: answers_bind answers_seq answers_return answers_throw split: option.splits)
  from answersD [OF this assms] show ?thesis by blast
qed

lemma value_context_keeps_keys:
  assumes "value_context api inst pck ctx w = (Inr ctx', w')" and "k \<noteq> ''ctrl_values''"
  shows "obj_get ctx' k = obj_get ctx k"
proof -
  have "answers (value_context api inst pck ctx) (\<lambda>c. obj_get c k = obj_get ctx k)"
    using assms(2) unfolding value_context_def
    by (auto intro!: answers_bind answers_return answers_throw simp: ctx_put_def
        split: option.splits sum.splits json.splits)
  from answersD [OF this assms(1)] show ?thesis .
qed

lemma install_context:
  assumes ctx: "ctx = reco_put recos (image_context tag pck (secret_context ps (start_context api inst act)))"
  shows "obj_get ctx ''image'' = Some (JStr (pk_image pck))" "obj_get ctx ''registry'' = Some (JStr (pk_registry pck))"
    "obj_get ctx ''tag'' = Some (JStr tag)" "obj_get ctx ''package_action'' = Some (JStr act)"
  unfolding ctx
  by (cases ps; simp add: reco_put_def image_context_def secret_context_def start_context_def ctx_put_def)+

lemma requirements_pass:
  "check_requirements api inst reqs w = (Inr None, w') \<Longrightarrow> req \<in> set reqs \<Longrightarrow>
     \<exists>w1 m s w2. check (oa_kube api) inst req w1 = (Inr (True, m, s), w2)"
proof (induction reqs arbitrary: w)
  case (Cons r reqs)
  from Cons.prems(1) obtain v w1 where c: "check (oa_kube api) inst r w = (Inr v, w1)"
      and rest: "(case v of (res, mes, requeue) \<Rightarrow>
        if \<not> res then io_seq (set_missing_requirement (oa_cluster api) inst mes) (io_return (Some (Requeue requeue)))
        else check_requirements api inst reqs) w1 = (Inr None, w')"
    by (auto elim: io_bind_InrE)
  obtain res mes s where v: "v = (res, mes, s)" by (cases v)
  have res: res
  proof (rule ccontr)
    assume "\<not> res"
    with rest v show False by (auto simp: io_return_def elim!: io_seq_InrE)
  qed
  with rest v have "check_requirements api inst reqs w1 = (Inr None, w')" by simp
  with Cons c v res show ?case by auto
qed simp

lemma install_submits:
  assumes log: "job_log api obs"
  shows "changes_by obs (install api inst pck item)
    (\<lambda>old new. submits (install_job api inst pck) old new \<and>
       (\<exists>w w'. check_requirements api inst (pk_requirements pck) w = (Inr None, w')))"
proof -
  note q = log_quiet [OF log]
  show ?thesis
    unfolding install_def Let_def
  proof (rule changes_bind, rule init_version_keeps [OF log], rule changes_bind, rule check_requirements_keeps [OF q])
    fix resolved w1 w2 refused w3 w4
    assume rs: "resolve_init_version api inst pck (ci_packages item) (ci_pull_secret item) w1 = (Inr resolved, w2)"
      and rq: "check_requirements api inst (pk_requirements pck) w3 = (Inr refused, w4)"
    let ?tag = "case resolved of None \<Rightarrow> pk_tag pck | Some v \<Rightarrow> v"
    have tag: "?tag = pk_tag pck \<or> init_from_version inst = Some ?tag \<and> current_tag inst = []"
      using resolve_answers [of api inst pck "ci_packages item" "ci_pull_secret item" w1 _ w2] rs
      by (cases resolved) auto
    let ?R = "\<lambda>old new. submits (install_job api inst pck) old new \<and>
       (\<exists>w w'. check_requirements api inst (pk_requirements pck) w = (Inr None, w'))"
    let ?ctx = "\<lambda>recos. reco_put recos (image_context ?tag pck (secret_context (ci_pull_secret item) (start_context api inst ''install'')))"
    have job: "changes_by obs
       (io_bind (io_lift (oa_render api ''{{> package.yaml }}'' (JObj ctx))) (\<lambda>job_def_str.
        io_bind (io_lift (oa_yaml_to_json api job_def_str)) (\<lambda>job_def.
        io_seq (upsert_job api (job_name_of inst) job_def) (io_return (Requeue (15 * 60)))))) ?R"
      if none: "refused = None" and vc: "value_context api inst pck (?ctx recos) w5 = (Inr ctx, w6)" for recos ctx w5 w6
    proof (rule changes_bind, rule keeps_lift, rule changes_bind, rule keeps_lift,
        rule changes_then [OF changes_mono [OF upsert_submits [OF log]] keeps_return])
      fix s d w7 w8 w9 w10 and x y :: "json list"
      assume "io_lift (oa_render api ''{{> package.yaml }}'' (JObj ctx)) w7 = (Inr s, w8)"
        and "io_lift (oa_yaml_to_json api s) w9 = (Inr d, w10)" and sub: "submits (\<lambda>x. x = d) x y"
      then have r: "oa_render api ''{{> package.yaml }}'' (JObj ctx) = Inr s" "oa_yaml_to_json api s = Inr d"
        by (simp_all add: io_lift_def)
      have "install_job api inst pck d"
        unfolding install_job_def
        using r tag value_context_keeps_keys [OF vc] install_context [OF refl, of recos ?tag pck "ci_pull_secret item" api inst "''install''"]
        by (intro exI [of _ ctx] exI [of _ s] exI [of _ ?tag]) simp
      with sub rq none show "?R x y" by (auto simp: submits_def)
    qed
    show "changes_by obs (case refused of
          Some act \<Rightarrow> io_return act
        | None \<Rightarrow>
            io_bind (build_recommendations api inst (pk_recommandations pck)) (\<lambda>recos.
            io_bind (value_context api inst pck (?ctx recos)) (\<lambda>ctx.
            io_seq (force_reinstall api inst)
              (io_bind (io_lift (oa_render api ''{{> package.yaml }}'' (JObj ctx))) (\<lambda>job_def_str.
               io_bind (io_lift (oa_yaml_to_json api job_def_str)) (\<lambda>job_def.
               io_seq (upsert_job api (job_name_of inst) job_def) (io_return (Requeue (15 * 60))))))))) ?R"
    proof (cases refused)
      case None
      show ?thesis
        unfolding None option.case
        by (rule changes_bind [OF recommendations_keeps [OF q(1)]],
            rule changes_bind [OF value_context_keeps [OF log]],
            rule changes_seq [OF force_reinstall_keeps [OF log]], rule job [OF None])
    next
      case (Some act)
      then show ?thesis by (simp add: keeps_changes keeps_return)
    qed
  qed
qed

lemma do_reconcile_submits:
  assumes log: "job_log api obs"
  shows "changes_by obs (do_reconcile api inst packages)
    (\<lambda>old new. annotation (in_meta inst) ''vynil.solidite.fr/suspend'' \<noteq> Some ''true'' \<and>
       (\<exists>item p. obj_get packages (spec_jukebox (in_spec inst)) = Some item \<and> p \<in> set (ci_packages item) \<and>
          selects api inst p \<and> submits (install_job api inst p) old new \<and>
          (\<exists>w w'. check_requirements api inst (pk_requirements p) w = (Inr None, w'))))"
    (is "changes_by obs _ ?R")
proof -
  note q = log_quiet [OF log]
  show ?thesis
  proof (cases "annotation (in_meta inst) ''vynil.solidite.fr/suspend'' = Some ''true''")
    case True
    then show ?thesis by (simp add: do_reconcile_def keeps_changes keeps_return)
  next
    case False
    show ?thesis
    proof (cases "obj_get packages (spec_jukebox (in_spec inst))")
      case None
      with False show ?thesis
        by (simp add: do_reconcile_def keeps_changes keeps_seq keeps_return missing_keeps q)
    next
      case (Some item)
      show ?thesis
      proof (cases "find (selects api inst) (ci_packages item)")
        case None
        with Some False show ?thesis
          by (simp add: do_reconcile_def keeps_changes keeps_seq keeps_return missing_keeps q)
      next
        case pck: (Some pck)
        then have "pck \<in> set (ci_packages item)" "selects api inst pck"
          by (auto simp: find_Some_iff)
        with Some False have "changes_by obs (install api inst pck item) ?R"
          by (intro changes_mono [OF install_submits [OF log]]) auto
        with Some False pck show ?thesis by (simp add: do_reconcile_def)
      qed
    qed
  qed
qed

section \<open>When the operator comes back\<close>

definition soon :: "action \<Rightarrow> bool" where
  "soon a \<longleftrightarrow> a = Requeue 300 \<or> a = Requeue 900"

lemma check_delay: "answers (check api inst req) (\<lambda>v. snd (snd v) = 300 \<or> snd (snd v) = 900)"
  by (cases req; cases "in_kind inst")
    (auto simp: check_def check_vynil_version_def check_cluster_version_def check_crd_def check_prefly_def
      check_system_package_def check_storage_def check_system_service_def check_tenant_package_def
      check_tenant_service_def intro!: answers_bind answers_return)

lemma check_requirements_soon: "answers (check_requirements api inst reqs) (\<lambda>r. \<forall>a. r = Some a \<longrightarrow> soon a)"
proof (induction reqs)
  case (Cons r reqs)
  show ?case
    unfolding check_requirements.simps
  proof (rule answers_bind)
    fix v w w'
    assume "check (oa_kube api) inst r w = (Inr v, w')"
    from answersD [OF check_delay this] Cons
    show "answers (case v of (res, mes, requeue) \<Rightarrow>
        if \<not> res then io_seq (set_missing_requirement (oa_cluster api) inst mes) (io_return (Some (Requeue requeue)))
        else check_requirements api inst reqs) (\<lambda>r. \<forall>a. r = Some a \<longrightarrow> soon a)"
      by (cases v) (auto simp: soon_def intro!: answers_seq answers_return)
  qed
qed (simp add: answers_return)

lemma install_soon: "answers (install api inst pck item) soon"
  unfolding install_def Let_def
proof (rule answers_bind, rule answers_bind)
  fix resolved w1 w2 refused w3 w4
  assume "check_requirements api inst (pk_requirements pck) w3 = (Inr refused, w4)"
  from answersD [OF check_requirements_soon this]
  show "answers (case refused of
          Some act \<Rightarrow> io_return act
        | None \<Rightarrow>
            io_bind (build_recommendations api inst (pk_recommandations pck)) (\<lambda>recos.
            io_bind (value_context api inst pck (reco_put recos (image_context
              (case resolved of Some v \<Rightarrow> v | None \<Rightarrow> pk_tag pck) pck
              (secret_context (ci_pull_secret item) (start_context api inst ''install''))))) (\<lambda>ctx.
            io_seq (force_reinstall api inst)
              (io_bind (io_lift (oa_render api ''{{> package.yaml }}'' (JObj ctx))) (\<lambda>job_def_str.
               io_bind (io_lift (oa_yaml_to_json api job_def_str)) (\<lambda>job_def.
               io_seq (upsert_job api (job_name_of inst) job_def) (io_return (Requeue (15 * 60))))))))) soon"
    by (cases refused) (auto simp: soon_def intro!: answers_bind answers_seq answers_return)
qed

lemma do_reconcile_soon: "answers (do_reconcile api inst packages) soon"
  unfolding do_reconcile_def
  by (auto intro!: answers_seq answers_return install_soon simp: soon_def [of "Requeue _"] split: option.splits)

section \<open>A concrete operator\<close>

text \<open>The world is the list of accepted jobs; rendering is the identity on a tagged copy.\<close>

definition demo_op_kube :: "json list kube_api" where
  "demo_op_kube =
     \<lparr>ka_list_services = (\<lambda>w. (Some (Inr []), w)), ka_list_system = (\<lambda>w. (Inr [], w)),
      ka_list_tenant = (\<lambda>w. (Inr [], w)), ka_list_tenant_in = (\<lambda>ns w. (Inr [], w)),
      ka_crd_exists = (\<lambda>crd w. (Inr (crd = ''certificates.cert-manager.io''), w)),
      ka_ns_labels = (\<lambda>ns w. (Inr None, w)), ka_ns_select = (\<lambda>sel w. (Inr [], w)),
      ka_api_version = (\<lambda>w. (Inr (JObj []), w)), ka_eval_truth = (\<lambda>i s w. (Inr True, w)),
      ka_env = (\<lambda>v. None), ka_json = (\<lambda>j. ''null''), ka_semver = demo_crate,
      ka_now = length, ka_cell = (\<lambda>w. None), ka_set_cell = (\<lambda>c w. w)\<rparr>"

definition demo_op_cluster :: "json list cluster" where
  "demo_op_cluster =
     \<lparr>cl_now = (\<lambda>w. 0), cl_patch_status = (\<lambda>k ns n fs w. (Inl (KApi ''forbidden''), w)),
      cl_publish = (\<lambda>self ev w. (Inr (), w)), cl_gzip = Inr, cl_gunzip = Inr, cl_b64_encode = (\<lambda>s. s),
      cl_b64_decode = Inr, cl_sha256 = (\<lambda>s. ''sha''), cl_json = (\<lambda>j. ''{}'')\<rparr>"

definition demo_op :: "json list op_api" where
  "demo_op =
     \<lparr>oa_kube = demo_op_kube, oa_cluster = demo_op_cluster, oa_my_ns = ''vynil-system'', oa_base_context = [],
      oa_secret = (\<lambda>s ns w. (Inr None, w)), oa_parse_json = (\<lambda>s. Inr JNull), oa_b64_decode = Inr,
      oa_utf8 = (\<lambda>s. True), oa_pull_manifest = (\<lambda>r i t a w. (if t = ''1.0.0'' then ManifestFound else ManifestUnknown, w)),
      oa_eval_map_string = (\<lambda>i s w. (Inr ''{}'', w)), oa_debug = (\<lambda>s. s),
      oa_render = (\<lambda>t c. Inr ''job''), oa_yaml_to_json = (\<lambda>s. Inr (JStr s)), oa_as_job = (\<lambda>d. None),
      oa_job_exists = (\<lambda>n w. (Inr False, w)), oa_job_patch = (\<lambda>n d w. (Inr (), w @ [d])),
      oa_job_create = (\<lambda>d w. (Inr (), w @ [d])), oa_job_delete = (\<lambda>n w. (Inr None, w)),
      oa_await_deleted = (\<lambda>n u w. (WaitDone, w)), oa_await_completed = (\<lambda>n w. (WaitDone, w)),
      oa_remove_annotation = (\<lambda>k ns n p w. (Inr (), w))\<rparr>"

lemma demo_op_log: "job_log demo_op (\<lambda>w. w)"
  by (simp add: job_log_def kube_quiet_def cluster_quiet_def demo_op_def demo_op_kube_def demo_op_cluster_def keeps_def)

definition demo_cache :: package_cache where
  "demo_cache = [(''jb'', \<lparr>ci_pull_secret = None,
     ci_packages = [demo_package ''2.0.0'' [R_CustomResourceDefinition ''certificates.cert-manager.io'']]\<rparr>)]"

definition demo_inst :: instance_obj where
  "demo_inst = demo_instance\<lparr>in_spec := (in_spec demo_instance)\<lparr>spec_init_from :=
     Some \<lparr>if_secret_name = None, if_sub_path = None, if_snapshot = ''snap1'', if_version = Some ''1.0.0''\<rparr>\<rparr>\<rparr>"

lemma demo_selects:
  "selects demo_op demo_inst (demo_package ''2.0.0'' [R_CustomResourceDefinition ''certificates.cert-manager.io''])"
  by (simp add: selects_def demo_package_def demo_inst_def demo_instance_def is_min_version_ok_def get_min_version_def
      is_vynil_version_ok_def get_vynil_version_def split: sum.splits)

lemma demo_inst_simps [simp]:
  "in_kind demo_inst = Tenant" "spec_jukebox (in_spec demo_inst) = ''jb''" "current_tag demo_inst = []"
  "init_from_version demo_inst = Some ''1.0.0''" "annotation (in_meta demo_inst) k = None"
  "md_namespace (in_meta demo_inst) = Some ''default''" "\<not> have_child demo_inst"
  by (simp_all add: demo_inst_def demo_instance_def current_tag_def init_from_version_def annotation_def have_child_def
      tenant_have_child_def)

lemma demo_reconcile: "do_reconcile demo_op demo_inst demo_cache [] = (Inr (Requeue 900), [JStr ''job''])"
proof -
  let ?p = "demo_package ''2.0.0'' [R_CustomResourceDefinition ''certificates.cert-manager.io'']"
  have "find (selects demo_op demo_inst) [?p] = Some ?p" using demo_selects by simp
  moreover have "pk_tag ?p = ''2.0.0''" "pk_recommandations ?p = None" "pk_value_script ?p = None"
      "pk_requirements ?p = [R_CustomResourceDefinition ''certificates.cert-manager.io'']"
      "pk_registry ?p = ''docker.io''" "pk_image ?p = ''test/image''"
    by (simp_all add: demo_package_def)
  moreover have "\<not> in_cache demo_inst ''1.0.0'' [?p]" by (simp add: in_cache_def demo_package_def)
  ultimately show ?thesis
    by (simp add: do_reconcile_def demo_cache_def install_def resolve_init_version_def Let_def
        verify_tag_in_registry_def demo_op_def demo_op_kube_def io_return_def io_bind_def io_seq_def io_lift_def
        check_def check_crd_def io_kube_def build_recommendations_def get_tenant_services_names_def
        get_tenant_namespaces_def my_namespace_def build_base_recommendations_def get_all_services_names_def
        get_or_refresh_def lookup_fresh_def refresh_services_def value_context_def force_reinstall_def upsert_job_def)
qed

section \<open>The properties\<close>

text \<open>C1: the operator submits a job for an instance only when the instance is not suspended and its
  jukebox holds a package of its name, category and kind that the installed version may be upgraded
  to and this vynil supports, and every requirement of that package was checked and held; it submits
  one job, the package template rendered with that package's image and registry and with its tag, or
  with the version asked by \<open>initFrom\<close> when nothing is installed yet.\<close>

theorem reconcile_submits_selected:
  assumes "job_log api submitted" and "do_reconcile api inst packages w = (r, w')"
    and "submitted w' \<noteq> submitted w"
  shows "annotation (in_meta inst) ''vynil.solidite.fr/suspend'' \<noteq> Some ''true'' \<and>
    (\<exists>item p d. obj_get packages (spec_jukebox (in_spec inst)) = Some item \<and> p \<in> set (ci_packages item) \<and>
       pm_name (pk_metadata p) = spec_package (in_spec inst) \<and>
       pm_category (pk_metadata p) = spec_category (in_spec inst) \<and> pm_usage (pk_metadata p) = in_kind inst \<and>
       is_min_version_ok (ka_semver (oa_kube api)) p (current_tag inst) \<and>
       is_vynil_version_ok (ka_semver (oa_kube api)) p \<and>
       submitted w' = submitted w @ [d] \<and> install_job api inst p d \<and>
       (\<forall>req \<in> set (pk_requirements p). \<exists>w1 m s w2. check (oa_kube api) inst req w1 = (Inr (True, m, s), w2)))"
proof -
  from changesD [OF do_reconcile_submits [OF assms(1)] assms(2,3)]
  obtain item p w1 w2 where h: "annotation (in_meta inst) ''vynil.solidite.fr/suspend'' \<noteq> Some ''true''"
      "obj_get packages (spec_jukebox (in_spec inst)) = Some item" "p \<in> set (ci_packages item)"
      "selects api inst p" "submits (install_job api inst p) (submitted w) (submitted w')"
      "check_requirements api inst (pk_requirements p) w1 = (Inr None, w2)"
    by blast
  from h(5) obtain d where "submitted w' = submitted w @ [d]" "install_job api inst p d"
    by (auto simp: submits_def)
  with h requirements_pass [OF h(6)] show ?thesis unfolding selects_def by blast
qed

theorem reconcile_submits_selected_witness:
  "\<exists>w' p d. w' = [d] \<and> do_reconcile demo_op demo_inst demo_cache [] = (Inr (Requeue 900), w') \<and>
     is_min_version_ok demo_crate p [] \<and> install_job demo_op demo_inst p d"
  using reconcile_submits_selected [where submitted = "\<lambda>w. w", OF demo_op_log demo_reconcile] demo_reconcile
  by (auto simp: demo_op_def demo_op_kube_def)

text \<open>C23: a reconciliation that succeeds always comes back: its answer is to requeue after 5 or 15
  minutes, never to wait for a change, so a missing box, package or requirement is tried again.\<close>

theorem reconcile_comes_back:
  assumes "do_reconcile api inst packages w = (Inr a, w')"
  shows "a = Requeue 300 \<or> a = Requeue 900"
  using answersD [OF do_reconcile_soon assms] by (simp add: soon_def)

theorem reconcile_comes_back_witness:
  "\<exists>a w'. do_reconcile demo_op demo_inst demo_cache [] = (Inr a, w') \<and> (a = Requeue 300 \<or> a = Requeue 900)"
  using reconcile_comes_back [OF demo_reconcile] demo_reconcile by blast

text \<open>C27: an initial version is only imposed on a first installation: when the resolution answers a
  version, it is the one asked, nothing is installed, and the version is in the cache or the registry
  was seen to have it; when it answers none, none was asked or something is installed.\<close>

theorem init_version_resolution:
  assumes "resolve_init_version api inst pck cached ps w = (Inr v, w')"
  shows "case v of
      Some t \<Rightarrow> init_from_version inst = Some t \<and> current_tag inst = [] \<and>
        (in_cache inst t cached \<or>
         (\<exists>auth w1 w2. verify_tag_in_registry api (pk_registry pck) (pk_image pck) t auth w1 = (Inr True, w2)))
    | None \<Rightarrow> init_from_version inst = None \<or> current_tag inst \<noteq> []"
proof -
  have "answers (resolve_init_version api inst pck cached ps) (\<lambda>v. case v of
      Some t \<Rightarrow> init_from_version inst = Some t \<and> current_tag inst = [] \<and>
        (in_cache inst t cached \<or>
         (\<exists>auth w1 w2. verify_tag_in_registry api (pk_registry pck) (pk_image pck) t auth w1 = (Inr True, w2)))
    | None \<Rightarrow> init_from_version inst = None \<or> current_tag inst \<noteq> [])"
    unfolding resolve_init_version_def
    by (auto intro!: answers_bind answers_seq answers_return answers_throw split: option.splits)
  from answersD [OF this assms] show ?thesis .
qed

theorem init_version_resolution_witness:
  "\<exists>auth w1 w2. verify_tag_in_registry demo_op ''docker.io'' ''test/image'' ''1.0.0'' auth w1 = (Inr True, w2)"
proof -
  have "resolve_init_version demo_op demo_inst (demo_package ''2.0.0'' []) [] None [] = (Inr (Some ''1.0.0''), [])"
    by (simp add: resolve_init_version_def in_cache_def io_bind_def io_return_def verify_tag_in_registry_def
        demo_op_def demo_package_def)
  from init_version_resolution [OF this] show ?thesis by (simp add: in_cache_def demo_package_def)
qed

text \<open>When the jukebox of a deleted instance is not in the cache, the cleanup lets the instance go at
  once, with no delete job, even if the instance recorded children; the guard that refuses to lose
  children is only reached when the box is there and the package is not.\<close>

theorem cleanup_without_box_drops_children:
  "(obj_get packages (spec_jukebox (in_spec inst)) = None \<longrightarrow>
      do_cleanup api inst packages w = (Inr AwaitChange, w)) \<and>
   (\<forall>item. obj_get packages (spec_jukebox (in_spec inst)) = Some item \<and>
      (\<forall>p \<in> set (ci_packages item). \<not> selects api inst p) \<and> have_child inst \<longrightarrow>
      (\<exists>e. do_cleanup api inst packages w = (Inl e, w)))"
  by (auto simp: do_cleanup_def io_return_def io_throw_def find_None_iff split: option.splits)
    (metis find_Some_iff nth_mem)

theorem cleanup_without_box_drops_children_witness:
  "do_cleanup demo_op (demo_inst\<lparr>in_status := Some (empty_status\<lparr>st_tfstate := Some ''state''\<rparr>)\<rparr>) [] [] = (Inr AwaitChange, []) \<and>
   have_child (demo_inst\<lparr>in_status := Some (empty_status\<lparr>st_tfstate := Some ''state''\<rparr>)\<rparr>)"
  using cleanup_without_box_drops_children [of "[]"] by (simp add: have_child_def tenant_have_child_def)

end
