(* ===== verification/JukeBoxCtl.thy ===== *)
theory JukeBoxCtl
  imports ReconcileLaws
begin

text \<open>
  \<open>operator/src/jukebox.rs\<close>: the controller of the jukeboxes. It refreshes the package cache, keeps the
  cron job of the box in place, and submits a scan job for a new box or when the annotation
  \<open>force-scan\<close> asks for one. The state of the controller is the pair of the cache and the cluster.
\<close>

section \<open>The operations\<close>

text \<open>A job as the controller reads it: being deleted, and the type and status of its conditions.\<close>

record k8s_job =
  kj_deleting :: bool
  kj_status :: "(string \<times> string) list option option"

record 'w ctl_api =
  ct_op :: "'w op_api"
  ct_job_get :: "string \<Rightarrow> ('w, k8s_job option) kube_call"
  ct_cron_patch :: "string \<Rightarrow> json \<Rightarrow> ('w, unit) kube_call"
  ct_cron_exists :: "string \<Rightarrow> ('w, bool) kube_call"
  ct_cron_delete :: "string \<Rightarrow> ('w, unit) kube_call"
  ct_remove_annotation :: "string \<Rightarrow> string \<Rightarrow> ('w, unit) kube_call"

definition should_create_scan_job :: "bool \<Rightarrow> string option \<Rightarrow> bool" where
  "should_create_scan_job job_is_terminal force_scan \<longleftrightarrow> \<not> job_is_terminal \<or> force_scan \<noteq> None"

definition inject_package_filter :: "string \<Rightarrow> (string \<times> json) list \<Rightarrow> (string \<times> json) list" where
  "inject_package_filter filter_value ctx =
     (if filter_value \<noteq> ''true'' \<and> filter_value \<noteq> []
      then obj_insert ''package_filter'' (JStr filter_value) ctx else ctx)"

definition is_job_terminal :: "k8s_job \<Rightarrow> bool" where
  "is_job_terminal job =
     (case kj_status job of
        None \<Rightarrow> False
      | Some None \<Rightarrow> False
      | Some (Some conditions) \<Rightarrow>
          list_ex (\<lambda>(ty, st). st = ''True'' \<and> (ty = ''Complete'' \<or> ty = ''Failed'')) conditions)"

definition scan_job_name :: "jukebox \<Rightarrow> string" where
  "scan_job_name self = ''scan-'' @ name_any (jb_meta self)"

definition box_context :: "'w ctl_api \<Rightarrow> jukebox \<Rightarrow> (string \<times> json) list" where
  "box_context api self =
     ctx_put
       [(''name'', JStr (name_any (jb_meta self))),
        (''job_name'', JStr (scan_job_name self)),
        (''schedule'', JStr (jb_schedule (jb_spec self)))] (oa_base_context (ct_op api))"

definition force_scan_of :: "jukebox \<Rightarrow> string option" where
  "force_scan_of self = annotation (jb_meta self) ''vynil.solidite.fr/force-scan''"

definition maintain_cron :: "'w ctl_api \<Rightarrow> jukebox \<Rightarrow> ('w, unit) io" where
  "maintain_cron api self =
     io_bind (io_lift (oa_render (ct_op api) ''{{> cronscan.yaml }}'' (JObj (box_context api self)))) (\<lambda>cj_def_str.
     io_bind (io_lift (oa_yaml_to_json (ct_op api) cj_def_str)) (\<lambda>cj_def.
     io_kube (ct_cron_patch api (scan_job_name self) cj_def)))"

definition clear_force_scan :: "'w ctl_api \<Rightarrow> jukebox \<Rightarrow> ('w, unit) io" where
  "clear_force_scan api self =
     (if force_scan_of self \<noteq> None
      then io_kube (ct_remove_annotation api (name_any (jb_meta self))
             ''/metadata/annotations/vynil.solidite.fr~1force-scan'')
      else io_return ())"

definition create_scan_job :: "'w ctl_api \<Rightarrow> jukebox \<Rightarrow> bool \<Rightarrow> ('w, unit) io" where
  "create_scan_job api self job_is_terminal =
     io_seq (if force_scan_of self \<noteq> None \<and> job_is_terminal
             then delete_job_and_wait (ct_op api) (scan_job_name self) else io_return ())
       (let ctx = (case force_scan_of self of
                     Some filter_value \<Rightarrow> inject_package_filter filter_value (box_context api self)
                   | None \<Rightarrow> box_context api self)
        in io_bind (io_lift (oa_render (ct_op api) ''{{> scan.yaml }}'' (JObj ctx))) (\<lambda>job_def_str.
           io_bind (io_lift (oa_yaml_to_json (ct_op api) job_def_str)) (\<lambda>job_def.
           io_seq (upsert_job (ct_op api) (scan_job_name self) job_def)
             (clear_force_scan api self))))"

definition scan_box :: "'w ctl_api \<Rightarrow> jukebox \<Rightarrow> bool \<Rightarrow> ('w, action) io" where
  "scan_box api self job_is_terminal =
     io_seq (maintain_cron api self)
       (io_seq (if should_create_scan_job job_is_terminal (force_scan_of self)
                then create_scan_job api self job_is_terminal else io_return ())
          (io_return (Requeue (15 * 60))))"

definition guard_and_scan :: "'w ctl_api \<Rightarrow> jukebox \<Rightarrow> ('w, action) io" where
  "guard_and_scan api self w =
     (case ct_job_get api (scan_job_name self) w of
        (Inr (Some job), w') \<Rightarrow>
          (if kj_deleting job then (Inr (Requeue 60), w')
           else if \<not> is_job_terminal job then (Inr (Requeue 60), w')
           else scan_box api self True w')
      | (_, w') \<Rightarrow> scan_box api self False w')"

definition reconcile_box :: "'w ctl_api \<Rightarrow> jukebox \<Rightarrow> (package_cache \<times> 'w, action) io" where
  "reconcile_box api self s =
     (let cache = refresh_cache (fst s) self
      in case guard_and_scan api self (snd s) of (r, w') \<Rightarrow> (r, (cache, w')))"

text \<open>An existence test that fails counts as absence; a deletion that fails is only logged.\<close>

definition delete_if_there ::
  "('w, bool) kube_call \<Rightarrow> ('w \<Rightarrow> 'a \<times> 'w) \<Rightarrow> 'w \<Rightarrow> 'w" where
  "delete_if_there exists del w =
     (case exists w of
        (Inr True, w') \<Rightarrow> snd (del w')
      | (_, w') \<Rightarrow> w')"

definition cleanup_box :: "'w ctl_api \<Rightarrow> jukebox \<Rightarrow> (package_cache \<times> 'w, action) io" where
  "cleanup_box api self s =
     (let cache = remove_jukebox_cache (name_any (jb_meta self)) (fst s);
          w1 = delete_if_there (ct_cron_exists api (scan_job_name self)) (ct_cron_delete api (scan_job_name self)) (snd s);
          w2 = delete_if_there (oa_job_exists (ct_op api) (scan_job_name self)) (oa_job_delete (ct_op api) (scan_job_name self)) w1
      in (Inr AwaitChange, (cache, w2)))"

definition box_error_policy :: "jukebox \<Rightarrow> verror \<Rightarrow> action" where
  "box_error_policy jb e = Requeue (5 * 60)"

section \<open>The trace of the scan requests\<close>

text \<open>
  The observation is the list of what the API server accepted about scans: a job, or the removal of
  the annotation.
\<close>

datatype scan_act = Submitted json | Cleared

definition scan_trace :: "'w ctl_api \<Rightarrow> ('w \<Rightarrow> scan_act list) \<Rightarrow> bool" where
  "scan_trace api tr \<longleftrightarrow>
     (\<forall>n. keeps tr (ct_job_get api n)) \<and> (\<forall>n d. keeps tr (ct_cron_patch api n d)) \<and>
     (\<forall>n. keeps tr (oa_job_delete (ct_op api) n)) \<and> (\<forall>n u. keeps tr (oa_await_deleted (ct_op api) n u)) \<and>
     (\<forall>n d w. case oa_job_patch (ct_op api) n d w of
        (Inl _, w') \<Rightarrow> tr w' = tr w | (Inr _, w') \<Rightarrow> tr w' = tr w @ [Submitted d]) \<and>
     (\<forall>d w. case oa_job_create (ct_op api) d w of
        (Inl _, w') \<Rightarrow> tr w' = tr w | (Inr _, w') \<Rightarrow> tr w' = tr w @ [Submitted d]) \<and>
     (\<forall>n p w. case ct_remove_annotation api n p w of
        (Inl _, w') \<Rightarrow> tr w' = tr w | (Inr _, w') \<Rightarrow> tr w' = tr w @ [Cleared])"

text \<open>An upsert that succeeds submitted the job; one that fails submitted nothing.\<close>

lemma trace_create:
  assumes "scan_trace api tr" and "create_job (ct_op api) d w = (r, w')"
  shows "tr w' = (case r of Inl _ \<Rightarrow> tr w | Inr _ \<Rightarrow> tr w @ [Submitted d])"
proof -
  have c: "case oa_job_create (ct_op api) d w of
        (Inl _, w') \<Rightarrow> tr w' = tr w | (Inr _, w') \<Rightarrow> tr w' = tr w @ [Submitted d]" for w
    using assms(1) by (simp add: scan_trace_def)
  show ?thesis
    using assms(2) c [of w]
    by (auto simp: create_job_def io_throw_def io_kube_def split: option.splits prod.splits sum.splits)
qed

lemma trace_recreate:
  assumes "scan_trace api tr" and "recreate_job (ct_op api) n d w = (r, w')"
  shows "tr w' = (case r of Inl _ \<Rightarrow> tr w | Inr _ \<Rightarrow> tr w @ [Submitted d])"
proof -
  have del: "keeps tr (oa_job_delete (ct_op api) n)" and aw: "keeps tr (io_wait (oa_await_deleted (ct_op api) n u))" for u
    using assms(1) by (auto simp: scan_trace_def intro!: keeps)
  show ?thesis
    using assms(2) trace_create [OF assms(1)]
    by (auto simp: recreate_job_def io_bind_def io_seq_def io_kube_def io_return_def
        dest!: keepsD [OF del] keepsD [OF aw] split: prod.splits sum.splits option.splits)
qed

lemma trace_upsert:
  assumes "scan_trace api tr" and "upsert_job (ct_op api) n d w = (r, w')"
  shows "tr w' = (case r of Inl _ \<Rightarrow> tr w | Inr _ \<Rightarrow> tr w @ [Submitted d])"
proof -
  have p: "case oa_job_patch (ct_op api) n d w of
        (Inl _, w') \<Rightarrow> tr w' = tr w | (Inr _, w') \<Rightarrow> tr w' = tr w @ [Submitted d]"
    using assms(1) by (simp add: scan_trace_def)
  show ?thesis
    using assms(2) p trace_recreate [OF assms(1)]
    by (auto simp: upsert_job_def split: prod.splits sum.splits)
qed

lemma trace_clear:
  assumes "scan_trace api tr" and "clear_force_scan api self w = (r, w')"
  shows "tr w' = tr w \<or> (force_scan_of self \<noteq> None \<and> tr w' = tr w @ [Cleared])"
proof -
  have c: "case ct_remove_annotation api n p w of
        (Inl _, w') \<Rightarrow> tr w' = tr w | (Inr _, w') \<Rightarrow> tr w' = tr w @ [Cleared]" for n p
    using assms(1) by (simp add: scan_trace_def)
  show ?thesis
    using assms(2) c [of "name_any (jb_meta self)" "''/metadata/annotations/vynil.solidite.fr~1force-scan''"]
    by (auto simp: clear_force_scan_def io_kube_def io_return_def split: prod.splits sum.splits if_splits)
qed

definition scan_request :: "jukebox \<Rightarrow> scan_act list \<Rightarrow> scan_act list \<Rightarrow> bool" where
  "scan_request self old new \<longleftrightarrow>
     (\<exists>d. new = old @ [Submitted d] \<or> (force_scan_of self \<noteq> None \<and> new = old @ [Submitted d, Cleared]))"

lemma submit_then_clear:
  assumes "scan_trace api tr"
  shows "changes_by tr (io_seq (upsert_job (ct_op api) n d) (clear_force_scan api self)) (scan_request self)"
  unfolding changes_by_def
proof (intro allI impI)
  fix w
  assume ne: "tr (snd (io_seq (upsert_job (ct_op api) n d) (clear_force_scan api self) w)) \<noteq> tr w"
  obtain x w1 where u: "upsert_job (ct_op api) n d w = (x, w1)" by (cases "upsert_job (ct_op api) n d w")
  obtain y w2 where c: "clear_force_scan api self w1 = (y, w2)" by (cases "clear_force_scan api self w1")
  from ne u c trace_upsert [OF assms u] trace_clear [OF assms c]
  show "scan_request self (tr w) (tr (snd (io_seq (upsert_job (ct_op api) n d) (clear_force_scan api self) w)))"
    by (cases x) (auto simp: io_seq_def io_bind_def scan_request_def)
qed

lemma delete_wait_trace:
  assumes "scan_trace api tr"
  shows "keeps tr (delete_job_and_wait (ct_op api) n)"
proof -
  have del: "keeps tr (oa_job_delete (ct_op api) n)" and aw: "keeps tr (io_wait (oa_await_deleted (ct_op api) n u))" for u
    using assms by (auto simp: scan_trace_def intro!: keeps)
  show ?thesis
    by (rule keepsI) (auto simp: delete_job_and_wait_def dest!: keepsD [OF del] keepsD [OF aw]
        split: prod.splits sum.splits option.splits)
qed

lemma create_scan_trace:
  assumes "scan_trace api tr"
  shows "changes_by tr (create_scan_job api self terminal) (scan_request self)"
  unfolding create_scan_job_def Let_def
  by (intro changes_seq [OF _ changes_bind] changes_bind submit_then_clear keeps_lift assms)
    (auto intro!: keeps delete_wait_trace assms)

lemma scan_box_trace:
  assumes "scan_trace api tr"
  shows "changes_by tr (scan_box api self terminal)
    (\<lambda>old new. should_create_scan_job terminal (force_scan_of self) \<and> scan_request self old new)"
proof -
  have "keeps tr (maintain_cron api self)"
    unfolding maintain_cron_def using assms by (auto simp: scan_trace_def intro!: keeps)
  moreover have "changes_by tr (if should_create_scan_job terminal (force_scan_of self)
      then create_scan_job api self terminal else io_return ())
      (\<lambda>old new. should_create_scan_job terminal (force_scan_of self) \<and> scan_request self old new)"
    using create_scan_trace [OF assms, of self terminal]
    by (auto simp: keeps_changes keeps_return elim: changes_mono)
  ultimately show ?thesis
    unfolding scan_box_def by (intro changes_seq changes_then keeps_return)
qed

section \<open>The properties\<close>

definition demo_ctl :: "scan_act list ctl_api" where
  "demo_ctl =
     \<lparr>ct_op =
        \<lparr>oa_kube =
           \<lparr>ka_list_services = (\<lambda>w. (Some (Inr []), w)), ka_list_system = (\<lambda>w. (Inr [], w)),
            ka_list_tenant = (\<lambda>w. (Inr [], w)), ka_list_tenant_in = (\<lambda>ns w. (Inr [], w)),
            ka_crd_exists = (\<lambda>crd w. (Inr False, w)),
            ka_ns_labels = (\<lambda>ns w. (Inr None, w)), ka_ns_select = (\<lambda>sel w. (Inr [], w)),
            ka_api_version = (\<lambda>w. (Inr (JObj []), w)), ka_eval_truth = (\<lambda>i s w. (Inr True, w)),
            ka_env = (\<lambda>v. None), ka_json = (\<lambda>j. ''null''), ka_semver = demo_crate,
            ka_now = length, ka_cell = (\<lambda>w. None), ka_set_cell = (\<lambda>c w. w)\<rparr>,
         oa_cluster =
           \<lparr>cl_now = (\<lambda>w. 0), cl_patch_status = (\<lambda>k ns n fs w. (Inl (KApi ''forbidden''), w)),
            cl_publish = (\<lambda>self ev w. (Inr (), w)), cl_gzip = Inr, cl_gunzip = Inr, cl_b64_encode = (\<lambda>s. s),
            cl_b64_decode = Inr, cl_sha256 = (\<lambda>s. ''sha''), cl_json = (\<lambda>j. ''{}'')\<rparr>,
         oa_my_ns = ''vynil-system'', oa_base_context = [],
         oa_secret = (\<lambda>s ns w. (Inr None, w)), oa_parse_json = (\<lambda>s. Inr JNull), oa_b64_decode = Inr,
         oa_utf8 = (\<lambda>s. True), oa_pull_manifest = (\<lambda>r i t a w. (ManifestUnknown, w)),
         oa_eval_map_string = (\<lambda>i s w. (Inr ''{}'', w)), oa_debug = (\<lambda>s. s),
         oa_render = (\<lambda>t c. Inr ''job''), oa_yaml_to_json = (\<lambda>s. Inr (JStr s)), oa_as_job = (\<lambda>d. None),
         oa_job_exists = (\<lambda>n w. (Inr True, w)), oa_job_patch = (\<lambda>n d w. (Inr (), w @ [Submitted d])),
         oa_job_create = (\<lambda>d w. (Inr (), w @ [Submitted d])), oa_job_delete = (\<lambda>n w. (Inr None, w)),
         oa_await_deleted = (\<lambda>n u w. (WaitDone, w)), oa_await_completed = (\<lambda>n w. (WaitDone, w)),
         oa_remove_annotation = (\<lambda>k ns n p w. (Inr (), w))\<rparr>,
      ct_job_get = (\<lambda>n w. (Inr (Some \<lparr>kj_deleting = False, kj_status = Some (Some [(''Complete'', ''True'')])\<rparr>), w)),
      ct_cron_patch = (\<lambda>n d w. (Inr (), w)), ct_cron_exists = (\<lambda>n w. (Inr True, w)),
      ct_cron_delete = (\<lambda>n w. (Inl (KApi ''conflict''), w)),
      ct_remove_annotation = (\<lambda>n p w. (Inr (), w @ [Cleared]))\<rparr>"

lemma demo_ctl_trace: "scan_trace demo_ctl (\<lambda>w. w)"
  by (simp add: scan_trace_def demo_ctl_def keeps_def)

definition demo_forced :: jukebox where
  "demo_forced = demo_box\<lparr>jb_meta := (jb_meta demo_box)\<lparr>md_annotations := [(''vynil.solidite.fr/force-scan'', ''db'')]\<rparr>\<rparr>"

lemma demo_forced_run:
  "reconcile_box demo_ctl demo_forced ([], []) =
     (Inr (Requeue 900), (refresh_cache [] demo_forced, [Submitted (JStr ''job''), Cleared]))"
  by (simp add: reconcile_box_def Let_def guard_and_scan_def demo_ctl_def is_job_terminal_def scan_box_def
      maintain_cron_def io_seq_def io_bind_def io_lift_def io_kube_def io_return_def should_create_scan_job_def
      create_scan_job_def force_scan_of_def demo_forced_def annotation_def delete_job_and_wait_def upsert_job_def
      clear_force_scan_def)

lemma guard_trace:
  assumes "scan_trace api tr"
  shows "changes_by tr (guard_and_scan api self)
    (\<lambda>old new. scan_request self old new)"
  unfolding changes_by_def
proof (intro allI impI)
  fix w
  assume ne: "tr (snd (guard_and_scan api self w)) \<noteq> tr w"
  have g: "keeps tr (ct_job_get api (scan_job_name self))" using assms by (simp add: scan_trace_def)
  obtain x w1 where get: "ct_job_get api (scan_job_name self) w = (x, w1)"
    by (cases "ct_job_get api (scan_job_name self) w")
  with keepsD [OF g] have w1: "tr w1 = tr w" by blast
  from get ne w1 obtain terminal where "guard_and_scan api self w = scan_box api self terminal w1"
    by (auto simp: guard_and_scan_def split: sum.splits option.splits if_splits)
  with ne w1 changesD [OF scan_box_trace [OF assms] prod.collapse [symmetric], of self terminal w1]
  show "scan_request self (tr w) (tr (snd (guard_and_scan api self w)))" by simp
qed

text \<open>C2: a request for a scan is not lost: in one reconciliation of a jukebox the API server accepts either
  nothing about scans, or one job, or one job and then, only when the box has the annotation
  \<open>force-scan\<close>, its removal; the annotation is never removed without the job before it.\<close>

theorem force_scan_not_lost:
  assumes "scan_trace api tr" and "reconcile_box api self (cache, w) = (r, (cache', w'))"
  shows "tr w' = tr w \<or>
    (\<exists>d. tr w' = tr w @ [Submitted d] \<or> (force_scan_of self \<noteq> None \<and> tr w' = tr w @ [Submitted d, Cleared]))"
proof -
  have run: "guard_and_scan api self w = (r, w')"
    using assms(2) by (simp add: reconcile_box_def Let_def split: prod.splits)
  from changesD [OF guard_trace [OF assms(1)] run] show ?thesis by (auto simp: scan_request_def)
qed

theorem force_scan_not_lost_witness:
  "\<exists>d w'. snd (snd (reconcile_box demo_ctl demo_forced ([], []))) = w' \<and> w' = [Submitted d, Cleared] \<and>
     (w' = [] \<or> (\<exists>d. w' = [] @ [Submitted d] \<or> (force_scan_of demo_forced \<noteq> None \<and> w' = [] @ [Submitted d, Cleared])))"
  using force_scan_not_lost [where tr = "\<lambda>w. w", OF demo_ctl_trace demo_forced_run] demo_forced_run by auto

text \<open>A box whose scan job has ended and that nobody asked to scan again is left to its cron job: the
  reconciliation submits nothing, and a box whose job still runs is only looked at again a minute
  later; in both cases the package cache is brought up to date first.\<close>

theorem settled_box_not_rescanned:
  assumes "scan_trace api tr" and "ct_job_get api (scan_job_name self) w = (Inr (Some job), w1)"
    and "reconcile_box api self (cache, w) = (r, (cache', w'))"
    and "kj_deleting job \<or> \<not> is_job_terminal job \<or> force_scan_of self = None"
  shows "tr w' = tr w \<and> cache' = refresh_cache cache self \<and>
    (kj_deleting job \<or> \<not> is_job_terminal job \<longrightarrow> r = Inr (Requeue 60) \<and> w' = w1)"
proof -
  have run: "guard_and_scan api self w = (r, w')" and c: "cache' = refresh_cache cache self"
    using assms(3) by (auto simp: reconcile_box_def Let_def split: prod.splits)
  have "keeps tr (ct_job_get api (scan_job_name self))" using assms(1) by (simp add: scan_trace_def)
  with assms(2) have w1: "tr w1 = tr w" by (blast dest: keepsD)
  show ?thesis
  proof (cases "kj_deleting job \<or> \<not> is_job_terminal job")
    case True
    with run assms(2) have "r = Inr (Requeue 60) \<and> w' = w1" by (auto simp: guard_and_scan_def split: if_splits)
    with w1 c show ?thesis by simp
  next
    case False
    with run assms(2,4) have s: "scan_box api self True w1 = (r, w')" and "force_scan_of self = None"
      by (auto simp: guard_and_scan_def)
    with changesD [OF scan_box_trace [OF assms(1)] s] have "tr w' = tr w1"
      by (auto simp: should_create_scan_job_def)
    with w1 c False show ?thesis by simp
  qed
qed

theorem settled_box_not_rescanned_witness:
  "\<exists>r cache' w'. reconcile_box demo_ctl demo_box ([], []) = (r, (cache', w')) \<and> w' = [] \<and>
     cache' = refresh_cache [] demo_box"
proof -
  have get: "ct_job_get demo_ctl (scan_job_name demo_box) [] =
      (Inr (Some \<lparr>kj_deleting = False, kj_status = Some (Some [(''Complete'', ''True'')])\<rparr>), [])"
    by (simp add: demo_ctl_def)
  obtain r cache' w' where run: "reconcile_box demo_ctl demo_box ([], []) = (r, (cache', w'))"
    by (metis prod.collapse)
  have "force_scan_of demo_box = None" by (simp add: force_scan_of_def annotation_def demo_box_def)
  with settled_box_not_rescanned [where tr = "\<lambda>w. w", OF demo_ctl_trace get run] run show ?thesis by blast
qed

text \<open>The cleanup of a deleted jukebox always ends, whatever the API server answers, with the entry of
  the box gone from the package cache and the entries of the others as they were.\<close>

theorem cleanup_box_forgets:
  "\<exists>cache' w'. cleanup_box api self (cache, w) = (Inr AwaitChange, (cache', w')) \<and>
     (\<forall>n. obj_get cache' n = (if n = name_any (jb_meta self) then None else obj_get cache n))"
  by (simp add: cleanup_box_def Let_def remove_jukebox_cache_def)

end
