(* ===== verification/KubectlActions.thy ===== *)
theory KubectlActions
  imports Kubectl JukeBoxCtl
begin

text \<open>
  The verbs of \<open>kubectl-vynil\<close> that drive the operator (\<open>kubectl-vynil/src/actions.rs\<close>): set an annotation the
  operator acts on, then poll the cluster until the job it makes has run or a deadline has passed. The cluster, the
  monotonic clock and the standard output are the state \<open>'w\<close>; a loop that polls is a partial function whose value
  is \<open>None\<close> when it does not return. An error is the chain of its contexts, outermost first.
\<close>

section \<open>The cluster as the client sees it\<close>

record job_condition =
  jc_type :: string
  jc_status :: string
  jc_message :: "string option"

record client_job =
  cj_uid :: "string option"
  cj_conditions :: "job_condition list option option"             \<comment> \<open>of the status\<close>
  cj_containers :: "(string \<times> string option) list option list option"  \<comment> \<open>their environments\<close>

record job_pod =
  jp_name :: "string option"
  jp_phase :: "string option"

type_synonym chain = "string list"

record 'w client_api =
  kc_client :: "'w \<Rightarrow> (string + unit) \<times> 'w"
  kc_get_job :: "string \<Rightarrow> string \<Rightarrow> 'w \<Rightarrow> (string + client_job option) \<times> 'w"   \<comment> \<open>namespace, name\<close>
  kc_annotate :: "string \<Rightarrow> string option \<Rightarrow> string \<Rightarrow> string \<Rightarrow> string \<Rightarrow> 'w \<Rightarrow> (string + unit) \<times> 'w"
    \<comment> \<open>plural, namespace, name, key, value\<close>
  kc_instance_spec :: "string \<Rightarrow> string \<Rightarrow> string \<Rightarrow> 'w \<Rightarrow> (string + json option) \<times> 'w"
  kc_pods :: "string \<Rightarrow> string \<Rightarrow> 'w \<Rightarrow> (string + job_pod list) \<times> 'w"          \<comment> \<open>namespace, selector\<close>
  kc_now :: "'w \<Rightarrow> nat"                                                     \<comment> \<open>milliseconds\<close>
  kc_sleep :: "nat \<Rightarrow> 'w \<Rightarrow> 'w"
  kc_print :: "string \<Rightarrow> 'w \<Rightarrow> 'w"

definition POLL_INTERVAL :: nat where
  "POLL_INTERVAL = 2000"

type_synonym ('w, 'a) act = "'w \<Rightarrow> ((chain + 'a) \<times> 'w) option"

definition a_return :: "'a \<Rightarrow> ('w, 'a) act" where
  "a_return a w = Some (Inr a, w)"

definition a_bail :: "chain \<Rightarrow> ('w, 'a) act" where
  "a_bail e w = Some (Inl e, w)"

definition a_bind :: "('w, 'a) act \<Rightarrow> ('a \<Rightarrow> ('w, 'b) act) \<Rightarrow> ('w, 'b) act" where
  "a_bind m f w =
     (case m w of
        None \<Rightarrow> None
      | Some (Inl e, w') \<Rightarrow> Some (Inl e, w')
      | Some (Inr a, w') \<Rightarrow> f a w')"

text \<open>A call of the cluster, whose error gets contexts.\<close>

definition a_call :: "chain \<Rightarrow> ('w \<Rightarrow> (string + 'a) \<times> 'w) \<Rightarrow> ('w, 'a) act" where
  "a_call ctx m w = (case m w of (Inl e, w') \<Rightarrow> Some (Inl (ctx @ [e]), w') | (Inr a, w') \<Rightarrow> Some (Inr a, w'))"

definition a_print :: "'w client_api \<Rightarrow> string \<Rightarrow> ('w, unit) act" where
  "a_print api l w = Some (Inr (), kc_print api l w)"

definition a_now :: "'w client_api \<Rightarrow> ('w, nat) act" where
  "a_now api w = Some (Inr (kc_now api w), w)"

section \<open>Polling a job\<close>

datatype job_outcome = Complete | Failed string

text \<open>The job when it is another one than before.\<close>

definition recreated_job :: "string option \<Rightarrow> client_job option \<Rightarrow> client_job option" where
  "recreated_job old_uid found =
     (case found of
        None \<Rightarrow> None
      | Some job \<Rightarrow>
          if (case old_uid of Some old \<Rightarrow> cj_uid job \<noteq> Some old | None \<Rightarrow> True) then Some job else None)"

partial_function (option) wait_job_recreated ::
  "'w client_api \<Rightarrow> string \<Rightarrow> string \<Rightarrow> string option \<Rightarrow> nat \<Rightarrow> string \<Rightarrow> 'w \<Rightarrow> ((chain + client_job) \<times> 'w) option" where
  "wait_job_recreated api ns name old_uid deadline err_id w =
     (case kc_get_job api ns name w of
        (Inl e, w1) \<Rightarrow> Some (Inl [''failed to query job'', e], w1)
      | (Inr found, w1) \<Rightarrow>
          (case recreated_job old_uid found of
             Some job \<Rightarrow> Some (Inr job, w1)
           | None \<Rightarrow>
               if deadline \<le> kc_now api w1
               then Some (Inl [err_id @ '': timed out waiting for job '' @ name @ '' to be (re)created''], w1)
               else wait_job_recreated api ns name old_uid deadline err_id (kc_sleep api POLL_INTERVAL w1)))"

fun terminal_condition :: "job_condition list \<Rightarrow> job_outcome option" where
  "terminal_condition [] = None"
| "terminal_condition (c # cs) =
     (if jc_status c = ''True'' \<and> jc_type c = ''Complete'' then Some Complete
      else if jc_status c = ''True'' \<and> jc_type c = ''Failed''
      then Some (Failed (or_default ''no message'' (jc_message c)))
      else terminal_condition cs)"

definition job_outcome_of :: "client_job option \<Rightarrow> job_outcome option" where
  "job_outcome_of found =
     Option.bind found (\<lambda>job. Option.bind (cj_conditions job) (\<lambda>cs. terminal_condition (or_default [] cs)))"

partial_function (option) wait_job_terminal ::
  "'w client_api \<Rightarrow> string \<Rightarrow> string \<Rightarrow> nat \<Rightarrow> string \<Rightarrow> 'w \<Rightarrow> ((chain + job_outcome) \<times> 'w) option" where
  "wait_job_terminal api ns name deadline err_id w =
     (case kc_get_job api ns name w of
        (Inl e, w1) \<Rightarrow> Some (Inl [''failed to query job'', e], w1)
      | (Inr found, w1) \<Rightarrow>
          (case job_outcome_of found of
             Some oc \<Rightarrow> Some (Inr oc, w1)
           | None \<Rightarrow>
               if deadline \<le> kc_now api w1
               then Some (Inl [err_id @ '': timed out waiting for job '' @ name @ '' to finish''], w1)
               else wait_job_terminal api ns name deadline err_id (kc_sleep api POLL_INTERVAL w1)))"

definition job_uid :: "'w client_api \<Rightarrow> chain \<Rightarrow> string \<Rightarrow> string \<Rightarrow> ('w, string option) act" where
  "job_uid api ctx ns name =
     a_bind (a_call (ctx @ [''failed to query existing job'']) (kc_get_job api ns name))
       (\<lambda>found. a_return (Option.bind found cj_uid))"

definition set_annotation ::
  "'w client_api \<Rightarrow> chain \<Rightarrow> string \<Rightarrow> string option \<Rightarrow> string \<Rightarrow> string \<Rightarrow> string \<Rightarrow> ('w, unit) act" where
  "set_annotation api ctx plural ns name key val =
     a_call (ctx @ [''failed to annotate '' @ name @ '' with '' @ key @ ''='' @ val]) (kc_annotate api plural ns name key val)"

text \<open>The value of \<open>TAG\<close> in the environment of the first container.\<close>

definition job_tag :: "client_job \<Rightarrow> string option" where
  "job_tag job =
     Option.bind (cj_containers job) (\<lambda>cs. case cs of [] \<Rightarrow> None | c # rest \<Rightarrow>
       Option.bind c (\<lambda>env. Option.bind (find (\<lambda>e. fst e = ''TAG'') env) snd))"

section \<open>Scan\<close>

definition force_scan_key :: string where
  "force_scan_key = ''vynil.solidite.fr/force-scan''"

definition scan_jukebox_and_wait ::
  "'w client_api \<Rightarrow> string \<Rightarrow> string option \<Rightarrow> string \<Rightarrow> nat \<Rightarrow> ('w, unit) act" where
  "scan_jukebox_and_wait api jukebox scan_filter vynil_ns timeout =
     (let job_name = ''scan-'' @ jukebox
      in a_bind (job_uid api [''SCAN-ERR-02: failed to read current scan job''] vynil_ns job_name) (\<lambda>old_uid.
         a_bind (set_annotation api [''SCAN-ERR-03: failed to trigger scan''] ''jukeboxes'' None jukebox force_scan_key
           (or_default ''true'' scan_filter)) (\<lambda>_.
         a_bind (a_now api) (\<lambda>start.
         let deadline = start + 1000 * timeout
         in a_bind (wait_job_recreated api vynil_ns job_name old_uid deadline ''SCAN-ERR-04'') (\<lambda>_.
            a_bind (wait_job_terminal api vynil_ns job_name deadline ''SCAN-ERR-05'') (\<lambda>oc.
              case oc of
                Complete \<Rightarrow> a_print api (''scan complete: job '' @ vynil_ns @ ''/'' @ job_name @ '' succeeded'')
              | Failed msg \<Rightarrow> a_bail [''SCAN-ERR-06: scan job '' @ job_name @ '' failed: '' @ msg]))))))"

definition run_jukebox_scan :: "'w client_api \<Rightarrow> string \<Rightarrow> string option \<Rightarrow> string \<Rightarrow> nat \<Rightarrow> ('w, unit) act" where
  "run_jukebox_scan api name package vynil_ns timeout =
     a_bind (a_call [''SCAN-ERR-01: failed to create kube client''] (kc_client api))
       (\<lambda>_. scan_jukebox_and_wait api name package vynil_ns timeout)"

definition spec_string :: "json option \<Rightarrow> string \<Rightarrow> string \<Rightarrow> ('w, string) act" where
  "spec_string spec key err =
     (case Option.bind (Option.bind spec (\<lambda>s. value_get s key)) as_str of
        None \<Rightarrow> a_bail [err]
      | Some s \<Rightarrow> a_return s)"

definition run_instance_scan ::
  "'w client_api \<Rightarrow> instance_kind_info \<Rightarrow> string \<Rightarrow> string \<Rightarrow> string \<Rightarrow> nat \<Rightarrow> ('w, unit) act" where
  "run_instance_scan api info ns name vynil_ns timeout =
     a_bind (a_call [''SCAN-ERR-01: failed to create kube client''] (kc_client api)) (\<lambda>_.
     a_bind (a_call [''SCAN-ERR-07: failed to read instance''] (kc_instance_spec api (ik_plural info) ns name)) (\<lambda>spec.
     a_bind (spec_string spec ''jukebox'' ''SCAN-ERR-08: instance spec has no .spec.jukebox'') (\<lambda>jukebox.
     a_bind (spec_string spec ''category'' ''SCAN-ERR-09: instance spec has no .spec.category'') (\<lambda>category.
     a_bind (spec_string spec ''package'' ''SCAN-ERR-10: instance spec has no .spec.package'') (\<lambda>package.
       scan_jukebox_and_wait api jukebox (Some (category @ ''/'' @ package)) vynil_ns timeout)))))"

section \<open>Upgrade\<close>

definition force_reinstall_key :: string where
  "force_reinstall_key = ''vynil.solidite.fr/force-reinstall''"

definition pod_done :: "string \<Rightarrow> bool" where
  "pod_done phase \<longleftrightarrow> phase = ''Succeeded'' \<or> phase = ''Failed''"

text \<open>One list of pods: a phase that changed is printed, and some pod may still run.\<close>

fun show_pods ::
  "'w client_api \<Rightarrow> job_pod list \<Rightarrow> (string \<rightharpoonup> string) \<Rightarrow> bool \<Rightarrow> 'w \<Rightarrow> (string \<rightharpoonup> string) \<times> bool \<times> 'w" where
  "show_pods api [] seen pending w = (seen, pending, w)"
| "show_pods api (p # ps) seen pending w =
     (let name = or_default [] (jp_name p); phase = or_default ''Unknown'' (jp_phase p);
          (seen, w) = (if seen name \<noteq> Some phase
                       then (seen(name \<mapsto> phase), kc_print api (name @ [CHR 0x09] @ phase) w) else (seen, w))
      in show_pods api ps seen (pending \<or> \<not> pod_done phase) w)"

partial_function (option) watch_loop ::
  "'w client_api \<Rightarrow> string \<Rightarrow> string \<Rightarrow> nat \<Rightarrow> (string \<rightharpoonup> string) \<Rightarrow> 'w \<Rightarrow> ((chain + unit) \<times> 'w) option" where
  "watch_loop api ns selector deadline seen w =
     (case kc_pods api ns selector w of
        (Inl e, w1) \<Rightarrow> Some (Inl [''UPG-ERR-08: failed to list pods'', e], w1)
      | (Inr pods, w1) \<Rightarrow>
          (case show_pods api pods seen False w1 of
             (seen', pending, w2) \<Rightarrow>
               if seen' \<noteq> Map.empty \<and> \<not> pending then Some (Inr (), w2)
               else if deadline \<le> kc_now api w2 then Some (Inr (), w2)
               else watch_loop api ns selector deadline seen' (kc_sleep api POLL_INTERVAL w2)))"

definition watch_pods ::
  "'w client_api \<Rightarrow> string \<Rightarrow> string \<Rightarrow> string \<Rightarrow> string \<Rightarrow> nat \<Rightarrow> ('w, unit) act" where
  "watch_pods api vynil_ns type_label ns name deadline =
     watch_loop api vynil_ns (''type='' @ type_label @ '',namespace='' @ ns @ '',instance='' @ name) deadline Map.empty"

definition run_upgrade ::
  "'w client_api \<Rightarrow> instance_kind_info \<Rightarrow> string \<Rightarrow> string \<Rightarrow> bool \<Rightarrow> string \<Rightarrow> nat \<Rightarrow> ('w, unit) act" where
  "run_upgrade api info ns name watch vynil_ns timeout =
     (let job_name = ik_type_label info @ ''--'' @ ns @ ''--'' @ name
      in a_bind (a_call [''UPG-ERR-02: failed to create kube client''] (kc_client api)) (\<lambda>_.
         a_bind (job_uid api [''UPG-ERR-03: failed to read current install job''] vynil_ns job_name) (\<lambda>old_uid.
         a_bind (set_annotation api [''UPG-ERR-04: failed to trigger reinstall''] (ik_plural info) (Some ns) name
           force_reinstall_key ''true'') (\<lambda>_.
         a_bind (a_now api) (\<lambda>start.
         let deadline = start + 1000 * timeout
         in a_bind (wait_job_recreated api vynil_ns job_name old_uid deadline ''UPG-ERR-05'') (\<lambda>job.
            a_bind (a_print api (''Installing version '' @ or_default ''<unknown>'' (job_tag job))) (\<lambda>_.
              if watch then watch_pods api vynil_ns (ik_type_label info) ns name deadline
              else a_bind (wait_job_terminal api vynil_ns job_name deadline ''UPG-ERR-06'') (\<lambda>oc.
                case oc of
                  Complete \<Rightarrow> a_print api (''upgrade complete: job '' @ job_name @ '' succeeded'')
                | Failed msg \<Rightarrow> a_bail [''UPG-ERR-07: install job '' @ job_name @ '' failed: '' @ msg])))))))) "

section \<open>Loops that end\<close>

text \<open>A loop returns when each state it does not return from leads to one with a smaller measure.\<close>

lemma returns_by_measure:
  fixes m :: "'s \<Rightarrow> nat"
  assumes "\<And>s. loop s \<noteq> None \<or> (\<exists>s'. loop s = loop s' \<and> m s' < m s)"
  shows "loop s \<noteq> None"
proof (induction s rule: measure_induct_rule [of m])
  case (less s)
  with assms [of s] show ?case by metis
qed

text \<open>The clock never goes back, and advances over a sleep.\<close>

definition clock_runs :: "'w client_api \<Rightarrow> bool" where
  "clock_runs api \<longleftrightarrow>
     (\<forall>d w. kc_now api w + d \<le> kc_now api (kc_sleep api d w)) \<and>
     (\<forall>ns n w. kc_now api w \<le> kc_now api (snd (kc_get_job api ns n w))) \<and>
     (\<forall>ns sel w. kc_now api w \<le> kc_now api (snd (kc_pods api ns sel w))) \<and>
     (\<forall>l w. kc_now api w \<le> kc_now api (kc_print api l w))"

text \<open>After a poll before the deadline, the sleep brings the deadline closer.\<close>

lemma closer:
  assumes "clock_runs api" "kc_now api w \<le> kc_now api w1" "\<not> deadline \<le> kc_now api w1"
  shows "deadline - kc_now api (kc_sleep api POLL_INTERVAL w1) < deadline - kc_now api w"
proof -
  have "kc_now api w1 + POLL_INTERVAL \<le> kc_now api (kc_sleep api POLL_INTERVAL w1)"
    using assms(1) by (simp add: clock_runs_def)
  with assms(2,3) show ?thesis unfolding POLL_INTERVAL_def by linarith
qed

lemma poll_clock:
  assumes "clock_runs api"
  shows "kc_get_job api ns n w = (r, w1) \<Longrightarrow> kc_now api w \<le> kc_now api w1"
    and "kc_pods api ns sel w = (q, w1) \<Longrightarrow> kc_now api w \<le> kc_now api w1"
  using assms unfolding clock_runs_def by (metis snd_conv)+

lemma wait_recreated_returns:
  assumes "clock_runs api"
  shows "wait_job_recreated api ns name old_uid deadline err w \<noteq> None"
proof (rule returns_by_measure [where m = "\<lambda>w. deadline - kc_now api w"])
  fix w
  obtain r w1 where job: "kc_get_job api ns name w = (r, w1)" by (cases "kc_get_job api ns name w")
  show "wait_job_recreated api ns name old_uid deadline err w \<noteq> None \<or>
    (\<exists>w'. wait_job_recreated api ns name old_uid deadline err w = wait_job_recreated api ns name old_uid deadline err w' \<and>
      deadline - kc_now api w' < deadline - kc_now api w)"
    using closer [OF assms poll_clock(1) [OF assms job]]
    by (subst (1 2) wait_job_recreated.simps) (auto simp: job split: sum.split option.split)
qed

lemma wait_terminal_returns:
  assumes "clock_runs api"
  shows "wait_job_terminal api ns name deadline err w \<noteq> None"
proof (rule returns_by_measure [where m = "\<lambda>w. deadline - kc_now api w"])
  fix w
  obtain r w1 where job: "kc_get_job api ns name w = (r, w1)" by (cases "kc_get_job api ns name w")
  show "wait_job_terminal api ns name deadline err w \<noteq> None \<or>
    (\<exists>w'. wait_job_terminal api ns name deadline err w = wait_job_terminal api ns name deadline err w' \<and>
      deadline - kc_now api w' < deadline - kc_now api w)"
    using closer [OF assms poll_clock(1) [OF assms job]]
    by (subst (1 2) wait_job_terminal.simps) (auto simp: job split: sum.split option.split)
qed

lemma show_pods_clock:
  assumes "clock_runs api"
  shows "show_pods api ps seen pending w = (seen', pending', w') \<Longrightarrow> kc_now api w \<le> kc_now api w'"
proof (induction ps arbitrary: seen pending w)
  case (Cons p ps)
  have "kc_now api w \<le> kc_now api (kc_print api l w)" for l using assms by (simp add: clock_runs_def)
  with Cons show ?case by (fastforce simp: Let_def split: if_splits intro: order_trans)
qed simp

lemma watch_loop_returns:
  fixes api :: "'a client_api"
  assumes "clock_runs api"
  shows "watch_loop api ns sel deadline seen w \<noteq> None"
proof -
  define loop where "loop = (\<lambda>(seen, w). watch_loop api ns sel deadline seen w)"
  define m where "m = (\<lambda>s. deadline - kc_now api (snd (s :: (string \<rightharpoonup> string) \<times> 'a)))"
  have "loop s \<noteq> None" for s
  proof (rule returns_by_measure [where m = m])
    fix s :: "(string \<rightharpoonup> string) \<times> 'a"
    obtain seen w where s: "s = (seen, w)" by (cases s)
    obtain r w1 where pods: "kc_pods api ns sel w = (r, w1)" by (cases "kc_pods api ns sel w")
    show "loop s \<noteq> None \<or> (\<exists>s'. loop s = loop s' \<and> m s' < m s)"
    proof (cases r)
      case (Inl e)
      with pods show ?thesis by (simp add: loop_def s watch_loop.simps [of api ns sel deadline seen w])
    next
      case (Inr ps)
      obtain seen' pending w2 where ps: "show_pods api ps seen False w1 = (seen', pending, w2)"
        by (metis prod_cases3)
      let ?s' = "(seen', kc_sleep api POLL_INTERVAL w2)"
      have "kc_now api w \<le> kc_now api w2"
        using poll_clock(2) [OF assms pods] show_pods_clock [OF assms ps] by simp
      from closer [OF assms this, of deadline] have "deadline \<le> kc_now api w2 \<or> m ?s' < m s"
        by (auto simp: m_def s)
      moreover have "loop s \<noteq> None \<or> loop s = loop ?s' \<and> \<not> deadline \<le> kc_now api w2"
        using pods ps Inr by (simp add: loop_def s watch_loop.simps [of api ns sel deadline seen w])
      ultimately show ?thesis by blast
    qed
  qed
  from this [of "(seen, w)"] show ?thesis by (simp add: loop_def)
qed

text \<open>An operation that always returns, and the rules for it.\<close>

definition returns :: "('w, 'a) act \<Rightarrow> bool" where
  "returns m \<longleftrightarrow> (\<forall>w. \<exists>r. m w = Some r)"

named_theorems return_rules

lemma returnsI: "(\<And>w. m w \<noteq> None) \<Longrightarrow> returns m"
  by (simp add: returns_def)

lemma returns_bind [return_rules]: "returns m \<Longrightarrow> (\<And>a. returns (f a)) \<Longrightarrow> returns (a_bind m f)"
  unfolding returns_def a_bind_def by (simp split: option.split prod.split sum.split)

lemma returns_steps [return_rules]:
  "returns (a_return a)" "returns (a_bail e)" "returns (a_call ctx c)" "returns (a_print api l)" "returns (a_now api)"
  by (auto simp: returns_def a_return_def a_bail_def a_call_def a_print_def a_now_def split: prod.split sum.split)

lemma returns_reads [return_rules]: "returns (job_uid api ctx ns name)" "returns (set_annotation api ctx plural nso name key val)"
  "returns (spec_string spec key err)"
  unfolding job_uid_def set_annotation_def spec_string_def by (auto intro!: return_rules split: option.split)

lemma returns_case [return_rules]:
  "returns m \<Longrightarrow> (\<And>msg. returns (f msg)) \<Longrightarrow> returns (case oc of Complete \<Rightarrow> m | Failed msg \<Rightarrow> f msg)"
  by (cases oc) simp_all

lemma returns_waits:
  assumes "clock_runs api"
  shows "returns (wait_job_recreated api ns name old_uid deadline err)" "returns (wait_job_terminal api ns name deadline err)"
    "returns (watch_pods api vns ty ns name deadline)"
  unfolding watch_pods_def by (intro returnsI wait_recreated_returns wait_terminal_returns watch_loop_returns assms)+

lemma returns_scan:
  assumes "clock_runs api"
  shows "returns (scan_jukebox_and_wait api jukebox scan_filter vynil_ns timeout)"
  unfolding scan_jukebox_and_wait_def Let_def by (intro return_rules returns_waits assms)

section \<open>Properties\<close>


text \<open>A later state of the world: one reached by operations of the client.\<close>

inductive client_step :: "'w client_api \<Rightarrow> 'w \<Rightarrow> 'w \<Rightarrow> bool" for api where
  polled: "client_step api w (snd (kc_get_job api ns n w))"
| annotated: "client_step api w (snd (kc_annotate api plural nso n key val w))"
| connected: "client_step api w (snd (kc_client api w))"
| read_spec: "client_step api w (snd (kc_instance_spec api plural ns n w))"
| listed: "client_step api w (snd (kc_pods api ns sel w))"
| slept: "client_step api w (kc_sleep api d w)"
| printed: "client_step api w (kc_print api l w)"

abbreviation later :: "'w client_api \<Rightarrow> 'w \<Rightarrow> 'w \<Rightarrow> bool" where
  "later api \<equiv> (client_step api)\<^sup>*\<^sup>*"

lemma later_poll: "kc_get_job api ns n w = (r, w1) \<Longrightarrow> later api w w1"
  using client_step.polled [of api w ns n] by auto

lemma later_sleep: "later api w (kc_sleep api d w)"
  by (auto intro: client_step.slept)

lemma wait_recreated_saw:
  assumes "wait_job_recreated api ns name old_uid deadline err w = Some (Inr job, w')"
  shows "\<exists>u. later api w u \<and> kc_get_job api ns name u = (Inr (Some job), w') \<and> recreated_job old_uid (Some job) = Some job"
proof -
  have "\<forall>job w'. r = (Inr job, w') \<longrightarrow>
      (\<exists>u. later api w u \<and> kc_get_job api ns name u = (Inr (Some job), w') \<and> recreated_job old_uid (Some job) = Some job)"
    if ret: "wait_job_recreated api ns name old_uid deadline err w = Some r" for r
  proof (rule wait_job_recreated.raw_induct [where P = "\<lambda>api ns name old_uid deadline err w r. \<forall>job w'. r = (Inr job, w') \<longrightarrow>
      (\<exists>u. later api w u \<and> kc_get_job api ns name u = (Inr (Some job), w') \<and> recreated_job old_uid (Some job) = Some job)",
      OF _ ret], goal_cases)
    case (1 f api ns name old_uid deadline err w r)
    obtain q w1 where q: "kc_get_job api ns name w = (q, w1)" by (cases "kc_get_job api ns name w")
    show ?case
    proof (intro allI impI)
      fix job w' assume r: "r = (Inr job, w')"
      obtain found where found: "q = Inr found" using 1(2) q r by (cases q) auto
      show "\<exists>u. later api w u \<and> kc_get_job api ns name u = (Inr (Some job), w') \<and>
        recreated_job old_uid (Some job) = Some job"
      proof (cases "recreated_job old_uid found")
        case (Some job2)
        with 1(2) q r found have "job2 = job" "w' = w1" by auto
        moreover have "found = Some job2" using Some by (auto simp: recreated_job_def split: option.splits if_splits)
        ultimately show ?thesis using Some q found by blast
      next
        case None
        then have "f api ns name old_uid deadline err (kc_sleep api POLL_INTERVAL w1) = Some (Inr job, w')"
          using 1(2) q r found by (auto split: if_splits)
        from 1(1) [OF this] obtain u where "later api (kc_sleep api POLL_INTERVAL w1) u"
          "kc_get_job api ns name u = (Inr (Some job), w')" "recreated_job old_uid (Some job) = Some job" by blast
        with later_poll [OF q] later_sleep [of api w1 POLL_INTERVAL] show ?thesis by (meson rtranclp_trans)
      qed
    qed
  qed
  with assms show ?thesis by blast
qed

lemma wait_terminal_saw:
  assumes "wait_job_terminal api ns name deadline err w = Some (Inr oc, w')"
  shows "\<exists>u found. later api w u \<and> kc_get_job api ns name u = (Inr found, w') \<and> job_outcome_of found = Some oc"
proof -
  have "\<forall>oc w'. r = (Inr oc, w') \<longrightarrow>
      (\<exists>u found. later api w u \<and> kc_get_job api ns name u = (Inr found, w') \<and> job_outcome_of found = Some oc)"
    if ret: "wait_job_terminal api ns name deadline err w = Some r" for r
  proof (rule wait_job_terminal.raw_induct [where P = "\<lambda>api ns name deadline err w r. \<forall>oc w'. r = (Inr oc, w') \<longrightarrow>
      (\<exists>u found. later api w u \<and> kc_get_job api ns name u = (Inr found, w') \<and> job_outcome_of found = Some oc)",
      OF _ ret], goal_cases)
    case (1 f api ns name deadline err w r)
    obtain q w1 where q: "kc_get_job api ns name w = (q, w1)" by (cases "kc_get_job api ns name w")
    show ?case
    proof (intro allI impI)
      fix oc w' assume r: "r = (Inr oc, w')"
      obtain found where found: "q = Inr found" using 1(2) q r by (cases q) auto
      show "\<exists>u found. later api w u \<and> kc_get_job api ns name u = (Inr found, w') \<and> job_outcome_of found = Some oc"
      proof (cases "job_outcome_of found")
        case (Some oc2)
        with 1(2) q r found have "oc2 = oc" "w' = w1" by auto
        with Some q found show ?thesis by blast
      next
        case None
        then have "f api ns name deadline err (kc_sleep api POLL_INTERVAL w1) = Some (Inr oc, w')"
          using 1(2) q r found by (auto split: if_splits)
        from 1(1) [OF this] obtain u found2 where "later api (kc_sleep api POLL_INTERVAL w1) u"
          "kc_get_job api ns name u = (Inr found2, w')" "job_outcome_of found2 = Some oc" by blast
        with later_poll [OF q] later_sleep [of api w1 POLL_INTERVAL] show ?thesis by (meson rtranclp_trans)
      qed
    qed
  qed
  with assms show ?thesis by blast
qed

lemma a_bindE:
  assumes "a_bind m f w = Some (Inr b, w')"
  obtains a u where "m w = Some (Inr a, u)" "f a u = Some (Inr b, w')"
  using assms by (auto simp: a_bind_def split: option.splits prod.splits sum.splits)

lemma a_callD: "a_call ctx c w = Some (Inr a, w') \<Longrightarrow> c w = (Inr a, w')"
  by (auto simp: a_call_def split: prod.splits sum.splits)

lemma recreated_differs:
  "recreated_job old_uid (Some job) = Some job \<Longrightarrow> old_uid \<noteq> None \<longrightarrow> cj_uid job \<noteq> old_uid"
  by (auto simp: recreated_job_def split: if_splits)


text \<open>What the client writes and waits for is what the operator reads and makes: the annotation that forces a scan, the
  job of a scan and the job of an installation have the names the operator uses, and the filter of the scan of an
  instance is split by the agent into the category and the package of that instance.\<close>

lemma client_and_operator_agree:
  "force_scan_of jb = annotation (jb_meta jb) force_scan_key \<and>
   scan_job_name jb = ''scan-'' @ name_any (jb_meta jb) \<and>
   job_name_of inst = ik_type_label (case in_kind inst of Tenant \<Rightarrow> TENANT_INSTANCE | Service \<Rightarrow> SERVICE_INSTANCE | System \<Rightarrow> SYSTEM_INSTANCE)
     @ ''--'' @ ns_of inst @ ''--'' @ name_any (in_meta inst)"
  "CHR ''/'' \<notin> set category \<Longrightarrow> split_filter (category @ ''/'' @ package) = (category, Some package)"
  by (auto simp: force_scan_of_def force_scan_key_def scan_job_name_def job_name_of_def type_name_def TENANT_INSTANCE_def
      SERVICE_INSTANCE_def SYSTEM_INSTANCE_def split_filter_def find_sub_char split: package_type.split)

section \<open>Witnesses\<close>

text \<open>A cluster whose state is the time and whether the job was made again, which takes two polls.\<close>

definition demo_client :: "(nat \<times> nat) client_api" where
  "demo_client =
     \<lparr>kc_client = (\<lambda>w. (Inr (), w)),
      kc_get_job = (\<lambda>ns n (t, k). (Inr (Some \<lparr>cj_uid = Some (if k < 2 then ''a'' else ''b''),
        cj_conditions = Some (Some [\<lparr>jc_type = ''Complete'', jc_status = ''True'', jc_message = None\<rparr>]),
        cj_containers = None\<rparr>), (t, Suc k))),
      kc_annotate = (\<lambda>plural ns n key val w. (Inr (), w)), kc_instance_spec = (\<lambda>plural ns n w. (Inr None, w)),
      kc_pods = (\<lambda>ns sel w. (Inr [], w)), kc_now = fst, kc_sleep = (\<lambda>d (t, k). (t + d, k)), kc_print = (\<lambda>l w. w)\<rparr>"

lemma demo_clock: "clock_runs demo_client"
  by (auto simp: clock_runs_def demo_client_def)

lemma demo_scan: "scan_jukebox_and_wait demo_client ''box'' None ''vynil-system'' 90 (0, 0) = Some (Inr (), (2000, 4))"
  by (simp add: scan_jukebox_and_wait_def job_uid_def set_annotation_def a_bind_def a_call_def a_return_def a_now_def
      a_print_def Let_def wait_job_recreated.simps wait_job_terminal.simps recreated_job_def job_outcome_of_def
      demo_client_def POLL_INTERVAL_def or_default_def)



end
