(* ===== verification/InstanceMock.thy ===== *)
theory InstanceMock
  imports K8sMock TestRun
begin

text \<open>
  The typed handles of the package tests (\<open>common/src/k8smock.rs\<close>: instances and jukeboxes found among the mocks of
  the test, whose status a script writes) and the mock HTTP client (\<open>core/src/http_mock.rs\<close>). A handle has a copy of
  its object; an instance writes its copy back to the list of mocks, which all handles of the test share.
\<close>

section \<open>Instances\<close>

text \<open>The status of an object with a field set; an object that is no map is left alone, as is a status that is none.\<close>

definition with_status_field :: "string \<Rightarrow> json \<Rightarrow> json \<Rightarrow> json" where
  "with_status_field key val obj =
     (case as_map obj of
        None \<Rightarrow> obj
      | Some top_map \<Rightarrow>
          (let status = (case obj_get top_map ''status'' of Some s \<Rightarrow> s | None \<Rightarrow> JObj [])
           in JObj (obj_insert ''status''
                (case as_map status of Some m \<Rightarrow> JObj (obj_insert key val m) | None \<Rightarrow> status) top_map)))"

fun replace_first :: "(json \<Rightarrow> bool) \<Rightarrow> json \<Rightarrow> json list \<Rightarrow> json list" where
  "replace_first same obj [] = []"
| "replace_first same obj (entry # entries) =
     (if same entry then obj # entries else entry # replace_first same obj entries)"

definition persist :: "json \<Rightarrow> json list \<Rightarrow> json list" where
  "persist obj mocks =
     (case as_map obj of
        None \<Rightarrow> mocks
      | Some m \<Rightarrow>
          (case (str_member m ''kind'', meta_str m ''name'', meta_str m ''namespace'') of
             (Some kind, Some name, Some ns) \<Rightarrow> replace_first (is_mock kind (Some name) (Some ns)) obj mocks
           | _ \<Rightarrow> mocks))"

text \<open>A handle and the mocks, after an operation on both. The object is persisted only when it is a map.\<close>

type_synonym 'a mock_op = "json \<times> json list \<Rightarrow> 'a \<times> json \<times> json list"

definition set_status_field :: "string \<Rightarrow> json \<Rightarrow> json \<times> json list \<Rightarrow> json \<times> json list" where
  "set_status_field key val h =
     (case as_map (fst h) of
        None \<Rightarrow> h
      | Some m \<Rightarrow> (let obj = with_status_field key val (fst h) in (obj, persist obj (snd h))))"

text \<open>The setters that write a field of the status; the value of each is the new handle.\<close>

definition mock_set_status_ready :: "string \<Rightarrow> json \<times> json list \<Rightarrow> json \<times> json list" where
  "mock_set_status_ready tag = set_status_field ''tag'' (JStr tag)"

definition mock_set_tfstate :: "string \<Rightarrow> json \<times> json list \<Rightarrow> json \<times> json list" where
  "mock_set_tfstate tfstate = set_status_field ''tfstate'' (JStr tfstate)"

definition mock_set_rhaistate :: "string \<Rightarrow> json \<times> json list \<Rightarrow> json \<times> json list" where
  "mock_set_rhaistate rhaistate = set_status_field ''rhaistate'' (JStr rhaistate)"

definition mock_set_status_crds :: "json \<Rightarrow> json \<times> json list \<Rightarrow> json \<times> json list" where
  "mock_set_status_crds l = set_status_field ''crds'' l"

definition mock_set_status_befores :: "json \<Rightarrow> json \<times> json list \<Rightarrow> json \<times> json list" where
  "mock_set_status_befores l = set_status_field ''befores'' l"

definition mock_set_status_vitals :: "json \<Rightarrow> json \<times> json list \<Rightarrow> json \<times> json list" where
  "mock_set_status_vitals l = set_status_field ''vitals'' l"

definition mock_set_status_scalables :: "json \<Rightarrow> json \<times> json list \<Rightarrow> json \<times> json list" where
  "mock_set_status_scalables l = set_status_field ''scalables'' l"

definition mock_set_status_others :: "json \<Rightarrow> json \<times> json list \<Rightarrow> json \<times> json list" where
  "mock_set_status_others l = set_status_field ''others'' l"

definition mock_set_status_posts :: "json \<Rightarrow> json \<times> json list \<Rightarrow> json \<times> json list" where
  "mock_set_status_posts l = set_status_field ''posts'' l"

definition mock_set_status_systems :: "json \<Rightarrow> json \<times> json list \<Rightarrow> json \<times> json list" where
  "mock_set_status_systems l = set_status_field ''systems'' l"

definition mock_set_services :: "json \<Rightarrow> json \<times> json list \<Rightarrow> json \<times> json list" where
  "mock_set_services l = set_status_field ''services'' l"

text \<open>The setters that record nothing: the agent that started, what is missing, and every failure.\<close>

datatype silent_setter =
    Agent_Started | Missing_Box string | Missing_Package string string | Missing_Requirement string
  | Missing_Init_Version string | Tofu_Failed string string | Rhai_Failed string string | Crd_Failed string
  | Before_Failed string | Vital_Failed string | Scalable_Failed string | Other_Failed string | Post_Failed string
  | System_Failed string | Init_Failed string | Schedule_Backup_Failed string

definition mock_silent :: "silent_setter \<Rightarrow> json \<times> json list \<Rightarrow> json \<times> json list" where
  "mock_silent s h = h"

definition mock_get_state :: "string \<Rightarrow> json \<Rightarrow> string" where
  "mock_get_state key obj =
     (case as_map (get_sub obj ''status'') of
        None \<Rightarrow> []
      | Some m \<Rightarrow> (case str_member m key of Some s \<Rightarrow> s | None \<Rightarrow> []))"

definition mock_get_tfstate :: "json \<Rightarrow> string" where
  "mock_get_tfstate = mock_get_state ''tfstate''"

definition mock_get_rhaistate :: "json \<Rightarrow> string" where
  "mock_get_rhaistate = mock_get_state ''rhaistate''"

definition mock_get_services_string :: "json \<Rightarrow> string" where
  "mock_get_services_string obj =
     (case Option.bind (as_map (get_sub obj ''status'')) (\<lambda>m. Option.bind (obj_get m ''services'') as_array) of
        None \<Rightarrow> []
      | Some arr \<Rightarrow>
          join '','' (sort (List.map_filter (\<lambda>s. Option.bind (as_map s) (\<lambda>m. str_member m ''key'')) arr)))"

text \<open>\<open>show\<close> writes a dynamic value that is no string; \<open>label_key\<close> is the environment's \<open>TENANT_LABEL\<close>.\<close>

definition dyn_show :: "(json \<Rightarrow> string) \<Rightarrow> json \<Rightarrow> string" where
  "dyn_show sh v = (case v of JStr s \<Rightarrow> s | _ \<Rightarrow> sh v)"

definition tenant_of_namespace :: "string \<Rightarrow> string \<Rightarrow> json \<Rightarrow> json option" where
  "tenant_of_namespace label_key ns m =
     (case as_map m of
        None \<Rightarrow> None
      | Some mm \<Rightarrow>
          if str_member mm ''kind'' = Some ''Namespace'' \<and> meta_str mm ''name'' = Some ns
          then Option.bind (meta_of mm) (\<lambda>meta. Option.bind (Option.bind (obj_get meta ''labels'') as_map)
                 (\<lambda>labels. obj_get labels label_key))
          else None)"

fun first_some :: "('a \<Rightarrow> 'b option) \<Rightarrow> 'a list \<Rightarrow> 'b option" where
  "first_some f [] = None"
| "first_some f (x # xs) = (case f x of Some b \<Rightarrow> Some b | None \<Rightarrow> first_some f xs)"

definition mock_get_tenant_name :: "(json \<Rightarrow> string) \<Rightarrow> string option \<Rightarrow> json \<times> json list \<Rightarrow> string" where
  "mock_get_tenant_name sh tenant_label h =
     (case Option.bind (as_map (get_sub (fst h) ''metadata'')) (\<lambda>m. str_member m ''namespace'') of
        None \<Rightarrow> []
      | Some ns \<Rightarrow>
          (let label_key = (case tenant_label of Some l \<Rightarrow> l | None \<Rightarrow> ''vynil.solidite.fr/tenant'')
           in case first_some (tenant_of_namespace label_key ns) (snd h) of
                Some tenant \<Rightarrow> dyn_show sh tenant
              | None \<Rightarrow> ns))"

definition mock_get_tenant_namespaces :: "(json \<Rightarrow> string) \<Rightarrow> string option \<Rightarrow> json \<times> json list \<Rightarrow> string list" where
  "mock_get_tenant_namespaces sh tenant_label h = [mock_get_tenant_name sh tenant_label h]"

definition find_instance_mock :: "json list \<Rightarrow> string \<Rightarrow> string \<Rightarrow> string \<Rightarrow> string + json" where
  "find_instance_mock mocks kind namespace name =
     (case find (is_mock kind (Some name) (Some namespace)) mocks of
        Some m \<Rightarrow> Inr m
      | None \<Rightarrow> Inl (''Failed to find '' @ kind @ '' '' @ name @ '' in namespace '' @ namespace @
                   '' in the Mock database''))"

definition list_instance_mocks :: "json list \<Rightarrow> string \<Rightarrow> string \<Rightarrow> json" where
  "list_instance_mocks mocks kind namespace =
     JObj [(''items'', JArr (map (\<lambda>m. JObj [(''obj'', m)]) (filter (\<lambda>m. has_kind kind m \<and> in_ns namespace m) mocks)))]"

section \<open>Jukeboxes\<close>

text \<open>A jukebox handle writes its own copy only.\<close>

definition box_set_status_field :: "string \<Rightarrow> json \<Rightarrow> json \<Rightarrow> json" where
  "box_set_status_field key val obj = with_status_field key val obj"

definition mock_set_status_updated :: "json \<Rightarrow> json \<Rightarrow> json" where
  "mock_set_status_updated packages = box_set_status_field ''packages'' packages"

definition mock_set_status_packages_merge :: "string \<Rightarrow> json \<Rightarrow> json \<Rightarrow> json" where
  "mock_set_status_packages_merge scan_filter packages = box_set_status_field ''packages'' packages"

definition mock_box_set_status_failed :: "string \<Rightarrow> json \<Rightarrow> json" where
  "mock_box_set_status_failed reason obj = obj"

definition find_jukebox_mock :: "json list \<Rightarrow> string \<Rightarrow> string + json" where
  "find_jukebox_mock mocks name =
     (case find (\<lambda>m. has_kind ''JukeBox'' m \<and> meta_name m = Some name) mocks of
        Some m \<Rightarrow> Inr m
      | None \<Rightarrow> Inl (''Failed to find JukeBox '' @ name @ '' in the Mock database''))"

definition list_jukebox_mocks :: "json list \<Rightarrow> json" where
  "list_jukebox_mocks mocks =
     JObj [(''items'', JArr (map (\<lambda>m. JObj [(''obj'', m)]) (filter (has_kind ''JukeBox'') mocks)))]"

section \<open>HTTP\<close>

text \<open>A method of the mock client: the first mock of the method and the path, whatever the base, headers and body.\<close>

record rest_client_mock =
  rm_baseurl :: string
  rm_mocks :: "http_mock list"

definition mock_request :: "string \<Rightarrow> string \<Rightarrow> rest_client_mock \<Rightarrow> string \<Rightarrow> string + (string \<times> json) list" where
  "mock_request method shown c path =
     (case filter (\<lambda>m. hm_method m = method \<and> hm_path m = path) (rm_mocks c) of
        m # ms \<Rightarrow> Inr (hm_return m)
      | [] \<Rightarrow> Inl (''Failed to find '' @ shown @ '' '' @ path @ '' in the Mock database''))"

definition mock_get :: "rest_client_mock \<Rightarrow> string \<Rightarrow> string + (string \<times> json) list" where
  "mock_get = mock_request ''Get'' ''GET''"

definition mock_head :: "rest_client_mock \<Rightarrow> string \<Rightarrow> string + (string \<times> json) list" where
  "mock_head = mock_request ''Head'' ''HEAD''"

definition mock_patch :: "rest_client_mock \<Rightarrow> string \<Rightarrow> json \<Rightarrow> string + (string \<times> json) list" where
  "mock_patch c path val = mock_request ''Patch'' ''PATCH'' c path"

definition mock_put :: "rest_client_mock \<Rightarrow> string \<Rightarrow> json \<Rightarrow> string + (string \<times> json) list" where
  "mock_put c path val = mock_request ''Put'' ''PUT'' c path"

definition mock_post :: "rest_client_mock \<Rightarrow> string \<Rightarrow> json \<Rightarrow> string + (string \<times> json) list" where
  "mock_post c path val = mock_request ''Post'' ''POST'' c path"

definition mock_delete :: "rest_client_mock \<Rightarrow> string \<Rightarrow> string + (string \<times> json) list" where
  "mock_delete = mock_request ''Delete'' ''DELETE''"

section \<open>Lemmas\<close>

lemma find_replace_same:
  "P obj \<Longrightarrow> find P xs = Some e \<Longrightarrow> find P (replace_first P obj xs) = Some obj"
  by (induction xs) (auto split: if_splits)

lemma find_replace_other:
  "(\<And>e. P e \<Longrightarrow> \<not> Q e) \<Longrightarrow> \<not> Q obj \<Longrightarrow> find Q (replace_first P obj xs) = find Q xs"
  by (induction xs) auto

lemma as_map_with_status: "as_map obj = Some m \<Longrightarrow>
    as_map (with_status_field key val obj) = Some (obj_insert ''status''
      (case as_map (case obj_get m ''status'' of Some s \<Rightarrow> s | None \<Rightarrow> JObj []) of
         Some st \<Rightarrow> JObj (obj_insert key val st) | None \<Rightarrow> (case obj_get m ''status'' of Some s \<Rightarrow> s | None \<Rightarrow> JObj [])) m)"
  by (simp add: with_status_field_def as_map_def Let_def)

lemma is_mock_with_status [simp]: "is_mock kind name ns (with_status_field key val obj) = is_mock kind name ns obj"
proof (cases "as_map obj")
  case None
  then show ?thesis by (simp add: with_status_field_def)
next
  case (Some m)
  then show ?thesis
    unfolding is_mock_def as_map_with_status [OF Some] by (simp add: str_member_def meta_str_def meta_of_def)
qed

lemma is_mock_map: "is_mock kind name ns obj \<Longrightarrow> \<exists>m. as_map obj = Some m \<and> str_member m ''kind'' = Some kind \<and>
    meta_str m ''name'' = name \<and> meta_str m ''namespace'' = ns"
  by (auto simp: is_mock_def split: option.splits)

text \<open>Writing back the object found for a key replaces that object.\<close>

lemma set_status_field_found:
  assumes "is_mock kind (Some name) (Some ns) obj"
  shows "set_status_field key val (obj, mocks) =
    (with_status_field key val obj,
     replace_first (is_mock kind (Some name) (Some ns)) (with_status_field key val obj) mocks)"
proof -
  have "is_mock kind (Some name) (Some ns) (with_status_field key val obj)" using assms by simp
  from is_mock_map [OF this] obtain m where "as_map (with_status_field key val obj) = Some m"
    "str_member m ''kind'' = Some kind" "meta_str m ''name'' = Some name" "meta_str m ''namespace'' = Some ns" by blast
  moreover obtain m0 where "as_map obj = Some m0" using is_mock_map [OF assms] by blast
  ultimately show ?thesis by (simp add: set_status_field_def persist_def Let_def)
qed

lemma status_of_with_status:
  assumes "as_map obj = Some m" "obj_get m ''status'' = None \<or> obj_get m ''status'' = Some (JObj st)"
  shows "get_sub (get_sub (with_status_field key val obj) ''status'') k =
    (if k = key then val else get_sub (get_sub obj ''status'') k)"
  using assms(2)
  by (elim disjE) (simp_all add: get_sub_def as_map_with_status [OF assms(1)] assms(1), simp_all add: as_map_def)

section \<open>Properties\<close>

text \<open>What a script writes in the status of an instance, the next script that looks the instance up reads: the
  instance found again has the field written, its other fields and every other object as they were.\<close>

theorem written_status_found:
  assumes "find_instance_mock mocks kind ns name = Inr obj"
    and "as_map obj = Some m" and "obj_get m ''status'' = None \<or> obj_get m ''status'' = Some (JObj st)"
    and "set_status_field key val (obj, mocks) = (obj', mocks')"
  shows "find_instance_mock mocks' kind ns name = Inr obj' \<and>
    get_sub (get_sub obj' ''status'') k = (if k = key then val else get_sub (get_sub obj ''status'') k) \<and>
    ((kind2, ns2, name2) \<noteq> (kind, ns, name) \<longrightarrow>
      find_instance_mock mocks' kind2 ns2 name2 = find_instance_mock mocks kind2 ns2 name2)"
proof -
  let ?same = "is_mock kind (Some name) (Some ns)"
  have found: "find ?same mocks = Some obj"
    using assms(1) by (simp add: find_instance_mock_def split: option.splits)
  then have same: "?same obj" by (auto simp: find_Some_iff)
  have w: "obj' = with_status_field key val obj" "mocks' = replace_first ?same (with_status_field key val obj) mocks"
    using assms(4) by (auto simp: set_status_field_found [OF same])
  have "find ?same mocks' = Some obj'"
    unfolding w using same found by (intro find_replace_same) simp_all
  moreover have "find (is_mock kind2 (Some name2) (Some ns2)) mocks' = find (is_mock kind2 (Some name2) (Some ns2)) mocks"
    if "(kind2, ns2, name2) \<noteq> (kind, ns, name)"
    unfolding w using that same by (intro find_replace_other) (auto simp: is_mock_iff)
  ultimately show ?thesis
    using status_of_with_status [OF assms(2,3), of key val k] by (simp add: find_instance_mock_def w(1))
qed

text \<open>A jukebox handle keeps what it writes for itself: another lookup of the box finds it as it was.\<close>

lemma box_status_written: "as_map obj = Some m \<Longrightarrow> obj_get m ''status'' = None \<or> obj_get m ''status'' = Some (JObj st) \<Longrightarrow>
    get_sub (get_sub (mock_set_status_updated packages obj) ''status'') ''packages'' = packages"
  by (simp add: mock_set_status_updated_def box_set_status_field_def status_of_with_status)

text \<open>The mock client answers by method and path alone, with the first mock that matches.\<close>

lemma mock_request_first:
  "mock_request method shown c path = Inr r \<longleftrightarrow>
    (\<exists>u m v. rm_mocks c = u @ m # v \<and> hm_method m = method \<and> hm_path m = path \<and> hm_return m = r \<and>
      list_all (\<lambda>m. hm_method m \<noteq> method \<or> hm_path m \<noteq> path) u)"
proof -
  have "(\<exists>m ms. filter P xs = m # ms \<and> f m = r) \<longleftrightarrow> (\<exists>u m v. xs = u @ m # v \<and> P m \<and> f m = r \<and> list_all (\<lambda>m. \<not> P m) u)"
    for P and f :: "http_mock \<Rightarrow> (string \<times> json) list" and xs
    by (auto simp: filter_eq_Cons_iff list_all_iff)
  from this [of "\<lambda>m. hm_method m = method \<and> hm_path m = path" "rm_mocks c" hm_return] show ?thesis
    by (auto simp: mock_request_def split: list.split)
qed

section \<open>Witnesses\<close>

definition demo_mock :: json where
  "demo_mock = JObj [(''kind'', JStr ''TenantInstance''),
     (''metadata'', JObj [(''name'', JStr ''gitea''), (''namespace'', JStr ''media'')])]"

lemma written_status_found_witness:
  "find_instance_mock (snd (set_status_field ''tag'' (JStr ''1'') (demo_mock, [demo_mock]))) ''TenantInstance'' ''media'' ''gitea''
    = Inr (fst (set_status_field ''tag'' (JStr ''1'') (demo_mock, [demo_mock])))"
proof -
  have "find_instance_mock [demo_mock] ''TenantInstance'' ''media'' ''gitea'' = Inr demo_mock"
    by (simp add: find_instance_mock_def demo_mock_def is_mock_def as_map_def str_member_def meta_str_def meta_of_def as_string_def)
  from written_status_found [OF this _ _ surjective_pairing, of _ _ "''tag''" "JStr ''1''"] show ?thesis
    by (simp add: demo_mock_def as_map_def)
qed

end
