(* ===== verification/CoreError.thy ===== *)
theory CoreError
  imports Json
begin

text \<open>
  The errors of the crate \<open>core\<close> (\<open>core/src/lib.rs\<close>), with the texts of the library errors they carry, and the
  operations that the bindings of the scripts are made of: a call that answers or fails and moves the world on.
\<close>

datatype core_error =
    CE_Serialization string
  | CE_Yaml string
  | CE_Reqwest string
  | CE_Json string
  | CE_MethodFailed string nat string
  | CE_UnsupportedMethod
  | CE_RawHTTP string
  | CE_Other string
  | CE_Kube string
  | CE_KubeWait string
  | CE_Elapsed string
  | CE_HbsTemplate string
  | CE_HbsRender string
  | CE_Rhai string
  | CE_MissingScript string
  | CE_UTF8 string
  | CE_Semver string
  | CE_Argon2hash string
  | CE_Bcrypt string
  | CE_Stdio string
  | CE_Base64Decode string
  | CE_ParseInt string
  | CE_OpenSSL string
  | CE_UnsupportedKeyAlgorithm string
  | CE_PasswordSpec string
  | CE_OCIDistrib string
  | CE_OCIParse string
  | CE_Script string                     \<comment> \<open>the text of an error of the script engine\<close>
  | CE_Panic string                      \<comment> \<open>a panic of the code\<close>

fun core_error_show :: "core_error \<Rightarrow> string" where
  "core_error_show (CE_Serialization e) = ''SerializationError: '' @ e"
| "core_error_show (CE_Yaml e) = ''YamlError: '' @ e"
| "core_error_show (CE_Reqwest e) = ''Reqwest error: '' @ e"
| "core_error_show (CE_Json e) = ''Json decoding error: '' @ e"
| "core_error_show (CE_MethodFailed m c e) = m @ '' query failed: '' @ e"
| "core_error_show CE_UnsupportedMethod = ''Unsupported method''"
| "core_error_show (CE_RawHTTP e) = ''RAW api error '' @ e"
| "core_error_show (CE_Other e) = ''Error: '' @ e"
| "core_error_show (CE_Kube e) = ''K8s error: '' @ e"
| "core_error_show (CE_KubeWait e) = ''K8s wait error: '' @ e"
| "core_error_show (CE_Elapsed e) = ''Elapsed wait error: '' @ e"
| "core_error_show (CE_HbsTemplate e) = ''Registering template failed with error: '' @ e"
| "core_error_show (CE_HbsRender e) = ''Renderer error: '' @ e"
| "core_error_show (CE_Rhai e) = ''Rhai script error: '' @ e"
| "core_error_show (CE_MissingScript e) = ''Missing script '' @ e"
| "core_error_show (CE_UTF8 e) = ''UTF8 error '' @ e"
| "core_error_show (CE_Semver e) = ''Semver error '' @ e"
| "core_error_show (CE_Argon2hash e) = ''Argon2 password_hash error '' @ e"
| "core_error_show (CE_Bcrypt e) = ''Bcrypt hash error '' @ e"
| "core_error_show (CE_Stdio e) = ''Stdio error '' @ e"
| "core_error_show (CE_Base64Decode e) = ''Base64 decode error '' @ e"
| "core_error_show (CE_ParseInt e) = ''ParseIntError '' @ e"
| "core_error_show (CE_OpenSSL e) = ''KEY-OPENSSL-001 OpenSSL error '' @ e"
| "core_error_show (CE_UnsupportedKeyAlgorithm e) = ''KEY-ALGO-001 Unsupported key algorithm: '' @ e"
| "core_error_show (CE_PasswordSpec e) = e"
| "core_error_show (CE_OCIDistrib e) = ''OCI jukebox error '' @ e"
| "core_error_show (CE_OCIParse e) = ''OCI parse error '' @ e"
| "core_error_show (CE_Script e) = e"
| "core_error_show (CE_Panic e) = e"

type_synonym ('w, 'a) core_op = "'w \<Rightarrow> (core_error + 'a) \<times> 'w"
type_synonym ('w, 'a) lib_call = "'w \<Rightarrow> (string + 'a) \<times> 'w"

definition c_return :: "'a \<Rightarrow> ('w, 'a) core_op" where
  "c_return a w = (Inr a, w)"

definition c_fail :: "core_error \<Rightarrow> ('w, 'a) core_op" where
  "c_fail e w = (Inl e, w)"

definition c_bind :: "('w, 'a) core_op \<Rightarrow> ('a \<Rightarrow> ('w, 'b) core_op) \<Rightarrow> ('w, 'b) core_op" where
  "c_bind m f w = (case m w of (Inl e, w') \<Rightarrow> (Inl e, w') | (Inr a, w') \<Rightarrow> f a w')"

text \<open>A call of a library, its error wrapped; a value of a library with no effect.\<close>

definition c_call :: "(string \<Rightarrow> core_error) \<Rightarrow> ('w, 'a) lib_call \<Rightarrow> ('w, 'a) core_op" where
  "c_call wrap m w = (case m w of (Inl e, w') \<Rightarrow> (Inl (wrap e), w') | (Inr a, w') \<Rightarrow> (Inr a, w'))"

definition c_lift :: "(string \<Rightarrow> core_error) \<Rightarrow> string + 'a \<Rightarrow> ('w, 'a) core_op" where
  "c_lift wrap r w = (case r of Inl e \<Rightarrow> (Inl (wrap e), w) | Inr a \<Rightarrow> (Inr a, w))"

lemma c_bindE:
  assumes "c_bind m f w = (Inr b, w')"
  obtains a u where "m w = (Inr a, u)" "f a u = (Inr b, w')"
  using assms by (auto simp: c_bind_def split: prod.splits sum.splits)

lemma c_steps [simp]:
  "c_return a w = (Inr b, w') \<longleftrightarrow> a = b \<and> w' = w"
  "c_fail e w \<noteq> (Inr b, w')"
  "c_call wrap m w = (Inr b, w') \<longleftrightarrow> m w = (Inr b, w')"
  "c_lift wrap r w = (Inr b, w') \<longleftrightarrow> r = Inr b \<and> w' = w"
  by (auto simp: c_return_def c_fail_def c_call_def c_lift_def split: prod.splits sum.splits)

end
