(* ===== verification/K8sClient.thy ===== *)
theory K8sClient
  imports CoreError "HOL-Library.Word"
begin

text \<open>
  \<open>core/src/k8s.rs\<close>: what a script does with the Kubernetes API. A handle on a kind is resolved in a cache of the
  discovery; what is written gets the labels and the owner of the instance the script runs for; an object, a workload
  or a job is waited for until a condition holds. The client, the discovery and the watch are parameters.
\<close>

section \<open>The parameters\<close>

record api_resource =
  ar_group :: string
  ar_version :: string
  ar_kind :: string
  ar_plural :: string

datatype scope = Scope_Cluster | Scope_Namespaced

text \<open>A group of the discovery with its resources by stability.\<close>

record api_group =
  gp_name :: string
  gp_resources :: "(api_resource \<times> scope) list"

datatype api_handle = All_With api_resource | Namespaced_With string api_resource

text \<open>An object of the API: its kind when it says, its metadata, and the rest as \<open>data\<close>.\<close>

record kube_object =
  ko_kind :: "string option"
  ko_name :: string
  ko_uid :: "string option"
  ko_metadata :: json
  ko_data :: json

datatype await_result = Await_Elapsed string | Await_Failed string | Await_Done

record daemon_set =
  ds_status :: "(int \<times> int option) option"       \<comment> \<open>desired number, available number\<close>

record stateful_set =
  sf_replicas :: "int option option"               \<comment> \<open>of the spec\<close>
  sf_available :: "int option option"              \<comment> \<open>of the status\<close>

record deploy =
  dy_conditions :: "(string \<times> string) list option option"   \<comment> \<open>of the status: type, status\<close>

record 'w kube_env =
  ke_client :: bool                                 \<comment> \<open>a client can be had\<close>
  ke_discover :: "string list \<Rightarrow> ('w, api_group list) lib_call"    \<comment> \<open>all groups but the excluded ones\<close>
  ke_in_time :: "nat \<Rightarrow> 'w \<Rightarrow> bool"                               \<comment> \<open>a discovery would end within the seconds\<close>
  ke_list :: "api_handle \<Rightarrow> string option \<Rightarrow> ('w, kube_object list) lib_call"
  ke_list_meta :: "api_handle \<Rightarrow> ('w, kube_object list) lib_call"
  ke_get :: "api_handle \<Rightarrow> string \<Rightarrow> ('w, kube_object) lib_call"
  ke_get_meta :: "api_handle \<Rightarrow> string \<Rightarrow> ('w, kube_object) lib_call"
  ke_delete :: "api_handle \<Rightarrow> string \<Rightarrow> ('w, unit) lib_call"       \<comment> \<open>in the foreground\<close>
  ke_create :: "api_handle \<Rightarrow> kube_object \<Rightarrow> ('w, kube_object) lib_call"
  ke_replace :: "api_handle \<Rightarrow> string \<Rightarrow> kube_object \<Rightarrow> ('w, kube_object) lib_call"
  ke_patch :: "api_handle \<Rightarrow> string \<Rightarrow> string \<Rightarrow> json \<Rightarrow> ('w, kube_object) lib_call"   \<comment> \<open>forced, as a manager\<close>
  ke_await :: "api_handle \<Rightarrow> string \<Rightarrow> (kube_object option \<Rightarrow> bool) \<Rightarrow> nat \<Rightarrow> 'w \<Rightarrow> await_result \<times> 'w"
  ke_await_deleted :: "api_handle \<Rightarrow> string \<Rightarrow> string \<Rightarrow> nat \<Rightarrow> 'w \<Rightarrow> await_result \<times> 'w"
  ke_await_ds :: "string \<Rightarrow> string \<Rightarrow> (daemon_set option \<Rightarrow> bool) \<Rightarrow> nat \<Rightarrow> 'w \<Rightarrow> await_result \<times> 'w"
  ke_await_sts :: "string \<Rightarrow> string \<Rightarrow> (stateful_set option \<Rightarrow> bool) \<Rightarrow> nat \<Rightarrow> 'w \<Rightarrow> await_result \<times> 'w"
  ke_await_deploy :: "string \<Rightarrow> string \<Rightarrow> (deploy option \<Rightarrow> bool) \<Rightarrow> nat \<Rightarrow> 'w \<Rightarrow> await_result \<times> 'w"
  ke_await_job :: "string \<Rightarrow> string \<Rightarrow> nat \<Rightarrow> 'w \<Rightarrow> await_result \<times> 'w"
  ke_request :: "string \<Rightarrow> string option \<Rightarrow> ('w, json) lib_call"     \<comment> \<open>path, header \<open>Accept\<close>\<close>
  ke_valid_url :: "string \<Rightarrow> string + unit"
  ke_parse :: "json \<Rightarrow> string + kube_object"
  ke_value :: "kube_object \<Rightarrow> string + json"
  ke_client_name :: "string option"
  ke_labels :: "json option"
  ke_owner :: "json option"
  ke_owner_ns :: "string option"

section \<open>The cache of the discovery\<close>

definition aggregated_apiservice_group :: "json \<Rightarrow> string option" where
  "aggregated_apiservice_group spec =
     (case value_get spec ''service'' of
        None \<Rightarrow> None
      | Some s \<Rightarrow>
          if s = JNull then None
          else (case Option.bind (value_get spec ''group'') as_str of
                  Some g \<Rightarrow> if g = [] then None else Some g
                | None \<Rightarrow> None))"

definition apiservices :: api_handle where
  "apiservices = All_With \<lparr>ar_group = ''apiregistration.k8s.io'', ar_version = ''v1'', ar_kind = ''APIService'',
     ar_plural = ''apiservices''\<rparr>"

definition excluded_apiservice_groups :: "'w kube_env \<Rightarrow> 'w \<Rightarrow> string list \<times> 'w" where
  "excluded_apiservice_groups env w =
     (case ke_list env apiservices None w of
        (Inl e, w') \<Rightarrow> ([], w')
      | (Inr objs, w') \<Rightarrow>
          (List.map_filter (\<lambda>o'. Option.bind (value_get (ko_data o') ''spec'') aggregated_apiservice_group) objs, w'))"

text \<open>A discovery that fails is a panic, and so is one without a client.\<close>

definition populate_cache :: "'w kube_env \<Rightarrow> ('w, api_group list) core_op" where
  "populate_cache env w =
     (if \<not> ke_client env then (Inl (CE_Panic ''k8s context not initialized''), w)
      else case excluded_apiservice_groups env w of
        (excluded, w') \<Rightarrow> c_call (\<lambda>e. CE_Panic ''create discovery (excluding api-services)'') (ke_discover env excluded) w')"

text \<open>The cache is left as it was when the discovery takes too long.\<close>

definition update_cache :: "'w kube_env \<Rightarrow> api_group list \<Rightarrow> ('w, api_group list) core_op" where
  "update_cache env cache w = (if ke_in_time env 60 w then populate_cache env w else (Inr cache, w))"

section \<open>Waiting for an object\<close>

record k8s_object =
  kj_api :: api_handle
  kj_obj :: kube_object
  kj_kind :: string

text \<open>\<open>timeout as u64\<close> of a 64-bit signed integer.\<close>

definition wait_secs :: "64 word \<Rightarrow> nat" where
  "wait_secs timeout = unat timeout"

definition waited :: "await_result \<times> 'w \<Rightarrow> (core_error + unit) \<times> 'w" where
  "waited r =
     (case r of
        (Await_Elapsed e, w) \<Rightarrow> (Inl (CE_Elapsed e), w)
      | (Await_Failed e, w) \<Rightarrow> (Inl (CE_KubeWait e), w)
      | (Await_Done, w) \<Rightarrow> (Inr (), w))"

definition status_of_object :: "kube_object option \<Rightarrow> json option" where
  "status_of_object obj = Option.bind obj (\<lambda>o'. value_get (ko_data o') ''status'')"

definition is_condition :: "string \<Rightarrow> kube_object option \<Rightarrow> bool" where
  "is_condition cond obj =
     (case Option.bind (Option.bind (status_of_object obj) (\<lambda>s. value_get s ''conditions'')) as_array of
        None \<Rightarrow> False
      | Some conditions \<Rightarrow>
          list_ex (\<lambda>c. Option.bind (value_get c ''type'') as_str = Some cond \<and>
            Option.bind (value_get c ''status'') as_str = Some ''True'') conditions)"

definition status_prop :: "string \<Rightarrow> kube_object option \<Rightarrow> json option" where
  "status_prop prop obj = Option.bind (status_of_object obj) (\<lambda>s. value_get s prop)"

definition is_status :: "string \<Rightarrow> kube_object option \<Rightarrow> bool" where
  "is_status prop obj = (case status_prop prop obj of Some (JBool b) \<Rightarrow> b | _ \<Rightarrow> False)"

definition have_status :: "string \<Rightarrow> kube_object option \<Rightarrow> bool" where
  "have_status prop obj = (case status_prop prop obj of Some v \<Rightarrow> v \<noteq> JNull | None \<Rightarrow> False)"

definition have_status_value :: "string \<Rightarrow> string \<Rightarrow> kube_object option \<Rightarrow> bool" where
  "have_status_value prop val obj = (Option.bind (status_prop prop obj) as_str = Some val)"

text \<open>A closure of the script; one that fails does not hold.\<close>

definition is_for :: "(kube_object \<Rightarrow> string + bool) \<Rightarrow> kube_object option \<Rightarrow> bool" where
  "is_for cond obj =
     (case obj of
        None \<Rightarrow> False
      | Some o' \<Rightarrow> if as_object (ko_data o') = None then False else (case cond o' of Inl e \<Rightarrow> False | Inr b \<Rightarrow> b))"

definition await_object ::
  "'w kube_env \<Rightarrow> k8s_object \<Rightarrow> (kube_object option \<Rightarrow> bool) \<Rightarrow> 64 word \<Rightarrow> ('w, unit) core_op" where
  "await_object env self cond timeout w =
     waited (ke_await env (kj_api self) (ko_name (kj_obj self)) cond (wait_secs timeout) w)"

definition wait_condition :: "'w kube_env \<Rightarrow> k8s_object \<Rightarrow> string \<Rightarrow> 64 word \<Rightarrow> ('w, unit) core_op" where
  "wait_condition env self cond = await_object env self (is_condition cond)"

definition wait_status :: "'w kube_env \<Rightarrow> k8s_object \<Rightarrow> string \<Rightarrow> 64 word \<Rightarrow> ('w, unit) core_op" where
  "wait_status env self prop = await_object env self (is_status prop)"

definition wait_status_prop :: "'w kube_env \<Rightarrow> k8s_object \<Rightarrow> string \<Rightarrow> 64 word \<Rightarrow> ('w, unit) core_op" where
  "wait_status_prop env self prop = await_object env self (have_status prop)"

definition wait_status_string :: "'w kube_env \<Rightarrow> k8s_object \<Rightarrow> string \<Rightarrow> string \<Rightarrow> 64 word \<Rightarrow> ('w, unit) core_op" where
  "wait_status_string env self prop val = await_object env self (have_status_value prop val)"

definition wait_for :: "'w kube_env \<Rightarrow> k8s_object \<Rightarrow> (kube_object \<Rightarrow> string + bool) \<Rightarrow> 64 word \<Rightarrow> ('w, unit) core_op" where
  "wait_for env self cond = await_object env self (is_for cond)"

definition object_wait_deleted :: "'w kube_env \<Rightarrow> k8s_object \<Rightarrow> 64 word \<Rightarrow> ('w, unit) core_op" where
  "object_wait_deleted env self timeout w =
     (case ko_uid (kj_obj self) of
        None \<Rightarrow> (Inl (CE_Script (''cannot wait for deletion of '' @ ko_name (kj_obj self) @ '': uid is missing'')), w)
      | Some uid \<Rightarrow> waited (ke_await_deleted env (kj_api self) (ko_name (kj_obj self)) uid (wait_secs timeout) w))"

definition object_delete :: "'w kube_env \<Rightarrow> k8s_object \<Rightarrow> ('w, unit) core_op" where
  "object_delete env self = c_call CE_Kube (ke_delete env (kj_api self) (ko_name (kj_obj self)))"

definition object_kind :: "k8s_object \<Rightarrow> string" where
  "object_kind self = (case ko_kind (kj_obj self) of Some k \<Rightarrow> k | None \<Rightarrow> [])"

section \<open>Workloads\<close>

definition is_deamonset_available :: "daemon_set option \<Rightarrow> bool" where
  "is_deamonset_available obj =
     (case Option.bind obj ds_status of
        None \<Rightarrow> False
      | Some (desired, available) \<Rightarrow> desired = (case available of Some n \<Rightarrow> n | None \<Rightarrow> 0))"

definition is_sts_available :: "stateful_set option \<Rightarrow> bool" where
  "is_sts_available obj =
     (case obj of
        None \<Rightarrow> False
      | Some sts \<Rightarrow>
          (case (sf_replicas sts, sf_available sts) of
             (Some replicas, Some available) \<Rightarrow>
               (case replicas of Some n \<Rightarrow> n | None \<Rightarrow> 1) = (case available of Some n \<Rightarrow> n | None \<Rightarrow> 0)
           | _ \<Rightarrow> False))"

definition is_deploy_available :: "deploy option \<Rightarrow> bool" where
  "is_deploy_available obj =
     (case Option.bind obj dy_conditions of
        Some (Some conds) \<Rightarrow>
          (case find (\<lambda>c. fst c = ''Available'') conds of Some c \<Rightarrow> snd c = ''True'' | None \<Rightarrow> False)
      | _ \<Rightarrow> False)"

definition wait_ds_available :: "'w kube_env \<Rightarrow> string \<Rightarrow> string \<Rightarrow> 64 word \<Rightarrow> ('w, unit) core_op" where
  "wait_ds_available env ns name timeout w = waited (ke_await_ds env ns name is_deamonset_available (wait_secs timeout) w)"

definition wait_sts_available :: "'w kube_env \<Rightarrow> string \<Rightarrow> string \<Rightarrow> 64 word \<Rightarrow> ('w, unit) core_op" where
  "wait_sts_available env ns name timeout w = waited (ke_await_sts env ns name is_sts_available (wait_secs timeout) w)"

definition wait_deploy_available :: "'w kube_env \<Rightarrow> string \<Rightarrow> string \<Rightarrow> 64 word \<Rightarrow> ('w, unit) core_op" where
  "wait_deploy_available env ns name timeout w =
     waited (ke_await_deploy env ns name is_deploy_available (wait_secs timeout) w)"

definition wait_job_done :: "'w kube_env \<Rightarrow> string \<Rightarrow> string \<Rightarrow> 64 word \<Rightarrow> ('w, unit) core_op" where
  "wait_job_done env ns name timeout w = waited (ke_await_job env ns name (wait_secs timeout) w)"

end
