(* ===== verification/K8sGeneric.thy ===== *)
theory K8sGeneric
  imports K8sClient "HOL-Library.Multiset"
begin

text \<open>
  \<open>core/src/k8s.rs\<close>, \<open>K8sGeneric\<close>: the handle a script holds on a kind of objects. How it is resolved, what it
  adds to an object before it is written, and the operations on the API.
\<close>

section \<open>The resolution of a kind\<close>

record k8s_generic =
  kg_api :: "api_handle option"
  kg_ns :: "string option"
  kg_scope :: scope
  kg_kind :: string

text \<open>\<open>Iterator::min_by_key\<close>: the first of the least.\<close>

fun min_by_key :: "('a \<Rightarrow> 'k::linorder) \<Rightarrow> 'a list \<Rightarrow> 'a option" where
  "min_by_key key [] = None"
| "min_by_key key (x # xs) =
     (case min_by_key key xs of None \<Rightarrow> Some x | Some y \<Rightarrow> if key y < key x then Some y else Some x)"

definition cached_resources :: "api_group list \<Rightarrow> (api_group \<times> api_resource \<times> scope) list" where
  "cached_resources cache = concat (map (\<lambda>g. map (Pair g) (gp_resources g)) cache)"

definition answers_to :: "string \<Rightarrow> api_resource \<Rightarrow> bool" where
  "answers_to name res \<longleftrightarrow> eq_ignore_ascii_case name (ar_kind res) \<or> eq_ignore_ascii_case name (ar_plural res)"

definition generic_of :: "string option \<Rightarrow> (api_group \<times> api_resource \<times> scope) option \<Rightarrow> k8s_generic" where
  "generic_of ns found =
     (case found of
        Some (g, res, cap) \<Rightarrow>
          \<lparr>kg_api = Some (case ns of
                            None \<Rightarrow> All_With res
                          | Some n \<Rightarrow> if cap = Scope_Cluster then All_With res else Namespaced_With n res),
           kg_ns = ns, kg_scope = cap, kg_kind = ar_kind res\<rparr>
      | None \<Rightarrow> \<lparr>kg_api = None, kg_ns = None, kg_scope = Scope_Cluster, kg_kind = []\<rparr>)"

definition generic_new :: "api_group list \<Rightarrow> string \<Rightarrow> string option \<Rightarrow> k8s_generic" where
  "generic_new cache name ns =
     generic_of ns (min_by_key (\<lambda>(g, r). gp_name g) (filter (\<lambda>(g, res, cap). answers_to name res) (cached_resources cache)))"

definition generic_new_api_version ::
  "api_group list \<Rightarrow> string \<Rightarrow> string \<Rightarrow> string \<Rightarrow> string option \<Rightarrow> k8s_generic" where
  "generic_new_api_version cache grp version name ns =
     generic_of ns (min_by_key (\<lambda>(g, r). gp_name g)
       (filter (\<lambda>(g, res, cap). gp_name g = grp \<and> ar_version res = version \<and> answers_to name res)
          (cached_resources cache)))"

definition generic_new_ns :: "api_group list \<Rightarrow> string \<Rightarrow> string \<Rightarrow> k8s_generic" where
  "generic_new_ns cache name ns = generic_new cache name (Some ns)"

definition generic_new_global :: "api_group list \<Rightarrow> string \<Rightarrow> k8s_generic" where
  "generic_new_global cache name = generic_new cache name None"

definition generic_new_group_ns :: "api_group list \<Rightarrow> string \<Rightarrow> string \<Rightarrow> string \<Rightarrow> k8s_generic" where
  "generic_new_group_ns cache api_version name ns =
     (let arr = split_on (CHR ''/'') api_version
      in if 1 < length arr then generic_new_api_version cache (arr ! 0) (arr ! 1) name (Some ns)
         else generic_new cache name (Some ns))"

definition generic_scope :: "k8s_generic \<Rightarrow> string" where
  "generic_scope self = (if kg_scope self = Scope_Cluster then ''cluster'' else ''namespace'')"

definition generic_exist :: "k8s_generic \<Rightarrow> bool" where
  "generic_exist self \<longleftrightarrow> kg_api self \<noteq> None"

section \<open>What is added to an object that is written\<close>

text \<open>The labels the object does not have, under \<open>labels\<close> as an object.\<close>

definition missing_label :: "(string \<times> json) list \<Rightarrow> string \<times> json \<Rightarrow> (string \<times> json) list" where
  "missing_label have kv = (if fst kv \<in> fst ` set have then have else obj_insert (fst kv) (snd kv) have)"

definition object_member :: "string \<Rightarrow> (string \<times> json) list \<Rightarrow> (string \<times> json) list" where
  "object_member k m = (case obj_get m k of Some (JObj x) \<Rightarrow> x | _ \<Rightarrow> [])"

definition with_labels :: "json \<Rightarrow> (string \<times> json) list \<Rightarrow> (string \<times> json) list" where
  "with_labels labels md =
     (let have = object_member ''labels'' md;
          merged = (case as_object labels of Some lm \<Rightarrow> foldl missing_label have lm | None \<Rightarrow> have)
      in obj_insert ''labels'' (JObj merged) md)"

text \<open>The owner is added at the end of the references; references that are not an array are a panic.\<close>

definition with_owner :: "json \<Rightarrow> (string \<times> json) list \<Rightarrow> (string \<times> json) list option" where
  "with_owner owner md =
     (case obj_get md ''ownerReferences'' of
        Some (JArr os) \<Rightarrow> Some (obj_insert ''ownerReferences'' (JArr (os @ [owner])) md)
      | Some _ \<Rightarrow> None
      | None \<Rightarrow> Some (obj_insert ''ownerReferences'' (JArr [owner]) md))"

definition is_owned :: "json option \<Rightarrow> string option \<Rightarrow> string option \<Rightarrow> bool \<Rightarrow> bool" where
  "is_owned owner owner_ns my_ns is_namespaced \<longleftrightarrow>
     is_namespaced \<and> owner \<noteq> None \<and> owner_ns \<noteq> None \<and> owner_ns = my_ns"

definition prepare_handle ::
  "(string \<times> json) list \<Rightarrow> json option \<Rightarrow> json option \<Rightarrow> string option \<Rightarrow> string option \<Rightarrow> bool
     \<Rightarrow> (string \<times> json) list option" where
  "prepare_handle handle labels owner owner_ns my_ns is_namespaced =
     (let md = object_member ''metadata'' handle;
          labelled = (case labels of Some l \<Rightarrow> with_labels l md | None \<Rightarrow> md);
          owned = (if is_owned owner owner_ns my_ns is_namespaced then with_owner (the owner) labelled else Some labelled)
      in map_option (\<lambda>md'. obj_insert ''metadata'' (JObj md') handle) owned)"

definition inject_labels_and_owner :: "'w kube_env \<Rightarrow> k8s_generic \<Rightarrow> (string \<times> json) list \<Rightarrow> ('w, (string \<times> json) list) core_op" where
  "inject_labels_and_owner env self handle =
     (case prepare_handle handle (ke_labels env) (ke_owner env) (ke_owner_ns env) (kg_ns self) (kg_scope self = Scope_Namespaced) of
        None \<Rightarrow> c_fail (CE_Panic ''called `Option::unwrap()` on a `None` value'')
      | Some h \<Rightarrow> c_return h)"

section \<open>The operations of a handle\<close>

definition on_api :: "k8s_generic \<Rightarrow> (api_handle \<Rightarrow> ('w, 'a) core_op) \<Rightarrow> ('w, 'a) core_op" where
  "on_api self f = (case kg_api self of None \<Rightarrow> c_fail CE_UnsupportedMethod | Some api \<Rightarrow> f api)"

definition generic_list :: "'w kube_env \<Rightarrow> k8s_generic \<Rightarrow> ('w, kube_object list) core_op" where
  "generic_list env self = on_api self (\<lambda>api. c_call CE_Kube (ke_list env api None))"

definition generic_list_labels :: "'w kube_env \<Rightarrow> k8s_generic \<Rightarrow> string \<Rightarrow> ('w, kube_object list) core_op" where
  "generic_list_labels env self labels = on_api self (\<lambda>api. c_call CE_Kube (ke_list env api (Some labels)))"

definition generic_list_meta :: "'w kube_env \<Rightarrow> k8s_generic \<Rightarrow> ('w, kube_object list) core_op" where
  "generic_list_meta env self = on_api self (\<lambda>api. c_call CE_Kube (ke_list_meta env api))"

definition generic_get :: "'w kube_env \<Rightarrow> k8s_generic \<Rightarrow> string \<Rightarrow> ('w, kube_object) core_op" where
  "generic_get env self name = on_api self (\<lambda>api. c_call CE_Kube (ke_get env api name))"

definition generic_get_meta :: "'w kube_env \<Rightarrow> k8s_generic \<Rightarrow> string \<Rightarrow> ('w, kube_object) core_op" where
  "generic_get_meta env self name = on_api self (\<lambda>api. c_call CE_Kube (ke_get_meta env api name))"

definition generic_get_obj :: "'w kube_env \<Rightarrow> k8s_generic \<Rightarrow> string \<Rightarrow> ('w, k8s_object) core_op" where
  "generic_get_obj env self name =
     on_api self (\<lambda>api. c_bind (generic_get_meta env self name)
       (\<lambda>res. c_return \<lparr>kj_api = api, kj_obj = res, kj_kind = kg_kind self\<rparr>))"

definition generic_delete :: "'w kube_env \<Rightarrow> k8s_generic \<Rightarrow> string \<Rightarrow> ('w, unit) core_op" where
  "generic_delete env self name = on_api self (\<lambda>api. c_call CE_Kube (ke_delete env api name))"

definition generic_create :: "'w kube_env \<Rightarrow> k8s_generic \<Rightarrow> (string \<times> json) list \<Rightarrow> ('w, kube_object) core_op" where
  "generic_create env self data =
     on_api self (\<lambda>api. c_bind (inject_labels_and_owner env self data) (\<lambda>handle.
       c_bind (c_lift CE_Serialization (ke_parse env (JObj handle))) (\<lambda>obj. c_call CE_Kube (ke_create env api obj))))"

definition generic_replace ::
  "'w kube_env \<Rightarrow> k8s_generic \<Rightarrow> string \<Rightarrow> (string \<times> json) list \<Rightarrow> ('w, kube_object) core_op" where
  "generic_replace env self name data =
     on_api self (\<lambda>api. c_bind (inject_labels_and_owner env self data) (\<lambda>handle.
       c_bind (c_lift CE_Serialization (ke_parse env (JObj handle))) (\<lambda>obj. c_call CE_Kube (ke_replace env api name obj))))"

definition client_name :: "'w kube_env \<Rightarrow> string" where
  "client_name env = (case ke_client_name env of Some n \<Rightarrow> n | None \<Rightarrow> ''vynil.solidite.fr'')"

definition generic_patch ::
  "'w kube_env \<Rightarrow> k8s_generic \<Rightarrow> string \<Rightarrow> (string \<times> json) list \<Rightarrow> ('w, kube_object) core_op" where
  "generic_patch env self name patch_data =
     on_api self (\<lambda>api. c_bind (inject_labels_and_owner env self patch_data) (\<lambda>handle.
       c_call CE_Kube (ke_patch env api name (client_name env) (JObj handle))))"

text \<open>\<open>Value::as_i64\<close>.\<close>

definition as_i64 :: "json \<Rightarrow> int option" where
  "as_i64 v =
     (case v of
        JNum (PosInt n) \<Rightarrow> if int n < 2 ^ 63 then Some (int n) else None
      | JNum (NegInt i) \<Rightarrow> Some i
      | _ \<Rightarrow> None)"

definition job_is_completed :: "json \<Rightarrow> bool" where
  "job_is_completed data =
     (case value_get data ''status'' of
        None \<Rightarrow> False
      | Some status \<Rightarrow>
          (case Option.bind (value_get status ''succeeded'') as_i64 of Some n \<Rightarrow> 0 < n | None \<Rightarrow> False) \<or>
          value_get status ''completionTime'' \<noteq> None)"

text \<open>
  A patch the API refuses because a job is immutable is no failure when that job has completed: the job as it stands
  is the answer.
\<close>

definition apply_or_keep :: "'w kube_env \<Rightarrow> api_handle \<Rightarrow> string \<Rightarrow> string \<Rightarrow> json \<Rightarrow> ('w, kube_object) core_op" where
  "apply_or_keep env api kind name handle w =
     (case ke_patch env api name (client_name env) handle w of
        (Inr obj, w') \<Rightarrow> (Inr obj, w')
      | (Inl e, w') \<Rightarrow>
          if kind = ''Job'' \<and> contains e ''immutable''
          then (case ke_get env api name w' of
                  (Inr current, w'') \<Rightarrow> (if job_is_completed (ko_data current) then Inr current else Inl (CE_Kube e), w'')
                | (Inl e', w'') \<Rightarrow> (Inl (CE_Kube e), w''))
          else (Inl (CE_Kube e), w'))"

definition generic_apply ::
  "'w kube_env \<Rightarrow> k8s_generic \<Rightarrow> string \<Rightarrow> (string \<times> json) list \<Rightarrow> ('w, kube_object) core_op" where
  "generic_apply env self name patch_data =
     on_api self (\<lambda>api.
       let kind = (case Option.bind (obj_get patch_data ''kind'') as_str of Some k \<Rightarrow> k | None \<Rightarrow> [])
       in c_bind (inject_labels_and_owner env self patch_data) (\<lambda>handle.
            apply_or_keep env api kind name (JObj handle)))"

section \<open>What a script gets back\<close>

definition as_script_value :: "'w kube_env \<Rightarrow> ('w, kube_object) core_op \<Rightarrow> ('w, json) core_op" where
  "as_script_value env m = c_bind m (\<lambda>res. c_lift CE_Serialization (ke_value env res))"

definition script_get :: "'w kube_env \<Rightarrow> k8s_generic \<Rightarrow> string \<Rightarrow> ('w, json) core_op" where
  "script_get env self name = as_script_value env (generic_get env self name)"

definition script_get_meta :: "'w kube_env \<Rightarrow> k8s_generic \<Rightarrow> string \<Rightarrow> ('w, json) core_op" where
  "script_get_meta env self name = as_script_value env (generic_get_meta env self name)"

definition script_create :: "'w kube_env \<Rightarrow> k8s_generic \<Rightarrow> (string \<times> json) list \<Rightarrow> ('w, json) core_op" where
  "script_create env self data = as_script_value env (generic_create env self data)"

definition script_replace :: "'w kube_env \<Rightarrow> k8s_generic \<Rightarrow> string \<Rightarrow> (string \<times> json) list \<Rightarrow> ('w, json) core_op" where
  "script_replace env self name data = as_script_value env (generic_replace env self name data)"

definition script_patch :: "'w kube_env \<Rightarrow> k8s_generic \<Rightarrow> string \<Rightarrow> (string \<times> json) list \<Rightarrow> ('w, json) core_op" where
  "script_patch env self name data = as_script_value env (generic_patch env self name data)"

definition script_apply :: "'w kube_env \<Rightarrow> k8s_generic \<Rightarrow> string \<Rightarrow> (string \<times> json) list \<Rightarrow> ('w, json) core_op" where
  "script_apply env self name data = as_script_value env (generic_apply env self name data)"

section \<open>Raw requests\<close>

definition raw_request :: "'w kube_env \<Rightarrow> string \<Rightarrow> string option \<Rightarrow> ('w, json) core_op" where
  "raw_request env url accept =
     c_bind (c_lift CE_RawHTTP (ke_valid_url env url)) (\<lambda>_. c_call CE_Kube (ke_request env url accept))"

definition get_url :: "'w kube_env \<Rightarrow> string \<Rightarrow> ('w, json) core_op" where
  "get_url env url = raw_request env url None"

definition DISCO_ACCEPT :: string where
  "DISCO_ACCEPT = ''application/json;g=apidiscovery.k8s.io;v=v2;as=APIGroupDiscoveryList,'' @
     ''application/json;g=apidiscovery.k8s.io;v=v2beta1;as=APIGroupDiscoveryList,application/json''"

definition get_url_as_disco :: "'w kube_env \<Rightarrow> string \<Rightarrow> ('w, json) core_op" where
  "get_url_as_disco env url = raw_request env url (Some DISCO_ACCEPT)"

definition get_api_version :: "'w kube_env \<Rightarrow> ('w, json) core_op" where
  "get_api_version env = get_url env ''/version''"

definition get_api_resources :: "'w kube_env \<Rightarrow> ('w, json) core_op" where
  "get_api_resources env = get_url_as_disco env ''/apis''"

section \<open>What the resolution finds\<close>

lemma min_by_key_None [simp]: "min_by_key key xs = None \<longleftrightarrow> xs = []"
  by (cases xs) (auto split: option.splits)

lemma min_by_key_SomeD: "min_by_key key xs = Some y \<Longrightarrow> y \<in> set xs \<and> (\<forall>x\<in>set xs. key y \<le> key x)"
  by (induction xs arbitrary: y) (auto split: if_splits option.splits)

lemma min_by_key_append:
  "min_by_key key (xs @ ys) =
     (case (min_by_key key xs, min_by_key key ys) of
        (None, r) \<Rightarrow> r
      | (Some x, None) \<Rightarrow> Some x
      | (Some x, Some y) \<Rightarrow> if key y < key x then Some y else Some x)"
  by (induction xs) (auto split: option.splits)

lemma min_by_key_same: "min_by_key (\<lambda>(g, r). key g) (map (Pair g) rs) = (case rs of [] \<Rightarrow> None | r # _ \<Rightarrow> Some (g, r))"
  by (induction rs) (auto split: list.splits)

lemma find_first_of_filter: "find P xs = (case filter P xs of [] \<Rightarrow> None | x # _ \<Rightarrow> Some x)"
  by (induction xs) auto

text \<open>The first resource that fits of the group with the least name among those that have one.\<close>

definition best_of :: "(api_group \<times> api_resource \<times> scope \<Rightarrow> bool) \<Rightarrow> api_group list \<Rightarrow> (api_group \<times> api_resource \<times> scope) option" where
  "best_of P cache = min_by_key (\<lambda>(g, r). gp_name g) (filter P (cached_resources cache))"

lemma best_of_Nil [simp]: "best_of P [] = None"
  by (simp add: best_of_def cached_resources_def)

lemma best_of_Cons:
  "best_of P (g # gs) =
     (case (find (\<lambda>r. P (g, r)) (gp_resources g), best_of P gs) of
        (None, r) \<Rightarrow> r
      | (Some x, None) \<Rightarrow> Some (g, x)
      | (Some x, Some (g', y)) \<Rightarrow> if gp_name g' < gp_name g then Some (g', y) else Some (g, x))"
  by (auto simp: best_of_def cached_resources_def min_by_key_append filter_map o_def min_by_key_same find_first_of_filter
      split: option.splits list.splits)

lemma best_of_None: "best_of P cache = None \<longleftrightarrow> (\<forall>g\<in>set cache. \<forall>r\<in>set (gp_resources g). \<not> P (g, r))"
  by (auto simp: best_of_def cached_resources_def filter_empty_conv)

definition is_best :: "(api_group \<times> api_resource \<times> scope \<Rightarrow> bool) \<Rightarrow> api_group list \<Rightarrow> api_group \<Rightarrow> api_resource \<times> scope \<Rightarrow> bool" where
  "is_best P cache g r \<longleftrightarrow>
     g \<in> set cache \<and> find (\<lambda>r. P (g, r)) (gp_resources g) = Some r \<and>
     (\<forall>g'\<in>set cache. (\<exists>r'\<in>set (gp_resources g'). P (g', r')) \<longrightarrow> gp_name g \<le> gp_name g')"

lemma find_Some_D: "find P xs = Some x \<Longrightarrow> x \<in> set xs \<and> P x"
  by (induction xs) (auto split: if_splits)

lemma best_of_is_best: "best_of P cache = Some (g, r) \<Longrightarrow> is_best P cache g r"
proof (induction cache arbitrary: g r)
  case (Cons x cache)
  show ?case
  proof (cases "find (\<lambda>r. P (x, r)) (gp_resources x)")
    case None
    then have "\<forall>r\<in>set (gp_resources x). \<not> P (x, r)" by (auto simp: find_None_iff)
    then show ?thesis using Cons None by (auto simp: best_of_Cons is_best_def)
  next
    case (Some a)
    show ?thesis
    proof (cases "best_of P cache")
      case None
      then have "g = x \<and> r = a" using Some Cons.prems by (simp add: best_of_Cons)
      then show ?thesis using None Some by (auto simp: is_best_def best_of_None)
    next
      case (Some b)
      obtain g' y where b: "b = (g', y)" by (cases b)
      have rest: "is_best P cache g' y" using Cons.IH Some b by simp
      show ?thesis
        using Cons.prems rest Some b \<open>find (\<lambda>r. P (x, r)) (gp_resources x) = Some a\<close>
        by (auto simp: best_of_Cons is_best_def split: if_splits dest: order.trans)
    qed
  qed
qed simp

lemma is_best_le: "is_best P cache g r \<Longrightarrow> is_best P cache' g' r' \<Longrightarrow> set cache = set cache' \<Longrightarrow> gp_name g \<le> gp_name g'"
  unfolding is_best_def by (metis find_Some_D)

lemma is_best_unique:
  assumes names: "distinct (map gp_name cache)" and a: "is_best P cache g r" and b: "is_best P cache g' r'"
  shows "g = g' \<and> r = r'"
proof -
  have "gp_name g \<le> gp_name g'" "gp_name g' \<le> gp_name g"
    using is_best_le[OF a b refl] is_best_le[OF b a refl] .
  then have "gp_name g = gp_name g'" by simp
  then have "g = g'" using names a b by (auto simp: is_best_def distinct_map inj_on_def)
  then show ?thesis using a b by (simp add: is_best_def)
qed

lemma best_of_iff:
  assumes "distinct (map gp_name cache)"
  shows "best_of P cache = Some (g, r) \<longleftrightarrow> is_best P cache g r"
proof
  assume a: "is_best P cache g r"
  then have "best_of P cache \<noteq> None" by (auto simp: best_of_None is_best_def dest!: find_Some_D)
  then obtain g' r' where r: "best_of P cache = Some (g', r')" by auto
  then show "best_of P cache = Some (g, r)"
    using is_best_unique[OF assms a best_of_is_best[OF r]] by simp
qed (rule best_of_is_best)

text \<open>The cache is a hash map: the order of its groups is that of no two runs.\<close>

lemma best_of_perm:
  assumes "distinct (map gp_name cache)" "mset cache = mset cache'"
  shows "best_of P cache = best_of P cache'"
proof (cases "best_of P cache")
  case None
  then show ?thesis using assms(2) by (metis best_of_None mset_eq_setD)
next
  case (Some x)
  have "distinct (map gp_name cache')"
    using assms by (metis mset_map mset_eq_imp_distinct_iff)
  moreover obtain g r where x: "x = (g, r)" by (cases x)
  moreover have "is_best P cache' g r"
    using best_of_is_best[of P cache g r] Some x mset_eq_setD[OF assms(2)] by (simp add: is_best_def)
  ultimately show ?thesis using Some by (metis best_of_iff)
qed

lemma generic_new_best: "generic_new cache name ns = generic_of ns (best_of (\<lambda>(g, res, cap). answers_to name res) cache)"
  by (simp add: generic_new_def best_of_def)

lemma generic_new_api_version_best:
  "generic_new_api_version cache grp version name ns =
     generic_of ns (best_of (\<lambda>(g, res, cap). gp_name g = grp \<and> ar_version res = version \<and> answers_to name res) cache)"
  by (simp add: generic_new_api_version_def best_of_def)

lemma generic_new_perm:
  assumes "distinct (map gp_name cache)" "mset cache = mset cache'"
  shows "generic_new cache name ns = generic_new cache' name ns"
    and "generic_new_api_version cache grp version name ns = generic_new_api_version cache' grp version name ns"
  unfolding generic_new_best generic_new_api_version_best best_of_perm[OF assms] by (rule refl)+

text \<open>C16: Whatever order the hash map of the discovery gives its groups in, a kind resolves to the same handle.\<close>

theorem resolution_ignores_order:
  assumes "distinct (map gp_name cache)" "mset cache = mset cache'"
  shows "generic_new cache name ns = generic_new cache' name ns \<and>
     generic_new_group_ns cache v name n = generic_new_group_ns cache' v name n"
  unfolding generic_new_group_ns_def Let_def generic_new_perm[OF assms] by simp

definition demo_groups :: "api_group list" where
  "demo_groups = [
     \<lparr>gp_name = ''extensions'', gp_resources =
        [(\<lparr>ar_group = ''extensions'', ar_version = ''v1beta1'', ar_kind = ''Ingress'', ar_plural = ''ingresses''\<rparr>, Scope_Namespaced)]\<rparr>,
     \<lparr>gp_name = ''apps'', gp_resources =
        [(\<lparr>ar_group = ''apps'', ar_version = ''v1'', ar_kind = ''Ingress'', ar_plural = ''ingresses''\<rparr>, Scope_Namespaced)]\<rparr>]"

theorem resolution_ignores_order_witness:
  "generic_new demo_groups ''INGRESS'' (Some ''ns'') = generic_new (rev demo_groups) ''INGRESS'' (Some ''ns'') \<and>
   generic_new_group_ns demo_groups ''apps/v1'' ''INGRESS'' ''ns'' = generic_new_group_ns (rev demo_groups) ''apps/v1'' ''INGRESS'' ''ns''"
  by (rule resolution_ignores_order) (simp_all add: demo_groups_def)

section \<open>What is added to an object\<close>

lemma missing_label_get:
  "obj_get (missing_label have kv) k =
     (case obj_get have k of Some v \<Rightarrow> Some v | None \<Rightarrow> if k = fst kv then Some (snd kv) else None)"
proof (cases "fst kv \<in> fst ` set have")
  case True
  then show ?thesis by (auto simp: missing_label_def map_of_eq_None_iff split: option.split)
next
  case False
  then have "obj_get have (fst kv) = None" by (simp add: map_of_eq_None_iff)
  then show ?thesis using False by (auto simp: missing_label_def split: option.split)
qed

lemma missing_labels:
  "obj_get (foldl missing_label have lm) k = (case obj_get have k of Some v \<Rightarrow> Some v | None \<Rightarrow> obj_get lm k)"
proof (induction lm arbitrary: "have")
  case (Cons kv lm)
  show ?case
    by (simp add: Cons.IH missing_label_get obj_get_Cons split: option.split)
qed (simp split: option.splits)

lemma object_member_insert [simp]: "object_member k (obj_insert k (JObj x) m) = x"
  by (simp add: object_member_def)

lemma object_member_other [simp]: "k \<noteq> j \<Longrightarrow> object_member k (obj_insert j v m) = object_member k m"
  by (simp add: object_member_def)

lemma with_labels_get:
  "obj_get (object_member ''labels'' (with_labels labels md)) k =
     (case obj_get (object_member ''labels'' md) k of
        Some v \<Rightarrow> Some v
      | None \<Rightarrow> Option.bind (as_object labels) (\<lambda>lm. obj_get lm k))"
  by (auto simp: with_labels_def missing_labels Let_def split: option.splits)

lemma with_labels_other: "k \<noteq> ''labels'' \<Longrightarrow> obj_get (with_labels labels md) k = obj_get md k"
  by (simp add: with_labels_def Let_def)

definition owners :: "(string \<times> json) list \<Rightarrow> json list" where
  "owners md = (case obj_get md ''ownerReferences'' of Some (JArr os) \<Rightarrow> os | _ \<Rightarrow> [])"

lemma with_ownerD:
  assumes "with_owner owner md = Some md'"
  shows "owners md' = owners md @ [owner] \<and> (\<forall>k. k \<noteq> ''ownerReferences'' \<longrightarrow> obj_get md' k = obj_get md k)"
  using assms by (auto simp: with_owner_def owners_def split: option.splits json.splits)

lemma with_owner_None:
  "with_owner owner md = None \<longleftrightarrow> (\<exists>v. obj_get md ''ownerReferences'' = Some v \<and> as_array v = None)"
  by (auto simp: with_owner_def split: option.splits json.splits)

text \<open>The metadata that is written, and what it says of labels and owners.\<close>

definition metadata_of :: "(string \<times> json) list \<Rightarrow> (string \<times> json) list" where
  "metadata_of handle = object_member ''metadata'' handle"

definition labels_of :: "(string \<times> json) list \<Rightarrow> (string \<times> json) list" where
  "labels_of handle = object_member ''labels'' (metadata_of handle)"

lemma prepare_handleE:
  assumes "prepare_handle handle labels owner owner_ns my_ns namespaced = Some handle'"
  obtains md' where "handle' = obj_insert ''metadata'' (JObj md') handle"
    "(if is_owned owner owner_ns my_ns namespaced
      then with_owner (the owner) (case labels of Some l \<Rightarrow> with_labels l (metadata_of handle) | None \<Rightarrow> metadata_of handle)
      else Some (case labels of Some l \<Rightarrow> with_labels l (metadata_of handle) | None \<Rightarrow> metadata_of handle)) = Some md'"
  using assms that unfolding prepare_handle_def metadata_of_def Let_def map_option_eq_Some by blast

lemma owners_with_labels [simp]: "owners (with_labels l md) = owners md"
  by (simp add: owners_def with_labels_other)

lemma prepared_owners:
  assumes "prepare_handle handle labels owner owner_ns my_ns namespaced = Some handle'"
  shows "owners (metadata_of handle') = owners (metadata_of handle) @
     (if is_owned owner owner_ns my_ns namespaced then [the owner] else [])"
  using assms
  by (elim prepare_handleE) (auto simp: metadata_of_def dest!: with_ownerD split: if_splits option.splits)

lemma prepared_label:
  assumes "prepare_handle handle labels owner owner_ns my_ns namespaced = Some handle'"
  shows "obj_get (labels_of handle') k =
     (case obj_get (labels_of handle) k of
        Some v \<Rightarrow> Some v
      | None \<Rightarrow> Option.bind (Option.bind labels as_object) (\<lambda>lm. obj_get lm k))"
proof -
  let ?labelled = "case labels of Some l \<Rightarrow> with_labels l (metadata_of handle) | None \<Rightarrow> metadata_of handle"
  obtain md' where md': "handle' = obj_insert ''metadata'' (JObj md') handle"
    and step: "(if is_owned owner owner_ns my_ns namespaced then with_owner (the owner) ?labelled else Some ?labelled) = Some md'"
    using assms by (rule prepare_handleE)
  from step have "obj_get md' ''labels'' = obj_get ?labelled ''labels''"
    by (auto dest!: with_ownerD split: if_splits)
  then have "labels_of handle' = object_member ''labels'' ?labelled"
    using md' by (simp add: labels_of_def metadata_of_def object_member_def)
  then show ?thesis by (auto simp: labels_of_def with_labels_get split: option.splits)
qed

lemma prepared_rest:
  assumes "prepare_handle handle labels owner owner_ns my_ns namespaced = Some handle'"
  shows "k \<noteq> ''metadata'' \<Longrightarrow> obj_get handle' k = obj_get handle k"
    and "k \<noteq> ''labels'' \<Longrightarrow> k \<noteq> ''ownerReferences'' \<Longrightarrow> obj_get (metadata_of handle') k = obj_get (metadata_of handle) k"
  using assms
  by (elim prepare_handleE; auto simp: metadata_of_def with_labels_other dest!: with_ownerD split: if_splits option.splits)+

text \<open>C9: An object that is written keeps its own fields, labels and owners: a label of the instance is added where the
  object has none of the name, the owner after the others when the object is in the owner's namespace.\<close>

theorem prepared_handle:
  assumes "prepare_handle handle labels owner owner_ns my_ns namespaced = Some handle'"
  shows "(\<forall>k. k \<noteq> ''metadata'' \<longrightarrow> obj_get handle' k = obj_get handle k) \<and>
     (\<forall>k. k \<noteq> ''labels'' \<longrightarrow> k \<noteq> ''ownerReferences'' \<longrightarrow>
        obj_get (metadata_of handle') k = obj_get (metadata_of handle) k) \<and>
     (\<forall>k. obj_get (labels_of handle') k =
        (case obj_get (labels_of handle) k of
           Some v \<Rightarrow> Some v
         | None \<Rightarrow> Option.bind (Option.bind labels as_object) (\<lambda>lm. obj_get lm k))) \<and>
     owners (metadata_of handle') = owners (metadata_of handle) @
       (if namespaced \<and> owner \<noteq> None \<and> owner_ns \<noteq> None \<and> owner_ns = my_ns then [the owner] else [])"
  using prepared_rest[OF assms] prepared_label[OF assms] prepared_owners[OF assms] by (simp add: is_owned_def)

definition plain_handle :: "(string \<times> json) list" where
  "plain_handle = [(''metadata'', JObj [(''labels'', JObj [(''app'', JStr ''mine'')]), (''name'', JStr ''web'')])]"

definition demo_labels :: json where
  "demo_labels = JObj [(''app'', JStr ''vynil''), (''app.kubernetes.io/name'', JStr ''web'')]"

definition demo_owner :: json where
  "demo_owner = JObj [(''name'', JStr ''inst''), (''uid'', JStr ''1'')]"

definition demo_prepared :: "(string \<times> json) list" where
  "demo_prepared = the (prepare_handle plain_handle (Some demo_labels) (Some demo_owner) (Some ''ns'') (Some ''ns'') True)"

lemma demo_prepared:
  "prepare_handle plain_handle (Some demo_labels) (Some demo_owner) (Some ''ns'') (Some ''ns'') True = Some demo_prepared"
  by (simp add: demo_prepared_def prepare_handle_def Let_def is_owned_def with_owner_def with_labels_def plain_handle_def
      object_member_def split: option.split)

theorem prepared_handle_witness:
  "obj_get (labels_of demo_prepared) ''app'' = Some (JStr ''mine'') \<and>
   obj_get (labels_of demo_prepared) ''app.kubernetes.io/name'' = Some (JStr ''web'') \<and>
   owners (metadata_of demo_prepared) = [demo_owner]"
  using prepared_handle[OF demo_prepared]
  by (simp add: labels_of_def metadata_of_def object_member_def plain_handle_def demo_labels_def owners_def)

text \<open>References that are not an array are the one panic.\<close>

theorem prepare_handle_panics:
  "prepare_handle handle labels owner owner_ns my_ns namespaced = None \<longleftrightarrow>
     is_owned owner owner_ns my_ns namespaced \<and>
     (\<exists>v. obj_get (metadata_of handle) ''ownerReferences'' = Some v \<and> as_array v = None)"
  by (auto simp: prepare_handle_def Let_def metadata_of_def with_owner_None with_labels_other split: option.splits)

text \<open>Nothing says whether the owner is there already: an object that was read, changed and written again names it
  once more each time.\<close>

theorem owner_added_again:
  assumes "prepare_handle handle labels (Some owner) (Some ns) (Some ns) True = Some handle'"
  shows "\<exists>handle''. prepare_handle handle' labels (Some owner) (Some ns) (Some ns) True = Some handle'' \<and>
     owners (metadata_of handle'') = owners (metadata_of handle) @ [owner, owner]"
proof -
  have first: "owners (metadata_of handle') = owners (metadata_of handle) @ [owner]"
    using prepared_owners[OF assms] by (simp add: is_owned_def)
  have "prepare_handle handle' labels (Some owner) (Some ns) (Some ns) True \<noteq> None"
    using first by (auto simp: prepare_handle_panics owners_def split: option.splits json.splits)
  then obtain handle'' where again: "prepare_handle handle' labels (Some owner) (Some ns) (Some ns) True = Some handle''"
    by auto
  then show ?thesis using prepared_owners[OF again] first by (simp add: is_owned_def)
qed

theorem owner_added_again_witness:
  "\<exists>handle''. prepare_handle demo_prepared (Some demo_labels) (Some demo_owner) (Some ''ns'') (Some ''ns'') True = Some handle'' \<and>
     owners (metadata_of handle'') = owners (metadata_of plain_handle) @ [demo_owner, demo_owner]"
  by (rule owner_added_again) (rule demo_prepared)

text \<open>Outside the namespace of the owner a second preparation adds nothing.\<close>

theorem prepared_labels_stable:
  assumes "prepare_handle handle labels owner owner_ns my_ns namespaced = Some handle'"
    and "prepare_handle handle' labels owner owner_ns my_ns namespaced = Some handle''"
  shows "obj_get (labels_of handle'') k = obj_get (labels_of handle') k"
  by (simp add: prepared_label[OF assms(1)] prepared_label[OF assms(2)] split: option.split)

text \<open>The names of an object stay in order and single, at every depth.\<close>

lemma object_member_wf: "json_wf (JObj m) \<Longrightarrow> json_wf (JObj (object_member k m))"
  using json_wf_get [of m k] unfolding object_member_def
  by (cases "obj_get m k") (auto simp add: json_wf_empty simp del: json_wf.simps split: json.split)

lemma missing_labels_wf:
  "json_wf (JObj have) \<Longrightarrow> (\<forall>kv \<in> set lm. json_wf (snd kv)) \<Longrightarrow> json_wf (JObj (foldl missing_label have lm))"
proof (induction lm arbitrary: "have")
  case (Cons kv lm)
  have "json_wf (JObj (missing_label have kv))"
    using Cons.prems
    unfolding missing_label_def by (simp add: json_wf_insert del: json_wf.simps)
  then show ?case using Cons.IH [of "missing_label have kv"] Cons.prems(2) by (simp del: json_wf.simps)
qed simp

lemma with_labels_wf:
  assumes "json_wf (JObj md)" "json_wf labels"
  shows "json_wf (JObj (with_labels labels md))"
proof (cases labels)
  case (JObj lm)
  then have "json_wf (JObj (foldl missing_label (object_member ''labels'' md) lm))"
    using assms by (intro missing_labels_wf object_member_wf) auto
  then show ?thesis
    using assms JObj unfolding with_labels_def by (simp add: json_wf_insert del: json_wf.simps)
qed (use assms object_member_wf [OF assms(1)] in
    \<open>simp_all add: with_labels_def json_wf_insert del: json_wf.simps(1)\<close>)

lemma with_owner_wf:
  assumes "json_wf (JObj md)" "json_wf owner" "with_owner owner md = Some md'"
  shows "json_wf (JObj md')"
proof -
  have "json_wf (JArr (os @ [owner]))" if "obj_get md ''ownerReferences'' = Some (JArr os)" for os
    using json_wf_get [OF assms(1) that] assms(2) by simp
  then show ?thesis
    using assms unfolding with_owner_def
    by (auto simp: json_wf_insert simp del: json_wf.simps(1) split: option.splits json.splits)
qed



section \<open>What is written\<close>

lemma on_api_Some: "on_api self f w = (Inr a, w') \<longleftrightarrow> (\<exists>api. kg_api self = Some api \<and> f api w = (Inr a, w'))"
  by (auto simp: on_api_def split: option.splits)

lemma on_api_None: "kg_api self = None \<Longrightarrow> on_api self f w = (Inl CE_UnsupportedMethod, w)"
  by (simp add: on_api_def c_fail_def)

lemma injected [simp]:
  "inject_labels_and_owner env self handle w = (Inr h, w') \<longleftrightarrow>
     prepare_handle handle (ke_labels env) (ke_owner env) (ke_owner_ns env) (kg_ns self) (kg_scope self = Scope_Namespaced) = Some h \<and>
     w' = w"
  by (auto simp: inject_labels_and_owner_def split: option.splits)

lemma applied_or_kept:
  "apply_or_keep env api kind name handle w = (Inr obj, w') \<longleftrightarrow>
     ke_patch env api name (client_name env) handle w = (Inr obj, w') \<or>
     (\<exists>e w1. ke_patch env api name (client_name env) handle w = (Inl e, w1) \<and> kind = ''Job'' \<and>
        contains e ''immutable'' \<and> ke_get env api name w1 = (Inr obj, w') \<and> job_is_completed (ko_data obj))"
  by (auto simp: apply_or_keep_def split: prod.splits sum.splits if_splits)

text \<open>C11: An apply that succeeds was accepted by the API with the instance's labels and owner, or was refused for an
  immutable job that is read back as completed: no other refusal is passed over.\<close>

theorem apply_accepted_or_completed:
  assumes "generic_apply env self name data w = (Inr obj, w')"
  shows "\<exists>api handle. kg_api self = Some api \<and>
     prepare_handle data (ke_labels env) (ke_owner env) (ke_owner_ns env) (kg_ns self) (kg_scope self = Scope_Namespaced) = Some handle \<and>
     (ke_patch env api name (client_name env) (JObj handle) w = (Inr obj, w') \<or>
      (\<exists>e w1. ke_patch env api name (client_name env) (JObj handle) w = (Inl e, w1) \<and> contains e ''immutable'' \<and>
         obj_get data ''kind'' = Some (JStr ''Job'') \<and> ke_get env api name w1 = (Inr obj, w') \<and>
         job_is_completed (ko_data obj)))"
proof -
  have "obj_get data ''kind'' = Some (JStr ''Job'')"
    if "(case Option.bind (obj_get data ''kind'') as_str of Some k \<Rightarrow> k | None \<Rightarrow> []) = ''Job''"
    using that by (auto simp: Option.bind_eq_Some_conv split: option.splits elim!: as_str.elims)
  then show ?thesis
    using assms unfolding generic_apply_def on_api_Some Let_def
    by (auto elim!: c_bindE simp: applied_or_kept)
qed

text \<open>A cluster whose one object is a completed job that is refused.\<close>

definition done_job :: kube_object where
  "done_job = \<lparr>ko_kind = Some ''Job'', ko_name = ''init'', ko_uid = Some ''7'', ko_metadata = JObj [],
     ko_data = JObj [(''status'', JObj [(''succeeded'', JNum (PosInt 1))])]\<rparr>"

definition demo_kube :: "nat kube_env" where
  "demo_kube = \<lparr>ke_client = True, ke_discover = \<lambda>excluded w. (Inr demo_groups, w), ke_in_time = \<lambda>s w. True,
     ke_list = \<lambda>api ls w. (Inr [done_job], w), ke_list_meta = \<lambda>api w. (Inr [done_job], w),
     ke_get = \<lambda>api n w. (Inr done_job, w), ke_get_meta = \<lambda>api n w. (Inr done_job, w),
     ke_delete = \<lambda>api n w. (Inr (), Suc w), ke_create = \<lambda>api obj w. (Inr obj, Suc w),
     ke_replace = \<lambda>api n obj w. (Inr obj, Suc w),
     ke_patch = \<lambda>api n m v w. (Inl ''field is immutable'', Suc w),
     ke_await = \<lambda>api n c t w. (if c (Some done_job) then Await_Done else Await_Elapsed ''deadline has elapsed'', w),
     ke_await_deleted = \<lambda>api n u t w. (Await_Elapsed ''deadline has elapsed'', w),
     ke_await_ds = \<lambda>n m c t w. (Await_Elapsed ''deadline has elapsed'', w),
     ke_await_sts = \<lambda>n m c t w. (Await_Elapsed ''deadline has elapsed'', w),
     ke_await_deploy = \<lambda>n m c t w. (Await_Elapsed ''deadline has elapsed'', w),
     ke_await_job = \<lambda>n m t w. (Await_Done, w),
     ke_request = \<lambda>u a w. (Inr JNull, w), ke_valid_url = \<lambda>u. Inr (), ke_parse = \<lambda>v. Inr done_job,
     ke_value = \<lambda>obj. Inr (ko_data obj), ke_client_name = None, ke_labels = Some demo_labels,
     ke_owner = Some demo_owner, ke_owner_ns = Some ''ns''\<rparr>"

definition demo_jobs :: k8s_generic where
  "demo_jobs = \<lparr>kg_api = Some (All_With \<lparr>ar_group = ''batch'', ar_version = ''v1'', ar_kind = ''Job'', ar_plural = ''jobs''\<rparr>),
     kg_ns = Some ''ns'', kg_scope = Scope_Namespaced, kg_kind = ''Job''\<rparr>"

lemma demo_apply:
  "generic_apply demo_kube demo_jobs ''init'' [(''kind'', JStr ''Job'')] 0 = (Inr done_job, 1)"
proof -
  have "contains ''field is immutable'' ''immutable''" by code_simp
  moreover have "job_is_completed (ko_data done_job)" by code_simp
  moreover have "prepare_handle [(''kind'', JStr ''Job'')] (Some demo_labels) (Some demo_owner) (Some ''ns'') (Some ''ns'') True \<noteq> None"
    by (simp add: prepare_handle_panics metadata_of_def object_member_def)
  ultimately show ?thesis
    by (auto simp: generic_apply_def on_api_def demo_jobs_def demo_kube_def inject_labels_and_owner_def c_bind_def
        c_return_def apply_or_keep_def)
qed

theorem apply_accepted_or_completed_witness:
  "job_is_completed (ko_data done_job)"
  using apply_accepted_or_completed[OF demo_apply] by (simp add: demo_kube_def)

section \<open>Waiting\<close>

text \<open>
  What the documentation of \<open>await_condition\<close> promises: it ends well once the object it watches matches. \<open>seen\<close> is
  the state of the object in a world.
\<close>

definition await_sound :: "'w kube_env \<Rightarrow> (api_handle \<Rightarrow> string \<Rightarrow> 'w \<Rightarrow> kube_object option) \<Rightarrow> bool" where
  "await_sound env seen \<longleftrightarrow>
     (\<forall>api name cond secs w w'. ke_await env api name cond secs w = (Await_Done, w') \<longrightarrow> cond (seen api name w'))"

lemma waited_ok [simp]: "waited r = (Inr u, w') \<longleftrightarrow> r = (Await_Done, w')"
  by (cases r) (auto simp: waited_def split: await_result.splits)

lemma await_objectD:
  "await_sound env seen \<Longrightarrow> await_object env self cond timeout w = (Inr u, w') \<Longrightarrow>
     cond (seen (kj_api self) (ko_name (kj_obj self)) w')"
  unfolding await_sound_def await_object_def waited_ok by blast

lemma is_conditionD:
  assumes "is_condition cond obj"
  shows "\<exists>o' status cs c. obj = Some o' \<and> value_get (ko_data o') ''status'' = Some status \<and>
     value_get status ''conditions'' = Some (JArr cs) \<and> c \<in> set cs \<and>
     value_get c ''type'' = Some (JStr cond) \<and> value_get c ''status'' = Some (JStr ''True'')"
  using assms
  by (auto simp: is_condition_def status_of_object_def list_ex_iff Option.bind_eq_Some_conv split: option.splits
      elim!: as_str.elims as_array.elims)

text \<open>A script that waited for a condition goes on only when the object exists and its status carries the condition
  as \<open>True\<close>.\<close>

theorem waited_for_condition:
  assumes "await_sound env seen" "wait_condition env self cond timeout w = (Inr u, w')"
  shows "\<exists>o' status cs c. seen (kj_api self) (ko_name (kj_obj self)) w' = Some o' \<and>
     value_get (ko_data o') ''status'' = Some status \<and> value_get status ''conditions'' = Some (JArr cs) \<and> c \<in> set cs \<and>
     value_get c ''type'' = Some (JStr cond) \<and> value_get c ''status'' = Some (JStr ''True'')"
  using is_conditionD[OF await_objectD[OF assms(1) assms(2)[unfolded wait_condition_def]]] .

lemma waited_for_status:
  assumes "await_sound env seen" "wait_status env self prop timeout w = (Inr u, w')"
  shows "status_prop prop (seen (kj_api self) (ko_name (kj_obj self)) w') = Some (JBool True)"
  using await_objectD[OF assms(1) assms(2)[unfolded wait_status_def]]
  by (auto simp: is_status_def split: option.splits json.splits)

lemma waited_for_status_string:
  assumes "await_sound env seen" "wait_status_string env self prop val timeout w = (Inr u, w')"
  shows "status_prop prop (seen (kj_api self) (ko_name (kj_obj self)) w') = Some (JStr val)"
  using await_objectD[OF assms(1) assms(2)[unfolded wait_status_string_def]]
  by (auto simp: have_status_value_def Option.bind_eq_Some_conv elim!: as_str.elims)

definition ready_object :: kube_object where
  "ready_object = done_job\<lparr>ko_data := JObj [(''status'', JObj [(''conditions'',
     JArr [JObj [(''status'', JStr ''True''), (''type'', JStr ''Ready'')]])])]\<rparr>"

definition ready_kube :: "nat kube_env" where
  "ready_kube = demo_kube\<lparr>ke_await := \<lambda>api n c t w.
     (if c (Some ready_object) then Await_Done else Await_Elapsed ''deadline has elapsed'', w)\<rparr>"

definition ready_handle :: k8s_object where
  "ready_handle = \<lparr>kj_api = apiservices, kj_obj = ready_object, kj_kind = ''Job''\<rparr>"

theorem waited_for_condition_witness:
  "\<exists>o' status cs c. Some ready_object = Some o' \<and>
     value_get (ko_data o') ''status'' = Some status \<and> value_get status ''conditions'' = Some (JArr cs) \<and> c \<in> set cs \<and>
     value_get c ''type'' = Some (JStr ''Ready'') \<and> value_get c ''status'' = Some (JStr ''True'')"
proof (rule waited_for_condition [where env = ready_kube and seen = "\<lambda>api n w. Some ready_object" and self = ready_handle
      and timeout = 60 and w = 0 and u = "()" and w' = 0])
  show "await_sound ready_kube (\<lambda>api n w. Some ready_object)"
    by (simp add: await_sound_def ready_kube_def)
  have "is_condition ''Ready'' (Some ready_object)" by code_simp
  then show "wait_condition ready_kube ready_handle ''Ready'' 60 0 = (Inr (), 0)"
    by (simp add: wait_condition_def await_object_def ready_kube_def ready_handle_def)
qed

section \<open>The bounds of a wait\<close>

text \<open>A timeout a script gives in seconds is kept when it is not negative; a negative one becomes one of at least
  2^63 seconds.\<close>

theorem wait_secs_wraps:
  "wait_secs timeout = (if 0 \<le> sint timeout then nat (sint timeout) else nat (2 ^ 64 + sint timeout)) \<and>
   (sint timeout < 0 \<longrightarrow> 2 ^ 63 \<le> wait_secs timeout)"
proof -
  have wrap: "int (wait_secs timeout) = sint timeout mod 2 ^ 64"
    by (simp add: wait_secs_def uint_sint take_bit_eq_mod flip: uint_nat)
  have hi: "sint timeout < 2 ^ 63" and lo: "- (2 ^ 63) \<le> sint timeout"
    using sint_lt [of timeout] sint_ge [of timeout] by simp_all
  show ?thesis
  proof (cases "0 \<le> sint timeout")
    case True
    then have "int (wait_secs timeout) = sint timeout"
      using wrap hi by (simp add: mod_pos_pos_trivial)
    then have "wait_secs timeout = nat (sint timeout)" by simp
    then show ?thesis using True by simp
  next
    case False
    then have "(2 ^ 64 + sint timeout) mod 2 ^ 64 = 2 ^ 64 + sint timeout"
      using lo by (intro mod_pos_pos_trivial) simp_all
    then have "int (wait_secs timeout) = 2 ^ 64 + sint timeout"
      using wrap by simp
    then show ?thesis using False lo by (simp add: nat_eq_iff2 [symmetric])
  qed
qed

theorem wait_secs_wraps_witness: "2 ^ 63 \<le> wait_secs (- 1)"
  using wait_secs_wraps[of "- 1"] by simp

end
