(* ===== verification/AgentContext.thy ===== *)
theory AgentContext
  imports K8sGeneric Requirements JukeBox
begin

text \<open>
  \<open>common/src/context.rs\<close>: the object a process works for and what it gives the objects it writes, with the hooks
  of \<open>core/src/k8s.rs\<close> that are to hand these to the bindings of the scripts.
\<close>

section \<open>The object a process works for\<close>

datatype vynil_context =
    Ctx_JukeBox jukebox
  | Ctx_Service instance_obj
  | Ctx_Tenant instance_obj
  | Ctx_System instance_obj
  | Ctx_None

definition set_tenant :: "instance_obj \<Rightarrow> vynil_context \<Rightarrow> vynil_context" where
  "set_tenant i ctx = Ctx_Tenant i"

definition set_service :: "instance_obj \<Rightarrow> vynil_context \<Rightarrow> vynil_context" where
  "set_service i ctx = Ctx_Service i"

definition set_system :: "instance_obj \<Rightarrow> vynil_context \<Rightarrow> vynil_context" where
  "set_system i ctx = Ctx_System i"

definition set_box :: "jukebox \<Rightarrow> vynil_context \<Rightarrow> vynil_context" where
  "set_box jb ctx = Ctx_JukeBox jb"

definition or_empty :: "string option \<Rightarrow> string" where
  "or_empty s = (case s of Some t \<Rightarrow> t | None \<Rightarrow> [])"

definition get_owner_ns :: "vynil_context \<Rightarrow> string option" where
  "get_owner_ns ctx =
     (case ctx of
        Ctx_Tenant i \<Rightarrow> Some (or_empty (md_namespace (in_meta i)))
      | Ctx_System i \<Rightarrow> Some (or_empty (md_namespace (in_meta i)))
      | Ctx_Service i \<Rightarrow> Some (or_empty (md_namespace (in_meta i)))
      | Ctx_JukeBox j \<Rightarrow> None
      | Ctx_None \<Rightarrow> None)"

definition owner_value :: "string \<Rightarrow> metadata \<Rightarrow> json" where
  "owner_value kind md = JObj [
     (''apiVersion'', JStr ''vynil.solidite.fr/v1''),
     (''blockOwnerDeletion'', JBool True),
     (''controller'', JBool True),
     (''kind'', JStr kind),
     (''name'', JStr (or_empty (md_name md))),
     (''uid'', JStr (or_empty (md_uid md)))]"

definition get_owner :: "vynil_context \<Rightarrow> json option" where
  "get_owner ctx =
     (case ctx of
        Ctx_Tenant i \<Rightarrow> Some (owner_value ''TenantInstance'' (in_meta i))
      | Ctx_Service i \<Rightarrow> Some (owner_value ''ServiceInstance'' (in_meta i))
      | Ctx_System i \<Rightarrow> Some (owner_value ''SystemInstance'' (in_meta i))
      | Ctx_JukeBox j \<Rightarrow> Some (owner_value ''JukeBox'' (jb_meta j))
      | Ctx_None \<Rightarrow> None)"

definition instance_labels :: "string \<Rightarrow> instance_obj \<Rightarrow> (string \<times> json) list" where
  "instance_labels type i = [
     (''app.kubernetes.io/instance'', JStr (or_empty (md_name (in_meta i)))),
     (''app.kubernetes.io/managed-by'', JStr ''vynil''),
     (''app.kubernetes.io/name'', JStr (spec_package (in_spec i))),
     (''vynil.solidite.fr/owner-category'', JStr (spec_category (in_spec i))),
     (''vynil.solidite.fr/owner-namespace'', JStr (or_empty (md_namespace (in_meta i)))),
     (''vynil.solidite.fr/owner-type'', JStr type)]"

text \<open>The name of the tenant is asked of the API each time; an error leaves it empty, a panic does not.\<close>

definition tenant_or_empty :: "'w kube_api \<Rightarrow> instance_obj \<Rightarrow> ('w, string) io" where
  "tenant_or_empty api i w =
     (case get_tenant_name api i w of
        (Inl (Panicked p), w') \<Rightarrow> (Inl (Panicked p), w')
      | (Inl e, w') \<Rightarrow> (Inr [], w')
      | (Inr t, w') \<Rightarrow> (Inr t, w'))"

definition get_labels :: "'w kube_api \<Rightarrow> vynil_context \<Rightarrow> ('w, json option) io" where
  "get_labels api ctx =
     (case ctx of
        Ctx_Tenant i \<Rightarrow>
          io_bind (tenant_or_empty api i) (\<lambda>tenant.
            io_return (Some (JObj (instance_labels ''tenant'' i @ [(''vynil.solidite.fr/tenant'', JStr tenant)]))))
      | Ctx_System i \<Rightarrow> io_return (Some (JObj (instance_labels ''system'' i)))
      | Ctx_Service i \<Rightarrow> io_return (Some (JObj (instance_labels ''service'' i)))
      | Ctx_JukeBox j \<Rightarrow> io_return (Some (JObj [
          (''app.kubernetes.io/instance'', JStr (or_empty (md_name (jb_meta j)))),
          (''app.kubernetes.io/managed-by'', JStr ''vynil''),
          (''vynil.solidite.fr/owner-type'', JStr ''jukebox'')]))
      | Ctx_None \<Rightarrow> io_return None)"

text \<open>The name of the program, when the system tells it.\<close>

definition get_client_name :: "string option \<Rightarrow> string" where
  "get_client_name prog =
     (case prog of
        None \<Rightarrow> ''vynil.solidite.fr''
      | Some p \<Rightarrow>
          if p = ''agent'' then ''agent.vynil.solidite.fr''
          else if p = ''operator'' then ''controller.vynil.solidite.fr''
          else ''vynil.solidite.fr'')"

definition get_short_name :: "string option \<Rightarrow> string" where
  "get_short_name prog =
     (let lst = split_on (CHR ''.'') (get_client_name prog)
      in if 3 < length lst then lst ! 1 @ ''-'' @ lst ! 0 else ''vynil'')"

section \<open>The hooks of the bindings\<close>

text \<open>A hook is a cell that is written once; what it answers is a function of the context of the process.\<close>

record providers =
  pv_client :: "unit option"
  pv_client_name :: "string option"
  pv_labels :: "(vynil_context \<Rightarrow> json option) option"
  pv_owner :: "(vynil_context \<Rightarrow> json option) option"
  pv_owner_ns :: "(vynil_context \<Rightarrow> string option) option"

definition no_providers :: providers where
  "no_providers = \<lparr>pv_client = None, pv_client_name = None, pv_labels = None, pv_owner = None, pv_owner_ns = None\<rparr>"

definition set_once :: "'a \<Rightarrow> 'a option \<Rightarrow> 'a option" where
  "set_once f cell = (case cell of None \<Rightarrow> Some f | Some g \<Rightarrow> Some g)"

definition set_get_client :: "providers \<Rightarrow> providers" where
  "set_get_client pv = pv\<lparr>pv_client := set_once () (pv_client pv)\<rparr>"

definition set_get_client_name :: "string \<Rightarrow> providers \<Rightarrow> providers" where
  "set_get_client_name f pv = pv\<lparr>pv_client_name := set_once f (pv_client_name pv)\<rparr>"

definition set_get_labels :: "(vynil_context \<Rightarrow> json option) \<Rightarrow> providers \<Rightarrow> providers" where
  "set_get_labels f pv = pv\<lparr>pv_labels := set_once f (pv_labels pv)\<rparr>"

definition set_get_owner :: "(vynil_context \<Rightarrow> json option) \<Rightarrow> providers \<Rightarrow> providers" where
  "set_get_owner f pv = pv\<lparr>pv_owner := set_once f (pv_owner pv)\<rparr>"

definition set_get_owner_ns :: "(vynil_context \<Rightarrow> string option) \<Rightarrow> providers \<Rightarrow> providers" where
  "set_get_owner_ns f pv = pv\<lparr>pv_owner_ns := set_once f (pv_owner_ns pv)\<rparr>"

text \<open>What the start of a program does with the hooks.\<close>

definition init_k8s :: "providers \<Rightarrow> providers" where
  "init_k8s pv = pv"

definition call_get_client_name :: "providers \<Rightarrow> string" where
  "call_get_client_name pv = (case pv_client_name pv of Some f \<Rightarrow> f | None \<Rightarrow> ''vynil.solidite.fr'')"

definition call_get_labels :: "providers \<Rightarrow> vynil_context \<Rightarrow> json option" where
  "call_get_labels pv ctx = (case pv_labels pv of Some f \<Rightarrow> f ctx | None \<Rightarrow> None)"

definition call_get_owner :: "providers \<Rightarrow> vynil_context \<Rightarrow> json option" where
  "call_get_owner pv ctx = (case pv_owner pv of Some f \<Rightarrow> f ctx | None \<Rightarrow> None)"

definition call_get_owner_ns :: "providers \<Rightarrow> vynil_context \<Rightarrow> string option" where
  "call_get_owner_ns pv ctx = (case pv_owner_ns pv of Some f \<Rightarrow> f ctx | None \<Rightarrow> None)"

definition script_env :: "providers \<Rightarrow> vynil_context \<Rightarrow> 'w kube_env \<Rightarrow> 'w kube_env" where
  "script_env pv ctx env = env
     \<lparr>ke_client := (pv_client pv \<noteq> None), ke_client_name := Some (call_get_client_name pv),
      ke_labels := call_get_labels pv ctx, ke_owner := call_get_owner pv ctx, ke_owner_ns := call_get_owner_ns pv ctx\<rparr>"

text \<open>The cache of the discovery is filled at its first use.\<close>

definition cached_discovery :: "'w kube_env \<Rightarrow> api_group list option \<Rightarrow> ('w, api_group list) core_op" where
  "cached_discovery env cache = (case cache of Some c \<Rightarrow> c_return c | None \<Rightarrow> populate_cache env)"

definition k8s_resource :: "'w kube_env \<Rightarrow> api_group list option \<Rightarrow> string \<Rightarrow> string option \<Rightarrow> ('w, k8s_generic) core_op" where
  "k8s_resource env cache name ns = c_bind (cached_discovery env cache) (\<lambda>c. c_return (generic_new c name ns))"

section \<open>What the hooks come to\<close>


lemma nothing_added_without_hooks:
  assumes "inject_labels_and_owner (script_env (init_k8s no_providers) ctx env) self data w = (Inr h, w')"
  shows "obj_get (labels_of h) k = obj_get (labels_of data) k \<and> owners (metadata_of h) = owners (metadata_of data)"
proof -
  have prep: "prepare_handle data None None None (kg_ns self) (kg_scope self = Scope_Namespaced) = Some h"
    using assms
    by (simp add: script_env_def init_k8s_def no_providers_def call_get_labels_def call_get_owner_def call_get_owner_ns_def)
  show ?thesis
    using prepared_label [OF prep, of k] prepared_owners [OF prep] by (simp add: is_owned_def split: option.splits)
qed

text \<open>A hook keeps the first function it is given.\<close>

lemma set_once_keeps [simp]: "set_once g (set_once f cell) = set_once f cell"
  by (simp add: set_once_def split: option.split)

text \<open>The hooks as the bindings expect them, from the functions of the context.\<close>

definition wired :: "providers \<Rightarrow> 'w kube_api \<Rightarrow> 'w \<Rightarrow> bool" where
  "wired pv api w \<longleftrightarrow>
     pv_client pv \<noteq> None \<and> pv_owner pv = Some get_owner \<and> pv_owner_ns pv = Some get_owner_ns \<and>
     (\<exists>labels. pv_labels pv = Some labels \<and> (\<forall>ctx l. fst (get_labels api ctx w) = Inr l \<longrightarrow> labels ctx = l))"

definition instance_of :: "vynil_context \<Rightarrow> instance_obj option" where
  "instance_of ctx = (case ctx of Ctx_Tenant i \<Rightarrow> Some i | Ctx_Service i \<Rightarrow> Some i | Ctx_System i \<Rightarrow> Some i | _ \<Rightarrow> None)"

lemma labels_of_instance:
  assumes "instance_of ctx = Some i" "fst (get_labels api ctx w) = Inr l"
  shows "\<exists>lm. l = Some (JObj lm) \<and> obj_get lm ''app.kubernetes.io/managed-by'' = Some (JStr ''vynil'') \<and>
     obj_get lm ''app.kubernetes.io/instance'' = Some (JStr (or_empty (md_name (in_meta i))))"
  using assms
  by (cases ctx) (auto simp: instance_of_def get_labels_def instance_labels_def io_return_def io_bind_def
      split: prod.splits sum.splits)

lemma owner_of_instance:
  assumes "instance_of ctx = Some i"
  shows "get_owner_ns ctx = Some (or_empty (md_namespace (in_meta i))) \<and>
     (\<exists>kind. get_owner ctx = Some (owner_value kind (in_meta i)))"
  using assms by (cases ctx) (auto simp: instance_of_def get_owner_ns_def get_owner_def)

text \<open>With the hooks on the functions of the context, every object a script writes for an instance says it is managed
  by vynil unless it said otherwise, and is owned by the instance when it is in its namespace.\<close>

theorem wired_objects_labelled:
  assumes "wired pv api w0" "instance_of ctx = Some i" "fst (get_labels api ctx w0) = Inr l"
    and "inject_labels_and_owner (script_env pv ctx env) self data w = (Inr h, w')"
  shows "obj_get (labels_of h) ''app.kubernetes.io/managed-by'' =
       (case obj_get (labels_of data) ''app.kubernetes.io/managed-by'' of Some v \<Rightarrow> Some v | None \<Rightarrow> Some (JStr ''vynil'')) \<and>
     (\<exists>kind. owners (metadata_of h) = owners (metadata_of data) @
       (if kg_scope self = Scope_Namespaced \<and> kg_ns self = Some (or_empty (md_namespace (in_meta i)))
        then [owner_value kind (in_meta i)] else []))"
proof -
  obtain lm where l: "l = Some (JObj lm)" and lm: "obj_get lm ''app.kubernetes.io/managed-by'' = Some (JStr ''vynil'')"
    using labels_of_instance [OF assms(2,3)] by auto
  obtain kind where o: "get_owner_ns ctx = Some (or_empty (md_namespace (in_meta i)))"
      "get_owner ctx = Some (owner_value kind (in_meta i))"
    using owner_of_instance [OF assms(2)] by auto
  have prep: "prepare_handle data (Some (JObj lm)) (Some (owner_value kind (in_meta i)))
      (Some (or_empty (md_namespace (in_meta i)))) (kg_ns self) (kg_scope self = Scope_Namespaced) = Some h"
    using assms(1,3,4) l o
    by (auto simp: wired_def script_env_def call_get_labels_def call_get_owner_def call_get_owner_ns_def)
  show ?thesis
    using prepared_label [OF prep, of "''app.kubernetes.io/managed-by''"] prepared_owners [OF prep] lm
    by (auto simp: is_owned_def split: option.splits)
qed

definition wired_demo :: providers where
  "wired_demo = set_get_owner_ns get_owner_ns (set_get_owner get_owner (set_get_client
     (set_get_labels (\<lambda>ctx. case fst (get_labels demo_api ctx (0, None)) of Inr l \<Rightarrow> l | Inl e \<Rightarrow> None) no_providers)))"

lemma wired_demo: "wired wired_demo demo_api (0, None)"
  by (auto simp: wired_def wired_demo_def set_get_owner_ns_def set_get_owner_def set_get_client_def set_get_labels_def
      set_once_def no_providers_def)

theorem wired_objects_labelled_witness:
  "\<exists>h. obj_get (labels_of h) ''app.kubernetes.io/managed-by'' = Some (JStr ''vynil'') \<and>
     (\<exists>kind. owners (metadata_of h) = [owner_value kind (in_meta (demo_tenant ''ns'' ''app'' []))])"
proof -
  let ?i = "demo_tenant ''ns'' ''app'' []"
  let ?ctx = "Ctx_Tenant ?i"
  let ?data = "[(''kind'', JStr ''Secret'')]"
  obtain l where l: "fst (get_labels demo_api ?ctx (0, None)) = Inr l"
    by (simp add: get_labels_def tenant_or_empty_def get_tenant_name_def my_namespace_def demo_tenant_def io_bind_def
        io_lift_def io_kube_def io_return_def label_key_def demo_api_def)
  let ?env = "script_env wired_demo ?ctx demo_kube"
  have "prepare_handle ?data (ke_labels ?env) (ke_owner ?env) (ke_owner_ns ?env) (kg_ns demo_jobs)
      (kg_scope demo_jobs = Scope_Namespaced) \<noteq> None"
    by (simp add: prepare_handle_panics metadata_of_def object_member_def)
  then obtain h where h: "inject_labels_and_owner ?env demo_jobs ?data 0 = (Inr h, 0)"
    by (simp add: not_None_eq) blast
  have "instance_of ?ctx = Some ?i" by (simp add: instance_of_def)
  from wired_objects_labelled [OF wired_demo this l h] show ?thesis
    by (intro exI [of _ h]) (auto simp: labels_of_def metadata_of_def object_member_def owners_def demo_jobs_def
        demo_tenant_def or_empty_def)
qed

end
