(* ===== verification/AgentStages.thy ===== *)
theory AgentStages
  imports AgentContext Reconcile
begin

text \<open>
  The agent (\<open>agent/src\<close>): the programs that the jobs of the operator run. A stage reads its instance or its box,
  makes it the context of the process, and hands a script what it needs; \<open>unpack\<close> fetches a package. With the
  script engine they share (\<open>core/src/engine.rs\<close>, \<open>common/src/rhaihandler.rs\<close>) and the exit codes. The engine,
  the file system, the registry and the API are parameters.
\<close>

section \<open>Scripts\<close>

text \<open>The groups of functions a script is given.\<close>

datatype binding =
    B_Common | B_Chrono | B_Hashes | B_Password | B_Key | B_Semver | B_Yaml | B_Glob | B_Oci | B_Shell
  | B_Owner | B_Yaml_Ordered | B_Package | B_Handlebars | B_Http | B_S3 | B_File_JukeBox
  | B_Service | B_System | B_Tenant | B_JukeBox | B_K8s_Generic | B_K8s_Raw | B_K8s_Workload
  | B_Oci_Mock | B_Http_Mock | B_K8s_Mock

datatype script_value =
    V_Instance instance_obj
  | V_Box jukebox
  | V_File_Box "jukebox_def option" "string option" string    \<comment> \<open>source, pull secret, directory of the cache\<close>
  | V_Text string
  | V_Json json

record script =
  sr_bindings :: "binding list"
  sr_path :: "string list"
  sr_scope :: "(string \<times> script_value) list"

definition script_new_bare :: "string list \<Rightarrow> script" where
  "script_new_bare resolver_path =
     \<lparr>sr_bindings = [B_Common, B_Chrono, B_Hashes, B_Password, B_Key, B_Semver, B_Yaml, B_Glob, B_Oci, B_Shell],
      sr_path = resolver_path, sr_scope = []\<rparr>"

definition register :: "binding list \<Rightarrow> script \<Rightarrow> script" where
  "register bs s = s\<lparr>sr_bindings := sr_bindings s @ bs\<rparr>"

definition script_new_core :: "string list \<Rightarrow> script" where
  "script_new_core resolver_path =
     register [B_Owner, B_Yaml_Ordered, B_Package, B_Handlebars] (script_new_bare resolver_path)"

definition script_new_file_scan :: "string list \<Rightarrow> script" where
  "script_new_file_scan resolver_path = register [B_Http, B_S3, B_File_JukeBox] (script_new_core resolver_path)"

definition script_new :: "string list \<Rightarrow> script" where
  "script_new resolver_path =
     register [B_Http, B_S3, B_Service, B_System, B_Tenant, B_JukeBox, B_K8s_Generic, B_K8s_Raw, B_K8s_Workload]
       (script_new_core resolver_path)"

definition script_new_mock :: "string list \<Rightarrow> script" where
  "script_new_mock resolver_path = register [B_Oci_Mock, B_Http_Mock, B_K8s_Mock] (script_new_core resolver_path)"

text \<open>\<open>Scope::set_or_push\<close>.\<close>

definition set_value :: "string \<Rightarrow> script_value \<Rightarrow> script \<Rightarrow> script" where
  "set_value name v s = s\<lparr>sr_scope :=
     (if name \<in> fst ` set (sr_scope s) then map (\<lambda>(n, u). (n, if n = name then v else u)) (sr_scope s)
      else sr_scope s @ [(name, v)])\<rparr>"

definition set_dynamic :: "string \<Rightarrow> json \<Rightarrow> script \<Rightarrow> script" where
  "set_dynamic name v = set_value name (V_Json v)"

section \<open>The functions every script has\<close>

text \<open>
  What a call of a function of a module comes to: a value, or an error with the kind the engine gives it when it is
  not a value the script has thrown.
\<close>

datatype 'v script_call = Call_Value 'v | Call_Error "string option" string

text \<open>\<open>import_run\<close>: a module or a function that is not there is skipped, and the result is the unit value \<open>None\<close>.\<close>

definition is_missing :: "string option \<Rightarrow> bool" where
  "is_missing kind \<longleftrightarrow> kind = Some ''ErrorModuleNotFound'' \<or> kind = Some ''ErrorFunctionNotFound''"

definition import_run :: "(string \<Rightarrow> 'w \<Rightarrow> 'v script_call \<times> 'w) \<Rightarrow> 'w \<Rightarrow> (string + 'v option) \<times> 'w" where
  "import_run imp w =
     (case imp ''run'' w of
        (Call_Value v, w') \<Rightarrow> (Inr (Some v), w')
      | (Call_Error kind e, w') \<Rightarrow> (if is_missing kind then Inr None else Inl e, w'))"

text \<open>\<open>import_template\<close>: without the function \<open>template\<close> the module is run.\<close>

definition import_template :: "(string \<Rightarrow> 'w \<Rightarrow> 'v script_call \<times> 'w) \<Rightarrow> 'w \<Rightarrow> (string + 'v option) \<times> 'w" where
  "import_template imp w =
     (case imp ''template'' w of
        (Call_Value v, w') \<Rightarrow> (Inr (Some v), w')
      | (Call_Error kind e, w') \<Rightarrow>
          if kind = Some ''ErrorModuleNotFound'' then (Inr None, w')
          else if kind = Some ''ErrorFunctionNotFound'' then
            (case imp ''run'' w' of
               (Call_Value v, w'') \<Rightarrow> (Inr (Some v), w'')
             | (Call_Error kind' e', w'') \<Rightarrow>
                 (if kind' = Some ''ErrorFunctionNotFound'' then Inr None else Inl e', w''))
          else (Inl e, w'))"

section \<open>The parameters\<close>

text \<open>The state of a process is its context and the world.\<close>

type_synonym ('w, 'a) agent_io = "(vynil_context \<times> 'w, 'a) io"

record 'w agent_api =
  aa_eval :: "script \<Rightarrow> string \<Rightarrow> vynil_context \<Rightarrow> ('w, unit) lib_call"
  aa_run_file :: "script \<Rightarrow> string \<Rightarrow> vynil_context \<Rightarrow> ('w, unit) lib_call"    \<comment> \<open>compiled and run\<close>
  aa_is_file :: "string \<Rightarrow> 'w \<Rightarrow> bool"
  aa_is_dir :: "string \<Rightarrow> 'w \<Rightarrow> bool"
  aa_parent :: "string \<Rightarrow> string"
  aa_create_dir :: "string \<Rightarrow> ('w, unit) lib_call"
  aa_read :: "string \<Rightarrow> ('w, string) lib_call"
  aa_get :: "package_type \<Rightarrow> string \<Rightarrow> string \<Rightarrow> ('w, instance_obj) kube_call"    \<comment> \<open>namespace, name\<close>
  aa_get_box :: "string \<Rightarrow> ('w, jukebox) kube_call"
  aa_get_secret :: "string \<Rightarrow> string \<Rightarrow> ('w, (string \<times> string) list option) kube_call"   \<comment> \<open>namespace, name: the data\<close>
  aa_pull :: "registry_auth \<Rightarrow> string \<Rightarrow> string \<Rightarrow> string \<Rightarrow> ('w, string list) lib_call"   \<comment> \<open>registry, image, tag: the layers\<close>
  aa_untar :: "string \<Rightarrow> string \<Rightarrow> ('w, unit) lib_call"             \<comment> \<open>directory, layer\<close>
  aa_parse_json :: "string \<Rightarrow> string + json"
  aa_parse_scan_spec :: "string \<Rightarrow> string + (jukebox_def option \<times> string option)"
  aa_b64_decode :: "string \<Rightarrow> string + string"
  aa_utf8 :: "string \<Rightarrow> bool"

definition on_world :: "('w, 'a) io \<Rightarrow> ('w, 'a) agent_io" where
  "on_world m s = (case m (snd s) of (r, w) \<Rightarrow> (r, (fst s, w)))"

definition set_context :: "(vynil_context \<Rightarrow> vynil_context) \<Rightarrow> ('w, unit) agent_io" where
  "set_context f s = (Inr (), (f (fst s), snd s))"

definition io_lib :: "(string \<Rightarrow> verror) \<Rightarrow> ('w, 'a) lib_call \<Rightarrow> ('w, 'a) io" where
  "io_lib wrap m w = (case m w of (Inl e, w') \<Rightarrow> (Inl (wrap e), w') | (Inr a, w') \<Rightarrow> (Inr a, w'))"

definition script_eval :: "'w agent_api \<Rightarrow> script \<Rightarrow> string \<Rightarrow> ('w, unit) agent_io" where
  "script_eval api rhai text s = on_world (io_lib RhaiError (aa_eval api rhai text (fst s))) s"

definition script_run_file :: "'w agent_api \<Rightarrow> script \<Rightarrow> string \<Rightarrow> ('w, unit) agent_io" where
  "script_run_file api rhai name s =
     (if aa_is_file api name (snd s) then on_world (io_lib RhaiError (aa_run_file api rhai name (fst s))) s
      else (Inl (MissingScript name), s))"

section \<open>The stages of an instance\<close>

record stage_args =
  sg_namespace :: string
  sg_instance :: string
  sg_vynil_namespace :: string
  sg_package_dir :: string          \<comment> \<open>the source, when templating\<close>
  sg_script_dir :: string
  sg_template_dir :: string
  sg_agent_image :: string
  sg_tag :: string
  sg_config_dir :: string
  sg_controller_values :: string
  sg_context_name :: string         \<comment> \<open>when templating\<close>

datatype stage = Stage_Install | Stage_Delete | Stage_Backup | Stage_Restore | Stage_Template

definition stage_name :: "stage \<Rightarrow> string" where
  "stage_name st =
     (case st of
        Stage_Install \<Rightarrow> ''install'' | Stage_Delete \<Rightarrow> ''delete'' | Stage_Backup \<Rightarrow> ''backup''
      | Stage_Restore \<Rightarrow> ''restore'' | Stage_Template \<Rightarrow> ''template'')"

text \<open>The arguments of a stage as the script sees them: those the stage has.\<close>

definition args_value :: "package_type \<Rightarrow> stage \<Rightarrow> stage_args \<Rightarrow> json" where
  "args_value kind st args = JObj (
     (if kind = System then [] else [(''agent_image'', JStr (sg_agent_image args))]) @
     [(''config_dir'', JStr (sg_config_dir args))] @
     (if st = Stage_Template then [(''context_name'', JStr (sg_context_name args))] else []) @
     [(''controller_values'', JStr (sg_controller_values args)),
      (''instance'', JStr (sg_instance args)),
      (''namespace'', JStr (sg_namespace args)),
      (''package_dir'', JStr (sg_package_dir args)),
      (''script_dir'', JStr (sg_script_dir args))] @
     (if st = Stage_Delete then [] else [(''tag'', JStr (sg_tag args))]) @
     (if kind = System then [] else [(''template_dir'', JStr (sg_template_dir args))]) @
     [(''vynil_namespace'', JStr (sg_vynil_namespace args))])"

definition stage_path :: "package_type \<Rightarrow> stage_args \<Rightarrow> string list" where
  "stage_path kind args =
     [sg_package_dir args @ ''/scripts'', sg_config_dir args, sg_script_dir args @ ''/'' @ type_name kind,
      sg_script_dir args @ ''/lib'']"

definition set_instance :: "package_type \<Rightarrow> instance_obj \<Rightarrow> vynil_context \<Rightarrow> vynil_context" where
  "set_instance kind i =
     (case kind of Tenant \<Rightarrow> set_tenant i | Service \<Rightarrow> set_service i | System \<Rightarrow> set_system i)"

definition eol :: string where
  "eol = [CHR 0x0A]"

definition quote :: "string \<Rightarrow> string" where
  "quote s = [CHR 0x22] @ s @ [CHR 0x22]"

definition import_as :: "string \<Rightarrow> string \<Rightarrow> string" where
  "import_as m n = ''import('' @ quote m @ '') as '' @ n @ '';'' @ eol"

text \<open>The script of \<open>install\<close> and \<open>delete\<close>, which has the instance.\<close>

definition instance_script :: "stage \<Rightarrow> string" where
  "instance_script st =
     import_as ''context'' ''ctx'' @ ''let context = ctx::run(instance, args);'' @ eol @
     import_as (stage_name st) (stage_name st) @ stage_name st @ ''::run(instance, context);''"

definition instance_stage :: "'w agent_api \<Rightarrow> package_type \<Rightarrow> stage \<Rightarrow> stage_args \<Rightarrow> ('w, unit) agent_io" where
  "instance_stage api kind st args =
     (let rhai = script_new (stage_path kind args)
      in io_bind (on_world (io_kube (aa_get api kind (sg_namespace args) (sg_instance args)))) (\<lambda>context.
         io_seq (set_context (set_instance kind context))
           (script_eval api
              (set_dynamic ''args'' (args_value kind st args) (set_value ''instance'' (V_Instance context) rhai))
              (instance_script st))))"

text \<open>The script of \<open>backup\<close> and \<open>restore\<close>, which has the arguments only.\<close>

definition args_script :: "string \<Rightarrow> string" where
  "args_script name = import_as name name @ name @ ''::run(args);''"

definition args_stage :: "'w agent_api \<Rightarrow> package_type \<Rightarrow> stage \<Rightarrow> stage_args \<Rightarrow> ('w, unit) agent_io" where
  "args_stage api kind st args =
     script_eval api (set_dynamic ''args'' (args_value kind st args) (script_new (stage_path kind args)))
       (args_script (stage_name st))"

definition template_script :: string where
  "template_script =
     import_as ''context'' ''ctx'' @ ''let instance = #{'' @ eol @ ''metadata: #{'' @ eol @
     ''name: args.instance,'' @ eol @ ''namespace: args.namespace'' @ eol @ ''},'' @ eol @ ''};'' @ eol @
     ''let context = ctx::template(instance, args);'' @ eol @ import_as ''template'' ''template'' @
     ''template::run(instance, context);''"

definition template_stage :: "'w agent_api \<Rightarrow> package_type \<Rightarrow> stage_args \<Rightarrow> ('w, unit) agent_io" where
  "template_stage api kind args =
     script_eval api (set_dynamic ''args'' (args_value kind Stage_Template args) (script_new (stage_path kind args)))
       template_script"

definition tenant_install :: "'w agent_api \<Rightarrow> stage_args \<Rightarrow> ('w, unit) agent_io" where
  "tenant_install api = instance_stage api Tenant Stage_Install"

definition tenant_delete :: "'w agent_api \<Rightarrow> stage_args \<Rightarrow> ('w, unit) agent_io" where
  "tenant_delete api = instance_stage api Tenant Stage_Delete"

definition tenant_backup :: "'w agent_api \<Rightarrow> stage_args \<Rightarrow> ('w, unit) agent_io" where
  "tenant_backup api = args_stage api Tenant Stage_Backup"

definition tenant_restore :: "'w agent_api \<Rightarrow> stage_args \<Rightarrow> ('w, unit) agent_io" where
  "tenant_restore api = args_stage api Tenant Stage_Restore"

definition service_install :: "'w agent_api \<Rightarrow> stage_args \<Rightarrow> ('w, unit) agent_io" where
  "service_install api = instance_stage api Service Stage_Install"

definition service_delete :: "'w agent_api \<Rightarrow> stage_args \<Rightarrow> ('w, unit) agent_io" where
  "service_delete api = instance_stage api Service Stage_Delete"

definition service_backup :: "'w agent_api \<Rightarrow> stage_args \<Rightarrow> ('w, unit) agent_io" where
  "service_backup api = args_stage api Service Stage_Backup"

definition service_restore :: "'w agent_api \<Rightarrow> stage_args \<Rightarrow> ('w, unit) agent_io" where
  "service_restore api = args_stage api Service Stage_Restore"

definition system_install :: "'w agent_api \<Rightarrow> stage_args \<Rightarrow> ('w, unit) agent_io" where
  "system_install api = instance_stage api System Stage_Install"

definition system_delete :: "'w agent_api \<Rightarrow> stage_args \<Rightarrow> ('w, unit) agent_io" where
  "system_delete api = instance_stage api System Stage_Delete"

end
