(* ===== verification/HttpClient.thy ===== *)
theory HttpClient
  imports CoreError
begin

text \<open>
  \<open>core/src/http.rs\<close>: the HTTP client of the scripts. The certificates and headers a client is given, the five
  verbs with a body, a value or a map as the answer, and the operations on objects that the typed clients use. The
  transport (\<open>reqwest\<close>), the base64 encoding and the JSON and YAML texts are parameters.
\<close>

section \<open>The parameters\<close>

record tls_config =
  tc_ca :: "string option"
  tc_identity :: "string option"

text \<open>A response: a header's value when it is text, and the body when it can be read.\<close>

record http_response =
  rs_status :: nat
  rs_headers :: "(string \<times> string option) list"
  rs_text :: "string + string"

record 'w http_env =
  he_certificate :: "string \<Rightarrow> string + unit"
  he_identity :: "string \<Rightarrow> string + unit"
  he_build :: "tls_config \<Rightarrow> string + unit"
  he_send :: "tls_config \<Rightarrow> string \<Rightarrow> string \<Rightarrow> (string \<times> string) list \<Rightarrow> string option \<Rightarrow> ('w, http_response) lib_call"
  he_send_once :: "(string \<times> string) list \<Rightarrow> string \<Rightarrow> ('w, http_response) lib_call"     \<comment> \<open>default headers, URL\<close>
  he_build_once :: "string + unit"
  he_header_ok :: "string \<Rightarrow> bool"                     \<comment> \<open>a text that can be the value of a header\<close>
  he_reason :: "nat \<Rightarrow> string option"
  he_base64 :: "string \<Rightarrow> string"
  he_print :: "json \<Rightarrow> string + string"
  he_parse :: "string \<Rightarrow> string + json"
  he_parse_yaml :: "string \<Rightarrow> string + json"

section \<open>The client\<close>

datatype read_method = Read_Get
datatype create_method = Create_Post
datatype update_method = Update_Patch | Update_Put | Update_Post
datatype delete_method = Delete_Delete

record rest_client =
  rc_baseurl :: string
  rc_headers :: "(string \<times> string) list"
  rc_server_ca :: "string option"
  rc_client_key :: "string option"
  rc_client_cert :: "string option"

definition rest_client_new :: "string \<Rightarrow> rest_client" where
  "rest_client_new base =
     \<lparr>rc_baseurl = base, rc_headers = [], rc_server_ca = None, rc_client_key = None, rc_client_cert = None\<rparr>"

definition set_baseurl :: "string \<Rightarrow> rest_client \<Rightarrow> rest_client" where
  "set_baseurl base self = self\<lparr>rc_baseurl := base\<rparr>"

definition set_server_ca :: "string \<Rightarrow> rest_client \<Rightarrow> rest_client" where
  "set_server_ca ca self = self\<lparr>rc_server_ca := Some ca\<rparr>"

definition set_mtls :: "string \<Rightarrow> string \<Rightarrow> rest_client \<Rightarrow> rest_client" where
  "set_mtls cert key self = self\<lparr>rc_client_cert := Some cert, rc_client_key := Some key\<rparr>"

definition headers_reset :: "rest_client \<Rightarrow> rest_client" where
  "headers_reset self = self\<lparr>rc_headers := []\<rparr>"

definition add_header :: "string \<Rightarrow> string \<Rightarrow> rest_client \<Rightarrow> rest_client" where
  "add_header key val self = self\<lparr>rc_headers := obj_insert key val (rc_headers self)\<rparr>"

definition add_header_json_content :: "rest_client \<Rightarrow> rest_client" where
  "add_header_json_content self =
     (if ''Content-Type'' \<in> fst ` set (rc_headers self) then self
      else add_header ''Content-Type'' ''application/json; charset=utf-8'' self)"

definition add_header_json_accept :: "rest_client \<Rightarrow> rest_client" where
  "add_header_json_accept self =
     (if ''Accept'' \<in> fst ` set (rc_headers self) then self else add_header ''Accept'' ''application/json'' self)"

definition add_header_json :: "rest_client \<Rightarrow> rest_client" where
  "add_header_json self = add_header_json_accept (add_header_json_content self)"

definition add_header_bearer :: "string \<Rightarrow> rest_client \<Rightarrow> rest_client" where
  "add_header_bearer token = add_header ''Authorization'' (''Bearer '' @ token)"

definition add_header_basic :: "'w http_env \<Rightarrow> string \<Rightarrow> string \<Rightarrow> rest_client \<Rightarrow> rest_client" where
  "add_header_basic env username password =
     add_header ''Authorization'' (''Basic '' @ he_base64 env (username @ '':'' @ password))"

text \<open>The key and the certificate go together: with one of the two the client has no identity.\<close>

definition built :: "'w http_env \<Rightarrow> tls_config \<Rightarrow> string + tls_config" where
  "built env cfg = (case he_build env cfg of Inl e \<Rightarrow> Inl e | Inr _ \<Rightarrow> Inr cfg)"

definition with_certificate :: "'w http_env \<Rightarrow> string \<Rightarrow> string option \<Rightarrow> string + tls_config" where
  "with_certificate env ca identity =
     (case he_certificate env ca of Inl e \<Rightarrow> Inl e | Inr _ \<Rightarrow> built env \<lparr>tc_ca = Some ca, tc_identity = identity\<rparr>)"

definition get_client :: "'w http_env \<Rightarrow> rest_client \<Rightarrow> string + tls_config" where
  "get_client env self =
     (if rc_server_ca self = None \<and> (rc_client_cert self = None \<or> rc_client_key self = None)
      then built env \<lparr>tc_ca = None, tc_identity = None\<rparr>
      else if rc_client_cert self = None \<or> rc_client_key self = None
      then with_certificate env (the (rc_server_ca self)) None
      else
        let cli_cert = the (rc_client_key self) @ [CHR 0x0A] @ the (rc_client_cert self)
        in case he_identity env cli_cert of
             Inl e \<Rightarrow> Inl e
           | Inr _ \<Rightarrow>
               (case rc_server_ca self of
                  None \<Rightarrow> built env \<lparr>tc_ca = None, tc_identity = Some cli_cert\<rparr>
                | Some ca \<Rightarrow> with_certificate env ca (Some cli_cert)))"

section \<open>The verbs\<close>

definition send :: "'w http_env \<Rightarrow> rest_client \<Rightarrow> string \<Rightarrow> string \<Rightarrow> string option \<Rightarrow> ('w, http_response) lib_call" where
  "send env self verb path body w =
     (case get_client env self of
        Inl e \<Rightarrow> (Inl e, w)
      | Inr client \<Rightarrow> he_send env client verb (rc_baseurl self @ ''/'' @ path) (rc_headers self) body w)"

definition http_get :: "'w http_env \<Rightarrow> rest_client \<Rightarrow> string \<Rightarrow> ('w, http_response) lib_call" where
  "http_get env self path = send env self ''GET'' path None"

definition http_head :: "'w http_env \<Rightarrow> rest_client \<Rightarrow> string \<Rightarrow> ('w, http_response) lib_call" where
  "http_head env self path = send env self ''HEAD'' path None"

definition http_patch :: "'w http_env \<Rightarrow> rest_client \<Rightarrow> string \<Rightarrow> string \<Rightarrow> ('w, http_response) core_op" where
  "http_patch env self path body = c_call CE_Reqwest (send env self ''PATCH'' path (Some body))"

definition http_put :: "'w http_env \<Rightarrow> rest_client \<Rightarrow> string \<Rightarrow> string \<Rightarrow> ('w, http_response) core_op" where
  "http_put env self path body = c_call CE_Reqwest (send env self ''PUT'' path (Some body))"

definition http_post :: "'w http_env \<Rightarrow> rest_client \<Rightarrow> string \<Rightarrow> string \<Rightarrow> ('w, http_response) core_op" where
  "http_post env self path body = c_call CE_Reqwest (send env self ''POST'' path (Some body))"

definition http_delete :: "'w http_env \<Rightarrow> rest_client \<Rightarrow> string \<Rightarrow> ('w, http_response) core_op" where
  "http_delete env self path = c_call CE_Reqwest (send env self ''DELETE'' path None)"

definition is_success :: "nat \<Rightarrow> bool" where
  "is_success status \<longleftrightarrow> 200 \<le> status \<and> status < 300"

text \<open>The three digits of a status and its name.\<close>

definition status_text :: "'w http_env \<Rightarrow> nat \<Rightarrow> string" where
  "status_text env status =
     dec status @ '' '' @ (case he_reason env status of Some r \<Rightarrow> r | None \<Rightarrow> ''unknown'')"

definition server_error :: "'w http_env \<Rightarrow> nat \<Rightarrow> string" where
  "server_error env status = ''The server returned the error: '' @ status_text env status"

text \<open>The text of a response that succeeded; the text of one that did not is part of the error.\<close>

definition body_of :: "'w http_env \<Rightarrow> string \<Rightarrow> ('w, http_response) core_op \<Rightarrow> ('w, string) core_op" where
  "body_of env verb m =
     c_bind m (\<lambda>response.
       if is_success (rs_status response) then c_lift CE_Reqwest (rs_text response)
       else c_bind (c_lift CE_Reqwest (rs_text response)) (\<lambda>text.
         c_fail (CE_MethodFailed verb (rs_status response)
           (server_error env (rs_status response) @ '' | '' @ text))))"

definition body_get :: "'w http_env \<Rightarrow> rest_client \<Rightarrow> string \<Rightarrow> ('w, string) core_op" where
  "body_get env self path = body_of env ''Get'' (c_call CE_Reqwest (http_get env self path))"

definition body_patch :: "'w http_env \<Rightarrow> rest_client \<Rightarrow> string \<Rightarrow> string \<Rightarrow> ('w, string) core_op" where
  "body_patch env self path body = body_of env ''Patch'' (http_patch env self path body)"

definition body_put :: "'w http_env \<Rightarrow> rest_client \<Rightarrow> string \<Rightarrow> string \<Rightarrow> ('w, string) core_op" where
  "body_put env self path body = body_of env ''Put'' (http_put env self path body)"

definition body_post :: "'w http_env \<Rightarrow> rest_client \<Rightarrow> string \<Rightarrow> string \<Rightarrow> ('w, string) core_op" where
  "body_post env self path body = body_of env ''Post'' (http_post env self path body)"

definition body_delete :: "'w http_env \<Rightarrow> rest_client \<Rightarrow> string \<Rightarrow> ('w, string) core_op" where
  "body_delete env self path = body_of env ''Delete'' (http_delete env self path)"

definition json_of :: "'w http_env \<Rightarrow> ('w, string) core_op \<Rightarrow> ('w, json) core_op" where
  "json_of env m = c_bind m (\<lambda>text. c_lift CE_Json (he_parse env text))"

definition json_get :: "'w http_env \<Rightarrow> rest_client \<Rightarrow> string \<Rightarrow> ('w, json) core_op" where
  "json_get env self path = json_of env (body_get env self path)"

definition json_patch :: "'w http_env \<Rightarrow> rest_client \<Rightarrow> string \<Rightarrow> json \<Rightarrow> ('w, json) core_op" where
  "json_patch env self path input =
     c_bind (c_lift CE_Json (he_print env input)) (\<lambda>body. json_of env (body_patch env self path body))"

definition json_put :: "'w http_env \<Rightarrow> rest_client \<Rightarrow> string \<Rightarrow> json \<Rightarrow> ('w, json) core_op" where
  "json_put env self path input =
     c_bind (c_lift CE_Json (he_print env input)) (\<lambda>body. json_of env (body_put env self path body))"

definition json_post :: "'w http_env \<Rightarrow> rest_client \<Rightarrow> string \<Rightarrow> json \<Rightarrow> ('w, json) core_op" where
  "json_post env self path input =
     c_bind (c_lift CE_Json (he_print env input)) (\<lambda>body. json_of env (body_post env self path body))"

text \<open>What a deletion answers need not be JSON.\<close>

definition json_delete :: "'w http_env \<Rightarrow> rest_client \<Rightarrow> string \<Rightarrow> ('w, json) core_op" where
  "json_delete env self path =
     c_bind (body_delete env self path) (\<lambda>text.
       c_return (case he_parse env text of Inl e \<Rightarrow> JObj [(''body'', JStr text)] | Inr v \<Rightarrow> v))"

definition header_texts :: "http_response \<Rightarrow> (string \<times> string) list" where
  "header_texts response = map (\<lambda>(k, v). (k, case v of Some t \<Rightarrow> t | None \<Rightarrow> [])) (rs_headers response)"

definition header_head :: "'w http_env \<Rightarrow> rest_client \<Rightarrow> string \<Rightarrow> ('w, (string \<times> string) list) core_op" where
  "header_head env self path =
     c_bind (c_call CE_Reqwest (http_get env self path)) (\<lambda>response.
       if is_success (rs_status response) then c_return (header_texts response)
       else c_fail (CE_MethodFailed ''Get'' (rs_status response) (server_error env (rs_status response))))"

section \<open>What a script gets\<close>

datatype script_headers = Headers_Map "(string \<times> string) list" | Headers_Pairs "(string \<times> string) list"

record script_answer =
  sa_code :: nat
  sa_json :: "json option"
  sa_headers :: script_headers
  sa_body :: "string option"

type_synonym ('w, 'a) script_op = "'w \<Rightarrow> (string + 'a) \<times> 'w"

text \<open>The text of a response that cannot be read is a panic.\<close>

definition answer_of :: "'w http_env \<Rightarrow> ((string \<times> string) list \<Rightarrow> script_headers) \<Rightarrow> http_response \<Rightarrow> string + script_answer" where
  "answer_of env heads response =
     (case rs_text response of
        Inl e \<Rightarrow> Inl ''called `Result::unwrap()` on an `Err` value''
      | Inr text \<Rightarrow> Inr
          \<lparr>sa_code = rs_status response,
           sa_json = Some (case he_parse env text of Inl e \<Rightarrow> JObj [] | Inr v \<Rightarrow> v),
           sa_headers = heads (header_texts response), sa_body = Some text\<rparr>)"

text \<open>Only the headers of \<open>get\<close> are a map, the last of a name.\<close>

definition headers_map :: "(string \<times> string) list \<Rightarrow> script_headers" where
  "headers_map hs = Headers_Map (fold (\<lambda>(k, v). obj_insert k v) hs [])"

definition http_rhai_get :: "'w http_env \<Rightarrow> rest_client \<Rightarrow> string \<Rightarrow> ('w, script_answer) script_op" where
  "http_rhai_get env self path w =
     (case http_get env self path w of
        (Inl e, w') \<Rightarrow> (Inl e, w')
      | (Inr result, w') \<Rightarrow> (answer_of env headers_map result, w'))"

definition http_rhai_head :: "'w http_env \<Rightarrow> rest_client \<Rightarrow> string \<Rightarrow> ('w, script_answer) script_op" where
  "http_rhai_head env self path w =
     (case http_head env self path w of
        (Inl e, w') \<Rightarrow> (Inl e, w')
      | (Inr result, w') \<Rightarrow>
          (Inr \<lparr>sa_code = rs_status result, sa_json = None, sa_headers = Headers_Pairs (header_texts result), sa_body = None\<rparr>, w'))"

definition answered_with :: "'w http_env \<Rightarrow> ('w, http_response) core_op \<Rightarrow> ('w, script_answer) script_op" where
  "answered_with env m w =
     (case m w of
        (Inl e, w') \<Rightarrow> (Inl (core_error_show e), w')
      | (Inr result, w') \<Rightarrow> (answer_of env Headers_Pairs result, w'))"

text \<open>A string is sent as it is, any other value as JSON; a value that has no JSON is a panic.\<close>

definition with_body :: "'w http_env \<Rightarrow> json \<Rightarrow> (string \<Rightarrow> ('w, script_answer) script_op) \<Rightarrow> ('w, script_answer) script_op" where
  "with_body env val f w =
     (case (case val of JStr s \<Rightarrow> Inr s | _ \<Rightarrow> he_print env val) of
        Inl e \<Rightarrow> (Inl ''called `Result::unwrap()` on an `Err` value'', w)
      | Inr body \<Rightarrow> f body w)"

definition http_rhai_patch :: "'w http_env \<Rightarrow> rest_client \<Rightarrow> string \<Rightarrow> json \<Rightarrow> ('w, script_answer) script_op" where
  "http_rhai_patch env self path val = with_body env val (\<lambda>body. answered_with env (http_patch env self path body))"

definition http_rhai_put :: "'w http_env \<Rightarrow> rest_client \<Rightarrow> string \<Rightarrow> json \<Rightarrow> ('w, script_answer) script_op" where
  "http_rhai_put env self path val = with_body env val (\<lambda>body. answered_with env (http_put env self path body))"

definition http_rhai_post :: "'w http_env \<Rightarrow> rest_client \<Rightarrow> string \<Rightarrow> json \<Rightarrow> ('w, script_answer) script_op" where
  "http_rhai_post env self path val = with_body env val (\<lambda>body. answered_with env (http_post env self path body))"

definition http_rhai_delete :: "'w http_env \<Rightarrow> rest_client \<Rightarrow> string \<Rightarrow> ('w, script_answer) script_op" where
  "http_rhai_delete env self path = answered_with env (http_delete env self path)"

section \<open>The operations on objects\<close>

definition full_path :: "string \<Rightarrow> string \<Rightarrow> string" where
  "full_path path key = (if key = [] then path else path @ ''/'' @ key)"

definition obj_read :: "'w http_env \<Rightarrow> rest_client \<Rightarrow> read_method \<Rightarrow> string \<Rightarrow> string \<Rightarrow> ('w, json) core_op" where
  "obj_read env self meth path key = (case meth of Read_Get \<Rightarrow> json_get env self (full_path path key))"

definition obj_create :: "'w http_env \<Rightarrow> rest_client \<Rightarrow> create_method \<Rightarrow> string \<Rightarrow> json \<Rightarrow> ('w, json) core_op" where
  "obj_create env self meth path input = (case meth of Create_Post \<Rightarrow> json_post env self path input)"

definition update_path :: "string \<Rightarrow> string \<Rightarrow> bool \<Rightarrow> string" where
  "update_path path key use_slash = (if key = [] then path else if use_slash then path @ ''/'' @ key @ ''/'' else path @ ''/'' @ key)"

definition obj_update ::
  "'w http_env \<Rightarrow> rest_client \<Rightarrow> update_method \<Rightarrow> string \<Rightarrow> string \<Rightarrow> json \<Rightarrow> bool \<Rightarrow> ('w, json) core_op" where
  "obj_update env self meth path key input use_slash =
     (let p = update_path path key use_slash
      in case meth of
           Update_Patch \<Rightarrow> json_patch env self p input
         | Update_Put \<Rightarrow> json_put env self p input
         | Update_Post \<Rightarrow> json_post env self p input)"

definition obj_delete :: "'w http_env \<Rightarrow> rest_client \<Rightarrow> delete_method \<Rightarrow> string \<Rightarrow> string \<Rightarrow> ('w, json) core_op" where
  "obj_delete env self meth path key = (case meth of Delete_Delete \<Rightarrow> json_delete env self (full_path path key))"

section \<open>A YAML file over HTTP\<close>

definition auth_header :: "'w http_env \<Rightarrow> string \<Rightarrow> string \<Rightarrow> (string \<times> string) list" where
  "auth_header env auth_type credential =
     (if auth_type = ''bearer'' then [(''authorization'', ''Bearer '' @ credential)]
      else if auth_type = ''basic'' then [(''authorization'', ''Basic '' @ he_base64 env credential)]
      else [])"

definition http_get_yaml :: "'w http_env \<Rightarrow> string \<Rightarrow> string \<Rightarrow> string \<Rightarrow> ('w, json) core_op" where
  "http_get_yaml env url auth_type credential =
     (let headers = auth_header env auth_type credential
      in if \<not> list_all (\<lambda>(k, v). he_header_ok env v) headers
         then c_fail (CE_Panic ''called `Result::unwrap()` on an `Err` value'')
         else c_bind (c_lift CE_Other (he_build_once env)) (\<lambda>_.
           c_bind (c_call CE_Reqwest (he_send_once env headers url)) (\<lambda>response.
             if \<not> is_success (rs_status response)
             then c_fail (CE_Other (''SCAN-HTTP-001: HTTP '' @
                    dec (rs_status response) @ '' '' @
                      (case he_reason env (rs_status response) of Some r \<Rightarrow> r | None \<Rightarrow> ''<unknown status code>'') @
                    '' for '' @ url))
             else c_bind (c_lift CE_Reqwest (rs_text response)) (\<lambda>body.
               c_bind (c_lift CE_Yaml (he_parse_yaml env body)) (\<lambda>val.
                 c_bind (c_lift CE_Serialization (he_print env val)) (\<lambda>text.
                   c_lift CE_Serialization (he_parse env text)))))))"

section \<open>The certificates and the headers\<close>

definition identity_of :: "rest_client \<Rightarrow> string option" where
  "identity_of self =
     (case (rc_client_key self, rc_client_cert self) of
        (Some key, Some cert) \<Rightarrow> Some (key @ [CHR 0x0A] @ cert)
      | _ \<Rightarrow> None)"

lemma built_iff [simp]: "built env cfg = Inr cfg' \<longleftrightarrow> he_build env cfg = Inr () \<and> cfg' = cfg"
  by (auto simp: built_def split: sum.splits)

lemma with_certificate_iff [simp]:
  "with_certificate env ca identity = Inr cfg \<longleftrightarrow>
     he_certificate env ca = Inr () \<and> he_build env \<lparr>tc_ca = Some ca, tc_identity = identity\<rparr> = Inr () \<and>
     cfg = \<lparr>tc_ca = Some ca, tc_identity = identity\<rparr>"
  by (auto simp: with_certificate_def split: sum.splits)

text \<open>C14: The connection of a client trusts the authority it was given and presents the key and certificate it was given:
  one that cannot be read is an error, never left out.\<close>

theorem client_keeps_certificates:
  "get_client env self = Inr cfg \<longleftrightarrow>
     cfg = \<lparr>tc_ca = rc_server_ca self, tc_identity = identity_of self\<rparr> \<and>
     (\<forall>ca. rc_server_ca self = Some ca \<longrightarrow> he_certificate env ca = Inr ()) \<and>
     (\<forall>i. identity_of self = Some i \<longrightarrow> he_identity env i = Inr ()) \<and>
     he_build env cfg = Inr ()"
  by (cases "rc_server_ca self"; cases "rc_client_cert self"; cases "rc_client_key self")
    (auto simp: get_client_def identity_of_def Let_def split: sum.splits)

lemma add_header_get: "obj_get (rc_headers (add_header key val self)) k = (if k = key then Some val else obj_get (rc_headers self) k)"
  by (simp add: add_header_def)

text \<open>The headers of JSON are added where there are none, so a second time adds nothing.\<close>

lemma add_header_json_get:
  "obj_get (rc_headers (add_header_json self)) k =
     (case obj_get (rc_headers self) k of
        Some v \<Rightarrow> Some v
      | None \<Rightarrow>
          if k = ''Content-Type'' then Some ''application/json; charset=utf-8''
          else if k = ''Accept'' then Some ''application/json'' else None)"
proof -
  have has: "h \<in> fst ` set hs \<longleftrightarrow> (\<exists>v. obj_get hs h = Some v)" for h and hs :: "(string \<times> string) list"
    by (metis domD domI dom_map_of_conv_image_fst)
  show ?thesis
    by (auto simp: add_header_json_def add_header_json_accept_def add_header_json_content_def has add_header_get
        split: option.splits)
qed

theorem add_header_json_idempotent: "add_header_json (add_header_json self) = add_header_json self"
proof -
  have "h \<in> fst ` set (rc_headers (add_header_json self))" if "h = ''Content-Type'' \<or> h = ''Accept''" for h
    using that by (auto simp: add_header_json_def add_header_json_accept_def add_header_json_content_def add_header_def)
  then show ?thesis
    by (simp add: add_header_json_def [of "add_header_json self"] add_header_json_content_def add_header_json_accept_def)
qed

section \<open>The verbs\<close>

lemma send_iff:
  "send env self verb path body w = (Inr response, w') \<longleftrightarrow>
     (\<exists>client. get_client env self = Inr client \<and>
        he_send env client verb (rc_baseurl self @ ''/'' @ path) (rc_headers self) body w = (Inr response, w'))"
  by (auto simp: send_def split: sum.splits)

lemma body_of_ok:
  "body_of env verb m w = (Inr text, w') \<longleftrightarrow>
     (\<exists>response. m w = (Inr response, w') \<and> is_success (rs_status response) \<and> rs_text response = Inr text)"
  by (auto simp: body_of_def c_bind_def c_lift_def c_fail_def split: prod.splits sum.splits if_splits)

lemma body_of_failed:
  "body_of env verb m w = (Inl (CE_MethodFailed v status e), w') \<longleftrightarrow>
     m w = (Inl (CE_MethodFailed v status e), w') \<or>
     (\<exists>response text. m w = (Inr response, w') \<and> \<not> is_success (rs_status response) \<and> rs_text response = Inr text \<and>
        v = verb \<and> status = rs_status response \<and> e = server_error env status @ '' | '' @ text)"
  by (auto simp: body_of_def c_bind_def c_lift_def c_fail_def split: prod.splits sum.splits if_splits)

lemma json_of_ok:
  "json_of env m w = (Inr v, w') \<longleftrightarrow> (\<exists>text. m w = (Inr text, w') \<and> he_parse env text = Inr v)"
  by (auto simp: json_of_def c_bind_def c_lift_def split: prod.splits sum.splits)

lemma c_lift_bind_ok: "c_bind (c_lift wrap r) f w = (Inr v, w') \<longleftrightarrow> (\<exists>a. r = Inr a \<and> f a w = (Inr v, w'))"
  by (auto simp: c_bind_def c_lift_def split: sum.splits)

text \<open>The one exchange an operation on an object is made of, when it succeeds.\<close>

definition exchanged ::
  "'w http_env \<Rightarrow> rest_client \<Rightarrow> string \<Rightarrow> string \<Rightarrow> string option \<Rightarrow> 'w \<Rightarrow> string \<Rightarrow> 'w \<Rightarrow> bool" where
  "exchanged env self verb path body w text w' \<longleftrightarrow>
     (\<exists>client response. get_client env self = Inr client \<and>
        he_send env client verb (rc_baseurl self @ ''/'' @ path) (rc_headers self) body w = (Inr response, w') \<and>
        200 \<le> rs_status response \<and> rs_status response < 300 \<and> rs_text response = Inr text)"

lemma bodies_ok:
  "body_get env self path w = (Inr text, w') \<longleftrightarrow> exchanged env self ''GET'' path None w text w'"
  "body_patch env self path body w = (Inr text, w') \<longleftrightarrow> exchanged env self ''PATCH'' path (Some body) w text w'"
  "body_put env self path body w = (Inr text, w') \<longleftrightarrow> exchanged env self ''PUT'' path (Some body) w text w'"
  "body_post env self path body w = (Inr text, w') \<longleftrightarrow> exchanged env self ''POST'' path (Some body) w text w'"
  "body_delete env self path w = (Inr text, w') \<longleftrightarrow> exchanged env self ''DELETE'' path None w text w'"
  unfolding body_get_def body_patch_def body_put_def body_post_def body_delete_def body_of_ok http_get_def http_patch_def
    http_put_def http_post_def http_delete_def c_steps send_iff exchanged_def is_success_def
  by auto

definition update_verb :: "update_method \<Rightarrow> string" where
  "update_verb meth = (case meth of Update_Patch \<Rightarrow> ''PATCH'' | Update_Put \<Rightarrow> ''PUT'' | Update_Post \<Rightarrow> ''POST'')"

text \<open>An update of an object succeeds exactly when one request with the method asked for, the object as its body and
  its path under the base URL is answered with a 2xx status and a JSON body, which is the answer.\<close>

theorem obj_update_is_one_exchange:
  "obj_update env self meth path key input use_slash w = (Inr v, w') \<longleftrightarrow>
     (\<exists>body text. he_print env input = Inr body \<and>
        exchanged env self (update_verb meth) (update_path path key use_slash) (Some body) w text w' \<and>
        he_parse env text = Inr v)"
  by (cases meth)
    (auto simp: obj_update_def Let_def json_patch_def json_put_def json_post_def c_lift_bind_ok json_of_ok bodies_ok
      update_verb_def)

lemma obj_read_is_one_exchange:
  "obj_read env self meth path key w = (Inr v, w') \<longleftrightarrow>
     (\<exists>text. exchanged env self ''GET'' (full_path path key) None w text w' \<and> he_parse env text = Inr v)"
  by (cases meth) (auto simp: obj_read_def json_get_def json_of_ok bodies_ok)

lemma obj_create_is_one_exchange:
  "obj_create env self meth path input w = (Inr v, w') \<longleftrightarrow>
     (\<exists>body text. he_print env input = Inr body \<and> exchanged env self ''POST'' path (Some body) w text w' \<and>
        he_parse env text = Inr v)"
  by (cases meth) (auto simp: obj_create_def json_post_def c_lift_bind_ok json_of_ok bodies_ok)

lemma obj_delete_is_one_exchange:
  "obj_delete env self meth path key w = (Inr v, w') \<longleftrightarrow>
     (\<exists>text. exchanged env self ''DELETE'' (full_path path key) None w text w' \<and>
        v = (case he_parse env text of Inl e \<Rightarrow> JObj [(''body'', JStr text)] | Inr v \<Rightarrow> v))"
  by (cases meth) (auto simp: obj_delete_def json_delete_def c_bind_def c_return_def bodies_ok [symmetric] split: prod.splits sum.splits)

text \<open>A server on the network: it answers each request, and remembers the verbs and paths.\<close>

definition demo_http :: "nat \<Rightarrow> (string \<times> string) list http_env" where
  "demo_http status = \<lparr>he_certificate = \<lambda>c. Inr (), he_identity = \<lambda>i. Inr (), he_build = \<lambda>cfg. Inr (),
     he_send = \<lambda>cfg verb url hs body w.
       (Inr \<lparr>rs_status = status, rs_headers = [(''x-id'', Some ''1'')], rs_text = Inr ''{}''\<rparr>, w @ [(verb, url)]),
     he_send_once = \<lambda>hs url w.
       (Inr \<lparr>rs_status = status, rs_headers = [], rs_text = Inr ''{}''\<rparr>, w @ [(''GET'', url)]),
     he_build_once = Inr (), he_header_ok = \<lambda>v. True, he_reason = \<lambda>n. None, he_base64 = \<lambda>s. s,
     he_print = \<lambda>v. Inr ''{}'', he_parse = \<lambda>t. Inr (JObj []), he_parse_yaml = \<lambda>t. Inr (JObj [])\<rparr>"

definition secured_client :: rest_client where
  "secured_client = set_mtls ''cert'' ''key'' (set_server_ca ''ca'' (rest_client_new ''https://api''))"

theorem client_keeps_certificates_witness:
  "get_client (demo_http 200) secured_client = Inr \<lparr>tc_ca = Some ''ca'', tc_identity = Some (''key'' @ [CHR 0x0A] @ ''cert'')\<rparr>"
  unfolding client_keeps_certificates
  by (simp add: secured_client_def demo_http_def set_mtls_def set_server_ca_def rest_client_new_def identity_of_def)

theorem obj_update_is_one_exchange_witness:
  "obj_update (demo_http 200) secured_client Update_Put ''users'' ''7'' JNull True [] =
     (Inr (JObj []), [(''PUT'', ''https://api/users/7/'')])"
  unfolding obj_update_is_one_exchange exchanged_def client_keeps_certificates
  by (simp add: secured_client_def demo_http_def set_mtls_def set_server_ca_def rest_client_new_def identity_of_def
      update_verb_def update_path_def)

text \<open>The headers a script's \<open>head\<close> would read through the typed operation are asked for with \<open>GET\<close>: the verb
  \<open>HEAD\<close> is not sent.\<close>

theorem header_head_sends_get:
  assumes "header_head env self path w = (Inr hs, w')"
  shows "\<exists>client response. get_client env self = Inr client \<and>
     he_send env client ''GET'' (rc_baseurl self @ ''/'' @ path) (rc_headers self) None w = (Inr response, w') \<and>
     is_success (rs_status response) \<and> hs = header_texts response"
  using assms
  by (auto simp: header_head_def http_get_def send_iff split: if_splits elim!: c_bindE)

lemma demo_head: "header_head (demo_http 204) secured_client ''users'' [] = (Inr [(''x-id'', ''1'')], [(''GET'', ''https://api/users'')])"
  by (simp add: header_head_def http_get_def send_def get_client_def with_certificate_def built_def secured_client_def
      demo_http_def set_mtls_def set_server_ca_def rest_client_new_def c_bind_def c_call_def c_return_def is_success_def
      header_texts_def)

theorem header_head_sends_get_witness:
  "\<exists>client response. get_client (demo_http 204) secured_client = Inr client \<and>
     he_send (demo_http 204) client ''GET'' (rc_baseurl secured_client @ ''/'' @ ''users'') (rc_headers secured_client) None [] =
       (Inr response, [(''GET'', ''https://api/users'')]) \<and>
     is_success (rs_status response) \<and> [(''x-id'', ''1'')] = header_texts response"
  by (rule header_head_sends_get [OF demo_head])

section \<open>What a script sees of a failure\<close>

lemma answered_with_ok:
  "answered_with env m w = (Inr a, w') \<longleftrightarrow> (\<exists>response. m w = (Inr response, w') \<and> answer_of env Headers_Pairs response = Inr a)"
  by (auto simp: answered_with_def split: prod.splits sum.splits)

lemma answer_of_ok:
  "answer_of env heads response = Inr a \<longleftrightarrow>
     (\<exists>text. rs_text response = Inr text \<and>
        a = \<lparr>sa_code = rs_status response, sa_json = Some (case he_parse env text of Inl e \<Rightarrow> JObj [] | Inr v \<Rightarrow> v),
             sa_headers = heads (header_texts response), sa_body = Some text\<rparr>)"
  by (auto simp: answer_of_def split: sum.splits)

text \<open>A verb of a script answers whatever the status is: only a request that is not answered, or a text that cannot be read, fails.\<close>

theorem script_sees_status:
  assumes "he_print env val = Inr body" "\<nexists>t. val = JStr t"
  shows "http_rhai_post env self path val w = (Inr a, w') \<longleftrightarrow>
     (\<exists>client response text. get_client env self = Inr client \<and>
        he_send env client ''POST'' (rc_baseurl self @ ''/'' @ path) (rc_headers self) (Some body) w = (Inr response, w') \<and>
        rs_text response = Inr text \<and>
        a = \<lparr>sa_code = rs_status response, sa_json = Some (case he_parse env text of Inl e \<Rightarrow> JObj [] | Inr v \<Rightarrow> v),
             sa_headers = Headers_Pairs (header_texts response), sa_body = Some text\<rparr>)"
proof -
  have post: "http_rhai_post env self path val w = answered_with env (http_post env self path body) w"
    using assms by (auto simp: http_rhai_post_def with_body_def split: json.splits)
  show ?thesis
    unfolding post answered_with_ok answer_of_ok http_post_def c_steps send_iff by auto
qed

end
