(* ===== verification/AgentCommands.thy ===== *)
theory AgentCommands
  imports AgentStages HttpClient ReconcileLaws
begin

text \<open>
  The other commands of the agent: the scan of a box with the secrets of its source, the commands on packages,
  \<open>unpack\<close> with the credentials of a registry, the run of a file, and the exit codes of all of them.
\<close>

section \<open>The scan of a box\<close>

record scan_args =
  sc_jukebox :: string
  sc_namespace :: string
  sc_script_dir :: string
  sc_filter :: "string option"

definition utf8_of :: "'w agent_api \<Rightarrow> (string \<times> string) list \<Rightarrow> string \<Rightarrow> string" where
  "utf8_of api data key =
     (case obj_get data key of Some b \<Rightarrow> if aa_utf8 api b then b else [] | None \<Rightarrow> [])"

definition secret_data :: "'w agent_api \<Rightarrow> string \<Rightarrow> string \<Rightarrow> ('w, (string \<times> string) list) io" where
  "secret_data api name ns =
     io_bind (io_kube (aa_get_secret api ns name)) (\<lambda>data. io_return (case data of Some d \<Rightarrow> d | None \<Rightarrow> []))"

definition resolve_http_secret :: "'w agent_api \<Rightarrow> string \<Rightarrow> string \<Rightarrow> ('w, string \<times> string) io" where
  "resolve_http_secret api name ns =
     io_bind (secret_data api name ns) (\<lambda>data.
       case obj_get data ''token'' of
         Some token \<Rightarrow> if aa_utf8 api token then io_return (''bearer'', token) else io_throw UTF8
       | None \<Rightarrow>
           io_return (''basic'', utf8_of api data ''username'' @ '':'' @ utf8_of api data ''password''))"

definition resolve_s3_secret :: "'w agent_api \<Rightarrow> string \<Rightarrow> string \<Rightarrow> ('w, string \<times> string) io" where
  "resolve_s3_secret api name ns =
     io_bind (secret_data api name ns) (\<lambda>data.
       io_return (utf8_of api data ''access_key_id'', utf8_of api data ''secret_access_key''))"

definition scan_args_value :: "scan_args \<Rightarrow> json" where
  "scan_args_value args = JObj [
     (''filter'', case sc_filter args of Some f \<Rightarrow> JStr f | None \<Rightarrow> JNull),
     (''jukebox'', JStr (sc_jukebox args)),
     (''namespace'', JStr (sc_namespace args)),
     (''script_dir'', JStr (sc_script_dir args))]"

definition boxes_path :: "string \<Rightarrow> string list" where
  "boxes_path script_dir = [script_dir @ ''/boxes'', script_dir @ ''/lib'']"

definition with_http_secret :: "'w agent_api \<Rightarrow> scan_args \<Rightarrow> jukebox \<Rightarrow> script \<Rightarrow> ('w, script) io" where
  "with_http_secret api args box rhai =
     (case jb_source (jb_spec box) of
        Some (D_Http url (Some secret)) \<Rightarrow>
          io_bind (resolve_http_secret api secret (sc_namespace args)) (\<lambda>(auth_type, credential).
            io_return (set_value ''http_credential'' (V_Text credential) (set_value ''http_auth_type'' (V_Text auth_type) rhai)))
      | _ \<Rightarrow> io_return rhai)"

definition with_s3_secret :: "'w agent_api \<Rightarrow> scan_args \<Rightarrow> jukebox \<Rightarrow> script \<Rightarrow> ('w, script) io" where
  "with_s3_secret api args box rhai =
     (case jb_source (jb_spec box) of
        Some (D_S3 bucket region prefix endpoint (Some secret)) \<Rightarrow>
          io_bind (resolve_s3_secret api secret (sc_namespace args)) (\<lambda>(access_key, secret_key).
            io_return (set_value ''s3_secret_key'' (V_Text secret_key) (set_value ''s3_access_key'' (V_Text access_key) rhai)))
      | _ \<Rightarrow> io_return rhai)"

definition scan_file :: "string \<Rightarrow> string" where
  "scan_file script_dir = script_dir @ ''/boxes/scan.rhai''"

definition box_scan :: "'w agent_api \<Rightarrow> scan_args \<Rightarrow> ('w, unit) agent_io" where
  "box_scan api args =
     io_bind (on_world (io_kube (aa_get_box api (sc_jukebox args)))) (\<lambda>context.
     io_seq (set_context (set_box context))
     (io_bind (on_world (io_bind
         (with_http_secret api args context
           (set_dynamic ''args'' (scan_args_value args)
             (set_value ''box'' (V_Box context) (script_new (boxes_path (sc_script_dir args))))))
         (with_s3_secret api args context))) (\<lambda>rhai.
       script_run_file api rhai (scan_file (sc_script_dir args)))))"

record file_scan_args =
  fs_spec :: string
  fs_cache_dir :: string
  fs_script_dir :: string
  fs_filter :: "string option"

definition file_scan_value :: "file_scan_args \<Rightarrow> json" where
  "file_scan_value args = JObj [
     (''cache_dir'', JStr (fs_cache_dir args)),
     (''file_scan'', JBool True),
     (''filter'', case fs_filter args of Some f \<Rightarrow> JStr f | None \<Rightarrow> JNull),
     (''namespace'', JStr ''''),
     (''script_dir'', JStr (fs_script_dir args))]"

definition box_file_scan :: "'w agent_api \<Rightarrow> file_scan_args \<Rightarrow> ('w, unit) agent_io" where
  "box_file_scan api args =
     io_bind (on_world (io_lib Stdio (aa_read api (fs_spec args)))) (\<lambda>spec_content.
     io_bind (io_lift (case aa_parse_scan_spec api spec_content of Inl e \<Rightarrow> Inl (YamlError e) | Inr sp \<Rightarrow> Inr sp)) (\<lambda>(source, pull_secret).
     io_seq (on_world (io_lib Stdio (aa_create_dir api (fs_cache_dir args))))
       (script_run_file api
          (set_dynamic ''args'' (file_scan_value args)
            (set_value ''box'' (V_File_Box source pull_secret (fs_cache_dir args))
              (script_new_file_scan (boxes_path (fs_script_dir args)))))
          (scan_file (fs_script_dir args)))))"

section \<open>The commands on packages\<close>

datatype build_type = Build_Major | Build_Minor | Build_Patch | Build_Beta | Build_Alpha

fun build_type_text :: "build_type \<Rightarrow> string" where
  "build_type_text Build_Major = ''major''"
| "build_type_text Build_Minor = ''minor''"
| "build_type_text Build_Patch = ''patch''"
| "build_type_text Build_Beta = ''beta''"
| "build_type_text Build_Alpha = ''alpha''"

record build_args =
  ba_source :: string
  ba_temp :: string
  ba_build :: build_type
  ba_tag :: string
  ba_registry :: string
  ba_repository :: string
  ba_username :: string
  ba_password :: string
  ba_script_dir :: string
  ba_signing_key :: string

definition build_args_value :: "build_args \<Rightarrow> json" where
  "build_args_value args = JObj [
     (''build'', JStr (build_type_text (ba_build args))),
     (''password'', JStr (ba_password args)),
     (''registry'', JStr (ba_registry args)),
     (''repository'', JStr (ba_repository args)),
     (''script_dir'', JStr (ba_script_dir args)),
     (''signing_key'', JStr (ba_signing_key args)),
     (''source'', JStr (ba_source args)),
     (''tag'', JStr (ba_tag args)),
     (''temp'', JStr (ba_temp args)),
     (''username'', JStr (ba_username args))]"

definition package_build :: "'w agent_api \<Rightarrow> build_args \<Rightarrow> ('w, unit) agent_io" where
  "package_build api args =
     script_eval api
       (set_dynamic ''args'' (build_args_value args)
         (script_new [ba_source args @ ''/scripts'', ba_script_dir args @ ''/packages'', ba_script_dir args @ ''/lib'']))
       (args_script ''build'')"

definition package_update :: "'w agent_api \<Rightarrow> string \<Rightarrow> string \<Rightarrow> string \<Rightarrow> ('w, unit) agent_io" where
  "package_update api source script_dir config_dir =
     script_eval api
       (set_dynamic ''args''
         (JObj [(''config_dir'', JStr config_dir), (''script_dir'', JStr script_dir), (''source'', JStr source)])
         (script_new [source @ ''/scripts'', config_dir, script_dir @ ''/packages'', script_dir @ ''/lib'']))
       (args_script ''update'')"

definition package_validate :: "'w agent_api \<Rightarrow> string \<Rightarrow> string \<Rightarrow> ('w, unit) agent_io" where
  "package_validate api source script_dir =
     script_eval api
       (set_dynamic ''args'' (JObj [(''script_dir'', JStr script_dir), (''source'', JStr source)])
         (script_new [source @ ''/scripts'', script_dir @ ''/packages'', script_dir @ ''/lib'']))
       (args_script ''validate'')"

definition agent_run :: "'w agent_api \<Rightarrow> string \<Rightarrow> string \<Rightarrow> ('w, unit) agent_io" where
  "agent_run api file script_dir s =
     (if \<not> aa_is_file api file (snd s) then (Inl (MissingScript file), s)
      else script_run_file api (script_new [aa_parent api file, script_dir @ ''/lib'']) file s)"

section \<open>Fetching a package\<close>

record unpack_args =
  un_destination :: string
  un_registry :: string
  un_image :: string
  un_tag :: string
  un_username :: string
  un_password :: string
  un_pull_path :: string

definition registry_new :: "string \<Rightarrow> string \<Rightarrow> registry_auth" where
  "registry_new username password = (if username = [] \<or> password = [] then Anonymous else Basic username password)"

text \<open>\<open>base64_decode\<close>: what is not base64 is a panic.\<close>

definition base64_decode :: "'w agent_api \<Rightarrow> string \<Rightarrow> string result" where
  "base64_decode api input =
     (case aa_b64_decode api input of
        Inl e \<Rightarrow> Inl (Panicked ''called `Result::unwrap()` on an `Err` value'')
      | Inr bytes \<Rightarrow> if aa_utf8 api bytes then Inr bytes else Inl UTF8)"

text \<open>The user and the password are the first two parts of the credential between colons.\<close>

definition first_two :: "string list \<Rightarrow> (string \<times> string) result" where
  "first_two parts =
     (case parts of a # b # _ \<Rightarrow> Inr (a, b) | _ \<Rightarrow> Inl (Panicked ''index out of bounds''))"

definition pull_secret_auth :: "'w agent_api \<Rightarrow> string \<Rightarrow> string \<Rightarrow> registry_auth result" where
  "pull_secret_auth api registry text =
     (case aa_parse_json api text of
        Inl e \<Rightarrow> Inl (SerializationError e)
      | Inr pull_secret \<Rightarrow>
          let hash = json_index (json_index (json_index pull_secret ''auths'') registry) ''auth''
          in result_bind (unwrap ''called `Option::unwrap()` on a `None` value'' (as_str hash)) (\<lambda>h.
             result_bind (base64_decode api h) (\<lambda>user_pass.
             result_bind (first_two (split_on (CHR '':'') user_pass)) (\<lambda>(user, pass).
               Inr (registry_new user pass)))))"

fun untar_layers :: "'w agent_api \<Rightarrow> string \<Rightarrow> string list \<Rightarrow> ('w, unit) io" where
  "untar_layers api dest [] = io_return ()"
| "untar_layers api dest (layer # layers) =
     io_seq (io_lib Stdio (aa_untar api dest layer)) (untar_layers api dest layers)"

definition pull_image :: "'w agent_api \<Rightarrow> registry_auth \<Rightarrow> string \<Rightarrow> string \<Rightarrow> string \<Rightarrow> string \<Rightarrow> ('w, unit) io" where
  "pull_image api auth registry dest repository tag =
     io_bind (io_lib OCIDistrib (aa_pull api auth registry repository tag)) (untar_layers api dest)"

definition unpack_auth :: "'w agent_api \<Rightarrow> unpack_args \<Rightarrow> ('w, registry_auth) io" where
  "unpack_auth api args =
     (if un_pull_path args = [] then io_return (registry_new (un_username args) (un_password args))
      else io_bind (io_lib Stdio (aa_read api (un_pull_path args @ ''/.dockerconfigjson''))) (\<lambda>text.
        io_lift (pull_secret_auth api (un_registry args) text)))"

definition package_unpack :: "'w agent_api \<Rightarrow> unpack_args \<Rightarrow> ('w, unit) agent_io" where
  "package_unpack api args s =
     (if \<not> aa_is_dir api (un_destination args) (snd s) then (Inl (MissingDestination (un_destination args)), s)
      else on_world (io_bind (unpack_auth api args) (\<lambda>auth.
        pull_image api auth (un_registry args) (un_destination args) (un_image args) (un_tag args))) s)"

section \<open>Exit codes\<close>

text \<open>A panic of the main task ends the process with the code 101.\<close>

definition exit_code :: "nat \<Rightarrow> 'a result \<Rightarrow> nat" where
  "exit_code failure r = (case r of Inr _ \<Rightarrow> 0 | Inl (Panicked p) \<Rightarrow> 101 | Inl e \<Rightarrow> failure)"

fun stage_exit :: "stage \<Rightarrow> package_type \<Rightarrow> nat" where
  "stage_exit Stage_Install k = 1"
| "stage_exit Stage_Delete k = 3"
| "stage_exit Stage_Backup k = 4"
| "stage_exit Stage_Restore k = 5"
| "stage_exit Stage_Template k = (if k = System then 3 else 1)"

datatype package_command = Pkg_Build | Pkg_Lint | Pkg_Update | Pkg_Test | Pkg_Unpack | Pkg_Validate

fun package_exit :: "package_command \<Rightarrow> nat" where
  "package_exit Pkg_Build = 1"
| "package_exit Pkg_Lint = 1"
| "package_exit Pkg_Update = 2"
| "package_exit Pkg_Test = 3"
| "package_exit Pkg_Unpack = 4"
| "package_exit Pkg_Validate = 4"

definition scan_exit :: nat where
  "scan_exit = 1"

section \<open>What a stage does\<close>

lemma on_world_ok: "on_world m s = (Inr a, s') \<longleftrightarrow> fst s' = fst s \<and> m (snd s) = (Inr a, snd s')"
  by (cases s') (auto simp: on_world_def split: prod.splits)

lemma io_lib_ok [simp]: "io_lib wrap m w = (Inr a, w') \<longleftrightarrow> m w = (Inr a, w')"
  by (auto simp: io_lib_def split: prod.splits sum.splits)

lemma io_kube_ok [simp]: "io_kube m w = (Inr a, w') \<longleftrightarrow> m w = (Inr a, w')"
  by (auto simp: io_kube_def split: prod.splits sum.splits)

lemma io_bind_ok: "io_bind m f s = (Inr b, s') \<longleftrightarrow> (\<exists>a s1. m s = (Inr a, s1) \<and> f a s1 = (Inr b, s'))"
  by (auto simp: io_bind_def split: prod.splits sum.splits)

lemma script_eval_ok:
  "script_eval api rhai text s = (Inr (), s') \<longleftrightarrow>
     fst s' = fst s \<and> aa_eval api rhai text (fst s) (snd s) = (Inr (), snd s')"
  by (simp add: script_eval_def on_world_ok)

lemma scope_of_stage [simp]:
  "sr_scope (set_dynamic ''args'' v (set_value ''instance'' i (script_new p))) = [(''instance'', i), (''args'', V_Json v)]"
  by (simp add: set_dynamic_def set_value_def script_new_def script_new_core_def script_new_bare_def register_def)

text \<open>An install or a delete succeeds exactly when its instance could be read and its script has run to the end, with
  that instance as the context of the process and as the variable of the script.\<close>

theorem stage_runs_for_its_instance:
  "instance_stage api kind st args s = (Inr (), s') \<longleftrightarrow>
     (\<exists>i w. aa_get api kind (sg_namespace args) (sg_instance args) (snd s) = (Inr i, w) \<and>
        fst s' = set_instance kind i (fst s) \<and>
        aa_eval api
          \<lparr>sr_bindings = sr_bindings (script_new []), sr_path = stage_path kind args,
           sr_scope = [(''instance'', V_Instance i), (''args'', V_Json (args_value kind st args))]\<rparr>
          (instance_script st) (set_instance kind i (fst s)) w = (Inr (), snd s'))"
proof -
  have script: "set_dynamic ''args'' v (set_value ''instance'' i (script_new p)) =
      \<lparr>sr_bindings = sr_bindings (script_new []), sr_path = p, sr_scope = [(''instance'', i), (''args'', V_Json v)]\<rparr>" for v i p
    by (simp add: set_dynamic_def set_value_def script_new_def script_new_core_def script_new_bare_def register_def)
  show ?thesis
    unfolding instance_stage_def Let_def io_seq_def io_bind_ok script script_eval_ok
    by (cases s; cases s') (auto simp: on_world_ok set_context_def)
qed

text \<open>The scripts of the tests and of a scan to files are given no function that reaches the API.\<close>

lemma offline_scripts:
  "set (sr_bindings (script_new_mock p)) \<inter> {B_K8s_Generic, B_K8s_Raw, B_K8s_Workload, B_Service, B_System, B_Tenant, B_JukeBox, B_Http, B_S3} = {}"
  "set (sr_bindings (script_new_file_scan p)) \<inter> {B_K8s_Generic, B_K8s_Raw, B_K8s_Workload, B_Service, B_System, B_Tenant, B_JukeBox} = {}"
  by (simp_all add: script_new_mock_def script_new_file_scan_def script_new_core_def script_new_bare_def register_def)

lemma exit_code_0: "failure \<noteq> 0 \<Longrightarrow> exit_code failure r = 0 \<longleftrightarrow> (\<exists>a. r = Inr a)"
  by (cases r) (auto simp: exit_code_def split: verror.splits)

lemma exits_positive: "stage_exit st k \<noteq> 0" "package_exit c \<noteq> 0" "scan_exit \<noteq> 0"
proof -
  show "stage_exit st k \<noteq> 0" by (cases st) auto
  show "package_exit c \<noteq> 0" by (cases c) auto
qed (simp add: scan_exit_def)

section \<open>Credentials\<close>

lemma secret_data_ok:
  "secret_data api name ns w = (Inr d, w') \<longleftrightarrow>
     (\<exists>data. aa_get_secret api ns name w = (Inr data, w') \<and> d = (case data of Some d \<Rightarrow> d | None \<Rightarrow> []))"
  by (auto simp: secret_data_def io_bind_ok io_return_def)

text \<open>What the secret of an HTTP box resolves to always authenticates the request of the scan: by its token when it has
  one, else by its user and password.\<close>

theorem scan_request_authenticated:
  assumes "resolve_http_secret api name ns w = (Inr (auth_type, credential), w')"
  shows "\<exists>data. secret_data api name ns w = (Inr data, w') \<and>
     auth_header env auth_type credential =
       [(''authorization'',
         case obj_get data ''token'' of
           Some token \<Rightarrow> ''Bearer '' @ token
         | None \<Rightarrow> ''Basic '' @ he_base64 env (utf8_of api data ''username'' @ '':'' @ utf8_of api data ''password''))]"
proof -
  from assms obtain data w1 where data: "secret_data api name ns w = (Inr data, w1)"
    and r: "(case obj_get data ''token'' of
         Some token \<Rightarrow> if aa_utf8 api token then io_return (''bearer'', token) else io_throw UTF8
       | None \<Rightarrow> io_return (''basic'', utf8_of api data ''username'' @ '':'' @ utf8_of api data ''password'')) w1 =
       (Inr (auth_type, credential), w')"
    unfolding resolve_http_secret_def by (rule io_bind_InrE)
  from r have "w1 = w'" by (simp add: io_return_def io_throw_def split: option.splits if_splits)
  with data have data': "secret_data api name ns w = (Inr data, w')" by simp
  from r show ?thesis
    by (intro exI [of _ data] conjI data')
      (auto simp: io_return_def io_throw_def auth_header_def split: option.splits if_splits)
qed

definition demo_agent :: "nat agent_api" where
  "demo_agent = \<lparr>aa_eval = \<lambda>s t ctx w. (Inr (), Suc w), aa_run_file = \<lambda>s f ctx w. (Inr (), Suc w),
     aa_is_file = \<lambda>f w. True, aa_is_dir = \<lambda>f w. True, aa_parent = \<lambda>f. [], aa_create_dir = \<lambda>d w. (Inr (), w),
     aa_read = \<lambda>f w. (Inr ''{}'', w), aa_get = \<lambda>k ns n w. (Inr (demo_tenant ns n []), w),
     aa_get_box = \<lambda>n w. (Inl (KOther ''no box''), w),
     aa_get_secret = \<lambda>ns n w. (Inr (Some [(''token'', ''t0k'')]), w),
     aa_pull = \<lambda>a r i t w. (Inr [], w), aa_untar = \<lambda>d l w. (Inr (), w),
     aa_parse_json = \<lambda>t. Inr (JObj [(''auths'', JObj [(''reg'', JObj [(''auth'', JStr ''bob:a:b'')])])]),
     aa_parse_scan_spec = \<lambda>t. Inr (None, None), aa_b64_decode = \<lambda>b. Inr b, aa_utf8 = \<lambda>b. True\<rparr>"

theorem scan_request_authenticated_witness:
  "auth_header (demo_http 200) ''bearer'' ''t0k'' = [(''authorization'', ''Bearer t0k'')]"
proof -
  have "resolve_http_secret demo_agent ''s'' ''ns'' 0 = (Inr (''bearer'', ''t0k''), 0)"
    by (simp add: resolve_http_secret_def secret_data_def io_bind_def io_kube_def io_return_def demo_agent_def)
  from scan_request_authenticated [OF this, of "demo_http 200"] show ?thesis
    by (auto simp: secret_data_def io_bind_def io_kube_def io_return_def demo_agent_def)
qed

lemma split_head: "c \<notin> set user \<Longrightarrow> \<exists>rest. split_on c (user @ c # pass) = user # takeWhile (\<lambda>x. x \<noteq> c) pass # rest"
proof -
  assume "c \<notin> set user"
  moreover have "\<exists>rest. split_on c pass = takeWhile (\<lambda>x. x \<noteq> c) pass # rest"
    by (induction pass) (auto split: list.splits)
  ultimately show ?thesis by (auto simp: split_on_append)
qed

text \<open>C21: The operator and the agent read the same pull secret differently: the operator takes all that follows the first
  colon as the password, the agent stops at the next colon, so that such a password opens the registry to the one and
  not to the other.\<close>

theorem pull_secret_password_cut:
  assumes "aa_parse_json api text = Inr v" "oa_parse_json op text = Inr v"
    and "json_index (json_index (json_index v ''auths'') registry) ''auth'' = JStr h" "h \<noteq> []"
    and "aa_b64_decode api h = Inr bytes" "oa_b64_decode op h = Inr bytes" "aa_utf8 api bytes" "oa_utf8 op bytes"
    and "bytes = user @ [CHR '':''] @ pass" "CHR '':'' \<notin> set user"
  shows "auth_of_config op registry text = Inr (Basic user pass) \<and>
     pull_secret_auth api registry text = Inr (registry_new user (takeWhile (\<lambda>c. c \<noteq> CHR '':'') pass))"
proof -
  obtain rest where "split_on (CHR '':'') (user @ CHR '':'' # pass) = user # takeWhile (\<lambda>c. c \<noteq> CHR '':'') pass # rest"
    using split_head assms(10) by blast
  moreover have "splitn2 (CHR '':'') (user @ CHR '':'' # pass) = Some (user, pass)"
    using assms(10) by (induction user) (auto simp: splitn2_def)
  ultimately show ?thesis
    using assms by (simp add: auth_of_config_def pull_secret_auth_def base64_decode_def first_two_def)
qed

definition colon_op :: "json list op_api" where
  "colon_op = demo_op\<lparr>oa_parse_json := aa_parse_json demo_agent\<rparr>"

theorem pull_secret_password_cut_witness:
  "auth_of_config colon_op ''reg'' ''{}'' = Inr (Basic ''bob'' ''a:b'') \<and>
   pull_secret_auth demo_agent ''reg'' ''{}'' = Inr (registry_new ''bob'' (takeWhile (\<lambda>c. c \<noteq> CHR '':'') ''a:b''))"
proof (rule pull_secret_password_cut)
  show "aa_parse_json demo_agent ''{}'' = Inr (JObj [(''auths'', JObj [(''reg'', JObj [(''auth'', JStr ''bob:a:b'')])])])"
    by (simp add: demo_agent_def)
qed (simp_all add: demo_agent_def colon_op_def demo_op_def json_index_def)

text \<open>They agree on the credentials whose password has no colon, and whose parts are not empty.\<close>

lemma credentials_agree_iff:
  "registry_new user (takeWhile (\<lambda>c. c \<noteq> CHR '':'') pass) = Basic user pass \<longleftrightarrow>
     user \<noteq> [] \<and> pass \<noteq> [] \<and> CHR '':'' \<notin> set pass"
proof -
  have "takeWhile (\<lambda>c. c \<noteq> CHR '':'') pass = pass \<longleftrightarrow> CHR '':'' \<notin> set pass"
    unfolding takeWhile_eq_all_conv by auto
  moreover have "registry_new user t = Basic user pass \<longleftrightarrow> user \<noteq> [] \<and> t \<noteq> [] \<and> t = pass" for t
    by (auto simp: registry_new_def)
  ultimately show ?thesis by metis
qed

end
