(* ===== verification/Passwords.thy ===== *)
theory Passwords
  imports CoreError "HOL-Library.Multiset"
begin

text \<open>
  The generators of secrets the scripts and the templates call: \<open>core/src/password.rs\<close>, \<open>key.rs\<close> and
  \<open>hashes.rs\<close>. The random number generator and the crates \<open>openssl\<close>, \<open>argon2\<close>, \<open>bcrypt\<close> and \<open>crc32fast\<close>
  are parameters; \<open>usize\<close> is a 64-bit word, whose sum wraps as in a release build.
\<close>

section \<open>Passwords\<close>

definition LOWER :: string where "LOWER = ''abcdefghijklmnopqrstuvwxyz''"
definition UPPER :: string where "UPPER = ''ABCDEFGHIJKLMNOPQRSTUVWXYZ''"
definition DIGITS :: string where "DIGITS = ''0123456789''"
definition SYMBOLS :: string where "SYMBOLS = ''!#%*+-.:=?@_''"

text \<open>\<open>choose\<close> on a slice answers nothing only for the empty one; \<open>shuffle\<close> permutes in place.\<close>

record 'w rng =
  rg_choose :: "string \<Rightarrow> 'w \<Rightarrow> char option \<times> 'w"
  rg_shuffle :: "string \<Rightarrow> 'w \<Rightarrow> string \<times> 'w"

definition pick :: "'w rng \<Rightarrow> string \<Rightarrow> string \<Rightarrow> ('w, char) core_op" where
  "pick g msg xs w =
     (case rg_choose g xs w of (None, w') \<Rightarrow> (Inl (CE_Panic msg), w') | (Some c, w') \<Rightarrow> (Inr c, w'))"

primrec draw :: "'w rng \<Rightarrow> string \<Rightarrow> string \<Rightarrow> nat \<Rightarrow> ('w, string) core_op" where
  "draw g msg xs 0 = c_return []"
| "draw g msg xs (Suc n) =
     c_bind (pick g msg xs) (\<lambda>c. c_bind (draw g msg xs n) (\<lambda>cs. c_return (c # cs)))"

fun draw_classes :: "'w rng \<Rightarrow> (string \<times> 64 word) list \<Rightarrow> ('w, string) core_op" where
  "draw_classes g [] = c_return []"
| "draw_classes g ((xs, m) # cls) =
     c_bind (draw g ''character class is never empty'' xs (unat m)) (\<lambda>cs.
     c_bind (draw_classes g cls) (\<lambda>ds. c_return (cs @ ds)))"

definition char_classes :: "64 word \<Rightarrow> 64 word \<Rightarrow> 64 word \<Rightarrow> 64 word \<Rightarrow> (string \<times> 64 word) list" where
  "char_classes lower upper digits symbols =
     [(LOWER, lower), (UPPER, upper), (DIGITS, digits), (SYMBOLS, symbols)]"

definition pool_of :: "(string \<times> 64 word) list \<Rightarrow> string" where
  "pool_of cls = concat (map fst (filter (\<lambda>(s, m). 0 < m) cls))"

definition generate :: "'w rng \<Rightarrow> 64 word \<Rightarrow> 64 word \<Rightarrow> 64 word \<Rightarrow> 64 word \<Rightarrow> 64 word \<Rightarrow> ('w, string) core_op" where
  "generate g len lower upper digits symbols =
     (let cls = char_classes lower upper digits symbols;
          total_min = sum_list (map snd cls);
          pool = pool_of cls
      in if len < total_min then
           c_fail (CE_PasswordSpec (''PWD-SPEC-001 sum of class minimums ('' @ dec (unat total_min) @
             '') exceeds requested length ('' @ dec (unat len) @ '')''))
         else if pool = [] then
           c_fail (CE_PasswordSpec ''PWD-SPEC-002 at least one character class must be enabled'')
         else
           c_bind (draw_classes g cls) (\<lambda>cs.
           c_bind (draw g ''pool is never empty'' pool (unat len - length cs)) (\<lambda>ds w.
             (case rg_shuffle g (cs @ ds) w of (p, w') \<Rightarrow> (Inr p, w')))))"

text \<open>
  What a script calls. A number of a script is an \<open>i64\<close>: a negative length or minimum is zero, a minimum
  that is missing or not a number is one.
\<close>

definition clamp :: "64 word \<Rightarrow> 64 word" where
  "clamp i = (if sint i < 0 then 0 else i)"

definition int_of_dynamic :: "json \<Rightarrow> 64 word option" where
  "int_of_dynamic v =
     (case v of JNum (PosInt n) \<Rightarrow> if n < 2 ^ 63 then Some (of_nat n) else None
      | JNum (NegInt i) \<Rightarrow> if - (2 ^ 63) \<le> i \<and> i < 0 then Some (of_int i) else None
      | _ \<Rightarrow> None)"

definition class_min :: "(string \<times> json) list \<Rightarrow> string \<Rightarrow> 64 word" where
  "class_min spec key =
     (case Option.bind (obj_get spec key) int_of_dynamic of Some i \<Rightarrow> clamp i | None \<Rightarrow> 1)"

text \<open>The errors reach the script as their text.\<close>

definition script_result :: "('w, 'a) core_op \<Rightarrow> 'w \<Rightarrow> (string + 'a) \<times> 'w" where
  "script_result m w =
     (case m w of (Inl e, w') \<Rightarrow> (Inl (core_error_show e), w') | (Inr a, w') \<Rightarrow> (Inr a, w'))"

definition gen_password :: "'w rng \<Rightarrow> 64 word \<Rightarrow> 'w \<Rightarrow> (string + string) \<times> 'w" where
  "gen_password g len = script_result (generate g (clamp len) 1 1 1 1)"

definition gen_password_spec :: "'w rng \<Rightarrow> 64 word \<Rightarrow> (string \<times> json) list \<Rightarrow> 'w \<Rightarrow> (string + string) \<times> 'w" where
  "gen_password_spec g len spec =
     script_result (generate g (clamp len) (class_min spec ''lower'') (class_min spec ''upper'')
       (class_min spec ''digits'') (class_min spec ''symbols''))"

definition gen_password_alphanum :: "'w rng \<Rightarrow> 64 word \<Rightarrow> 'w \<Rightarrow> (string + string) \<times> 'w" where
  "gen_password_alphanum g len = script_result (generate g (clamp len) 1 1 1 0)"

section \<open>Keys and hashes\<close>

record 'w crypto =
  cy_ed25519 :: "('w, string) lib_call"
  cy_rsa :: "32 word \<Rightarrow> ('w, string) lib_call"
  cy_utf8 :: "string \<Rightarrow> string + string"
  cy_salt :: "'w \<Rightarrow> string \<times> 'w"
  cy_argon2 :: "string \<Rightarrow> string \<Rightarrow> string + string"
  cy_bcrypt :: "string \<Rightarrow> ('w, string) lib_call"
  cy_crc32 :: "string \<Rightarrow> 32 word"

definition DEFAULT_RSA_BITS :: "32 word" where "DEFAULT_RSA_BITS = 4096"

definition gen_private_key :: "'w crypto \<Rightarrow> string \<Rightarrow> 32 word \<Rightarrow> ('w, string) core_op" where
  "gen_private_key cy algo bits =
     (let name = map ascii_lower algo in
      c_bind
        (if name = ''ed25519'' then c_call CE_OpenSSL (cy_ed25519 cy)
         else if name = ''rsa'' then c_call CE_OpenSSL (cy_rsa cy bits)
         else c_fail (CE_UnsupportedKeyAlgorithm name))
        (\<lambda>pem. c_lift CE_UTF8 (cy_utf8 cy pem)))"

definition script_private_key :: "'w crypto \<Rightarrow> string \<Rightarrow> 'w \<Rightarrow> (string + string) \<times> 'w" where
  "script_private_key cy algo = script_result (gen_private_key cy algo DEFAULT_RSA_BITS)"

text \<open>The size a script gives is an \<open>i64\<close> cast to \<open>u32\<close>.\<close>

definition script_private_key_bits :: "'w crypto \<Rightarrow> string \<Rightarrow> 64 word \<Rightarrow> 'w \<Rightarrow> (string + string) \<times> 'w" where
  "script_private_key_bits cy algo bits = script_result (gen_private_key cy algo (ucast bits))"

record argon = ar_salt :: string

definition argon_new :: "'w crypto \<Rightarrow> 'w \<Rightarrow> argon \<times> 'w" where
  "argon_new cy w = (case cy_salt cy w of (s, w') \<Rightarrow> (\<lparr>ar_salt = s\<rparr>, w'))"

definition argon_hash :: "'w crypto \<Rightarrow> argon \<Rightarrow> string \<Rightarrow> ('w, string) core_op" where
  "argon_hash cy a password = c_lift CE_Argon2hash (cy_argon2 cy (ar_salt a) password)"

definition bcrypt_hash :: "'w crypto \<Rightarrow> string \<Rightarrow> ('w, string) core_op" where
  "bcrypt_hash cy password = c_call CE_Bcrypt (cy_bcrypt cy password)"

definition crc32_hash :: "'w crypto \<Rightarrow> string \<Rightarrow> 32 word" where
  "crc32_hash cy text = cy_crc32 cy text"

section \<open>Laws\<close>

text \<open>The documented behaviour of the generator of numbers.\<close>

definition rng_laws :: "'w rng \<Rightarrow> bool" where
  "rng_laws g \<longleftrightarrow>
     (\<forall>xs w. xs \<noteq> [] \<longrightarrow> (\<exists>c w'. rg_choose g xs w = (Some c, w') \<and> c \<in> set xs)) \<and>
     (\<forall>cs w. mset (fst (rg_shuffle g cs w)) = mset cs)"

lemma rng_choose:
  assumes "rng_laws g" "xs \<noteq> []"
  obtains c w' where "rg_choose g xs w = (Some c, w')" "c \<in> set xs"
  using assms unfolding rng_laws_def by metis

lemma rng_shuffle: "rng_laws g \<Longrightarrow> rg_shuffle g cs w = (p, w') \<Longrightarrow> mset p = mset cs"
  unfolding rng_laws_def by (metis fst_conv)

lemma draw_run:
  assumes "rng_laws g" "n = 0 \<or> xs \<noteq> []"
  shows "\<exists>cs w'. draw g msg xs n w = (Inr cs, w') \<and> length cs = n \<and> set cs \<subseteq> set xs"
  using assms(2)
proof (induction n arbitrary: w)
  case 0
  then show ?case by (simp add: c_return_def)
next
  case (Suc n)
  then have ne: "xs \<noteq> []" by simp
  obtain c u where c: "rg_choose g xs w = (Some c, u)" "c \<in> set xs"
    using rng_choose [OF assms(1) ne, of w] by blast
  obtain cs v where "draw g msg xs n u = (Inr cs, v)" "length cs = n" "set cs \<subseteq> set xs"
    using Suc.IH [of u] ne by blast
  with c show ?case by (simp add: c_bind_def pick_def c_return_def)
qed

text \<open>How many characters of a class a text has.\<close>

definition of_class :: "string \<Rightarrow> string \<Rightarrow> nat" where
  "of_class cls p = length (filter (\<lambda>c. c \<in> set cls) p)"

lemma of_class_append [simp]: "of_class cls (p @ q) = of_class cls p + of_class cls q"
  by (simp add: of_class_def)

lemma of_class_subset: "set p \<subseteq> set cls \<Longrightarrow> of_class cls p = length p"
  unfolding of_class_def by (subst filter_True) auto

lemma of_class_mset: "mset p = mset q \<Longrightarrow> of_class cls p = of_class cls q"
  unfolding of_class_def by (metis mset_filter size_mset)

lemma draw_classes_run:
  assumes "rng_laws g" "\<forall>(xs, m) \<in> set cls. xs \<noteq> []"
  shows "\<exists>cs w'. draw_classes g cls w = (Inr cs, w') \<and>
    length cs = (\<Sum>(xs, m) \<leftarrow> cls. unat m) \<and>
    (\<forall>(xs, m) \<in> set cls. unat m \<le> of_class xs cs) \<and> set cs \<subseteq> set (pool_of cls)"
  using assms(2)
proof (induction cls arbitrary: w)
  case Nil
  then show ?case by (simp add: c_return_def pool_of_def)
next
  case (Cons x cls)
  obtain xs m where x: "x = (xs, m)" by force
  have ne: "xs \<noteq> []" "\<forall>(xs, m) \<in> set cls. xs \<noteq> []"
    using Cons.prems x by auto
  obtain cs u where cs: "draw g ''character class is never empty'' xs (unat m) w = (Inr cs, u)"
      "length cs = unat m" "set cs \<subseteq> set xs"
    using draw_run [OF assms(1), of "unat m" xs] ne(1) by blast
  obtain ds v where ds: "draw_classes g cls u = (Inr ds, v)" "length ds = (\<Sum>(xs, m) \<leftarrow> cls. unat m)"
      "\<forall>(xs, m) \<in> set cls. unat m \<le> of_class xs ds" "set ds \<subseteq> set (pool_of cls)"
    using Cons.IH [OF ne(2), of u] by blast
  have "set cs \<subseteq> set (pool_of (x # cls))"
  proof (cases "m = 0")
    case True
    with cs(2) show ?thesis by simp
  next
    case False
    with cs(3) x show ?thesis by (auto simp: pool_of_def word_gt_0)
  qed
  moreover have "set ds \<subseteq> set (pool_of (x # cls))"
    using ds(4) by (auto simp: pool_of_def)
  moreover have "unat m \<le> of_class xs (cs @ ds)"
    using cs(2,3) by (simp add: of_class_subset)
  moreover have "\<forall>(ys, k) \<in> set cls. unat k \<le> of_class ys (cs @ ds)"
    using ds(3) by (auto intro: trans_le_add2)
  moreover have "draw_classes g (x # cls) w = (Inr (cs @ ds), v)"
    by (simp add: x c_bind_def c_return_def cs(1) ds(1))
  ultimately show ?case using cs(2) ds(2) x
    by (intro exI [of _ "cs @ ds"] exI [of _ v]) simp
qed

lemma pool_nonempty: "pool_of (char_classes l u d s) = [] \<longleftrightarrow> l = 0 \<and> u = 0 \<and> d = 0 \<and> s = 0"
  by (auto simp: pool_of_def char_classes_def LOWER_def UPPER_def DIGITS_def SYMBOLS_def word_gt_0)

lemma classes_nonempty: "\<forall>(xs, m) \<in> set (char_classes l u d s). xs \<noteq> []"
  by (simp add: char_classes_def LOWER_def UPPER_def DIGITS_def SYMBOLS_def)

text \<open>When the minimums do not overflow, the wrapped sum is the sum.\<close>

definition minimums :: "64 word \<Rightarrow> 64 word \<Rightarrow> 64 word \<Rightarrow> 64 word \<Rightarrow> nat" where
  "minimums l u d s = unat l + unat u + unat d + unat s"

lemma minimums_classes: "(\<Sum>(xs, m) \<leftarrow> char_classes l u d s. unat m) = minimums l u d s"
  by (simp add: char_classes_def minimums_def)

lemma unat_total: "unat (sum_list (map snd (char_classes l u d s))) = minimums l u d s mod 2 ^ 64"
  by (simp add: char_classes_def minimums_def unat_word_ariths mod_simps add.assoc)

text \<open>A generator that is asked for what it can give always answers.\<close>

lemma generate_run:
  assumes "rng_laws g" "minimums l u d s mod 2 ^ 64 \<le> unat len" "minimums l u d s \<noteq> 0"
  shows "\<exists>p w'. generate g len l u d s w = (Inr p, w') \<and>
    length p = max (unat len) (minimums l u d s) \<and>
    (\<forall>(xs, m) \<in> set (char_classes l u d s). unat m \<le> of_class xs p) \<and>
    set p \<subseteq> set (pool_of (char_classes l u d s))"
proof -
  let ?c = "char_classes l u d s"
  have ok: "\<not> len < sum_list (map snd ?c)"
    using assms(2) unfolding word_less_nat_alt unat_total by simp
  have pool: "pool_of ?c \<noteq> []"
    using assms(3) by (auto simp: pool_nonempty minimums_def)
  obtain cs v where cs: "draw_classes g ?c w = (Inr cs, v)" "length cs = minimums l u d s"
      "\<forall>(xs, m) \<in> set ?c. unat m \<le> of_class xs cs" "set cs \<subseteq> set (pool_of ?c)"
    using draw_classes_run [OF assms(1) classes_nonempty, where w = w] unfolding minimums_classes by blast
  obtain ds x where ds: "draw g ''pool is never empty'' (pool_of ?c) (unat len - length cs) v = (Inr ds, x)"
      "length ds = unat len - length cs" "set ds \<subseteq> set (pool_of ?c)"
    using draw_run [OF assms(1)] pool by blast
  obtain p y where p: "rg_shuffle g (cs @ ds) x = (p, y)" by force
  have m: "mset p = mset (cs @ ds)" by (rule rng_shuffle [OF assms(1) p])
  have "generate g len l u d s w = (Inr p, y)"
    unfolding generate_def Let_def using ok pool cs(1) ds(1) p by (simp add: c_bind_def)
  moreover have "length p = max (unat len) (minimums l u d s)"
    using mset_eq_length [OF m] cs(2) ds(2) by simp
  moreover have "set p \<subseteq> set (pool_of ?c)"
    using mset_eq_setD [OF m] cs(4) ds(3) by auto
  moreover have "\<forall>(xs, m) \<in> set ?c. unat m \<le> of_class xs p"
    using cs(3) by (auto simp: of_class_mset [OF m] intro: trans_le_add1)
  ultimately show ?thesis by blast
qed

lemma generate_asked:
  assumes "rng_laws g" and "minimums l u d s < 2 ^ 64"
  shows "if 0 < minimums l u d s \<and> minimums l u d s \<le> unat len
         then \<exists>p w'. generate g len l u d s w = (Inr p, w') \<and> length p = unat len \<and>
           unat l \<le> of_class LOWER p \<and> unat u \<le> of_class UPPER p \<and>
           unat d \<le> of_class DIGITS p \<and> unat s \<le> of_class SYMBOLS p \<and>
           set p \<subseteq> set (pool_of (char_classes l u d s))
         else \<exists>e. generate g len l u d s w = (Inl (CE_PasswordSpec e), w)"
proof (cases "0 < minimums l u d s \<and> minimums l u d s \<le> unat len")
  case True
  then obtain p w' where "generate g len l u d s w = (Inr p, w')" "length p = max (unat len) (minimums l u d s)"
      "\<forall>(xs, m) \<in> set (char_classes l u d s). unat m \<le> of_class xs p"
      "set p \<subseteq> set (pool_of (char_classes l u d s))"
    using generate_run [OF assms(1), where w = w and l = l and u = u and d = d and s = s and len = len] assms(2)
    by auto
  with True show ?thesis by (simp add: char_classes_def)
next
  case False
  have "len < sum_list (map snd (char_classes l u d s)) \<longleftrightarrow> unat len < minimums l u d s"
    unfolding word_less_nat_alt unat_total using assms(2) by simp
  with False show ?thesis
    by (auto simp: generate_def Let_def c_fail_def pool_nonempty minimums_def unat_eq_0)
qed

text \<open>C30: When the minimums do not overflow, a password is generated exactly when a class is asked for and the
  minimums fit in the length; it has the length, at least the minimum of each class, and no character of a class
  that was not asked for. Otherwise the answer is an error of the specification.\<close>

theorem password_as_asked:
  assumes "rng_laws g" and "minimums l u d s < 2 ^ 64"
  shows "if 0 < minimums l u d s \<and> minimums l u d s \<le> unat len
         then \<exists>p w'. generate g len l u d s w = (Inr p, w') \<and> length p = unat len \<and>
           unat l \<le> of_class LOWER p \<and> unat u \<le> of_class UPPER p \<and>
           unat d \<le> of_class DIGITS p \<and> unat s \<le> of_class SYMBOLS p \<and>
           set p \<subseteq> set (pool_of (char_classes l u d s))
         else \<exists>e. generate g len l u d s w = (Inl (CE_PasswordSpec e), w)"
  using assms by (rule generate_asked)

definition first_rng :: "unit rng" where
  "first_rng = \<lparr>rg_choose = (\<lambda>xs w. (case xs of [] \<Rightarrow> None | c # _ \<Rightarrow> Some c, w)),
     rg_shuffle = (\<lambda>cs w. (rev cs, w))\<rparr>"

lemma first_rng_laws: "rng_laws first_rng"
  by (auto simp: rng_laws_def first_rng_def neq_Nil_conv)

theorem password_as_asked_witness:
  "(\<exists>p w'. generate first_rng 6 1 1 1 1 () = (Inr p, w') \<and> length p = 6 \<and> set p \<subseteq> set (pool_of (char_classes 1 1 1 1))) \<and>
   (\<exists>e. generate first_rng 3 1 1 1 1 () = (Inl (CE_PasswordSpec e), ()))"
  using password_as_asked [OF first_rng_laws, of 1 1 1 1 6 "()"]
    password_as_asked [OF first_rng_laws, of 1 1 1 1 3 "()"]
  by (auto simp: minimums_def)


definition greedy_spec :: "(string \<times> json) list" where
  "greedy_spec = [(''digits'', JNum (PosInt 2)), (''lower'', JNum (PosInt (2 ^ 63 - 1))), (''upper'', JNum (PosInt (2 ^ 63 - 1)))]"

lemma greedy_minimums:
  "class_min greedy_spec ''lower'' = 2 ^ 63 - 1" "class_min greedy_spec ''upper'' = 2 ^ 63 - 1"
  "class_min greedy_spec ''digits'' = 2" "class_min greedy_spec ''symbols'' = 1"
  by (simp_all add: class_min_def greedy_spec_def int_of_dynamic_def clamp_def)


text \<open>A class a script does not mention is asked for, and a negative length is an error, not an empty password.\<close>

theorem empty_spec_asks_all: "gen_password_spec g len [] = gen_password g len"
  by (simp add: gen_password_spec_def gen_password_def class_min_def)

theorem negative_length_fails:
  assumes "sint len < 0" shows "\<exists>e. fst (gen_password g len w) = Inl e"
  using assms
  by (simp add: gen_password_def script_result_def clamp_def generate_def char_classes_def Let_def c_fail_def)

text \<open>The size of a key is taken modulo \<open>2^32\<close>, and the size of an Ed25519 key is not looked at.\<close>

theorem key_bits_wrap: "script_private_key_bits cy algo (bits + 2 ^ 32) = script_private_key_bits cy algo bits"
proof -
  have u: "uint (ucast x :: 32 word) = uint x mod 2 ^ 32" for x :: "64 word"
    by (simp add: unsigned_ucast_eq take_bit_eq_mod)
  have "uint (bits + 2 ^ 32) = (uint bits + 2 ^ 32) mod 2 ^ 64"
    by (simp add: uint_word_ariths)
  then have "uint (bits + 2 ^ 32) mod 2 ^ 32 = (uint bits + 2 ^ 32) mod 2 ^ 32"
    by (simp add: mod_mod_cancel)
  then have "uint (ucast (bits + 2 ^ 32) :: 32 word) = uint (ucast bits :: 32 word)"
    unfolding u by simp
  then have "(ucast (bits + 2 ^ 32) :: 32 word) = ucast bits" by (rule word_uint_eqI)
  then show ?thesis by (simp add: script_private_key_bits_def)
qed

theorem key_algorithm_case: "gen_private_key cy (map ascii_lower algo) bits = gen_private_key cy algo bits"
proof -
  have "ascii_lower (ascii_lower c) = ascii_lower c" for c
    by (simp add: ascii_lower_def Let_def)
  then show ?thesis by (simp add: gen_private_key_def o_def)
qed

end
