(* ===== verification/CoreBindings.thy ===== *)
theory CoreBindings
  imports Passwords Paths
begin

text \<open>
  The functions every script has: \<open>core_common_rhai_register\<close> of \<open>core/src/engine.rs\<close>, \<open>shell.rs\<close>, \<open>yaml.rs\<close>,
  \<open>glob.rs\<close>, \<open>chrono.rs\<close> and \<open>s3.rs\<close>. The file system, the processes, the object store and the codecs of other crates
  are the record \<open>script_lib\<close>; the numbers, the paths and the handling of errors are the code's.
\<close>

text \<open>What a process leaves: its exit code (none when a signal ended it), and both outputs as bytes.\<close>

record process_output =
  po_code :: "32 word option"
  po_stdout :: string
  po_stderr :: string

record store_config =
  so_bucket :: string
  so_region :: string
  so_credentials :: "(string \<times> string) option"
  so_endpoint :: "string option"          \<comment> \<open>with plain HTTP allowed\<close>

record 'w script_lib =
  sl_env :: "string \<Rightarrow> 'w \<Rightarrow> string option"
  sl_sha256 :: "string \<Rightarrow> string"
  sl_url_encode :: "string \<Rightarrow> string"
  sl_b64_decode :: "string \<Rightarrow> string + string"
  sl_b64_encode :: "string \<Rightarrow> string"
  sl_utf8 :: "string \<Rightarrow> string option"        \<comment> \<open>the error of bytes that are not a text\<close>
  sl_to_json :: "json \<Rightarrow> string + string"
  sl_of_json :: "string \<Rightarrow> string + json"
  sl_debug :: "string \<Rightarrow> string"
  sl_to_yaml :: "json \<Rightarrow> string + string"
  sl_of_yaml :: "string \<Rightarrow> string + json"
  sl_yaml_docs :: "string \<Rightarrow> (string + json) list"
  sl_read :: "string \<Rightarrow> ('w, string) lib_call"
  sl_write :: "string \<Rightarrow> string \<Rightarrow> ('w, unit) lib_call"
  sl_copy :: "string \<Rightarrow> string \<Rightarrow> ('w, unit) lib_call"
  sl_create_dir :: "string \<Rightarrow> ('w, unit) lib_call"
  sl_read_dir :: "string \<Rightarrow> ('w, (string + string) list) lib_call"
  sl_is_file :: "string \<Rightarrow> 'w \<Rightarrow> bool"
  sl_is_dir :: "string \<Rightarrow> 'w \<Rightarrow> bool"
  sl_shell :: "bool \<Rightarrow> string \<Rightarrow> ('w, process_output) lib_call"    \<comment> \<open>are the outputs captured\<close>
  sl_glob :: "string \<Rightarrow> string \<Rightarrow> bool"         \<comment> \<open>pattern, text\<close>
  sl_store :: "store_config \<Rightarrow> string option"      \<comment> \<open>the error of a configuration\<close>
  sl_object :: "store_config \<Rightarrow> string \<Rightarrow> ('w, string) lib_call"
  sl_keys :: "store_config \<Rightarrow> string \<Rightarrow> ('w, (string + string) list) lib_call"

definition text_of :: "'w script_lib \<Rightarrow> string \<Rightarrow> ('w, string) core_op" where
  "text_of l bytes = (case sl_utf8 l bytes of None \<Rightarrow> c_return bytes | Some e \<Rightarrow> c_fail (CE_UTF8 e))"

section \<open>Texts and values\<close>

text \<open>\<open>base64_decode\<close> unwraps the answer of the decoder.\<close>

definition core_base64_decode :: "'w script_lib \<Rightarrow> string \<Rightarrow> ('w, string) core_op" where
  "core_base64_decode l input =
     (case sl_b64_decode l input of
        Inl e \<Rightarrow> c_fail (CE_Panic (''called `Result::unwrap()` on an `Err` value: '' @ e))
      | Inr bytes \<Rightarrow> text_of l bytes)"

definition url_encode :: "'w script_lib \<Rightarrow> string \<Rightarrow> string" where
  "url_encode l arg = sl_url_encode l arg"

definition get_env :: "'w script_lib \<Rightarrow> string \<Rightarrow> 'w \<Rightarrow> string" where
  "get_env l var w = (case sl_env l var w of Some v \<Rightarrow> v | None \<Rightarrow> [])"

text \<open>\<open>u32::from_str_radix(s, 8)\<close>: an optional sign, then octal digits below \<open>2^32\<close>. What is not one is zero.\<close>

fun octal_val :: "nat \<Rightarrow> string \<Rightarrow> nat option" where
  "octal_val acc [] = Some acc"
| "octal_val acc (c # cs) =
     (case digit_val c of Some d \<Rightarrow> if d < 8 then octal_val (8 * acc + d) cs else None | None \<Rightarrow> None)"

definition parse_octal_u32 :: "string \<Rightarrow> nat option" where
  "parse_octal_u32 s =
     (let ds = (if starts_with s ''+'' then tl s else s)
      in if ds = [] then None
         else (case octal_val 0 ds of Some n \<Rightarrow> if n < 2 ^ 32 then Some n else None | None \<Rightarrow> None))"

definition to_decimal :: "string \<Rightarrow> nat" where
  "to_decimal val = (case parse_octal_u32 val of Some n \<Rightarrow> n | None \<Rightarrow> 0)"

definition json_encode :: "'w script_lib \<Rightarrow> json \<Rightarrow> ('w, string) core_op" where
  "json_encode l v = c_lift CE_Serialization (sl_to_json l v)"

definition json_encode_escape :: "'w script_lib \<Rightarrow> json \<Rightarrow> ('w, string) core_op" where
  "json_encode_escape l v = c_bind (json_encode l v) (\<lambda>s. c_return (sl_debug l s))"

definition json_decode :: "'w script_lib \<Rightarrow> string \<Rightarrow> ('w, json) core_op" where
  "json_decode l s = c_lift CE_Serialization (sl_of_json l s)"

definition yaml_encode :: "'w script_lib \<Rightarrow> json \<Rightarrow> ('w, string) core_op" where
  "yaml_encode l v = c_lift CE_Yaml (sl_to_yaml l v)"

definition yaml_decode :: "'w script_lib \<Rightarrow> string \<Rightarrow> ('w, json) core_op" where
  "yaml_decode l s = c_lift CE_Yaml (sl_of_yaml l s)"

fun all_docs :: "(string + json) list \<Rightarrow> ('w, json list) core_op" where
  "all_docs [] = c_return []"
| "all_docs (Inl e # ds) = c_fail (CE_Yaml e)"
| "all_docs (Inr d # ds) = c_bind (all_docs ds) (\<lambda>r. c_return (d # r))"

definition yaml_decode_multi :: "'w script_lib \<Rightarrow> string \<Rightarrow> ('w, json list) core_op" where
  "yaml_decode_multi l s = (if length s \<le> 5 then c_return [] else all_docs (sl_yaml_docs l s))"

fun yaml_all :: "'w script_lib \<Rightarrow> json list \<Rightarrow> ('w, string) core_op" where
  "yaml_all l [] = c_return []"
| "yaml_all l (v # vs) =
     c_bind (yaml_encode l v) (\<lambda>s. c_bind (yaml_all l vs) (\<lambda>r. c_return (''---'' @ [CHR 0x0A] @ s @ r)))"

text \<open>\<open>glob\<close> of a text and a pattern.\<close>

definition glob_fn :: "'w script_lib \<Rightarrow> string \<Rightarrow> string \<Rightarrow> bool" where
  "glob_fn l text pattern = sl_glob l pattern text"

section \<open>Files\<close>

definition file_read :: "'w script_lib \<Rightarrow> string \<Rightarrow> ('w, string) core_op" where
  "file_read l name = c_call CE_Stdio (sl_read l name)"

definition file_write :: "'w script_lib \<Rightarrow> string \<Rightarrow> string \<Rightarrow> ('w, unit) core_op" where
  "file_write l name content = c_call CE_Stdio (sl_write l name content)"

definition file_copy :: "'w script_lib \<Rightarrow> string \<Rightarrow> string \<Rightarrow> ('w, unit) core_op" where
  "file_copy l source dest = c_call CE_Stdio (sl_copy l source dest)"

definition create_dir :: "'w script_lib \<Rightarrow> string \<Rightarrow> ('w, unit) core_op" where
  "create_dir l name = c_call CE_Stdio (sl_create_dir l name)"

text \<open>\<open>read_dir\<close>: the first entry that cannot be read ends it; a path that is no text is the empty one.\<close>

fun dir_entries :: "'w script_lib \<Rightarrow> (string + string) list \<Rightarrow> ('w, string list) core_op" where
  "dir_entries l [] = c_return []"
| "dir_entries l (Inl e # es) = c_fail (CE_Stdio e)"
| "dir_entries l (Inr p # es) =
     c_bind (dir_entries l es) (\<lambda>r. c_return ((if sl_utf8 l p = None then p else []) # r))"

definition read_dir :: "'w script_lib \<Rightarrow> string \<Rightarrow> ('w, string list) core_op" where
  "read_dir l name = c_bind (c_call CE_Stdio (sl_read_dir l name)) (dir_entries l)"

definition basename :: "string \<Rightarrow> string" where
  "basename name = (case file_name name of Some n \<Rightarrow> n | None \<Rightarrow> [])"

text \<open>
  \<open>Path::parent\<close>: the path without its last component. Empty components and dots at the end are no components,
  but a dot that starts a relative path is; the root and the empty path have no parent.
\<close>

definition skipped :: "string \<Rightarrow> bool" where
  "skipped c \<longleftrightarrow> c = [] \<or> c = ''.''"

definition trim_tail :: "string list \<Rightarrow> string list" where
  "trim_tail cs = rev (dropWhile skipped (rev cs))"

definition trim_relative :: "string list \<Rightarrow> string list" where
  "trim_relative cs = (case cs of c # r \<Rightarrow> if c = ''.'' then c # trim_tail r else trim_tail cs | [] \<Rightarrow> [])"

definition path_parent :: "string \<Rightarrow> string option" where
  "path_parent p =
     (if starts_with p ''/'' then
        (let b = trim_tail (tl (split_on (CHR ''/'') p))
         in if b = [] then None else Some (''/'' @ join ''/'' (trim_tail (butlast b))))
      else
        (let b = trim_relative (split_on (CHR ''/'') p)
         in if b = [] then None else Some (join ''/'' (trim_relative (butlast b)))))"

definition dirname :: "string \<Rightarrow> ('w, string) core_op" where
  "dirname name =
     (case path_parent name of
        Some d \<Rightarrow> c_return d
      | None \<Rightarrow> c_fail (CE_Panic ''called `Option::unwrap()` on a `None` value''))"

section \<open>Processes\<close>

definition shell_run :: "'w script_lib \<Rightarrow> string \<Rightarrow> ('w, 32 word) core_op" where
  "shell_run l command =
     c_bind (c_call CE_Stdio (sl_shell l False command)) (\<lambda>out.
       c_return (case po_code out of Some c \<Rightarrow> c | None \<Rightarrow> 0))"

definition shell_success :: "process_output \<Rightarrow> bool" where
  "shell_success out \<longleftrightarrow> po_code out = Some 0"

definition dec_i32 :: "32 word \<Rightarrow> string" where
  "dec_i32 c = (if sint c < 0 then ''-'' @ dec (nat (- sint c)) else dec (nat (sint c)))"

definition shell_output :: "'w script_lib \<Rightarrow> string \<Rightarrow> ('w, string) core_op" where
  "shell_output l command =
     c_bind (c_call CE_Stdio (sl_shell l True command)) (\<lambda>out.
       if \<not> shell_success out then
         c_fail (CE_Other (''Command failed, rc='' @ dec_i32 (case po_code out of Some c \<Rightarrow> c | None \<Rightarrow> -1)))
       else if po_stderr out \<noteq> [] then
         c_bind (text_of l (po_stderr out)) (\<lambda>err. c_fail (CE_Other (''Command had stderr : '' @ err)))
       else text_of l (po_stdout out))"

section \<open>Object stores\<close>

definition build_store :: "'w script_lib \<Rightarrow> string \<Rightarrow> string \<Rightarrow> string \<Rightarrow> string \<Rightarrow> string \<Rightarrow> ('w, store_config) core_op" where
  "build_store l bucket region endpoint access_key secret_key =
     (let cfg = \<lparr>so_bucket = bucket, so_region = region,
            so_credentials = (if access_key = [] then None else Some (access_key, secret_key)),
            so_endpoint = (if endpoint = [] then None else Some endpoint)\<rparr>
      in case sl_store l cfg of None \<Rightarrow> c_return cfg | Some e \<Rightarrow> c_fail (CE_Other e))"

text \<open>The value goes through JSON text on its way to the script.\<close>

definition s3_get_yaml :: "'w script_lib \<Rightarrow> string \<Rightarrow> string \<Rightarrow> string \<Rightarrow> string \<Rightarrow> string \<Rightarrow> string \<Rightarrow> string \<Rightarrow> ('w, json) core_op" where
  "s3_get_yaml l bucket region prefix endpoint access_key secret_key key =
     c_bind (build_store l bucket region endpoint access_key secret_key) (\<lambda>st.
     c_bind (c_call CE_Other (sl_object l st (prefix @ key))) (\<lambda>bytes.
     c_bind (text_of l bytes) (\<lambda>body.
     c_bind (yaml_decode l body) (\<lambda>value.
     c_bind (json_encode l value) (json_decode l)))))"

fun all_keys :: "(string + string) list \<Rightarrow> ('w, string list) core_op" where
  "all_keys [] = c_return []"
| "all_keys (Inl e # ks) = c_fail (CE_Other e)"
| "all_keys (Inr k # ks) = c_bind (all_keys ks) (\<lambda>r. c_return (k # r))"

definition s3_list_keys :: "'w script_lib \<Rightarrow> string \<Rightarrow> string \<Rightarrow> string \<Rightarrow> string \<Rightarrow> string \<Rightarrow> string \<Rightarrow> ('w, string list) core_op" where
  "s3_list_keys l bucket region prefix endpoint access_key secret_key =
     c_bind (build_store l bucket region endpoint access_key secret_key) (\<lambda>st.
     c_bind (c_call CE_Other (sl_keys l st prefix)) all_keys)"

section \<open>Laws\<close>

lemma c_bind_call [simp]:
  "m w = (Inr a, u) \<Longrightarrow> c_bind (c_call wrap m) f w = f a u"
  "m w = (Inl e, u) \<Longrightarrow> c_bind (c_call wrap m) f w = (Inl (wrap e), u)"
  by (simp_all add: c_bind_def c_call_def)

lemma text_of_run: "text_of l b w = (Inr s, w') \<longleftrightarrow> sl_utf8 l b = None \<and> s = b \<and> w' = w"
  by (auto simp: text_of_def c_return_def c_fail_def split: option.splits)

text \<open>The zero a script reads as success of \<open>shell_run\<close> is also what it gets when a signal ended the command: the
  exit code is missing then, and stands for zero. The backups and restores of the agent test this value.\<close>

theorem shell_run_zero_iff:
  "shell_run l cmd w = (Inr 0, w') \<longleftrightarrow>
     (\<exists>out. sl_shell l False cmd w = (Inr out, w') \<and> (po_code out = Some 0 \<or> po_code out = None))"
proof (cases "sl_shell l False cmd w")
  case (Pair r u)
  then show ?thesis
    by (cases r) (auto simp: shell_run_def c_return_def split: option.splits)
qed

text \<open>A script gets the output of a command exactly when the command exits with zero, writes nothing to its
  error stream, and its output is a text; then it gets all of it.\<close>

theorem shell_output_iff:
  "shell_output l cmd w = (Inr s, w') \<longleftrightarrow>
     (\<exists>out. sl_shell l True cmd w = (Inr out, w') \<and> po_code out = Some 0 \<and> po_stderr out = [] \<and>
       s = po_stdout out \<and> sl_utf8 l s = None)"
proof (cases "sl_shell l True cmd w")
  case (Pair r u)
  show ?thesis
  proof (cases r)
    case (Inr out)
    have "c_bind (text_of l (po_stderr out)) (\<lambda>err. c_fail (CE_Other (''Command had stderr : '' @ err))) u \<noteq> (Inr s, w')"
      by (auto elim: c_bindE)
    with Pair Inr show ?thesis
      by (auto simp: shell_output_def shell_success_def text_of_run c_fail_def split: option.splits)
  qed (use Pair in \<open>auto simp: shell_output_def\<close>)
qed

subsection \<open>Paths\<close>

lemma trim_tail_snoc: "\<not> skipped c \<Longrightarrow> trim_tail (cs @ [c]) = cs @ [c]"
  by (simp add: trim_tail_def)

lemma trim_tail_Nil [simp]: "trim_tail [] = []"
  by (simp add: trim_tail_def)

lemma trim_tail_eq_Nil: "trim_tail cs = [] \<longleftrightarrow> (\<forall>c \<in> set cs. skipped c)"
  by (auto simp: trim_tail_def)

lemma trim_relative_snoc: "\<not> skipped c \<Longrightarrow> trim_relative (cs @ [c]) = cs @ [c]"
  by (cases cs) (auto simp: trim_relative_def trim_tail_snoc trim_tail_def skipped_def)

lemma split_on_snoc: "c \<notin> set t \<Longrightarrow> split_on c (s @ c # t) = split_on c s @ [t]"
proof (induction s)
  case Nil
  then show ?case by (simp add: split_on_id)
next
  case (Cons x s)
  then show ?case by (cases "split_on c s") auto
qed

lemma butlast_two [simp]: "butlast (xs @ [a, b]) = xs @ [a]"
  by (induction xs) simp_all

lemma starts_with_Cons: "starts_with (x # s) [c] \<longleftrightarrow> x = c"
  by (simp add: starts_with_def)

text \<open>The last segment of a directory is a component, and not only dots and slashes.\<close>

definition proper_dir :: "string \<Rightarrow> bool" where
  "proper_dir d \<longleftrightarrow> d \<noteq> [] \<and> \<not> skipped (last (split_on (CHR ''/'') d))"

lemma proper_split:
  assumes "proper_dir d"
  obtains cs c where "split_on (CHR ''/'') d = cs @ [c]" "\<not> skipped c"
  using assms unfolding proper_dir_def by (metis append_butlast_last_id split_on_nonempty)

lemma proper_join:
  assumes "proper_dir d" and "CHR ''/'' \<notin> set name"
  shows "path_join d name = d @ CHR ''/'' # name"
proof -
  obtain cs c where d: "split_on (CHR ''/'') d = cs @ [c]" "\<not> skipped c"
    using proper_split [OF assms(1)] .
  have "CHR ''/'' \<noteq> last d"
  proof
    assume "CHR ''/'' = last d"
    then obtain e where "d = e @ [CHR ''/'']"
      using assms(1) by (metis append_butlast_last_id proper_dir_def)
    then have "split_on (CHR ''/'') d = split_on (CHR ''/'') e @ [[]]"
      using split_on_snoc [of "CHR ''/''" "[]" e] by simp
    with d show False by (simp add: skipped_def)
  qed
  moreover have "\<not> starts_with name ''/''"
    using assms(2) by (auto simp: starts_with_iff)
  ultimately show ?thesis
    using assms(1) by (auto simp: path_join_def proper_dir_def)
qed

text \<open>The parent of a path whose last two segments are components.\<close>

lemma parent_of_join:
  assumes "split_on (CHR ''/'') d = cs @ [c]" and "\<not> skipped c" and "\<not> skipped name"
    and "split_on (CHR ''/'') p = (cs @ [c]) @ [name]" and "d \<noteq> []" and "p = d @ q"
  shows "path_parent p = Some d"
proof (cases "starts_with d ''/''")
  case True
  then obtain t where t: "d = CHR ''/'' # t" by (auto simp: starts_with_iff)
  then have "cs @ [c] = [] # split_on (CHR ''/'') t" using assms(1) by simp
  with assms(2) obtain cs' where cs: "cs = [] # cs'" by (cases cs) (auto simp: skipped_def)
  have "starts_with p ''/''" using assms(6) t by (simp add: starts_with_def)
  then have "path_parent p = Some (''/'' @ join ''/'' (cs' @ [c]))"
    using trim_tail_snoc [OF assms(3), of "cs' @ [c]"] trim_tail_snoc [OF assms(2), of cs']
    by (simp add: path_parent_def assms(4) cs Let_def)
  moreover have "''/'' @ join ''/'' (cs' @ [c]) = d"
    using join_split_on [of "CHR ''/''" d] assms(1) cs by (cases cs') auto
  ultimately show ?thesis by simp
next
  case False
  then have "\<not> starts_with p ''/''"
    using assms(5,6) by (cases d) (auto simp: starts_with_def)
  then have "path_parent p = Some (join ''/'' (cs @ [c]))"
    using trim_relative_snoc [OF assms(3), of "cs @ [c]"] trim_relative_snoc [OF assms(2), of cs]
    by (simp add: path_parent_def assms(4) Let_def)
  then show ?thesis using join_split_on [of "CHR ''/''" d] assms(1) by simp
qed



text \<open>A script that asks for the directory of the root or of the empty path aborts the process.\<close>

theorem dirname_panics_iff:
  "(\<exists>e. dirname p w = (Inl (CE_Panic e), w)) \<longleftrightarrow>
     p = [] \<or> (starts_with p ''/'' \<and> (\<forall>c \<in> set (tl (split_on (CHR ''/'') p)). skipped c))"
proof -
  have rel: "trim_relative (split_on (CHR ''/'') p) \<noteq> []" if p: "p \<noteq> []" "\<not> starts_with p ''/''"
  proof -
    obtain x s where "p = x # s" using p(1) by (cases p) auto
    with p(2) have x: "p = x # s" "x \<noteq> CHR ''/''" by (simp_all add: starts_with_Cons)
    then obtain y ys where "split_on (CHR ''/'') p = (x # y) # ys"
      by (cases "split_on (CHR ''/'') s") auto
    then show ?thesis
      by (auto simp: trim_relative_def trim_tail_eq_Nil skipped_def)
  qed
  show ?thesis
  proof (cases "p = []")
    case True
    then show ?thesis
      by (simp add: dirname_def path_parent_def starts_with_def c_fail_def trim_relative_def trim_tail_def skipped_def)
  next
    case False
    then show ?thesis using rel
      by (auto simp: dirname_def path_parent_def Let_def c_fail_def c_return_def trim_tail_eq_Nil)
  qed
qed

text \<open>What is not base64 aborts the process too, where the script could handle an error.\<close>

theorem bad_base64_panics:
  "sl_b64_decode l s = Inl e \<Longrightarrow> \<exists>m. core_base64_decode l s w = (Inl (CE_Panic m), w)"
  by (simp add: core_base64_decode_def c_fail_def)

text \<open>A secret key without an access key is not used: the store is asked with no credentials.\<close>

theorem store_without_access_key: "build_store l b r e [] s = build_store l b r e [] []"
  by (simp add: build_store_def)

lemma octal_bound: "to_decimal s < 2 ^ 32"
  by (auto simp: to_decimal_def parse_octal_u32_def Let_def split: option.splits if_splits)

end
