(* ===== verification/OciRegistry.thy ===== *)
theory OciRegistry
  imports AgentCommands CoreBindings
begin

text \<open>
  The registry a build script pushes to (\<open>core/src/oci.rs\<close>) and its mock (\<open>oci_mock.rs\<close>). The OCI client, tar, gzip,
  SHA-256, the clock and the program \<open>cosign\<close> are the record \<open>oci_lib\<close>.
\<close>

section \<open>The client\<close>

record registry =
  re_auth :: registry_auth
  re_registry :: string

definition new_registry :: "string \<Rightarrow> string \<Rightarrow> string \<Rightarrow> registry" where
  "new_registry reg username password = \<lparr>re_auth = registry_new username password, re_registry = reg\<rparr>"

record image_config =
  ic_created :: string
  ic_diff_ids :: "string list"
  ic_working_dir :: string
  ic_created_by :: string
  ic_comment :: string

text \<open>What is pushed: the layers with their digests in the configuration, and the annotations of the manifest.\<close>

record pushed_image =
  im_layer :: string
  im_config :: image_config
  im_annotations :: "(string \<times> string) list"

record image_ref =
  ir_registry :: string
  ir_repository :: string
  ir_tag :: string

record 'w oci_lib =
  ol_now :: "'w \<Rightarrow> string"
  ol_tar :: "string \<Rightarrow> ('w, string) lib_call"
  ol_sha256 :: "string \<Rightarrow> string"
  ol_gzip :: "string \<Rightarrow> string + string"
  ol_show :: "json \<Rightarrow> string"
  ol_push :: "image_ref \<Rightarrow> registry_auth \<Rightarrow> pushed_image \<Rightarrow> ('w, string) lib_call"     \<comment> \<open>the URL of the manifest\<close>
  ol_cosign :: "string list \<Rightarrow> ('w, bool) lib_call"                        \<comment> \<open>did it succeed\<close>
  ol_tags :: "string \<Rightarrow> registry_auth \<Rightarrow> nat \<Rightarrow> ('w, string list) lib_call"   \<comment> \<open>the first tags, at most so many\<close>
  ol_parse_ref :: "string \<Rightarrow> string option"
  ol_manifest :: "image_ref \<Rightarrow> registry_auth \<Rightarrow> ('w, json) lib_call"
  ol_read :: "string \<Rightarrow> ('w, string) lib_call"
  ol_parse_json :: "string \<Rightarrow> string + json"
  ol_b64_decode :: "string \<Rightarrow> string + string"
  ol_utf8 :: "string \<Rightarrow> bool"

text \<open>\<open>str::rfind\<close>.\<close>

fun rfind_sub :: "string \<Rightarrow> string \<Rightarrow> nat option" where
  "rfind_sub [] p = (if p = [] then Some 0 else None)"
| "rfind_sub (c # cs) p =
     (case rfind_sub cs p of
        Some i \<Rightarrow> Some (Suc i)
      | None \<Rightarrow> if starts_with (c # cs) p then Some 0 else None)"

definition manifest_digest :: "string \<Rightarrow> string" where
  "manifest_digest url = (case rfind_sub url ''sha256:'' of Some i \<Rightarrow> drop i url | None \<Rightarrow> url)"

text \<open>The annotations are read out of the map of the script in the order of their names.\<close>

definition annotations_of :: "'w oci_lib \<Rightarrow> (string \<times> json) list \<Rightarrow> (string \<times> string) list" where
  "annotations_of l m = fold (\<lambda>(k, v) acc. obj_insert k (ol_show l v) acc) m []"

definition image_of :: "'w oci_lib \<Rightarrow> string \<Rightarrow> string \<Rightarrow> string \<Rightarrow> (string \<times> json) list \<Rightarrow> pushed_image" where
  "image_of l now raw_tar data annotations =
     \<lparr>im_layer = data,
      im_config = \<lparr>ic_created = now, ic_diff_ids = [''sha256:'' @ ol_sha256 l raw_tar],
        ic_working_dir = ''/'', ic_created_by = ''vynil'', ic_comment = ''vynil.build''\<rparr>,
      im_annotations = annotations_of l annotations\<rparr>"

definition push_image :: "'w oci_lib \<Rightarrow> registry \<Rightarrow> string \<Rightarrow> string \<Rightarrow> string \<Rightarrow> (string \<times> json) list \<Rightarrow> ('w, string) core_op" where
  "push_image l self source_dir repository tag annotations =
     c_bind (c_call CE_Stdio (ol_tar l source_dir)) (\<lambda>raw_tar.
     c_bind (c_lift CE_Stdio (ol_gzip l raw_tar)) (\<lambda>data.
     c_bind (\<lambda>w. c_call CE_OCIDistrib
         (ol_push l \<lparr>ir_registry = re_registry self, ir_repository = repository, ir_tag = tag\<rparr> (re_auth self)
           (image_of l (ol_now l w) raw_tar data annotations)) w) (\<lambda>manifest_url.
       c_return (manifest_digest manifest_url))))"

definition image_text :: "registry \<Rightarrow> string \<Rightarrow> string \<Rightarrow> string \<Rightarrow> string" where
  "image_text self repository tag digest = re_registry self @ ''/'' @ repository @ '':'' @ tag @ ''@'' @ digest"

definition sign_image :: "'w oci_lib \<Rightarrow> registry \<Rightarrow> string \<Rightarrow> string \<Rightarrow> string \<Rightarrow> string \<Rightarrow> ('w, unit) core_op" where
  "sign_image l self repository tag digest key_path =
     (if key_path = [] then c_return ()
      else
        let image_ref = image_text self repository tag digest in
        c_bind (c_call CE_Stdio (ol_cosign l [''sign'', ''--yes'', ''--key'', key_path, image_ref])) (\<lambda>ok.
          if ok then c_return () else c_fail (CE_Other (''cosign sign failed for '' @ image_ref))))"

text \<open>One page of at most a hundred tags is asked for.\<close>

definition list_tags :: "'w oci_lib \<Rightarrow> registry \<Rightarrow> string \<Rightarrow> ('w, string list) core_op" where
  "list_tags l self repository =
     (let image = re_registry self @ ''/'' @ repository in
      case ol_parse_ref l image of
        Some e \<Rightarrow> c_fail (CE_OCIParse e)
      | None \<Rightarrow> c_call CE_OCIDistrib (ol_tags l image (re_auth self) 100))"

definition get_manifest :: "'w oci_lib \<Rightarrow> registry \<Rightarrow> string \<Rightarrow> string \<Rightarrow> ('w, json) core_op" where
  "get_manifest l self repository tag =
     c_call CE_OCIDistrib
       (ol_manifest l \<lparr>ir_registry = re_registry self, ir_repository = repository, ir_tag = tag\<rparr> (re_auth self))"

text \<open>
  \<open>get_auth_from_file\<close>: whatever is missing or does not decode is the empty text. The pair is the user and the password.
\<close>

definition auth_from_config :: "'w oci_lib \<Rightarrow> json \<Rightarrow> string \<Rightarrow> string \<times> string" where
  "auth_from_config l config reg =
     (let auth_b64 = (case json_index (json_index (json_index config ''auths'') reg) ''auth'' of
                        JStr s \<Rightarrow> s | _ \<Rightarrow> []);
          decoded = (case ol_b64_decode l auth_b64 of Inr b \<Rightarrow> b | Inl _ \<Rightarrow> []);
          user_pass = (if ol_utf8 l decoded then decoded else [])
      in case splitn2 (CHR '':'') user_pass of Some (u, p) \<Rightarrow> (u, p) | None \<Rightarrow> (user_pass, []))"

definition get_auth_from_file :: "'w oci_lib \<Rightarrow> string \<Rightarrow> string \<Rightarrow> ('w, string \<times> string) core_op" where
  "get_auth_from_file l path reg =
     c_bind (c_call CE_Stdio (ol_read l path)) (\<lambda>content.
     c_bind (c_lift CE_Serialization (ol_parse_json l content)) (\<lambda>config.
       c_return (auth_from_config l config reg)))"

section \<open>The mock of the package tests\<close>

definition mock_list_tags :: "string \<Rightarrow> string list" where
  "mock_list_tags repository = []"

definition mock_get_manifest :: "string \<Rightarrow> string \<Rightarrow> json" where
  "mock_get_manifest repository tag = JObj [(''annotations'', JObj [])]"

definition mock_push_image :: "string \<Rightarrow> string \<Rightarrow> string \<Rightarrow> json \<Rightarrow> string" where
  "mock_push_image dir repo tag ann = ''sha256:mock-digest-for-testing''"

definition mock_sign_image :: "string \<Rightarrow> string \<Rightarrow> string \<Rightarrow> string \<Rightarrow> unit" where
  "mock_sign_image repo tag digest key = ()"

section \<open>Laws\<close>

lemma rfind_sub_SomeD: "rfind_sub s p = Some i \<Longrightarrow> starts_with (drop i s) p \<and> i \<le> length s"
  by (induction s arbitrary: i) (auto split: option.splits if_splits)

lemma rfind_sub_None: "rfind_sub s p = None \<Longrightarrow> \<not> starts_with (drop i s) p"
proof (induction s arbitrary: i)
  case Nil
  then show ?case by (auto simp: starts_with_def split: if_splits)
next
  case (Cons c s)
  then show ?case by (cases i) (auto split: option.splits if_splits)
qed

lemma rfind_sub_last: "rfind_sub s p = Some i \<Longrightarrow> i < j \<Longrightarrow> \<not> starts_with (drop j s) p \<or> p = []"
proof (induction s arbitrary: i j)
  case Nil
  then show ?case by (auto split: if_splits)
next
  case (Cons c s)
  then show ?case by (cases j) (auto split: option.splits if_splits dest: rfind_sub_None)
qed

lemma rfind_sub_at:
  assumes "\<And>j. j > 0 \<Longrightarrow> \<not> starts_with (drop j (p @ t)) p"
  shows "rfind_sub (u @ p @ t) p = Some (length u)"
proof -
  obtain i where i: "rfind_sub (u @ p @ t) p = Some i"
    using rfind_sub_None [of "u @ p @ t" p "length u"] by (cases "rfind_sub (u @ p @ t) p") auto
  have "\<not> length u < i"
    using rfind_sub_SomeD [OF i] assms [of "i - length u"] by auto
  moreover have "\<not> i < length u"
    using rfind_sub_last [OF i, of "length u"] assms [of 1] by auto
  ultimately show ?thesis using i by simp
qed

text \<open>The digest a push answers is what follows the last mark of a digest in the URL of the manifest, and it is
  the digest that is signed.\<close>

theorem digest_of_url:
  assumes "CHR '':'' \<notin> set hex"
  shows "manifest_digest (base @ ''sha256:'' @ hex) = ''sha256:'' @ hex"
proof -
  have no: "\<not> starts_with (drop j (''sha256:'' @ hex)) ''sha256:''" if "j > 0" for j
  proof
    assume "starts_with (drop j (''sha256:'' @ hex)) ''sha256:''"
    then obtain t where t: "drop j (''sha256:'' @ hex) = ''sha256:'' @ t" by (auto simp: starts_with_iff)
    define s where "s = ''sha256:'' @ hex"
    have len: "j + 7 \<le> length s"
      using arg_cong [OF t, of length] by (simp add: s_def)
    have "s ! (j + 6) = drop j s ! 6" using len by simp
    also have "\<dots> = CHR '':''" using t by (simp add: s_def)
    finally have "hex ! (j - 1) = CHR '':''" using that by (cases j) (simp_all add: s_def)
    moreover have "j - 1 < length hex" using len that by (simp add: s_def)
    ultimately show False using assms nth_mem by metis
  qed
  then show ?thesis
    unfolding manifest_digest_def using rfind_sub_at [of "''sha256:''" hex base] by simp
qed

theorem digest_of_url_witness:
  "manifest_digest (''https://reg:5000/v2/p/manifests/'' @ ''sha256:'' @ ''ab12'') = ''sha256:'' @ ''ab12''"
  by (rule digest_of_url) simp

text \<open>An image is not signed when there is no key, and the signature names the digest that was pushed.\<close>

theorem signed_digest:
  assumes "sign_image l self repo tag digest key w = (Inr (), w')" and "key \<noteq> []"
  shows "ol_cosign l [''sign'', ''--yes'', ''--key'', key, re_registry self @ ''/'' @ repo @ '':'' @ tag @ ''@'' @ digest] w = (Inr True, w')"
  using assms by (auto simp: sign_image_def image_text_def Let_def elim!: c_bindE split: if_splits)

section \<open>Credentials\<close>

text \<open>The decoders of both sides are the same crates.\<close>

definition same_codecs :: "'w op_api \<Rightarrow> 'v oci_lib \<Rightarrow> bool" where
  "same_codecs op l \<longleftrightarrow> oa_parse_json op = ol_parse_json l \<and> oa_b64_decode op = ol_b64_decode l \<and>
     oa_utf8 op = ol_utf8 l \<and> ol_b64_decode l [] = Inr []"

lemma splitn2_None: "splitn2 c s = None \<longleftrightarrow> c \<notin> set s"
  by (simp add: splitn2_def)

text \<open>C25: A build script that logs in with what \<open>get_auth_from_file\<close> answers is known to the registry as the operator is
  with the same pull secret, but when the user or the password is empty: the script is anonymous then.\<close>

theorem script_logs_in_as_operator:
  assumes "same_codecs op l" and "ol_parse_json l raw = Inr config" and "auth_of_config op reg raw = Inr a"
  shows "(case auth_from_config l config reg of (user, pass) \<Rightarrow> re_auth (new_registry reg user pass)) =
    (case a of Basic user pass \<Rightarrow> if user = [] \<or> pass = [] then Anonymous else a | Anonymous \<Rightarrow> Anonymous)"
proof -
  define b64 where "b64 = (case json_index (json_index (json_index config ''auths'') reg) ''auth'' of JStr s \<Rightarrow> s | _ \<Rightarrow> [])"
  have *: "oa_parse_json op raw = Inr config" using assms by (simp add: same_codecs_def)
  have cod: "oa_b64_decode op = ol_b64_decode l" "oa_utf8 op = ol_utf8 l"
    using assms(1) by (simp_all add: same_codecs_def)
  have a: "(if b64 = [] then Inr Anonymous
      else (case ol_b64_decode l b64 of Inl e \<Rightarrow> Inl (Base64DecodeError e)
        | Inr decoded \<Rightarrow> if \<not> ol_utf8 l decoded then Inl UTF8
            else (case splitn2 (CHR '':'') decoded of Some (user, pass) \<Rightarrow> Inr (Basic user pass) | None \<Rightarrow> Inr Anonymous))) =
      (Inr a :: registry_auth result)"
    using assms(3) by (simp only: auth_of_config_def * cod Let_def b64_def sum.case)
  define dec where "dec = (case ol_b64_decode l b64 of Inr b \<Rightarrow> b | Inl _ \<Rightarrow> [])"
  have f: "auth_from_config l config reg =
      (let up = (if ol_utf8 l dec then dec else []) in
       case splitn2 (CHR '':'') up of Some (u, p) \<Rightarrow> (u, p) | None \<Rightarrow> (up, []))"
    unfolding auth_from_config_def b64_def dec_def by (simp add: Let_def)
  show ?thesis
  proof (cases "b64 = []")
    case True
    then have "dec = []" using assms(1) by (simp add: dec_def same_codecs_def)
    with True a show ?thesis by (simp add: f Let_def splitn2_def new_registry_def registry_new_def)
  next
    case False
    with a obtain d where d: "ol_b64_decode l b64 = Inr d" "ol_utf8 l d"
      by (auto split: sum.splits if_splits)
    then have "dec = d" by (simp add: dec_def)
    with False a d show ?thesis
      by (auto simp: f Let_def new_registry_def registry_new_def split: option.splits)
  qed
qed

definition demo_oci :: "unit oci_lib" where
  "demo_oci = \<lparr>ol_now = (\<lambda>w. ''now''), ol_tar = (\<lambda>d w. (Inr ''tar'', w)), ol_sha256 = (\<lambda>s. ''00''),
     ol_gzip = Inr, ol_show = (\<lambda>v. case v of JStr s \<Rightarrow> s | _ \<Rightarrow> []), ol_push = (\<lambda>r a i w. (Inr ''sha256:00'', w)),
     ol_cosign = (\<lambda>args w. (Inr True, w)), ol_tags = (\<lambda>r a n w. (Inr [], w)), ol_parse_ref = (\<lambda>r. None),
     ol_manifest = (\<lambda>r a w. (Inr JNull, w)), ol_read = (\<lambda>p w. (Inr ''{}'', w)),
     ol_parse_json = (\<lambda>t. Inr (JObj [(''auths'', JObj [(''reg'', JObj [(''auth'', JStr ''bob:a:b'')])])])),
     ol_b64_decode = Inr, ol_utf8 = (\<lambda>b. True)\<rparr>"

definition oci_op :: "json list op_api" where
  "oci_op = demo_op\<lparr>oa_parse_json := ol_parse_json demo_oci, oa_b64_decode := Inr, oa_utf8 := (\<lambda>b. True)\<rparr>"

definition pull_config :: json where
  "pull_config = JObj [(''auths'', JObj [(''reg'', JObj [(''auth'', JStr ''bob:a:b'')])])]"

theorem script_logs_in_as_operator_witness:
  "(case auth_from_config demo_oci pull_config ''reg'' of (user, pass) \<Rightarrow> re_auth (new_registry ''reg'' user pass)) =
     (case Basic ''bob'' ''a:b'' of Basic user pass \<Rightarrow> if user = [] \<or> pass = [] then Anonymous else Basic ''bob'' ''a:b''
      | Anonymous \<Rightarrow> Anonymous)"
proof (rule script_logs_in_as_operator [where op = oci_op and raw = "''{}''"])
  show "same_codecs oci_op demo_oci"
    by (simp add: same_codecs_def oci_op_def demo_oci_def)
  show "ol_parse_json demo_oci ''{}'' = Inr pull_config"
    by (simp add: demo_oci_def pull_config_def)
  show "auth_of_config oci_op ''reg'' ''{}'' = Inr (Basic ''bob'' ''a:b'')"
    by (simp add: auth_of_config_def oci_op_def demo_oci_def json_index_def splitn2_def)
qed

end
