(* ===== verification/ScriptRegistry.thy ===== *)
theory ScriptRegistry
  imports AgentStages
begin

text \<open>
  What a script can call. Every group of functions of \<open>AgentStages\<close> is a function of the code that registers names in
  the script engine (\<open>*_rhai_register\<close>, in \<open>core\<close> and \<open>common\<close>); here they are tables of signatures, and a script has
  the tables of its groups. A package test runs its script in an engine with the mocks in place of the bindings that
  reach the cluster and the network: the laws below compare the two engines.
\<close>

section \<open>Signatures\<close>

text \<open>The types that are not those of the engine; \<open>String\<close>, \<open>&str\<close> and \<open>ImmutableString\<close> are one type to a script.\<close>

datatype rust_type =
    DateTimeHandler | Argon | SemverT | RegistryT | OciRegistryMock | YamlDocT | VynilPackageSource | HandleBarsT
  | RestClient | RestClientMock | FileJukeBox | JukeBoxT | K8sJukeBoxMock
  | ServiceInstance | SystemInstance | TenantInstance | K8sInstanceMock
  | DynamicObject | K8sObject | K8sObjectMock | K8sGeneric | K8sGenericMock | K8sRaw | K8sRawMock
  | K8sDeploy | K8sDaemonSet | K8sStatefulSet | K8sJob | K8sWorkloadMock

datatype rtype =
    T_String | T_Int | T_U32 | T_Bool | T_Array | T_Map | T_Unit
  | T_Dynamic                                      \<comment> \<open>any value\<close>
  | T_Rust rust_type
  | T_Vec rtype

type_synonym signature = "(string \<times> rtype list) \<times> rtype"

definition fn :: "string \<Rightarrow> rtype list \<Rightarrow> rtype \<Rightarrow> signature" where
  "fn name params result = ((name, params), result)"

text \<open>\<open>register_get\<close> registers the function \<open>get$name\<close>.\<close>

definition getter :: "string \<Rightarrow> rust_type \<Rightarrow> rtype \<Rightarrow> signature" where
  "getter name self result = ((''get$'' @ name, [T_Rust self]), result)"

text \<open>
  A registration under a name and parameters that are taken replaces the old one. A call runs the function registered
  for the types of its arguments, or one whose other parameters take any value.
\<close>

definition registered :: "signature list \<Rightarrow> string \<times> rtype list \<Rightarrow> rtype option" where
  "registered sigs = map_of (rev sigs)"

definition takes :: "rtype list \<Rightarrow> rtype list \<Rightarrow> bool" where
  "takes params args \<longleftrightarrow> list_all2 (\<lambda>p a. p = T_Dynamic \<or> p = a) params args"

definition callable :: "signature list \<Rightarrow> string \<Rightarrow> rtype list \<Rightarrow> bool" where
  "callable sigs name args \<longleftrightarrow> list_ex (\<lambda>s. fst (fst s) = name \<and> takes (snd (fst s)) args) sigs"

section \<open>The functions of every script\<close>

text \<open>\<open>core_common_rhai_register\<close>.\<close>

definition core_fns :: "signature list" where
  "core_fns = [
    fn ''sha256'' [T_String] T_String, fn ''log_debug'' [T_String] T_Unit, fn ''log_info'' [T_String] T_Unit,
    fn ''log_warn'' [T_String] T_Unit, fn ''log_error'' [T_String] T_Unit,
    fn ''url_encode'' [T_String] T_String, fn ''get_env'' [T_String] T_String,
    fn ''to_decimal'' [T_String] T_U32, fn ''base64_decode'' [T_String] T_String,
    fn ''base64_encode'' [T_String] T_String, fn ''json_encode'' [T_Dynamic] T_String,
    fn ''json_encode_escape'' [T_Dynamic] T_String, fn ''json_decode'' [T_String] T_Dynamic,
    fn ''file_read'' [T_String] T_String, fn ''file_write'' [T_String, T_String] T_Unit,
    fn ''file_copy'' [T_String, T_String] T_Unit, fn ''create_dir'' [T_String] T_Unit,
    fn ''read_dir'' [T_String] T_Array, fn ''is_file'' [T_String] T_Bool, fn ''is_dir'' [T_String] T_Bool,
    fn ''basename'' [T_String] T_String, fn ''dirname'' [T_String] T_String]"

text \<open>The functions \<open>add_common\<close> defines in the script language, whose parameters have no type.\<close>

definition script_fns :: "signature list" where
  "script_fns = [
    fn ''assert'' [T_Dynamic, T_Dynamic] T_Dynamic,
    fn ''import_run'' [T_Dynamic, T_Dynamic, T_Dynamic, T_Dynamic] T_Dynamic,
    fn ''import_template'' [T_Dynamic, T_Dynamic, T_Dynamic, T_Dynamic] T_Dynamic,
    fn ''import_run'' [T_Dynamic, T_Dynamic, T_Dynamic] T_Dynamic,
    fn ''import_template'' [T_Dynamic, T_Dynamic, T_Dynamic] T_Dynamic,
    fn ''import_run'' [T_Dynamic, T_Dynamic] T_Dynamic, fn ''import_template'' [T_Dynamic, T_Dynamic] T_Dynamic]"

definition chrono_fns :: "signature list" where
  "chrono_fns = [
    fn ''date_now'' [] (T_Rust DateTimeHandler), fn ''format'' [T_Rust DateTimeHandler, T_String] T_String]"

definition hashes_fns :: "signature list" where
  "hashes_fns = [
    fn ''crc32_hash'' [T_String] T_U32, fn ''bcrypt_hash'' [T_String] T_String,
    fn ''new_argon'' [] (T_Rust Argon), fn ''hash'' [T_Rust Argon, T_String] T_String]"

definition password_fns :: "signature list" where
  "password_fns = [
    fn ''gen_password'' [T_Int] T_String, fn ''gen_password'' [T_Int, T_Map] T_String,
    fn ''gen_password_alphanum'' [T_Int] T_String]"

definition key_fns :: "signature list" where
  "key_fns = [
    fn ''gen_private_key'' [T_String] T_String, fn ''gen_private_key'' [T_String, T_Int] T_String]"

definition semver_fns :: "signature list" where
  "semver_fns = [
    fn ''semver_from'' [T_String] (T_Rust SemverT), fn ''inc_major'' [T_Rust SemverT] T_Unit,
    fn ''inc_minor'' [T_Rust SemverT] T_Unit, fn ''inc_patch'' [T_Rust SemverT] T_Unit,
    fn ''inc_beta'' [T_Rust SemverT] T_Unit, fn ''inc_alpha'' [T_Rust SemverT] T_Unit,
    fn ''=='' [T_Rust SemverT, T_Rust SemverT] T_Bool, fn ''!='' [T_Rust SemverT, T_Rust SemverT] T_Bool,
    fn ''<'' [T_Rust SemverT, T_Rust SemverT] T_Bool, fn ''>'' [T_Rust SemverT, T_Rust SemverT] T_Bool,
    fn ''<='' [T_Rust SemverT, T_Rust SemverT] T_Bool, fn ''>='' [T_Rust SemverT, T_Rust SemverT] T_Bool,
    fn ''to_string'' [T_Rust SemverT] T_String]"

definition yaml_fns :: "signature list" where
  "yaml_fns = [
    fn ''yaml_encode'' [T_Dynamic] T_String, fn ''yaml_encode'' [T_Map] T_String,
    fn ''yaml_decode'' [T_String] T_Dynamic, fn ''yaml_decode_multi'' [T_String] T_Array]"

definition glob_fns :: "signature list" where
  "glob_fns = [
    fn ''glob'' [T_String, T_String] T_Bool]"

definition oci_fns :: "signature list" where
  "oci_fns = [
    fn ''new_registry'' [T_String, T_String, T_String] (T_Rust RegistryT),
    fn ''push_image'' [T_Rust RegistryT, T_String, T_String, T_String, T_Map] T_String,
    fn ''sign_image'' [T_Rust RegistryT, T_String, T_String, T_String, T_String] T_Unit,
    fn ''list_tags'' [T_Rust RegistryT, T_String] T_Dynamic,
    fn ''get_manifest'' [T_Rust RegistryT, T_String, T_String] T_Dynamic,
    fn ''get_auth_from_file'' [T_String, T_String] T_Dynamic]"

definition shell_fns :: "signature list" where
  "shell_fns = [
    fn ''shell_run'' [T_String] T_Int, fn ''shell_output'' [T_String] T_String]"

definition owner_fns :: "signature list" where
  "owner_fns = [
    fn ''vynil_owner'' [] T_Dynamic]"

definition yaml_ordered_fns :: "signature list" where
  "yaml_ordered_fns = [
    fn ''yaml_decode_ordered'' [T_String] (T_Rust YamlDocT), fn ''yaml_encode_ordered'' [T_Dynamic] T_String,
    fn ''yaml_encode_ordered'' [T_Rust YamlDocT] T_String,
    fn ''index$get$'' [T_Rust YamlDocT, T_String] T_Dynamic,
    fn ''index$set$'' [T_Rust YamlDocT, T_String, T_Dynamic] T_Unit, fn ''keys'' [T_Rust YamlDocT] T_Array,
    fn ''values'' [T_Rust YamlDocT] T_Array, fn ''len'' [T_Rust YamlDocT] T_Int,
    fn ''is_empty'' [T_Rust YamlDocT] T_Bool, fn ''contains'' [T_Rust YamlDocT, T_String] T_Bool,
    fn ''to_string'' [T_Rust YamlDocT] T_String]"

definition package_fns :: "signature list" where
  "package_fns = [
    fn ''vynil_version'' [] T_String, fn ''read_package_yaml'' [T_String] (T_Rust VynilPackageSource),
    fn ''validate_options'' [T_Rust VynilPackageSource] T_Unit,
    getter ''metadata'' VynilPackageSource T_Dynamic, getter ''requirements'' VynilPackageSource T_Dynamic,
    getter ''recommandations'' VynilPackageSource T_Dynamic, getter ''options'' VynilPackageSource T_Dynamic,
    getter ''value_script'' VynilPackageSource T_String, getter ''images'' VynilPackageSource T_Dynamic,
    getter ''resources'' VynilPackageSource T_Dynamic]"

definition handlebars_fns :: "signature list" where
  "handlebars_fns = [
    fn ''new_hbs'' [] (T_Rust HandleBarsT),
    fn ''register_template'' [T_Rust HandleBarsT, T_String, T_String] T_Unit,
    fn ''register_partial_dir'' [T_Rust HandleBarsT, T_String] T_Unit,
    fn ''register_helper_dir'' [T_Rust HandleBarsT, T_String] T_Unit,
    fn ''render_from'' [T_Rust HandleBarsT, T_String, T_Map] T_String,
    fn ''render_named'' [T_Rust HandleBarsT, T_String, T_String, T_Map] T_String]"

section \<open>The network and the cluster\<close>

definition http_fns :: "signature list" where
  "http_fns = [
    fn ''new_http_client'' [T_String] (T_Rust RestClient), fn ''headers_reset'' [T_Rust RestClient] T_Unit,
    fn ''set_baseurl'' [T_Rust RestClient, T_String] T_Unit,
    fn ''set_server_ca'' [T_Rust RestClient, T_String] T_Unit,
    fn ''set_mtls_cert_key'' [T_Rust RestClient, T_String, T_String] T_Unit,
    fn ''add_header'' [T_Rust RestClient, T_String, T_String] T_Unit,
    fn ''add_header_json'' [T_Rust RestClient] T_Unit,
    fn ''add_header_bearer'' [T_Rust RestClient, T_String] T_Unit,
    fn ''add_header_basic'' [T_Rust RestClient, T_String, T_String] T_Unit,
    fn ''head'' [T_Rust RestClient, T_String] T_Map, fn ''get'' [T_Rust RestClient, T_String] T_Map,
    fn ''delete'' [T_Rust RestClient, T_String] T_Map,
    fn ''patch'' [T_Rust RestClient, T_String, T_Dynamic] T_Map,
    fn ''post'' [T_Rust RestClient, T_String, T_Dynamic] T_Map,
    fn ''put'' [T_Rust RestClient, T_String, T_Dynamic] T_Map,
    fn ''http_get_yaml'' [T_String, T_String, T_String] T_Dynamic]"

definition s3_fns :: "signature list" where
  "s3_fns = [
    fn ''s3_get_yaml'' [T_String, T_String, T_String, T_String, T_String, T_String, T_String] T_Dynamic,
    fn ''s3_list_keys'' [T_String, T_String, T_String, T_String, T_String, T_String] (T_Vec T_String)]"

definition file_jukebox_fns :: "signature list" where
  "file_jukebox_fns = [
    fn ''set_status_updated'' [T_Rust FileJukeBox, T_Dynamic] (T_Rust FileJukeBox),
    fn ''set_status_failed'' [T_Rust FileJukeBox, T_String] (T_Rust FileJukeBox),
    fn ''set_status_packages_merge'' [T_Rust FileJukeBox, T_String, T_Dynamic] (T_Rust FileJukeBox),
    getter ''spec'' FileJukeBox T_Dynamic, getter ''status'' FileJukeBox T_Dynamic]"

definition jukebox_fns :: "signature list" where
  "jukebox_fns = [
    fn ''get_jukebox'' [T_String] (T_Rust JukeBoxT), fn ''list_jukebox'' [] (T_Vec (T_Rust JukeBoxT)),
    fn ''set_status_updated'' [T_Rust JukeBoxT, T_Dynamic] (T_Rust JukeBoxT),
    fn ''set_status_failed'' [T_Rust JukeBoxT, T_String] (T_Rust JukeBoxT),
    fn ''set_status_packages_merge'' [T_Rust JukeBoxT, T_String, T_Dynamic] (T_Rust JukeBoxT),
    getter ''metadata'' JukeBoxT T_Dynamic, getter ''spec'' JukeBoxT T_Dynamic,
    getter ''status'' JukeBoxT T_Dynamic]"

definition service_fns :: "signature list" where
  "service_fns = [
    fn ''get_service_instance'' [T_String, T_String] (T_Rust ServiceInstance),
    fn ''list_service_instance'' [T_String] (T_Vec (T_Rust ServiceInstance)),
    fn ''list_services_names'' [] (T_Vec T_String), fn ''options_digest'' [T_Rust ServiceInstance] T_String,
    fn ''get_tfstate'' [T_Rust ServiceInstance] T_String,
    fn ''get_rhaistate'' [T_Rust ServiceInstance] T_String,
    fn ''set_agent_started'' [T_Rust ServiceInstance] (T_Rust ServiceInstance),
    fn ''set_missing_box'' [T_Rust ServiceInstance, T_String] (T_Rust ServiceInstance),
    fn ''set_missing_package'' [T_Rust ServiceInstance, T_String, T_String] (T_Rust ServiceInstance),
    fn ''set_missing_requirement'' [T_Rust ServiceInstance, T_String] (T_Rust ServiceInstance),
    fn ''set_missing_init_version'' [T_Rust ServiceInstance, T_String] (T_Rust ServiceInstance),
    fn ''set_status_ready'' [T_Rust ServiceInstance, T_String] (T_Rust ServiceInstance),
    fn ''set_tfstate'' [T_Rust ServiceInstance, T_String] (T_Rust ServiceInstance),
    fn ''set_status_tofu_failed'' [T_Rust ServiceInstance, T_String, T_String] (T_Rust ServiceInstance),
    fn ''set_rhaistate'' [T_Rust ServiceInstance, T_String] (T_Rust ServiceInstance),
    fn ''set_status_rhai_failed'' [T_Rust ServiceInstance, T_String, T_String] (T_Rust ServiceInstance),
    getter ''metadata'' ServiceInstance T_Dynamic, getter ''spec'' ServiceInstance T_Dynamic,
    getter ''status'' ServiceInstance T_Dynamic,
    fn ''set_services'' [T_Rust ServiceInstance, T_Dynamic] (T_Rust ServiceInstance),
    fn ''get_services'' [T_Rust ServiceInstance] T_String,
    fn ''set_status_befores'' [T_Rust ServiceInstance, T_Dynamic] (T_Rust ServiceInstance),
    fn ''set_status_before_failed'' [T_Rust ServiceInstance, T_String] (T_Rust ServiceInstance),
    fn ''set_status_vitals'' [T_Rust ServiceInstance, T_Dynamic] (T_Rust ServiceInstance),
    fn ''set_status_vital_failed'' [T_Rust ServiceInstance, T_String] (T_Rust ServiceInstance),
    fn ''set_status_scalables'' [T_Rust ServiceInstance, T_Dynamic] (T_Rust ServiceInstance),
    fn ''set_status_scalable_failed'' [T_Rust ServiceInstance, T_String] (T_Rust ServiceInstance),
    fn ''set_status_others'' [T_Rust ServiceInstance, T_Dynamic] (T_Rust ServiceInstance),
    fn ''set_status_other_failed'' [T_Rust ServiceInstance, T_String] (T_Rust ServiceInstance),
    fn ''set_status_posts'' [T_Rust ServiceInstance, T_Dynamic] (T_Rust ServiceInstance),
    fn ''set_status_post_failed'' [T_Rust ServiceInstance, T_String] (T_Rust ServiceInstance),
    fn ''set_status_init_failed'' [T_Rust ServiceInstance, T_String] (T_Rust ServiceInstance),
    fn ''set_status_schedule_backup_failed'' [T_Rust ServiceInstance, T_String] (T_Rust ServiceInstance),
    fn ''set_status_crds'' [T_Rust ServiceInstance, T_Dynamic] (T_Rust ServiceInstance),
    fn ''set_status_crd_failed'' [T_Rust ServiceInstance, T_String] (T_Rust ServiceInstance)]"

definition system_fns :: "signature list" where
  "system_fns = [
    fn ''get_system_instance'' [T_String, T_String] (T_Rust SystemInstance),
    fn ''list_system_instance'' [T_String] (T_Vec (T_Rust SystemInstance)),
    fn ''options_digest'' [T_Rust SystemInstance] T_String,
    fn ''get_tfstate'' [T_Rust SystemInstance] T_String, fn ''get_rhaistate'' [T_Rust SystemInstance] T_String,
    fn ''set_agent_started'' [T_Rust SystemInstance] (T_Rust SystemInstance),
    fn ''set_missing_box'' [T_Rust SystemInstance, T_String] (T_Rust SystemInstance),
    fn ''set_missing_package'' [T_Rust SystemInstance, T_String, T_String] (T_Rust SystemInstance),
    fn ''set_missing_requirement'' [T_Rust SystemInstance, T_String] (T_Rust SystemInstance),
    fn ''set_status_ready'' [T_Rust SystemInstance, T_String] (T_Rust SystemInstance),
    fn ''set_tfstate'' [T_Rust SystemInstance, T_String] (T_Rust SystemInstance),
    fn ''set_status_tofu_failed'' [T_Rust SystemInstance, T_String, T_String] (T_Rust SystemInstance),
    fn ''set_rhaistate'' [T_Rust SystemInstance, T_String] (T_Rust SystemInstance),
    fn ''set_status_rhai_failed'' [T_Rust SystemInstance, T_String, T_String] (T_Rust SystemInstance),
    getter ''metadata'' SystemInstance T_Dynamic, getter ''spec'' SystemInstance T_Dynamic,
    getter ''status'' SystemInstance T_Dynamic,
    fn ''set_status_crds'' [T_Rust SystemInstance, T_Dynamic] (T_Rust SystemInstance),
    fn ''set_status_crd_failed'' [T_Rust SystemInstance, T_String] (T_Rust SystemInstance),
    fn ''set_status_systems'' [T_Rust SystemInstance, T_Dynamic] (T_Rust SystemInstance),
    fn ''set_status_system_failed'' [T_Rust SystemInstance, T_String] (T_Rust SystemInstance)]"

definition tenant_fns :: "signature list" where
  "tenant_fns = [
    fn ''get_tenant_instance'' [T_String, T_String] (T_Rust TenantInstance),
    fn ''list_tenant_instance'' [T_String] (T_Vec (T_Rust TenantInstance)),
    fn ''get_tenant_name'' [T_Rust TenantInstance] T_String,
    fn ''get_tenant_namespaces'' [T_Rust TenantInstance] T_Dynamic,
    fn ''get_tenant_services_names'' [T_Rust TenantInstance] T_Dynamic,
    fn ''options_digest'' [T_Rust TenantInstance] T_String,
    fn ''get_tfstate'' [T_Rust TenantInstance] T_String, fn ''get_rhaistate'' [T_Rust TenantInstance] T_String,
    fn ''set_agent_started'' [T_Rust TenantInstance] (T_Rust TenantInstance),
    fn ''set_missing_box'' [T_Rust TenantInstance, T_String] (T_Rust TenantInstance),
    fn ''set_missing_package'' [T_Rust TenantInstance, T_String, T_String] (T_Rust TenantInstance),
    fn ''set_missing_requirement'' [T_Rust TenantInstance, T_String] (T_Rust TenantInstance),
    fn ''set_missing_init_version'' [T_Rust TenantInstance, T_String] (T_Rust TenantInstance),
    fn ''set_status_ready'' [T_Rust TenantInstance, T_String] (T_Rust TenantInstance),
    fn ''set_tfstate'' [T_Rust TenantInstance, T_String] (T_Rust TenantInstance),
    fn ''set_status_tofu_failed'' [T_Rust TenantInstance, T_String, T_String] (T_Rust TenantInstance),
    fn ''set_rhaistate'' [T_Rust TenantInstance, T_String] (T_Rust TenantInstance),
    fn ''set_status_rhai_failed'' [T_Rust TenantInstance, T_String, T_String] (T_Rust TenantInstance),
    getter ''metadata'' TenantInstance T_Dynamic, getter ''spec'' TenantInstance T_Dynamic,
    getter ''status'' TenantInstance T_Dynamic,
    fn ''set_services'' [T_Rust TenantInstance, T_Dynamic] (T_Rust TenantInstance),
    fn ''get_services'' [T_Rust TenantInstance] T_String,
    fn ''set_status_befores'' [T_Rust TenantInstance, T_Dynamic] (T_Rust TenantInstance),
    fn ''set_status_before_failed'' [T_Rust TenantInstance, T_String] (T_Rust TenantInstance),
    fn ''set_status_vitals'' [T_Rust TenantInstance, T_Dynamic] (T_Rust TenantInstance),
    fn ''set_status_vital_failed'' [T_Rust TenantInstance, T_String] (T_Rust TenantInstance),
    fn ''set_status_scalables'' [T_Rust TenantInstance, T_Dynamic] (T_Rust TenantInstance),
    fn ''set_status_scalable_failed'' [T_Rust TenantInstance, T_String] (T_Rust TenantInstance),
    fn ''set_status_others'' [T_Rust TenantInstance, T_Dynamic] (T_Rust TenantInstance),
    fn ''set_status_other_failed'' [T_Rust TenantInstance, T_String] (T_Rust TenantInstance),
    fn ''set_status_posts'' [T_Rust TenantInstance, T_Dynamic] (T_Rust TenantInstance),
    fn ''set_status_post_failed'' [T_Rust TenantInstance, T_String] (T_Rust TenantInstance),
    fn ''set_status_init_failed'' [T_Rust TenantInstance, T_String] (T_Rust TenantInstance),
    fn ''set_status_schedule_backup_failed'' [T_Rust TenantInstance, T_String] (T_Rust TenantInstance)]"

text \<open>\<open>register_k8s_object\<close>, \<open>register_k8s_generic\<close> and \<open>register_k8s_raw\<close> are macros, expanded for the real types here and for the mocks below.\<close>

definition object_fns :: "signature list" where
  "object_fns = [
    getter ''data'' DynamicObject T_Dynamic, getter ''kind'' K8sObject T_String, getter ''original_kind'' K8sObject T_String,
    getter ''metadata'' K8sObject T_Dynamic, fn ''delete'' [T_Rust K8sObject] T_Unit,
    fn ''wait_condition'' [T_Rust K8sObject, T_String, T_Int] T_Unit,
    fn ''wait_status'' [T_Rust K8sObject, T_String, T_Int] T_Unit,
    fn ''wait_status_prop'' [T_Rust K8sObject, T_String, T_Int] T_Unit,
    fn ''wait_status_string'' [T_Rust K8sObject, T_String, T_String, T_Int] T_Unit,
    fn ''wait_deleted'' [T_Rust K8sObject, T_Int] T_Unit]"

definition generic_fns :: "signature list" where
  "generic_fns = [
    fn ''k8s_resource'' [T_String] (T_Rust K8sGeneric),
    fn ''k8s_resource'' [T_String, T_String] (T_Rust K8sGeneric),
    fn ''k8s_resource'' [T_String, T_String, T_String] (T_Rust K8sGeneric),
    fn ''list'' [T_Rust K8sGeneric] T_Dynamic, fn ''list'' [T_Rust K8sGeneric, T_String] T_Dynamic,
    fn ''update_k8s_crd_cache'' [] T_Unit, fn ''list_meta'' [T_Rust K8sGeneric] T_Dynamic,
    fn ''get'' [T_Rust K8sGeneric, T_String] T_Dynamic,
    fn ''get_meta'' [T_Rust K8sGeneric, T_String] T_Dynamic,
    fn ''get_obj'' [T_Rust K8sGeneric, T_String] (T_Rust K8sObject),
    fn ''delete'' [T_Rust K8sGeneric, T_String] T_Unit, fn ''create'' [T_Rust K8sGeneric, T_Dynamic] T_Dynamic,
    fn ''replace'' [T_Rust K8sGeneric, T_String, T_Dynamic] T_Dynamic,
    fn ''patch'' [T_Rust K8sGeneric, T_String, T_Dynamic] T_Dynamic,
    fn ''apply'' [T_Rust K8sGeneric, T_String, T_Dynamic] T_Dynamic,
    fn ''exist'' [T_Rust K8sGeneric] T_Dynamic, getter ''scope'' K8sGeneric T_String]"

definition raw_fns :: "signature list" where
  "raw_fns = [
    fn ''new_k8s_raw'' [] (T_Rust K8sRaw), fn ''get_url'' [T_Rust K8sRaw, T_String] T_Dynamic,
    fn ''get_cluster_version'' [T_Rust K8sRaw] T_Dynamic, fn ''get_api_resources'' [T_Rust K8sRaw] T_Dynamic]"

definition workload_fns :: "signature list" where
  "workload_fns = [
    fn ''get_deployment'' [T_String, T_String] (T_Rust K8sDeploy), getter ''metadata'' K8sDeploy T_Dynamic,
    getter ''spec'' K8sDeploy T_Dynamic, getter ''status'' K8sDeploy T_Dynamic,
    fn ''wait_available'' [T_Rust K8sDeploy, T_Int] T_Unit,
    fn ''get_deamonset'' [T_String, T_String] (T_Rust K8sDaemonSet),
    getter ''metadata'' K8sDaemonSet T_Dynamic, getter ''spec'' K8sDaemonSet T_Dynamic,
    getter ''status'' K8sDaemonSet T_Dynamic, fn ''wait_available'' [T_Rust K8sDaemonSet, T_Int] T_Unit,
    fn ''get_statefulset'' [T_String, T_String] (T_Rust K8sStatefulSet),
    getter ''metadata'' K8sStatefulSet T_Dynamic, getter ''spec'' K8sStatefulSet T_Dynamic,
    getter ''status'' K8sStatefulSet T_Dynamic, fn ''wait_available'' [T_Rust K8sStatefulSet, T_Int] T_Unit,
    fn ''get_job'' [T_String, T_String] (T_Rust K8sJob), getter ''metadata'' K8sJob T_Dynamic,
    getter ''spec'' K8sJob T_Dynamic, getter ''status'' K8sJob T_Dynamic,
    fn ''wait_done'' [T_Rust K8sJob, T_Int] T_Unit]"

section \<open>The mocks\<close>

definition object_mock_fns :: "signature list" where
  "object_mock_fns = [
    getter ''data'' DynamicObject T_Dynamic, getter ''kind'' K8sObjectMock T_String, getter ''original_kind'' K8sObjectMock T_String,
    getter ''metadata'' K8sObjectMock T_Dynamic, fn ''delete'' [T_Rust K8sObjectMock] T_Unit,
    fn ''wait_condition'' [T_Rust K8sObjectMock, T_String, T_Int] T_Unit,
    fn ''wait_status'' [T_Rust K8sObjectMock, T_String, T_Int] T_Unit,
    fn ''wait_status_prop'' [T_Rust K8sObjectMock, T_String, T_Int] T_Unit,
    fn ''wait_status_string'' [T_Rust K8sObjectMock, T_String, T_String, T_Int] T_Unit,
    fn ''wait_deleted'' [T_Rust K8sObjectMock, T_Int] T_Unit]"

definition generic_mock_fns :: "signature list" where
  "generic_mock_fns = [
    fn ''k8s_resource'' [T_String] (T_Rust K8sGenericMock),
    fn ''k8s_resource'' [T_String, T_String] (T_Rust K8sGenericMock),
    fn ''k8s_resource'' [T_String, T_String, T_String] (T_Rust K8sGenericMock),
    fn ''list'' [T_Rust K8sGenericMock] T_Dynamic, fn ''list'' [T_Rust K8sGenericMock, T_String] T_Dynamic,
    fn ''update_k8s_crd_cache'' [] T_Unit, fn ''list_meta'' [T_Rust K8sGenericMock] T_Dynamic,
    fn ''get'' [T_Rust K8sGenericMock, T_String] T_Dynamic,
    fn ''get_meta'' [T_Rust K8sGenericMock, T_String] T_Dynamic,
    fn ''get_obj'' [T_Rust K8sGenericMock, T_String] (T_Rust K8sObjectMock),
    fn ''delete'' [T_Rust K8sGenericMock, T_String] T_Unit,
    fn ''create'' [T_Rust K8sGenericMock, T_Dynamic] T_Dynamic,
    fn ''replace'' [T_Rust K8sGenericMock, T_String, T_Dynamic] T_Dynamic,
    fn ''patch'' [T_Rust K8sGenericMock, T_String, T_Dynamic] T_Dynamic,
    fn ''apply'' [T_Rust K8sGenericMock, T_String, T_Dynamic] T_Dynamic,
    fn ''exist'' [T_Rust K8sGenericMock] T_Dynamic, getter ''scope'' K8sGenericMock T_String]"

definition raw_mock_fns :: "signature list" where
  "raw_mock_fns = [
    fn ''new_k8s_raw'' [] (T_Rust K8sRawMock), fn ''get_url'' [T_Rust K8sRawMock, T_String] T_Dynamic,
    fn ''get_cluster_version'' [T_Rust K8sRawMock] T_Dynamic,
    fn ''get_api_resources'' [T_Rust K8sRawMock] T_Dynamic]"

definition workload_mock_fns :: "signature list" where
  "workload_mock_fns = [
    fn ''get_deployment'' [T_String, T_String] (T_Rust K8sWorkloadMock),
    getter ''metadata'' K8sWorkloadMock T_Dynamic, getter ''spec'' K8sWorkloadMock T_Dynamic,
    getter ''status'' K8sWorkloadMock T_Dynamic, fn ''wait_available'' [T_Rust K8sWorkloadMock, T_Int] T_Unit,
    fn ''get_deamonset'' [T_String, T_String] (T_Rust K8sWorkloadMock),
    getter ''metadata'' K8sWorkloadMock T_Dynamic, getter ''spec'' K8sWorkloadMock T_Dynamic,
    getter ''status'' K8sWorkloadMock T_Dynamic, fn ''wait_available'' [T_Rust K8sWorkloadMock, T_Int] T_Unit,
    fn ''get_statefulset'' [T_String, T_String] (T_Rust K8sWorkloadMock),
    getter ''metadata'' K8sWorkloadMock T_Dynamic, getter ''spec'' K8sWorkloadMock T_Dynamic,
    getter ''status'' K8sWorkloadMock T_Dynamic, fn ''wait_available'' [T_Rust K8sWorkloadMock, T_Int] T_Unit,
    fn ''get_job'' [T_String, T_String] (T_Rust K8sWorkloadMock),
    getter ''metadata'' K8sWorkloadMock T_Dynamic, getter ''spec'' K8sWorkloadMock T_Dynamic,
    getter ''status'' K8sWorkloadMock T_Dynamic, fn ''wait_done'' [T_Rust K8sWorkloadMock, T_Int] T_Unit]"

definition oci_mock_fns :: "signature list" where
  "oci_mock_fns = [
    fn ''new_registry'' [T_String, T_String, T_String] (T_Rust OciRegistryMock),
    fn ''list_tags'' [T_Rust OciRegistryMock, T_String] T_Dynamic,
    fn ''get_manifest'' [T_Rust OciRegistryMock, T_String, T_String] T_Dynamic,
    fn ''push_image'' [T_Rust OciRegistryMock, T_String, T_String, T_String, T_Dynamic] T_String,
    fn ''sign_image'' [T_Rust OciRegistryMock, T_String, T_String, T_String, T_String] T_Unit]"

definition http_mock_fns :: "signature list" where
  "http_mock_fns = [
    fn ''new_http_client'' [T_String] (T_Rust RestClientMock),
    fn ''headers_reset'' [T_Rust RestClientMock] T_Unit,
    fn ''set_baseurl'' [T_Rust RestClientMock, T_String] T_Unit,
    fn ''set_server_ca'' [T_Rust RestClientMock, T_String] T_Unit,
    fn ''set_mtls_cert_key'' [T_Rust RestClientMock, T_String, T_String] T_Unit,
    fn ''add_header'' [T_Rust RestClientMock, T_String, T_String] T_Unit,
    fn ''add_header_json'' [T_Rust RestClientMock] T_Unit,
    fn ''add_header_bearer'' [T_Rust RestClientMock, T_String] T_Unit,
    fn ''add_header_basic'' [T_Rust RestClientMock, T_String, T_String] T_Unit,
    fn ''head'' [T_Rust RestClientMock, T_String] T_Map, fn ''get'' [T_Rust RestClientMock, T_String] T_Map,
    fn ''delete'' [T_Rust RestClientMock, T_String] T_Map,
    fn ''patch'' [T_Rust RestClientMock, T_String, T_Dynamic] T_Map,
    fn ''post'' [T_Rust RestClientMock, T_String, T_Dynamic] T_Map,
    fn ''put'' [T_Rust RestClientMock, T_String, T_Dynamic] T_Map]"

definition instance_mock_common :: "signature list" where
  "instance_mock_common = [
    fn ''options_digest'' [T_Rust K8sInstanceMock] T_String,
    fn ''get_tfstate'' [T_Rust K8sInstanceMock] T_String,
    fn ''get_rhaistate'' [T_Rust K8sInstanceMock] T_String,
    fn ''set_agent_started'' [T_Rust K8sInstanceMock] (T_Rust K8sInstanceMock),
    fn ''set_missing_box'' [T_Rust K8sInstanceMock, T_String] (T_Rust K8sInstanceMock),
    fn ''set_missing_package'' [T_Rust K8sInstanceMock, T_String, T_String] (T_Rust K8sInstanceMock),
    fn ''set_missing_requirement'' [T_Rust K8sInstanceMock, T_String] (T_Rust K8sInstanceMock),
    fn ''set_missing_init_version'' [T_Rust K8sInstanceMock, T_String] (T_Rust K8sInstanceMock),
    fn ''set_status_ready'' [T_Rust K8sInstanceMock, T_String] (T_Rust K8sInstanceMock),
    fn ''set_tfstate'' [T_Rust K8sInstanceMock, T_String] (T_Rust K8sInstanceMock),
    fn ''set_status_tofu_failed'' [T_Rust K8sInstanceMock, T_String, T_String] (T_Rust K8sInstanceMock),
    fn ''set_rhaistate'' [T_Rust K8sInstanceMock, T_String] (T_Rust K8sInstanceMock),
    fn ''set_status_rhai_failed'' [T_Rust K8sInstanceMock, T_String, T_String] (T_Rust K8sInstanceMock),
    getter ''metadata'' K8sInstanceMock T_Dynamic, getter ''spec'' K8sInstanceMock T_Dynamic,
    getter ''status'' K8sInstanceMock T_Dynamic]"

definition instance_mock_children :: "signature list" where
  "instance_mock_children = [
    fn ''set_services'' [T_Rust K8sInstanceMock, T_Dynamic] (T_Rust K8sInstanceMock),
    fn ''get_services'' [T_Rust K8sInstanceMock] T_String,
    fn ''set_status_befores'' [T_Rust K8sInstanceMock, T_Dynamic] (T_Rust K8sInstanceMock),
    fn ''set_status_before_failed'' [T_Rust K8sInstanceMock, T_String] (T_Rust K8sInstanceMock),
    fn ''set_status_vitals'' [T_Rust K8sInstanceMock, T_Dynamic] (T_Rust K8sInstanceMock),
    fn ''set_status_vital_failed'' [T_Rust K8sInstanceMock, T_String] (T_Rust K8sInstanceMock),
    fn ''set_status_scalables'' [T_Rust K8sInstanceMock, T_Dynamic] (T_Rust K8sInstanceMock),
    fn ''set_status_scalable_failed'' [T_Rust K8sInstanceMock, T_String] (T_Rust K8sInstanceMock),
    fn ''set_status_others'' [T_Rust K8sInstanceMock, T_Dynamic] (T_Rust K8sInstanceMock),
    fn ''set_status_other_failed'' [T_Rust K8sInstanceMock, T_String] (T_Rust K8sInstanceMock),
    fn ''set_status_posts'' [T_Rust K8sInstanceMock, T_Dynamic] (T_Rust K8sInstanceMock),
    fn ''set_status_post_failed'' [T_Rust K8sInstanceMock, T_String] (T_Rust K8sInstanceMock),
    fn ''set_status_init_failed'' [T_Rust K8sInstanceMock, T_String] (T_Rust K8sInstanceMock),
    fn ''set_status_schedule_backup_failed'' [T_Rust K8sInstanceMock, T_String] (T_Rust K8sInstanceMock)]"

definition service_mock_fns :: "signature list" where
  "service_mock_fns = [
    fn ''get_service_instance'' [T_String, T_String] (T_Rust K8sInstanceMock),
    fn ''list_service_instance'' [T_String] T_Dynamic, fn ''list_services_names'' [] (T_Vec T_String),
    fn ''set_status_crds'' [T_Rust K8sInstanceMock, T_Dynamic] (T_Rust K8sInstanceMock),
    fn ''set_status_crd_failed'' [T_Rust K8sInstanceMock, T_String] (T_Rust K8sInstanceMock)]"

definition system_mock_fns :: "signature list" where
  "system_mock_fns = [
    fn ''get_system_instance'' [T_String, T_String] (T_Rust K8sInstanceMock),
    fn ''list_system_instance'' [T_String] T_Dynamic,
    fn ''set_status_crds'' [T_Rust K8sInstanceMock, T_Dynamic] (T_Rust K8sInstanceMock),
    fn ''set_status_crd_failed'' [T_Rust K8sInstanceMock, T_String] (T_Rust K8sInstanceMock),
    fn ''set_status_systems'' [T_Rust K8sInstanceMock, T_Dynamic] (T_Rust K8sInstanceMock),
    fn ''set_status_system_failed'' [T_Rust K8sInstanceMock, T_String] (T_Rust K8sInstanceMock)]"

definition tenant_mock_fns :: "signature list" where
  "tenant_mock_fns = [
    fn ''get_tenant_instance'' [T_String, T_String] (T_Rust K8sInstanceMock),
    fn ''list_tenant_instance'' [T_String] T_Dynamic, fn ''get_tenant_name'' [T_Rust K8sInstanceMock] T_String,
    fn ''get_tenant_namespaces'' [T_Rust K8sInstanceMock] T_Dynamic,
    fn ''get_tenant_services_names'' [T_Rust K8sInstanceMock] T_Dynamic]"

definition jukebox_mock_fns :: "signature list" where
  "jukebox_mock_fns = [
    fn ''get_jukebox'' [T_String] (T_Rust K8sJukeBoxMock), fn ''list_jukebox'' [] T_Dynamic,
    fn ''set_status_updated'' [T_Rust K8sJukeBoxMock, T_Dynamic] (T_Rust K8sJukeBoxMock),
    fn ''set_status_failed'' [T_Rust K8sJukeBoxMock, T_String] (T_Rust K8sJukeBoxMock),
    fn ''set_status_packages_merge'' [T_Rust K8sJukeBoxMock, T_String, T_Dynamic] (T_Rust K8sJukeBoxMock),
    getter ''metadata'' K8sJukeBoxMock T_Dynamic, getter ''spec'' K8sJukeBoxMock T_Dynamic,
    getter ''status'' K8sJukeBoxMock T_Dynamic]"


text \<open>\<open>register_instance_common\<close> and \<open>register_instance_children\<close> run again for each kind, on the same type.\<close>

definition k8s_mock_fns :: "signature list" where
  "k8s_mock_fns = object_mock_fns @ generic_mock_fns @ raw_mock_fns @ workload_mock_fns @
     service_mock_fns @ instance_mock_common @ instance_mock_children @
     system_mock_fns @ instance_mock_common @
     tenant_mock_fns @ instance_mock_common @ instance_mock_children @ jukebox_mock_fns"

fun binding_fns :: "binding \<Rightarrow> signature list" where
  "binding_fns B_Common = core_fns @ script_fns"
| "binding_fns B_Chrono = chrono_fns"
| "binding_fns B_Hashes = hashes_fns"
| "binding_fns B_Password = password_fns"
| "binding_fns B_Key = key_fns"
| "binding_fns B_Semver = semver_fns"
| "binding_fns B_Yaml = yaml_fns"
| "binding_fns B_Glob = glob_fns"
| "binding_fns B_Oci = oci_fns"
| "binding_fns B_Shell = shell_fns"
| "binding_fns B_Owner = owner_fns"
| "binding_fns B_Yaml_Ordered = yaml_ordered_fns"
| "binding_fns B_Package = package_fns"
| "binding_fns B_Handlebars = handlebars_fns"
| "binding_fns B_Http = http_fns"
| "binding_fns B_S3 = s3_fns"
| "binding_fns B_File_JukeBox = file_jukebox_fns"
| "binding_fns B_Service = service_fns"
| "binding_fns B_System = system_fns"
| "binding_fns B_Tenant = tenant_fns"
| "binding_fns B_JukeBox = jukebox_fns"
| "binding_fns B_K8s_Generic = object_fns @ generic_fns"
| "binding_fns B_K8s_Raw = raw_fns"
| "binding_fns B_K8s_Workload = workload_fns"
| "binding_fns B_Oci_Mock = oci_mock_fns"
| "binding_fns B_Http_Mock = http_mock_fns"
| "binding_fns B_K8s_Mock = k8s_mock_fns"

definition script_sigs :: "script \<Rightarrow> signature list" where
  "script_sigs s = concat (map binding_fns (sr_bindings s))"

text \<open>The name \<open>type_of\<close> answers for a type is the last one it was registered with.\<close>

fun binding_types :: "binding \<Rightarrow> (rust_type \<times> string) list" where
  "binding_types B_Chrono = [(DateTimeHandler, ''DateTimeHandler'')]"
| "binding_types B_Hashes = [(Argon, ''Argon'')]"
| "binding_types B_Semver = [(SemverT, ''Semver'')]"
| "binding_types B_Oci = [(RegistryT, ''Registry'')]"
| "binding_types B_Yaml_Ordered = [(YamlDocT, ''map'')]"
| "binding_types B_Package = [(VynilPackageSource, ''VynilPackage'')]"
| "binding_types B_Handlebars = [(HandleBarsT, ''HandleBars'')]"
| "binding_types B_Http = [(RestClient, ''RestClient'')]"
| "binding_types B_Oci_Mock = [(OciRegistryMock, ''OciRegistryMock'')]"
| "binding_types B_Http_Mock = [(RestClientMock, ''RestClient'')]"
| "binding_types B_Service = [(ServiceInstance, ''ServiceInstance'')]"
| "binding_types B_System = [(SystemInstance, ''SystemInstance'')]"
| "binding_types B_Tenant = [(TenantInstance, ''TenantInstance'')]"
| "binding_types B_JukeBox = [(JukeBoxT, ''JukeBox'')]"
| "binding_types B_File_JukeBox = [(FileJukeBox, ''FileJukeBox'')]"
| "binding_types B_K8s_Generic = [(DynamicObject, ''DynamicObject''), (K8sObject, ''K8sObject''), (K8sGeneric, ''K8sGeneric'')]"
| "binding_types B_K8s_Raw = [(K8sRaw, ''K8sRaw'')]"
| "binding_types B_K8s_Workload =
     [(K8sDeploy, ''K8sDeploy''), (K8sDaemonSet, ''K8sDaemonSet''), (K8sStatefulSet, ''K8sStatefulSet''), (K8sJob, ''K8sJob'')]"
| "binding_types B_K8s_Mock =
     [(DynamicObject, ''DynamicObject''), (K8sObjectMock, ''K8sObject''), (K8sGenericMock, ''K8sGeneric''), (K8sRawMock, ''K8sRaw''),
      (K8sWorkloadMock, ''K8sDeploy''), (K8sWorkloadMock, ''K8sDaemonSet''), (K8sWorkloadMock, ''K8sStatefulSet''),
      (K8sWorkloadMock, ''K8sJob''), (K8sInstanceMock, ''ServiceInstance''), (K8sInstanceMock, ''SystemInstance''),
      (K8sInstanceMock, ''TenantInstance''), (K8sJukeBoxMock, ''JukeBox'')]"
| "binding_types _ = []"

definition type_shown :: "script \<Rightarrow> rust_type \<Rightarrow> string option" where
  "type_shown s = map_of (rev (concat (map binding_types (sr_bindings s))))"

section \<open>The mocks against the real bindings\<close>

text \<open>The type that stands for a real one in a test.\<close>

fun mock_rust :: "rust_type \<Rightarrow> rust_type" where
  "mock_rust RegistryT = OciRegistryMock"
| "mock_rust RestClient = RestClientMock"
| "mock_rust JukeBoxT = K8sJukeBoxMock"
| "mock_rust ServiceInstance = K8sInstanceMock"
| "mock_rust SystemInstance = K8sInstanceMock"
| "mock_rust TenantInstance = K8sInstanceMock"
| "mock_rust K8sObject = K8sObjectMock"
| "mock_rust K8sGeneric = K8sGenericMock"
| "mock_rust K8sRaw = K8sRawMock"
| "mock_rust K8sDeploy = K8sWorkloadMock"
| "mock_rust K8sDaemonSet = K8sWorkloadMock"
| "mock_rust K8sStatefulSet = K8sWorkloadMock"
| "mock_rust K8sJob = K8sWorkloadMock"
| "mock_rust t = t"

fun mock_type :: "rtype \<Rightarrow> rtype" where
  "mock_type (T_Rust t) = T_Rust (mock_rust t)"
| "mock_type (T_Vec t) = T_Vec (mock_type t)"
| "mock_type t = t"

definition stands_for :: "signature \<Rightarrow> signature \<Rightarrow> bool" where
  "stands_for m s \<longleftrightarrow> fst (fst m) = fst (fst s) \<and>
     list_all2 (\<lambda>q p. q = T_Dynamic \<or> q = mock_type p) (snd (fst m)) (snd (fst s))"

definition covered :: "signature list \<Rightarrow> signature list \<Rightarrow> bool" where
  "covered sigs ms \<longleftrightarrow> list_all (\<lambda>s. list_ex (\<lambda>m. stands_for m s) ms) sigs"

lemma covered_append: "covered (as @ bs) ms \<longleftrightarrow> covered as ms \<and> covered bs ms"
  by (simp add: covered_def)

lemma covered_mono: "covered as ms \<Longrightarrow> set ms \<subseteq> set ns \<Longrightarrow> covered as ns"
  by (auto simp: covered_def list_all_iff list_ex_iff)

lemma takes_stands_for:
  assumes "list_all2 (\<lambda>q p. q = T_Dynamic \<or> q = mock_type p) qs ps" and "takes ps args"
  shows "takes qs (map mock_type args)"
  using assms unfolding takes_def
  by (induction qs ps arbitrary: args rule: list_all2_induct) (auto simp: list_all2_Cons1)

lemma covered_callable:
  assumes "covered sigs ms" and "callable sigs name args"
  shows "callable ms name (map mock_type args)"
proof -
  obtain ps r where s: "((name, ps), r) \<in> set sigs" "takes ps args"
    using assms(2) unfolding callable_def list_ex_iff by (metis prod.collapse)
  from assms(1) have "\<forall>s \<in> set sigs. \<exists>m \<in> set ms. stands_for m s"
    by (simp add: covered_def list_all_iff list_ex_iff)
  with s(1) obtain m where m: "m \<in> set ms" "stands_for m ((name, ps), r)" by blast
  obtain n qs q where e: "m = ((n, qs), q)" by (metis prod.collapse)
  with m(2) have n: "n = name" "list_all2 (\<lambda>q p. q = T_Dynamic \<or> q = mock_type p) qs ps"
    by (simp_all add: stands_for_def)
  from takes_stands_for [OF n(2) s(2)] m(1) e n(1) show ?thesis
    unfolding callable_def list_ex_iff by (intro bexI [of _ m]) simp_all
qed

text \<open>A signature of the types both engines have stands for itself.\<close>

lemma stands_for_self: "list_all (\<lambda>p. mock_type p = p) (snd (fst s)) \<Longrightarrow> stands_for s s"
  by (auto simp: stands_for_def list_all_length list_all2_conv_all_nth)

definition plain :: "signature list \<Rightarrow> bool" where
  "plain sigs \<longleftrightarrow> list_all (\<lambda>s. list_all (\<lambda>p. mock_type p = p) (snd (fst s))) sigs"

lemma plain_covered: "plain sigs \<Longrightarrow> covered sigs sigs"
  unfolding plain_def covered_def list_all_iff [of _ sigs] list_ex_iff
  using stands_for_self by blast

lemmas table_simps = covered_def stands_for_def plain_def fn_def getter_def

lemmas shared_tables = core_fns_def script_fns_def chrono_fns_def hashes_fns_def password_fns_def key_fns_def
  semver_fns_def yaml_fns_def glob_fns_def shell_fns_def owner_fns_def yaml_ordered_fns_def package_fns_def
  handlebars_fns_def

lemma shared_plain:
  "plain core_fns" "plain script_fns" "plain chrono_fns" "plain hashes_fns" "plain password_fns" "plain key_fns"
  "plain semver_fns" "plain yaml_fns" "plain glob_fns" "plain shell_fns" "plain owner_fns" "plain yaml_ordered_fns"
  "plain package_fns" "plain handlebars_fns"
  by (simp_all add: table_simps shared_tables)

lemma oci_covered: "covered oci_fns (oci_fns @ oci_mock_fns)"
  by (simp add: table_simps oci_fns_def oci_mock_fns_def)

lemma workload_covered: "covered workload_fns workload_mock_fns"
  by (simp add: table_simps workload_fns_def workload_mock_fns_def)

lemma raw_covered: "covered raw_fns raw_mock_fns"
  by (simp add: table_simps raw_fns_def raw_mock_fns_def)

lemma object_covered: "covered object_fns object_mock_fns"
  by (simp add: table_simps object_fns_def object_mock_fns_def)

lemma generic_covered: "covered generic_fns generic_mock_fns"
  by (simp add: table_simps generic_fns_def generic_mock_fns_def)

lemma jukebox_covered: "covered jukebox_fns jukebox_mock_fns"
  by (simp add: table_simps jukebox_fns_def jukebox_mock_fns_def)

lemma service_covered: "covered service_fns (service_mock_fns @ instance_mock_common @ instance_mock_children)"
  by (simp add: table_simps service_fns_def service_mock_fns_def instance_mock_common_def instance_mock_children_def)

lemma system_covered: "covered system_fns (system_mock_fns @ instance_mock_common)"
  by (simp add: table_simps system_fns_def system_mock_fns_def instance_mock_common_def)

lemma tenant_covered: "covered tenant_fns (tenant_mock_fns @ instance_mock_common @ instance_mock_children)"
  by (simp add: table_simps tenant_fns_def tenant_mock_fns_def instance_mock_common_def instance_mock_children_def)

text \<open>The functions of the agent no test can call.\<close>

definition unmocked :: "string list" where
  "unmocked = [''http_get_yaml'', ''s3_get_yaml'', ''s3_list_keys'']"

lemma http_covered: "covered (filter (\<lambda>s. fst (fst s) \<notin> set unmocked) http_fns) http_mock_fns"
  by (simp add: table_simps http_fns_def http_mock_fns_def unmocked_def)

lemma s3_unmocked: "filter (\<lambda>s. fst (fst s) \<notin> set unmocked) s3_fns = []"
  by (simp add: table_simps s3_fns_def unmocked_def)

section \<open>A test can call what the agent can\<close>

lemma covered_concat: "covered (concat xss) ms \<longleftrightarrow> list_all (\<lambda>xs. covered xs ms) xss"
  by (induction xss) (simp_all add: covered_append, simp add: covered_def)

definition mocked :: "signature list \<Rightarrow> signature list" where
  "mocked sigs = filter (\<lambda>s. fst (fst s) \<notin> set unmocked) sigs"

lemma mocked_callable:
  "callable sigs name args \<Longrightarrow> name \<notin> set unmocked \<Longrightarrow> callable (mocked sigs) name args"
  unfolding callable_def mocked_def list_ex_iff by (auto, blast)

lemma mocked_covered: "covered sigs ms \<Longrightarrow> covered (mocked sigs) ms"
  by (auto simp: covered_def mocked_def list_all_iff)

lemma mocked_append: "mocked (as @ bs) = mocked as @ mocked bs"
  by (simp add: mocked_def)

lemmas script_tables = script_sigs_def script_new_def script_new_mock_def script_new_core_def script_new_bare_def
  register_def

lemma shared_covered: "covered sigs ms" if "plain sigs" "set sigs \<subseteq> set ms"
  using covered_mono [OF plain_covered [OF that(1)] that(2)] .

lemma agent_covered: "covered (mocked (script_sigs (script_new path))) (script_sigs (script_new_mock path))"
proof -
  let ?m = "script_sigs (script_new_mock path)"
  have sub: "set core_fns \<union> set script_fns \<union> set chrono_fns \<union> set hashes_fns \<union> set password_fns \<union> set key_fns \<union>
      set semver_fns \<union> set yaml_fns \<union> set glob_fns \<union> set oci_fns \<union> set shell_fns \<union> set owner_fns \<union>
      set yaml_ordered_fns \<union> set package_fns \<union> set handlebars_fns \<union> set oci_mock_fns \<union> set http_mock_fns \<union>
      set k8s_mock_fns \<subseteq> set ?m"
    by (simp add: script_tables) blast
  have k: "set object_mock_fns \<union> set generic_mock_fns \<union> set raw_mock_fns \<union> set workload_mock_fns \<union>
      set service_mock_fns \<union> set instance_mock_common \<union> set instance_mock_children \<union> set system_mock_fns \<union>
      set tenant_mock_fns \<union> set jukebox_mock_fns \<subseteq> set ?m"
    using sub by (auto simp: k8s_mock_fns_def)
  have shared: "covered core_fns ?m" "covered script_fns ?m" "covered chrono_fns ?m" "covered hashes_fns ?m"
      "covered password_fns ?m" "covered key_fns ?m" "covered semver_fns ?m" "covered yaml_fns ?m"
      "covered glob_fns ?m" "covered shell_fns ?m" "covered owner_fns ?m" "covered yaml_ordered_fns ?m"
      "covered package_fns ?m" "covered handlebars_fns ?m"
    using sub by (auto intro!: shared_covered shared_plain)
  have own: "covered oci_fns ?m" "covered workload_fns ?m" "covered raw_fns ?m" "covered object_fns ?m"
      "covered generic_fns ?m" "covered jukebox_fns ?m" "covered service_fns ?m" "covered system_fns ?m"
      "covered tenant_fns ?m" "covered (mocked http_fns) ?m"
    using covered_mono [OF oci_covered, of ?m] covered_mono [OF workload_covered, of ?m]
      covered_mono [OF raw_covered, of ?m] covered_mono [OF object_covered, of ?m]
      covered_mono [OF generic_covered, of ?m] covered_mono [OF jukebox_covered, of ?m]
      covered_mono [OF service_covered, of ?m] covered_mono [OF system_covered, of ?m]
      covered_mono [OF tenant_covered, of ?m] covered_mono [OF http_covered, of ?m] sub k
    by (simp_all add: mocked_def)
  have "mocked s3_fns = []" using s3_unmocked by (simp add: mocked_def)
  moreover have "script_sigs (script_new path) = core_fns @ script_fns @ chrono_fns @ hashes_fns @ password_fns @
      key_fns @ semver_fns @ yaml_fns @ glob_fns @ oci_fns @ shell_fns @ owner_fns @ yaml_ordered_fns @ package_fns @
      handlebars_fns @ http_fns @ s3_fns @ service_fns @ system_fns @ tenant_fns @ jukebox_fns @ object_fns @
      generic_fns @ raw_fns @ workload_fns"
    by (simp add: script_tables)
  ultimately show ?thesis
    using shared own by (simp add: mocked_append covered_append mocked_covered)
qed

lemma unmocked_absent: "list_all (\<lambda>s. fst (fst s) \<notin> set unmocked) (script_sigs (script_new_mock path))"
  by (simp add: script_tables k8s_mock_fns_def shared_tables oci_fns_def oci_mock_fns_def http_mock_fns_def
      object_mock_fns_def generic_mock_fns_def raw_mock_fns_def workload_mock_fns_def service_mock_fns_def
      system_mock_fns_def tenant_mock_fns_def jukebox_mock_fns_def instance_mock_common_def
      instance_mock_children_def unmocked_def fn_def getter_def)

text \<open>C22: A call the agent can make can be made in a package test, with the mocks as arguments, except for the three
  functions that fetch from the network without the HTTP client, which no test can call.\<close>

theorem tests_call_what_agent_calls:
  assumes "callable (script_sigs (script_new path)) name args"
  shows "callable (script_sigs (script_new_mock path')) name (map mock_type args) \<longleftrightarrow> name \<notin> set unmocked"
proof -
  have "script_sigs (script_new_mock path') = script_sigs (script_new_mock path)"
    by (simp add: script_tables)
  moreover have "\<not> callable (script_sigs (script_new_mock path)) name as" if "name \<in> set unmocked" for as
    using unmocked_absent [of path] that by (auto simp: callable_def list_all_iff list_ex_iff)
  ultimately show ?thesis
    using covered_callable [OF agent_covered mocked_callable [OF assms]] by metis
qed

lemma callable_append [simp]: "callable (as @ bs) name args \<longleftrightarrow> callable as name args \<or> callable bs name args"
  by (simp add: callable_def)

theorem tests_call_what_agent_calls_witness:
  "callable (script_sigs (script_new_mock [])) ''shell_run'' (map mock_type [T_String]) \<longleftrightarrow> ''shell_run'' \<notin> set unmocked"
proof (rule tests_call_what_agent_calls)
  have "callable shell_fns ''shell_run'' [T_String]"
    by (simp add: callable_def shell_fns_def fn_def takes_def)
  then show "callable (script_sigs (script_new [])) ''shell_run'' [T_String]"
    by (simp add: script_tables)
qed

text \<open>The methods of a type: the functions whose first parameter it is.\<close>

definition methods :: "signature list \<Rightarrow> rust_type \<Rightarrow> string list" where
  "methods sigs t = map (\<lambda>s. fst (fst s)) (filter (\<lambda>s. (case snd (fst s) of p # _ \<Rightarrow> p = T_Rust t | [] \<Rightarrow> False)) sigs)"

lemma methods_append [simp]: "methods (as @ bs) t = methods as t @ methods bs t"
  by (simp add: methods_def)

lemmas no_instances = shared_tables oci_fns_def http_fns_def s3_fns_def jukebox_fns_def object_fns_def generic_fns_def
  raw_fns_def workload_fns_def oci_mock_fns_def http_mock_fns_def object_mock_fns_def generic_mock_fns_def
  raw_mock_fns_def workload_mock_fns_def jukebox_mock_fns_def

lemma shared_methods:
  assumes "t \<in> {ServiceInstance, SystemInstance, TenantInstance, K8sInstanceMock}"
  shows "methods core_fns t = []" "methods script_fns t = []" "methods chrono_fns t = []" "methods hashes_fns t = []"
    "methods password_fns t = []" "methods key_fns t = []" "methods semver_fns t = []" "methods yaml_fns t = []"
    "methods glob_fns t = []" "methods shell_fns t = []" "methods owner_fns t = []" "methods yaml_ordered_fns t = []"
    "methods package_fns t = []" "methods handlebars_fns t = []" "methods oci_fns t = []" "methods http_fns t = []"
    "methods s3_fns t = []" "methods jukebox_fns t = []" "methods object_fns t = []" "methods generic_fns t = []"
    "methods raw_fns t = []" "methods workload_fns t = []" "methods oci_mock_fns t = []" "methods http_mock_fns t = []"
    "methods object_mock_fns t = []" "methods generic_mock_fns t = []" "methods raw_mock_fns t = []"
    "methods workload_mock_fns t = []" "methods jukebox_mock_fns t = []"
  using assms by (auto simp: methods_def no_instances fn_def getter_def)

lemma kind_methods:
  "methods service_fns TenantInstance = []" "methods service_fns SystemInstance = []"
  "methods system_fns TenantInstance = []" "methods system_fns ServiceInstance = []"
  "methods tenant_fns ServiceInstance = []" "methods tenant_fns SystemInstance = []"
  by (simp_all add: methods_def service_fns_def system_fns_def tenant_fns_def fn_def getter_def)

lemma agent_methods:
  "methods (script_sigs (script_new path)) ServiceInstance = methods service_fns ServiceInstance"
  "methods (script_sigs (script_new path)) SystemInstance = methods system_fns SystemInstance"
  "methods (script_sigs (script_new path)) TenantInstance = methods tenant_fns TenantInstance"
  by (simp_all add: script_tables shared_methods kind_methods)

lemma mock_methods:
  "set (methods (script_sigs (script_new_mock path)) K8sInstanceMock) =
     set (methods service_mock_fns K8sInstanceMock) \<union> set (methods system_mock_fns K8sInstanceMock) \<union>
     set (methods tenant_mock_fns K8sInstanceMock) \<union> set (methods instance_mock_common K8sInstanceMock) \<union>
     set (methods instance_mock_children K8sInstanceMock)"
  by (simp add: script_tables k8s_mock_fns_def shared_methods) blast

text \<open>A test cannot tell the kinds of instances apart: its one type has the methods of all three, so a script that
  calls on a system instance what only the others have passes its tests and fails in the agent, and the name of the
  type of every instance is that of a tenant instance.\<close>

theorem tests_merge_instance_kinds:
  "set (methods (script_sigs (script_new_mock path)) K8sInstanceMock) =
     set (methods (script_sigs (script_new path)) ServiceInstance) \<union>
     set (methods (script_sigs (script_new path)) SystemInstance) \<union>
     set (methods (script_sigs (script_new path)) TenantInstance) \<and>
   ''set_missing_init_version'' \<in> set (methods (script_sigs (script_new_mock path)) K8sInstanceMock) \<and>
   ''set_missing_init_version'' \<notin> set (methods (script_sigs (script_new path)) SystemInstance) \<and>
   type_shown (script_new_mock path) (mock_rust SystemInstance) = Some ''TenantInstance'' \<and>
   type_shown (script_new path) SystemInstance = Some ''SystemInstance''"
proof -
  note defs = methods_def service_mock_fns_def system_mock_fns_def tenant_mock_fns_def instance_mock_common_def
    instance_mock_children_def service_fns_def system_fns_def tenant_fns_def fn_def getter_def
  have "set (methods service_fns ServiceInstance) \<union> set (methods system_fns SystemInstance) \<union>
      set (methods tenant_fns TenantInstance) \<subseteq>
      set (methods service_mock_fns K8sInstanceMock) \<union> set (methods system_mock_fns K8sInstanceMock) \<union>
      set (methods tenant_mock_fns K8sInstanceMock) \<union> set (methods instance_mock_common K8sInstanceMock) \<union>
      set (methods instance_mock_children K8sInstanceMock)"
    by (simp add: defs)
  moreover have "set (methods service_mock_fns K8sInstanceMock) \<union> set (methods system_mock_fns K8sInstanceMock) \<union>
      set (methods tenant_mock_fns K8sInstanceMock) \<union> set (methods instance_mock_common K8sInstanceMock) \<union>
      set (methods instance_mock_children K8sInstanceMock) \<subseteq>
      set (methods service_fns ServiceInstance) \<union> set (methods system_fns SystemInstance) \<union>
      set (methods tenant_fns TenantInstance)"
    by (simp add: defs)
  moreover have "''set_missing_init_version'' \<in> set (methods instance_mock_common K8sInstanceMock)"
      "''set_missing_init_version'' \<notin> set (methods system_fns SystemInstance)"
    by (simp_all add: defs)
  moreover have "type_shown (script_new_mock path) (mock_rust SystemInstance) = Some ''TenantInstance''"
      "type_shown (script_new path) SystemInstance = Some ''SystemInstance''"
    by (simp_all add: type_shown_def script_tables)
  ultimately show ?thesis unfolding agent_methods mock_methods by blast
qed

end
