(* ===== verification/InstanceScript.thy ===== *)
theory InstanceScript
  imports ScriptRegistry InstanceLaws Requirements
begin

text \<open>
  What a script does to its instance: the \<open>rhai_\<close> wrappers that the macros of \<open>common/src/instance_macros.rs\<close> generate
  and those written in \<open>instancetenant.rs\<close>, \<open>instancesystem.rs\<close> and \<open>jukebox.rs\<close>. A wrapper decodes its arguments,
  runs the operation of \<open>Instance\<close>, and hands a failure to the script as a text; a panic ends the process.
\<close>

section \<open>Scripts and errors\<close>

datatype script_error = Thrown string | Aborted string

type_synonym ('w, 'a) wrapped = "'w \<Rightarrow> (script_error + 'a) \<times> 'w"

text \<open>
  The JSON text of a value and its parser, the text of a value that does not have the type of an argument, the
  details of the errors that carry none in the model.
\<close>

record script_codec =
  sk_to_text :: "json \<Rightarrow> string + string"
  sk_of_text :: "string \<Rightarrow> string + json"
  sk_mismatch :: "json \<Rightarrow> string"
  sk_detail :: "verror \<Rightarrow> string"

definition kube_error_show :: "kube_error \<Rightarrow> string" where
  "kube_error_show e = (case e of KApi s \<Rightarrow> s | KOther s \<Rightarrow> s)"

fun verror_show :: "script_codec \<Rightarrow> verror \<Rightarrow> string" where
  "verror_show k (KubeError e) = ''K8s error: '' @ kube_error_show e"
| "verror_show k (KubeWaitError e) = ''K8s wait error: '' @ e"
| "verror_show k Elapsed = ''Elapsed wait error: '' @ sk_detail k Elapsed"
| "verror_show k (SerializationError e) = ''SerializationError: '' @ e"
| "verror_show k (JsonError e) = ''Json decoding error: '' @ e"
| "verror_show k (YamlError e) = ''YamlError: '' @ e"
| "verror_show k (HbsRenderError e) = ''Renderer error: '' @ e"
| "verror_show k (RhaiError e) = ''Rhai script error: '' @ e"
| "verror_show k (SemverError e) = ''Semver error '' @ e"
| "verror_show k (Stdio e) = ''Stdio error '' @ e"
| "verror_show k (Base64DecodeError e) = ''Base64 decode error '' @ e"
| "verror_show k UTF8 = ''UTF8 error '' @ sk_detail k UTF8"
| "verror_show k ParseInt = ''ParseIntError '' @ sk_detail k ParseInt"
| "verror_show k (OCIDistrib e) = ''OCI jukebox error '' @ e"
| "verror_show k (MissingInitVersion v) = ''INIT-VERSION-001 Init version '' @ v @ '' not found in registry''"
| "verror_show k (Other e) = ''Error: '' @ e"
| "verror_show k (TestFailure f n) = ''Tests failed: '' @ dec f @ '' failed out of '' @ dec n @ '' assertions''"
| "verror_show k (MissingTestDirectory p) = ''Missing tests directory '' @ p"
| "verror_show k (MissingDestination p) = ''Missing destination directory for '' @ p"
| "verror_show k (MissingScript p) = ''Missing script '' @ p"
| "verror_show k (Panicked m) = m"

definition rhai_err :: "script_codec \<Rightarrow> verror \<Rightarrow> script_error" where
  "rhai_err k e = (case e of Panicked m \<Rightarrow> Aborted m | _ \<Rightarrow> Thrown (verror_show k e))"

definition rhai :: "script_codec \<Rightarrow> ('w, 'a) io \<Rightarrow> ('w, 'a) wrapped" where
  "rhai k m w = (case m w of (Inl e, w') \<Rightarrow> (Inl (rhai_err k e), w') | (Inr a, w') \<Rightarrow> (Inr a, w'))"

section \<open>Values of scripts\<close>

text \<open>
  The derived decoders of \<open>serde\<close>: an option may be missing or null, a structure may be an object, whose other
  members are ignored, or the array of all its fields.
\<close>

definition opt_member :: "(json \<Rightarrow> 'a option) \<Rightarrow> json option \<Rightarrow> 'a option option" where
  "opt_member d v =
     (case v of None \<Rightarrow> Some None | Some JNull \<Rightarrow> Some None | Some x \<Rightarrow> map_option Some (d x))"

fun all_some :: "'a option list \<Rightarrow> 'a list option" where
  "all_some [] = Some []"
| "all_some (None # xs) = None"
| "all_some (Some x # xs) = map_option (\<lambda>ys. x # ys) (all_some xs)"

definition list_of_json :: "(json \<Rightarrow> 'a option) \<Rightarrow> json \<Rightarrow> 'a list option" where
  "list_of_json d v = Option.bind (as_array v) (\<lambda>xs. all_some (map d xs))"

definition child_of :: "json option \<Rightarrow> json option \<Rightarrow> json option \<Rightarrow> json option \<Rightarrow> child option" where
  "child_of av ki na ns =
     Option.bind (opt_member as_str av) (\<lambda>a.
     Option.bind (Option.bind ki as_str) (\<lambda>kd.
     Option.bind (Option.bind na as_str) (\<lambda>n.
     Option.bind (opt_member as_str ns) (\<lambda>s.
       Some \<lparr>ch_api_version = a, ch_kind = kd, ch_name = n, ch_namespace = s\<rparr>))))"

definition child_of_json :: "json \<Rightarrow> child option" where
  "child_of_json v =
     (case v of
        JObj m \<Rightarrow> child_of (obj_get m ''apiVersion'') (obj_get m ''kind'') (obj_get m ''name'') (obj_get m ''namespace'')
      | JArr [av, ki, na, ns] \<Rightarrow> child_of (Some av) (Some ki) (Some na) (Some ns)
      | _ \<Rightarrow> None)"

definition opt_json :: "('a \<Rightarrow> json) \<Rightarrow> 'a option \<Rightarrow> json" where
  "opt_json f v = (case v of Some x \<Rightarrow> f x | None \<Rightarrow> JNull)"

definition child_to_json :: "child \<Rightarrow> json" where
  "child_to_json c = JObj [(''apiVersion'', opt_json JStr (ch_api_version c)), (''kind'', JStr (ch_kind c)),
     (''name'', JStr (ch_name c)), (''namespace'', opt_json JStr (ch_namespace c))]"

definition u32_of_json :: "json \<Rightarrow> 32 word option" where
  "u32_of_json v = (case v of JNum (PosInt n) \<Rightarrow> if n < 2 ^ 32 then Some (of_nat n) else None | _ \<Rightarrow> None)"

definition global_of :: "json option \<Rightarrow> json option \<Rightarrow> global_published option" where
  "global_of f p =
     Option.bind (Option.bind f as_str) (\<lambda>fq. Option.bind (Option.bind p u32_of_json) (\<lambda>po.
       Some \<lparr>gp_fqdn = fq, gp_port = po\<rparr>))"

definition global_of_json :: "json \<Rightarrow> global_published option" where
  "global_of_json v =
     (case v of JObj m \<Rightarrow> global_of (obj_get m ''fqdn'') (obj_get m ''port'')
      | JArr [f, p] \<Rightarrow> global_of (Some f) (Some p) | _ \<Rightarrow> None)"

definition published_of :: "json option \<Rightarrow> json option \<Rightarrow> json option \<Rightarrow> json option \<Rightarrow> published option" where
  "published_of ky te se de =
     Option.bind (Option.bind ky as_str) (\<lambda>key.
     Option.bind (opt_member as_str te) (\<lambda>tenant.
     Option.bind (opt_member global_of_json se) (\<lambda>service.
     Option.bind (opt_member child_of_json de) (\<lambda>def.
       Some \<lparr>pub_key = key, pub_tenant = tenant, pub_service = service, pub_definition = def\<rparr>))))"

definition published_of_json :: "json \<Rightarrow> published option" where
  "published_of_json v =
     (case v of
        JObj m \<Rightarrow> published_of (obj_get m ''key'') (obj_get m ''tenant'') (obj_get m ''service'') (obj_get m ''definition'')
      | JArr [ky, te, se, de] \<Rightarrow> published_of (Some ky) (Some te) (Some se) (Some de)
      | _ \<Rightarrow> None)"

definition global_to_json :: "global_published \<Rightarrow> json" where
  "global_to_json g = JObj [(''fqdn'', JStr (gp_fqdn g)), (''port'', JNum (PosInt (unat (gp_port g))))]"

definition published_to_json :: "published \<Rightarrow> json" where
  "published_to_json p = JObj [(''definition'', opt_json child_to_json (pub_definition p)), (''key'', JStr (pub_key p)),
     (''service'', opt_json global_to_json (pub_service p)), (''tenant'', opt_json JStr (pub_tenant p))]"

definition children_list :: "json \<Rightarrow> child list option" where
  "children_list = list_of_json child_of_json"

definition published_list :: "json \<Rightarrow> published list option" where
  "published_list = list_of_json published_of_json"

definition text_list :: "json \<Rightarrow> string list option" where
  "text_list = list_of_json as_str"

text \<open>A value goes to the operation through its JSON text.\<close>

definition value_arg :: "script_codec \<Rightarrow> (json \<Rightarrow> 'a option) \<Rightarrow> json \<Rightarrow> 'a result" where
  "value_arg k d v =
     (case sk_to_text k v of
        Inl e \<Rightarrow> Inl (SerializationError e)
      | Inr s \<Rightarrow>
          (case sk_of_text k s of
             Inl e \<Rightarrow> Inl (SerializationError e)
           | Inr u \<Rightarrow> (case d u of Some x \<Rightarrow> Inr x | None \<Rightarrow> Inl (SerializationError (sk_mismatch k u)))))"

section \<open>\<open>impl_instance_common!\<close>\<close>

definition rhai_get_tfstate :: "script_codec \<Rightarrow> 'w cluster \<Rightarrow> instance_obj \<Rightarrow> ('w, string) wrapped" where
  "rhai_get_tfstate k cl self =
     rhai k (io_lift (result_bind (get_tfstate cl self) (\<lambda>r. Inr (case r of Some s \<Rightarrow> s | None \<Rightarrow> []))))"

definition rhai_get_rhaistate :: "script_codec \<Rightarrow> 'w cluster \<Rightarrow> instance_obj \<Rightarrow> ('w, string) wrapped" where
  "rhai_get_rhaistate k cl self =
     rhai k (io_lift (result_bind (get_rhaistate cl self) (\<lambda>r. Inr (case r of Some s \<Rightarrow> s | None \<Rightarrow> []))))"

definition rhai_set_status_ready ::
  "script_codec \<Rightarrow> 'w cluster \<Rightarrow> instance_obj \<Rightarrow> string \<Rightarrow> ('w, instance_obj) wrapped" where
  "rhai_set_status_ready k cl self tag = rhai k
     (if in_kind self = System then system_set_status_ready cl self tag else set_status_ready cl self tag)"

definition rhai_set_tfstate ::
  "script_codec \<Rightarrow> 'w cluster \<Rightarrow> instance_obj \<Rightarrow> string \<Rightarrow> ('w, instance_obj) wrapped" where
  "rhai_set_tfstate k cl self tfstate = rhai k (set_tfstate cl self tfstate)"

definition rhai_set_status_tofu_failed ::
  "script_codec \<Rightarrow> 'w cluster \<Rightarrow> instance_obj \<Rightarrow> string \<Rightarrow> string \<Rightarrow> ('w, instance_obj) wrapped" where
  "rhai_set_status_tofu_failed k cl self tfstate reason = rhai k (set_status_tofu_failed cl self tfstate reason)"

definition rhai_set_rhaistate ::
  "script_codec \<Rightarrow> 'w cluster \<Rightarrow> instance_obj \<Rightarrow> string \<Rightarrow> ('w, instance_obj) wrapped" where
  "rhai_set_rhaistate k cl self rhaistate = rhai k (set_rhaistate cl self rhaistate)"

definition rhai_set_status_rhai_failed ::
  "script_codec \<Rightarrow> 'w cluster \<Rightarrow> instance_obj \<Rightarrow> string \<Rightarrow> string \<Rightarrow> ('w, instance_obj) wrapped" where
  "rhai_set_status_rhai_failed k cl self rhaistate reason = rhai k (set_status_rhai_failed cl self rhaistate reason)"

definition rhai_set_agent_started ::
  "script_codec \<Rightarrow> 'w cluster \<Rightarrow> instance_obj \<Rightarrow> ('w, instance_obj) wrapped" where
  "rhai_set_agent_started k cl self = rhai k (set_agent_started cl self)"

definition rhai_set_missing_box ::
  "script_codec \<Rightarrow> 'w cluster \<Rightarrow> instance_obj \<Rightarrow> string \<Rightarrow> ('w, instance_obj) wrapped" where
  "rhai_set_missing_box k cl self jukebox = rhai k (set_missing_box cl self jukebox)"

definition rhai_set_missing_package ::
  "script_codec \<Rightarrow> 'w cluster \<Rightarrow> instance_obj \<Rightarrow> string \<Rightarrow> string \<Rightarrow> ('w, instance_obj) wrapped" where
  "rhai_set_missing_package k cl self category pkg = rhai k (set_missing_package cl self category pkg)"

definition rhai_set_missing_requirement ::
  "script_codec \<Rightarrow> 'w cluster \<Rightarrow> instance_obj \<Rightarrow> string \<Rightarrow> ('w, instance_obj) wrapped" where
  "rhai_set_missing_requirement k cl self reason = rhai k (set_missing_requirement cl self reason)"

section \<open>\<open>impl_instance_befores!\<close>\<close>

definition rhai_get_services :: "instance_obj \<Rightarrow> string" where
  "rhai_get_services self = get_services_string self"

definition rhai_set_services ::
  "script_codec \<Rightarrow> 'w cluster \<Rightarrow> instance_obj \<Rightarrow> json \<Rightarrow> ('w, instance_obj) wrapped" where
  "rhai_set_services k cl self list = rhai k (io_bind (io_lift (value_arg k published_list list)) (set_services cl self))"

definition rhai_set_status_befores ::
  "script_codec \<Rightarrow> 'w cluster \<Rightarrow> instance_obj \<Rightarrow> json \<Rightarrow> ('w, instance_obj) wrapped" where
  "rhai_set_status_befores k cl self list = rhai k (io_bind (io_lift (value_arg k children_list list)) (set_status_befores cl self))"

definition rhai_set_status_before_failed ::
  "script_codec \<Rightarrow> 'w cluster \<Rightarrow> instance_obj \<Rightarrow> string \<Rightarrow> ('w, instance_obj) wrapped" where
  "rhai_set_status_before_failed k cl self reason = rhai k (set_status_before_failed cl self reason)"

definition rhai_set_status_vitals ::
  "script_codec \<Rightarrow> 'w cluster \<Rightarrow> instance_obj \<Rightarrow> json \<Rightarrow> ('w, instance_obj) wrapped" where
  "rhai_set_status_vitals k cl self list = rhai k (io_bind (io_lift (value_arg k children_list list)) (set_status_vitals cl self))"

definition rhai_set_status_vital_failed ::
  "script_codec \<Rightarrow> 'w cluster \<Rightarrow> instance_obj \<Rightarrow> string \<Rightarrow> ('w, instance_obj) wrapped" where
  "rhai_set_status_vital_failed k cl self reason = rhai k (set_status_vital_failed cl self reason)"

definition rhai_set_status_scalables ::
  "script_codec \<Rightarrow> 'w cluster \<Rightarrow> instance_obj \<Rightarrow> json \<Rightarrow> ('w, instance_obj) wrapped" where
  "rhai_set_status_scalables k cl self list = rhai k (io_bind (io_lift (value_arg k children_list list)) (set_status_scalables cl self))"

definition rhai_set_status_scalable_failed ::
  "script_codec \<Rightarrow> 'w cluster \<Rightarrow> instance_obj \<Rightarrow> string \<Rightarrow> ('w, instance_obj) wrapped" where
  "rhai_set_status_scalable_failed k cl self reason = rhai k (set_status_scalable_failed cl self reason)"

definition rhai_set_status_others ::
  "script_codec \<Rightarrow> 'w cluster \<Rightarrow> instance_obj \<Rightarrow> json \<Rightarrow> ('w, instance_obj) wrapped" where
  "rhai_set_status_others k cl self list = rhai k (io_bind (io_lift (value_arg k children_list list)) (set_status_others cl self))"

definition rhai_set_status_other_failed ::
  "script_codec \<Rightarrow> 'w cluster \<Rightarrow> instance_obj \<Rightarrow> string \<Rightarrow> ('w, instance_obj) wrapped" where
  "rhai_set_status_other_failed k cl self reason = rhai k (set_status_other_failed cl self reason)"

definition rhai_set_status_posts ::
  "script_codec \<Rightarrow> 'w cluster \<Rightarrow> instance_obj \<Rightarrow> json \<Rightarrow> ('w, instance_obj) wrapped" where
  "rhai_set_status_posts k cl self list = rhai k (io_bind (io_lift (value_arg k children_list list)) (set_status_posts cl self))"

definition rhai_set_status_post_failed ::
  "script_codec \<Rightarrow> 'w cluster \<Rightarrow> instance_obj \<Rightarrow> string \<Rightarrow> ('w, instance_obj) wrapped" where
  "rhai_set_status_post_failed k cl self reason = rhai k (set_status_post_failed cl self reason)"

definition rhai_set_status_init_failed ::
  "script_codec \<Rightarrow> 'w cluster \<Rightarrow> instance_obj \<Rightarrow> string \<Rightarrow> ('w, instance_obj) wrapped" where
  "rhai_set_status_init_failed k cl self reason = rhai k (set_status_init_failed cl self reason)"

definition rhai_set_status_schedule_backup_failed ::
  "script_codec \<Rightarrow> 'w cluster \<Rightarrow> instance_obj \<Rightarrow> string \<Rightarrow> ('w, instance_obj) wrapped" where
  "rhai_set_status_schedule_backup_failed k cl self reason = rhai k (set_status_schedule_backup_failed cl self reason)"

definition rhai_set_missing_init_version ::
  "script_codec \<Rightarrow> 'w cluster \<Rightarrow> instance_obj \<Rightarrow> string \<Rightarrow> ('w, instance_obj) wrapped" where
  "rhai_set_missing_init_version k cl self ver = rhai k (set_missing_init_version cl self ver)"

section \<open>\<open>impl_instance_crds!\<close> and the system instance\<close>

definition rhai_set_status_crds ::
  "script_codec \<Rightarrow> 'w cluster \<Rightarrow> instance_obj \<Rightarrow> json \<Rightarrow> ('w, instance_obj) wrapped" where
  "rhai_set_status_crds k cl self list = rhai k (io_bind (io_lift (value_arg k text_list list)) (set_status_crds cl self))"

definition rhai_set_status_crd_failed ::
  "script_codec \<Rightarrow> 'w cluster \<Rightarrow> instance_obj \<Rightarrow> string \<Rightarrow> ('w, instance_obj) wrapped" where
  "rhai_set_status_crd_failed k cl self reason = rhai k (set_status_crd_failed cl self reason)"

definition rhai_set_status_systems ::
  "script_codec \<Rightarrow> 'w cluster \<Rightarrow> instance_obj \<Rightarrow> json \<Rightarrow> ('w, instance_obj) wrapped" where
  "rhai_set_status_systems k cl self list = rhai k (io_bind (io_lift (value_arg k children_list list)) (set_status_systems cl self))"

definition rhai_set_status_system_failed ::
  "script_codec \<Rightarrow> 'w cluster \<Rightarrow> instance_obj \<Rightarrow> string \<Rightarrow> ('w, instance_obj) wrapped" where
  "rhai_set_status_system_failed k cl self reason = rhai k (set_status_system_failed cl self reason)"

section \<open>The tenant of an instance\<close>

text \<open>
  The name of the tenant throws when it cannot be read; the namespaces and the services of the tenant answer the
  empty text instead.
\<close>

definition rhai_get_tenant_name :: "script_codec \<Rightarrow> 'w kube_api \<Rightarrow> instance_obj \<Rightarrow> ('w, string) wrapped" where
  "rhai_get_tenant_name k api self = rhai k (get_tenant_name api self)"

definition names_or_nothing :: "script_codec \<Rightarrow> ('w, string list) io \<Rightarrow> ('w, json) wrapped" where
  "names_or_nothing k m = rhai k (\<lambda>w. case m w of
       (Inr arr, w') \<Rightarrow> (value_arg k Some (JArr (map JStr arr)), w')
     | (Inl (Panicked p), w') \<Rightarrow> (Inl (Panicked p), w')
     | (Inl _, w') \<Rightarrow> (Inr (JStr []), w'))"

definition rhai_get_tenant_namespaces :: "script_codec \<Rightarrow> 'w kube_api \<Rightarrow> instance_obj \<Rightarrow> ('w, json) wrapped" where
  "rhai_get_tenant_namespaces k api self = names_or_nothing k (get_tenant_namespaces api self)"

definition rhai_get_tenant_services_names :: "script_codec \<Rightarrow> 'w kube_api \<Rightarrow> instance_obj \<Rightarrow> ('w, json) wrapped" where
  "rhai_get_tenant_services_names k api self = names_or_nothing k (get_tenant_services_names api self)"

section \<open>The call of a setter by its name\<close>

text \<open>The arguments have the types of the registration, or the engine finds no function.\<close>

definition no_function :: "('w, 'a) wrapped" where
  "no_function w = (Inl (Thrown ''Function not found''), w)"

definition none_call :: "('w, 'a) wrapped \<Rightarrow> json list \<Rightarrow> ('w, 'a) wrapped" where
  "none_call f args = (case args of [] \<Rightarrow> f | _ \<Rightarrow> no_function)"

definition text_call :: "(string \<Rightarrow> ('w, 'a) wrapped) \<Rightarrow> json list \<Rightarrow> ('w, 'a) wrapped" where
  "text_call f args = (case args of [JStr s] \<Rightarrow> f s | _ \<Rightarrow> no_function)"

definition texts_call :: "(string \<Rightarrow> string \<Rightarrow> ('w, 'a) wrapped) \<Rightarrow> json list \<Rightarrow> ('w, 'a) wrapped" where
  "texts_call f args = (case args of [JStr s, JStr t] \<Rightarrow> f s t | _ \<Rightarrow> no_function)"

definition value_call :: "(json \<Rightarrow> ('w, 'a) wrapped) \<Rightarrow> json list \<Rightarrow> ('w, 'a) wrapped" where
  "value_call f args = (case args of [v] \<Rightarrow> f v | _ \<Rightarrow> no_function)"

definition setters ::
  "script_codec \<Rightarrow> 'w cluster \<Rightarrow> instance_obj \<Rightarrow> (string \<times> (json list \<Rightarrow> ('w, instance_obj) wrapped)) list" where
  "setters k cl self = [
     (''set_agent_started'', none_call (rhai_set_agent_started k cl self)),
     (''set_missing_box'', text_call (rhai_set_missing_box k cl self)),
     (''set_missing_package'', texts_call (rhai_set_missing_package k cl self)),
     (''set_missing_requirement'', text_call (rhai_set_missing_requirement k cl self)),
     (''set_missing_init_version'', text_call (rhai_set_missing_init_version k cl self)),
     (''set_status_ready'', text_call (rhai_set_status_ready k cl self)),
     (''set_tfstate'', text_call (rhai_set_tfstate k cl self)),
     (''set_status_tofu_failed'', texts_call (rhai_set_status_tofu_failed k cl self)),
     (''set_rhaistate'', text_call (rhai_set_rhaistate k cl self)),
     (''set_status_rhai_failed'', texts_call (rhai_set_status_rhai_failed k cl self)),
     (''set_services'', value_call (rhai_set_services k cl self)),
     (''set_status_befores'', value_call (rhai_set_status_befores k cl self)),
     (''set_status_before_failed'', text_call (rhai_set_status_before_failed k cl self)),
     (''set_status_vitals'', value_call (rhai_set_status_vitals k cl self)),
     (''set_status_vital_failed'', text_call (rhai_set_status_vital_failed k cl self)),
     (''set_status_scalables'', value_call (rhai_set_status_scalables k cl self)),
     (''set_status_scalable_failed'', text_call (rhai_set_status_scalable_failed k cl self)),
     (''set_status_others'', value_call (rhai_set_status_others k cl self)),
     (''set_status_other_failed'', text_call (rhai_set_status_other_failed k cl self)),
     (''set_status_posts'', value_call (rhai_set_status_posts k cl self)),
     (''set_status_post_failed'', text_call (rhai_set_status_post_failed k cl self)),
     (''set_status_init_failed'', text_call (rhai_set_status_init_failed k cl self)),
     (''set_status_schedule_backup_failed'', text_call (rhai_set_status_schedule_backup_failed k cl self)),
     (''set_status_crds'', value_call (rhai_set_status_crds k cl self)),
     (''set_status_crd_failed'', text_call (rhai_set_status_crd_failed k cl self)),
     (''set_status_systems'', value_call (rhai_set_status_systems k cl self)),
     (''set_status_system_failed'', text_call (rhai_set_status_system_failed k cl self))]"

fun kind_type :: "package_type \<Rightarrow> rust_type" where
  "kind_type Tenant = TenantInstance"
| "kind_type Service = ServiceInstance"
| "kind_type System = SystemInstance"

text \<open>A script calls a setter on its instance: the engine has one of that name for the kind, or there is none.\<close>

definition call_setter ::
  "script_codec \<Rightarrow> 'w cluster \<Rightarrow> instance_obj \<Rightarrow> string \<Rightarrow> json list \<Rightarrow> ('w, instance_obj) wrapped" where
  "call_setter k cl self name args =
     (if name \<in> set (methods (script_sigs (script_new [])) (kind_type (in_kind self))) then
        (case map_of (setters k cl self) name of Some f \<Rightarrow> f args | None \<Rightarrow> no_function)
      else no_function)"

section \<open>Scripts keep their instance well-formed\<close>

text \<open>A call that leaves the world as it was, or does to it what an operation of the kind does.\<close>

definition kept :: "'w cluster \<Rightarrow> instance_obj \<Rightarrow> ('w, instance_obj) wrapped \<Rightarrow> bool" where
  "kept cl self m \<longleftrightarrow> (\<forall>w r w'. m w = (r, w') \<longrightarrow>
     ((\<exists>e. r = Inl e) \<and> w' = w) \<or>
     (\<exists>op r0. op_of_kind (in_kind self) op \<and> run_op cl op self w = (r0, w') \<and> (\<forall>a. r = Inr a \<longrightarrow> r0 = Inr a)))"

lemma kept_rhai: "op_of_kind (in_kind self) op \<Longrightarrow> kept cl self (rhai k (run_op cl op self))"
  unfolding kept_def rhai_def by (auto split: prod.splits sum.splits)

lemma kept_thrown: "kept cl self (rhai k (io_throw e))"
  by (simp add: kept_def rhai_def io_throw_def)

lemma kept_no_function: "kept cl self no_function"
  by (simp add: kept_def no_function_def)

lemma kept_value:
  assumes "\<And>x. op_of_kind (in_kind self) (mk x)"
  shows "kept cl self (rhai k (io_bind (io_lift (value_arg k d v)) (\<lambda>x. run_op cl (mk x) self)))"
proof (cases "value_arg k d v")
  case (Inl e)
  then show ?thesis by (simp add: io_simps kept_thrown)
next
  case (Inr x)
  then show ?thesis using kept_rhai [OF assms] by (simp add: io_simps)
qed

lemma kept_calls:
  "kept cl self f \<Longrightarrow> kept cl self (none_call f args)"
  "(\<And>s. kept cl self (g s)) \<Longrightarrow> kept cl self (text_call g args)"
  "(\<And>s t. kept cl self (h s t)) \<Longrightarrow> kept cl self (texts_call h args)"
  "(\<And>v. kept cl self (i v)) \<Longrightarrow> kept cl self (value_call i args)"
  by (auto simp: none_call_def text_call_def texts_call_def value_call_def kept_no_function
      split: list.splits json.splits)

text \<open>Every wrapper of a kind.\<close>

lemma kept_common:
  "kept cl self (rhai_set_agent_started k cl self)" "kept cl self (rhai_set_missing_box k cl self a)"
  "kept cl self (rhai_set_missing_package k cl self a b)" "kept cl self (rhai_set_missing_requirement k cl self a)"
  "kept cl self (rhai_set_status_ready k cl self a)" "kept cl self (rhai_set_tfstate k cl self a)"
  "kept cl self (rhai_set_status_tofu_failed k cl self a b)" "kept cl self (rhai_set_rhaistate k cl self a)"
  "kept cl self (rhai_set_status_rhai_failed k cl self a b)"
  using kept_rhai [of self OpAgentStarted cl k] kept_rhai [of self "OpMissingBox a" cl k]
    kept_rhai [of self "OpMissingPackage a b" cl k] kept_rhai [of self "OpMissingRequirement a" cl k]
    kept_rhai [of self "OpReady a" cl k] kept_rhai [of self "OpTfstate a" cl k]
    kept_rhai [of self "OpTofuFailed a b" cl k] kept_rhai [of self "OpRhaistate a" cl k]
    kept_rhai [of self "OpRhaiFailed a b" cl k]
  by (simp_all add: rhai_set_agent_started_def rhai_set_missing_box_def rhai_set_missing_package_def
      rhai_set_missing_requirement_def rhai_set_status_ready_def rhai_set_tfstate_def
      rhai_set_status_tofu_failed_def rhai_set_rhaistate_def rhai_set_status_rhai_failed_def)

lemma kept_befores:
  assumes "in_kind self \<noteq> System"
  shows "kept cl self (rhai_set_services k cl self v)" "kept cl self (rhai_set_status_befores k cl self v)"
    "kept cl self (rhai_set_status_vitals k cl self v)" "kept cl self (rhai_set_status_scalables k cl self v)"
    "kept cl self (rhai_set_status_others k cl self v)" "kept cl self (rhai_set_status_posts k cl self v)"
    "kept cl self (rhai_set_status_before_failed k cl self a)" "kept cl self (rhai_set_status_vital_failed k cl self a)"
    "kept cl self (rhai_set_status_scalable_failed k cl self a)" "kept cl self (rhai_set_status_other_failed k cl self a)"
    "kept cl self (rhai_set_status_post_failed k cl self a)" "kept cl self (rhai_set_status_init_failed k cl self a)"
    "kept cl self (rhai_set_status_schedule_backup_failed k cl self a)"
    "kept cl self (rhai_set_missing_init_version k cl self a)"
  using assms kept_value [of self OpServices] kept_value [of self OpBefores] kept_value [of self OpVitals]
    kept_value [of self OpScalables] kept_value [of self OpOthers] kept_value [of self OpPosts]
    kept_rhai [of self "OpBeforeFailed a" cl k] kept_rhai [of self "OpVitalFailed a" cl k]
    kept_rhai [of self "OpScalableFailed a" cl k] kept_rhai [of self "OpOtherFailed a" cl k]
    kept_rhai [of self "OpPostFailed a" cl k] kept_rhai [of self "OpInitFailed a" cl k]
    kept_rhai [of self "OpScheduleBackupFailed a" cl k] kept_rhai [of self "OpMissingInitVersion a" cl k]
  by (simp_all add: rhai_set_services_def rhai_set_status_befores_def rhai_set_status_vitals_def
      rhai_set_status_scalables_def rhai_set_status_others_def rhai_set_status_posts_def
      rhai_set_status_before_failed_def rhai_set_status_vital_failed_def rhai_set_status_scalable_failed_def
      rhai_set_status_other_failed_def rhai_set_status_post_failed_def rhai_set_status_init_failed_def
      rhai_set_status_schedule_backup_failed_def rhai_set_missing_init_version_def)

lemma kept_crds:
  assumes "in_kind self \<noteq> Tenant"
  shows "kept cl self (rhai_set_status_crds k cl self v)" "kept cl self (rhai_set_status_crd_failed k cl self a)"
  using assms kept_value [of self OpCrds] kept_rhai [of self "OpCrdFailed a" cl k]
  by (simp_all add: rhai_set_status_crds_def rhai_set_status_crd_failed_def)

lemma kept_systems:
  assumes "in_kind self = System"
  shows "kept cl self (rhai_set_status_systems k cl self v)" "kept cl self (rhai_set_status_system_failed k cl self a)"
  using assms kept_value [of self OpSystems] kept_rhai [of self "OpSystemFailed a" cl k]
  by (simp_all add: rhai_set_status_systems_def rhai_set_status_system_failed_def)

text \<open>The names that are not registered for every kind.\<close>

definition crd_setters :: "string list" where
  "crd_setters = [''set_status_crds'', ''set_status_crd_failed'']"

definition system_setters :: "string list" where
  "system_setters = [''set_status_systems'', ''set_status_system_failed'']"

definition befores_setters :: "string list" where
  "befores_setters = [''set_services'', ''set_missing_init_version'', ''set_status_befores'', ''set_status_before_failed'',
     ''set_status_vitals'', ''set_status_vital_failed'', ''set_status_scalables'', ''set_status_scalable_failed'',
     ''set_status_others'', ''set_status_other_failed'', ''set_status_posts'', ''set_status_post_failed'',
     ''set_status_init_failed'', ''set_status_schedule_backup_failed'']"

definition needs :: "string \<Rightarrow> package_type \<Rightarrow> bool" where
  "needs name k \<longleftrightarrow> (name \<in> set crd_setters \<longrightarrow> k \<noteq> Tenant) \<and> (name \<in> set system_setters \<longrightarrow> k = System) \<and>
     (name \<in> set befores_setters \<longrightarrow> k \<noteq> System)"

lemma not_registered:
  "set (methods tenant_fns TenantInstance) \<inter> (set crd_setters \<union> set system_setters) = {}"
  "set (methods service_fns ServiceInstance) \<inter> set system_setters = {}"
  "set (methods system_fns SystemInstance) \<inter> set befores_setters = {}"
  by (simp_all add: methods_def tenant_fns_def service_fns_def system_fns_def fn_def getter_def crd_setters_def
      system_setters_def befores_setters_def)

lemma registered_needs:
  assumes "name \<in> set (methods (script_sigs (script_new path)) (kind_type k))"
  shows "needs name k"
proof (cases k)
  case Tenant
  with assms not_registered(1) show ?thesis unfolding needs_def by (simp add: agent_methods) blast
next
  case Service
  with assms not_registered(2) show ?thesis unfolding needs_def by (simp add: agent_methods) blast
next
  case System
  with assms not_registered(3) show ?thesis unfolding needs_def by (simp add: agent_methods) blast
qed

lemma needs_common:
  "name \<notin> set (crd_setters @ system_setters @ befores_setters) \<Longrightarrow> needs name k"
  by (simp add: needs_def)

lemma needs_names:
  "list_all (\<lambda>n. needs n k \<longleftrightarrow> k \<noteq> Tenant) crd_setters"
  "list_all (\<lambda>n. needs n k \<longleftrightarrow> k = System) system_setters"
  "list_all (\<lambda>n. needs n k \<longleftrightarrow> k \<noteq> System) befores_setters"
  by (simp_all add: needs_def crd_setters_def system_setters_def befores_setters_def)

lemmas needs_by_name = needs_names [unfolded crd_setters_def system_setters_def befores_setters_def list.pred_inject]

lemma setters_kept:
  assumes "(name, f) \<in> set (setters k cl self)" and "needs name (in_kind self)"
  shows "kept cl self (f args)"
proof -
  have "list_all (\<lambda>(n, g). needs n (in_kind self) \<longrightarrow> (\<forall>as. kept cl self (g as))) (setters k cl self)"
    unfolding setters_def list.pred_inject prod.case
    by (intro conjI impI allI kept_calls TrueI kept_common list.pred_inject(1))
       (simp_all only: needs_by_name; erule kept_befores kept_crds kept_systems)+
  with assms show ?thesis by (auto simp: list_all_iff)
qed


definition demo_script_codec :: script_codec where
  "demo_script_codec = \<lparr>sk_to_text = (\<lambda>v. Inr []), sk_of_text = (\<lambda>s. Inr (JArr [])), sk_mismatch = (\<lambda>v. []),
     sk_detail = (\<lambda>e. [])\<rparr>"

lemma demo_call:
  "\<exists>a w. call_setter demo_script_codec ref_cluster demo_instance ''set_agent_started'' [] demo_world = (Inr a, w) \<and>
     rw_events w \<noteq> []"
proof -
  have "''set_agent_started'' \<in> set (methods (script_sigs (script_new [])) (kind_type (in_kind demo_instance)))"
    unfolding demo_ok kind_type.simps agent_methods
    by (simp add: methods_def tenant_fns_def fn_def getter_def)
  moreover have "map_of (setters demo_script_codec ref_cluster demo_instance) ''set_agent_started'' =
      Some (none_call (rhai_set_agent_started demo_script_codec ref_cluster demo_instance))"
    by (simp add: setters_def)
  ultimately have "call_setter demo_script_codec ref_cluster demo_instance ''set_agent_started'' [] =
      rhai_set_agent_started demo_script_codec ref_cluster demo_instance"
    unfolding call_setter_def by (simp only: if_True option.case none_call_def list.case)
  with demo_started show ?thesis by (auto simp: rhai_set_agent_started_def rhai_def)
qed


section \<open>Lists of children\<close>

text \<open>The list of children a script sends, in the form the status shows it, is the list the operation gets.\<close>

lemma child_of_to_json: "child_of_json (child_to_json c) = Some c"
  by (cases c) (auto simp: child_of_json_def child_to_json_def child_of_def opt_member_def opt_json_def split: option.splits)

lemma opt_member_some: "opt_member d (Some x) = (if x = JNull then Some None else map_option Some (d x))"
  by (cases x) (simp_all add: opt_member_def)

lemma published_of_to_json: "published_of_json (published_to_json p) = Some p"
proof -
  have global: "global_of_json (global_to_json g) = Some g" for g
    using unsigned_less [of "gp_port g", where ?'a = nat]
    by (cases g) (simp add: global_of_json_def global_to_json_def global_of_def u32_of_json_def)
  have shape: "global_to_json g \<noteq> JNull" "child_to_json c \<noteq> JNull" for g c
    by (simp_all add: global_to_json_def child_to_json_def)
  have opt: "opt_member d (Some (opt_json f v)) = Some v" if "\<And>x. d (f x) = Some x" "\<And>x. f x \<noteq> JNull" for d f v
    using that by (cases v) (simp_all add: opt_member_some opt_json_def)
  show ?thesis
    by (cases p) (simp add: published_of_json_def published_to_json_def published_of_def
        opt global shape child_of_to_json)
qed

lemma all_some_map: "(\<And>x. f (g x) = Some x) \<Longrightarrow> all_some (map f (map g xs)) = Some xs"
  by (induction xs) simp_all

lemma children_list_roundtrip: "children_list (JArr (map child_to_json cs)) = Some cs"
  by (simp add: children_list_def list_of_json_def all_some_map [where f = child_of_json and g = child_to_json]
      child_of_to_json del: map_map)

lemma published_list_roundtrip: "published_list (JArr (map published_to_json ps)) = Some ps"
  by (simp add: published_list_def list_of_json_def all_some_map [where f = published_of_json and g = published_to_json]
      published_of_to_json del: map_map)

text \<open>A list that does not have the type of the argument sends nothing.\<close>

lemma rejected_list_sends_nothing:
  assumes "value_arg k children_list v = Inl e"
  shows "rhai_set_status_vitals k cl self v w = (Inl (rhai_err k e), w)"
  using assms by (simp add: rhai_set_status_vitals_def rhai_def io_simps io_throw_def)

section \<open>A tenant that cannot be read\<close>

text \<open>When the API server refuses the namespace of an instance, its tenant's name throws the error of the server,
  but the tenant's namespaces and services are the empty text, as a value.\<close>

theorem unread_tenant_is_empty_text:
  assumes "md_namespace (in_meta self) = Some ns" and "ka_ns_labels api ns w = (Inl e, w')"
  shows "rhai_get_tenant_name k api self w = (Inl (Thrown (''K8s error: '' @ kube_error_show e)), w') \<and>
    rhai_get_tenant_namespaces k api self w = (Inr (JStr []), w') \<and>
    rhai_get_tenant_services_names k api self w = (Inr (JStr []), w')"
proof -
  have name: "get_tenant_name api self w = (Inl (KubeError e), w')"
    and spaces: "get_tenant_namespaces api self w = (Inl (KubeError e), w')"
    using assms by (simp_all add: get_tenant_name_def get_tenant_namespaces_def my_namespace_def unwrap_def
        io_bind_def io_lift_def io_kube_def)
  from spaces have "get_tenant_services_names api self w = (Inl (KubeError e), w')"
    by (simp add: get_tenant_services_names_def io_bind_def)
  with name spaces show ?thesis
    by (simp add: rhai_get_tenant_name_def rhai_get_tenant_namespaces_def rhai_get_tenant_services_names_def
        names_or_nothing_def rhai_def rhai_err_def)
qed

definition deaf_api :: "(nat \<times> string list cell) kube_api" where
  "deaf_api = demo_api\<lparr>ka_ns_labels := (\<lambda>ns w. (Inl (KApi ''forbidden''), w))\<rparr>"

theorem unread_tenant_is_empty_text_witness:
  "rhai_get_tenant_namespaces demo_script_codec deaf_api (demo_tenant ''a'' ''app'' []) (0, None) = (Inr (JStr []), (0, None)) \<and>
   rhai_get_tenant_name demo_script_codec deaf_api (demo_tenant ''a'' ''app'' []) (0, None) =
     (Inl (Thrown ''K8s error: forbidden''), (0, None))"
  using unread_tenant_is_empty_text [of "demo_tenant ''a'' ''app'' []" "''a''" deaf_api "(0, None)" "KApi ''forbidden''"
      "(0, None)" demo_script_codec]
  by (simp add: demo_tenant_def deaf_api_def kube_error_show_def)

end
