(* ===== verification/OperatorRun.thy ===== *)
theory OperatorRun
  imports JukeBoxCtl
begin

text \<open>
  What surrounds the controllers of the operator: \<open>operator/src/metrics.rs\<close> (the counters and durations that every
  reconciliation feeds), \<open>telemetry::get_trace_id\<close>, \<open>run_with_finalizer\<close> and \<open>jukebox::reconcile\<close>, the error
  policies, the start of \<open>manager.rs\<close> and the pages of \<open>main.rs\<close>. The state holds the metrics, the time of the last
  event, the package cache and the world; the finalizer helper of \<open>kube\<close> is a parameter.
\<close>

section \<open>Labels\<close>

record label_box = lb_name :: string

record label_instance =
  li_name :: string
  li_namespace :: "string option"
  li_jukebox :: string
  li_category :: string
  li_package :: string

record error_labels =
  el_instance :: string
  el_error :: string

record error_labels_instance =
  ei_name :: string
  ei_namespace :: "string option"
  ei_jukebox :: string
  ei_category :: string
  ei_package :: string
  ei_error :: string

definition box_labels :: "jukebox \<Rightarrow> label_box" where
  "box_labels doc = \<lparr>lb_name = name_any (jb_meta doc)\<rparr>"

definition run_labels :: "instance_obj \<Rightarrow> label_instance" where
  "run_labels doc =
     \<lparr>li_name = name_any (in_meta doc), li_namespace = md_namespace (in_meta doc),
      li_jukebox = spec_jukebox (in_spec doc), li_category = spec_category (in_spec doc),
      li_package = spec_package (in_spec doc)\<rparr>"

definition box_error_labels :: "jukebox \<Rightarrow> string \<Rightarrow> error_labels" where
  "box_error_labels doc e = \<lparr>el_instance = name_any (jb_meta doc), el_error = e\<rparr>"

definition instance_error_labels :: "instance_obj \<Rightarrow> string \<Rightarrow> error_labels_instance" where
  "instance_error_labels doc e =
     \<lparr>ei_name = name_any (in_meta doc), ei_namespace = md_namespace (in_meta doc),
      ei_jukebox = spec_jukebox (in_spec doc), ei_category = spec_category (in_spec doc),
      ei_package = spec_package (in_spec doc), ei_error = e\<rparr>"

section \<open>Traces\<close>

text \<open>A trace is a number of 128 bits; its label is its hexadecimal text, which the formatter gives.\<close>

type_synonym trace_id = "128 word"

definition INVALID :: trace_id where
  "INVALID = 0"

definition get_trace_id :: trace_id where
  "get_trace_id = INVALID"

definition trace_label :: "(trace_id \<Rightarrow> string) \<Rightarrow> trace_id \<Rightarrow> string result" where
  "trace_label hex i = (if i = INVALID then Inl (Other ''Invalid trace ID'') else Inr (hex i))"

section \<open>Counters and durations\<close>

text \<open>
  A family makes the metric of a label when it is first asked for. A counter has 64 bits; a histogram is the list of
  its observations: milliseconds and the label of the trace.
\<close>

type_synonym 'l counters = "'l \<Rightarrow> 64 word option"
type_synonym 'l histograms = "'l \<Rightarrow> (nat \<times> string option) list option"

definition inc :: "'l counters \<Rightarrow> 'l \<Rightarrow> 'l counters" where
  "inc f l = f(l \<mapsto> (case f l of Some c \<Rightarrow> c + 1 | None \<Rightarrow> 1))"

definition observe :: "'l histograms \<Rightarrow> 'l \<Rightarrow> nat \<times> string option \<Rightarrow> 'l histograms" where
  "observe f l x = f(l \<mapsto> (case f l of Some xs \<Rightarrow> xs @ [x] | None \<Rightarrow> [x]))"

record ('l, 'e) reconcile_metrics =
  rm_runs :: "'l counters"
  rm_failures :: "'e counters"
  rm_duration :: "'l histograms"

definition no_metrics :: "('l, 'e) reconcile_metrics" where
  "no_metrics = \<lparr>rm_runs = (\<lambda>l. None), rm_failures = (\<lambda>e. None), rm_duration = (\<lambda>l. None)\<rparr>"

record metrics =
  mt_jukebox :: "(label_box, error_labels) reconcile_metrics"
  mt_system_instance :: "(label_instance, error_labels_instance) reconcile_metrics"
  mt_service_instance :: "(label_instance, error_labels_instance) reconcile_metrics"
  mt_tenant_instance :: "(label_instance, error_labels_instance) reconcile_metrics"

definition metrics_default :: metrics where
  "metrics_default =
     \<lparr>mt_jukebox = no_metrics, mt_system_instance = no_metrics, mt_service_instance = no_metrics,
      mt_tenant_instance = no_metrics\<rparr>"

text \<open>A measurer notes when it started; dropping it observes the time since, under its labels.\<close>

record 'l measurer =
  me_start :: nat
  me_labels :: 'l
  me_trace :: "string option"

definition ok_trace :: "(trace_id \<Rightarrow> string) \<Rightarrow> trace_id \<Rightarrow> string option" where
  "ok_trace hex i = (case trace_label hex i of Inr s \<Rightarrow> Some s | Inl _ \<Rightarrow> None)"

definition count_and_measure ::
  "(trace_id \<Rightarrow> string) \<Rightarrow> 'l \<Rightarrow> trace_id \<Rightarrow> nat \<Rightarrow> ('l, 'e) reconcile_metrics \<Rightarrow>
   'l measurer \<times> ('l, 'e) reconcile_metrics" where
  "count_and_measure hex l i now m =
     (\<lparr>me_start = now, me_labels = l, me_trace = ok_trace hex i\<rparr>, m\<lparr>rm_runs := inc (rm_runs m) l\<rparr>)"

definition drop_measurer :: "'l measurer \<Rightarrow> nat \<Rightarrow> ('l, 'e) reconcile_metrics \<Rightarrow> ('l, 'e) reconcile_metrics" where
  "drop_measurer me now m =
     m\<lparr>rm_duration := observe (rm_duration m) (me_labels me) (now - me_start me, me_trace me)\<rparr>"

definition reconcile_failure :: "'e \<Rightarrow> ('l, 'e) reconcile_metrics \<Rightarrow> ('l, 'e) reconcile_metrics" where
  "reconcile_failure e m = m\<lparr>rm_failures := inc (rm_failures m) e\<rparr>"

section \<open>The metrics of the four controllers\<close>

definition instance_metrics ::
  "package_type \<Rightarrow> metrics \<Rightarrow> (label_instance, error_labels_instance) reconcile_metrics" where
  "instance_metrics k m =
     (case k of System \<Rightarrow> mt_system_instance m | Service \<Rightarrow> mt_service_instance m | Tenant \<Rightarrow> mt_tenant_instance m)"

definition with_instance_metrics ::
  "package_type \<Rightarrow> (label_instance, error_labels_instance) reconcile_metrics \<Rightarrow> metrics \<Rightarrow> metrics" where
  "with_instance_metrics k x m =
     (case k of
        System \<Rightarrow> m\<lparr>mt_system_instance := x\<rparr>
      | Service \<Rightarrow> m\<lparr>mt_service_instance := x\<rparr>
      | Tenant \<Rightarrow> m\<lparr>mt_tenant_instance := x\<rparr>)"

text \<open>An object a controller works on, and its run.\<close>

datatype watched = Box jukebox | Inst instance_obj

datatype running = BoxRun "label_box measurer" | InstRun package_type "label_instance measurer"

fun start_run :: "(trace_id \<Rightarrow> string) \<Rightarrow> watched \<Rightarrow> nat \<Rightarrow> metrics \<Rightarrow> running \<times> metrics" where
  "start_run hex (Box jb) now m =
     (case count_and_measure hex (box_labels jb) get_trace_id now (mt_jukebox m) of
        (me, x) \<Rightarrow> (BoxRun me, m\<lparr>mt_jukebox := x\<rparr>))"
| "start_run hex (Inst inst) now m =
     (case count_and_measure hex (run_labels inst) get_trace_id now (instance_metrics (in_kind inst) m) of
        (me, x) \<Rightarrow> (InstRun (in_kind inst) me, with_instance_metrics (in_kind inst) x m))"

fun end_run :: "running \<Rightarrow> nat \<Rightarrow> metrics \<Rightarrow> metrics" where
  "end_run (BoxRun me) now m = m\<lparr>mt_jukebox := drop_measurer me now (mt_jukebox m)\<rparr>"
| "end_run (InstRun k me) now m = with_instance_metrics k (drop_measurer me now (instance_metrics k m)) m"

fun count_failure :: "watched \<Rightarrow> string \<Rightarrow> metrics \<Rightarrow> metrics" where
  "count_failure (Box jb) e m = m\<lparr>mt_jukebox := reconcile_failure (box_error_labels jb e) (mt_jukebox m)\<rparr>"
| "count_failure (Inst inst) e m =
     with_instance_metrics (in_kind inst)
       (reconcile_failure (instance_error_labels inst e) (instance_metrics (in_kind inst) m)) m"

text \<open>The registration: a prefix per controller, and three families with their help and unit.\<close>

datatype metric_unit = Seconds

definition registered_families :: "(string \<times> string \<times> metric_unit option) list" where
  "registered_families =
     [(''duration'', ''reconcile duration'', Some Seconds), (''failures'', ''reconciliation errors'', None),
      (''runs'', ''reconciliations'', None)]"

text \<open>The upper bounds of the buckets, in milliseconds.\<close>

definition duration_buckets :: "nat list" where
  "duration_buckets = [10, 100, 500, 1000, 5000, 15000, 60000, 120000, 300000]"

text \<open>\<open>Manager::metrics\<close>: the text of the four registries, which the encoder of a registry gives, and the end mark.\<close>

record encoder =
  en_box :: "string \<Rightarrow> (label_box, error_labels) reconcile_metrics \<Rightarrow> string"
  en_instance :: "string \<Rightarrow> (label_instance, error_labels_instance) reconcile_metrics \<Rightarrow> string"
  en_eof :: string

definition metrics_text :: "encoder \<Rightarrow> metrics \<Rightarrow> string" where
  "metrics_text en m =
     en_box en ''jukebox_reconcile'' (mt_jukebox m) @
     en_instance en ''system_instance_reconcile'' (mt_system_instance m) @
     en_instance en ''service_instance_reconcile'' (mt_service_instance m) @
     en_instance en ''tenant_instance_reconcile'' (mt_tenant_instance m) @ en_eof en"

section \<open>A reconciliation\<close>

record 'w op_state =
  os_metrics :: metrics
  os_last_event :: int
  os_cache :: package_cache
  os_world :: 'w

text \<open>
  The finalizer helper of \<open>kube\<close> calls the handler with the event it finds due, if any, and keeps the mark of the
  object on the server; the debug text of an error and its lower case, the hexadecimal of a trace, and the two clocks
  are the formatter's and the machine's.
\<close>

datatype fin_event = Fin_Apply | Fin_Cleanup

datatype fin_error =
    ApplyFailed verror
  | CleanupFailed verror
  | AddFinalizer kube_error
  | RemoveFinalizer kube_error
  | UnnamedObject
  | InvalidFinalizer

record 'w op_env =
  oe_op :: "'w op_api"
  oe_ctl :: "'w ctl_api"
  oe_hex :: "trace_id \<Rightarrow> string"
  oe_instant :: "'w \<Rightarrow> nat"
  oe_utc :: "'w \<Rightarrow> int"
  oe_debug :: "fin_error \<Rightarrow> string"
  oe_lower :: "string \<Rightarrow> string"
  oe_finalizer :: "string \<Rightarrow> watched \<Rightarrow> (fin_event \<Rightarrow> ('w op_state, action) io) \<Rightarrow> 'w op_state \<Rightarrow>
     (fin_error + action) \<times> 'w op_state"

definition metric_label :: "'w op_env \<Rightarrow> fin_error \<Rightarrow> string" where
  "metric_label env e = oe_lower env (oe_debug env e)"

definition finalizer_name :: "package_type \<Rightarrow> string" where
  "finalizer_name k =
     (case k of
        Tenant \<Rightarrow> ''tenantinstances.vynil.solidite.fr''
      | Service \<Rightarrow> ''serviceinstances.vynil.solidite.fr''
      | System \<Rightarrow> ''systeminstances.vynil.solidite.fr'')"

definition JUKEBOX_FINALIZER :: string where
  "JUKEBOX_FINALIZER = ''jukeboxes.vynil.solidite.fr''"

definition touch :: "'w op_env \<Rightarrow> 'w op_state \<Rightarrow> 'w op_state" where
  "touch env s = s\<lparr>os_last_event := oe_utc env (os_world s)\<rparr>"

definition handle_instance :: "'w op_env \<Rightarrow> instance_obj \<Rightarrow> fin_event \<Rightarrow> ('w op_state, action) io" where
  "handle_instance env inst ev s0 =
     (let s = touch env s0 in
      case (case ev of
              Fin_Apply \<Rightarrow> do_reconcile (oe_op env) inst (os_cache s) (os_world s)
            | Fin_Cleanup \<Rightarrow> do_cleanup (oe_op env) inst (os_cache s) (os_world s)) of
        (r, w') \<Rightarrow> (r, s\<lparr>os_world := w'\<rparr>))"

definition handle_box :: "'w op_env \<Rightarrow> jukebox \<Rightarrow> fin_event \<Rightarrow> ('w op_state, action) io" where
  "handle_box env jb ev s0 =
     (let s = touch env s0 in
      case (case ev of
              Fin_Apply \<Rightarrow> reconcile_box (oe_ctl env) jb (os_cache s, os_world s)
            | Fin_Cleanup \<Rightarrow> cleanup_box (oe_ctl env) jb (os_cache s, os_world s)) of
        (r, (c, w')) \<Rightarrow> (r, s\<lparr>os_cache := c, os_world := w'\<rparr>))"

text \<open>\<open>run_with_finalizer\<close> of the instances and \<open>reconcile\<close> of the boxes have the same body.\<close>

definition measured ::
  "'w op_env \<Rightarrow> watched \<Rightarrow> ('w op_state \<Rightarrow> (fin_error + action) \<times> 'w op_state) \<Rightarrow> 'w op_state \<Rightarrow>
   (fin_error + action) \<times> 'w op_state" where
  "measured env x body s =
     (case start_run (oe_hex env) x (oe_instant env (os_world s)) (os_metrics s) of
        (me, m) \<Rightarrow>
          (case body (touch env (s\<lparr>os_metrics := m\<rparr>)) of
             (r, s') \<Rightarrow> (r, s'\<lparr>os_metrics := end_run me (oe_instant env (os_world s')) (os_metrics s')\<rparr>)))"

definition run_with_finalizer :: "'w op_env \<Rightarrow> instance_obj \<Rightarrow> 'w op_state \<Rightarrow> (fin_error + action) \<times> 'w op_state" where
  "run_with_finalizer env inst =
     measured env (Inst inst)
       (oe_finalizer env (finalizer_name (in_kind inst)) (Inst inst) (handle_instance env inst))"

definition run_box :: "'w op_env \<Rightarrow> jukebox \<Rightarrow> 'w op_state \<Rightarrow> (fin_error + action) \<times> 'w op_state" where
  "run_box env jb =
     measured env (Box jb) (oe_finalizer env JUKEBOX_FINALIZER (Box jb) (handle_box env jb))"

definition failure_policy :: "'w op_env \<Rightarrow> watched \<Rightarrow> fin_error \<Rightarrow> 'w op_state \<Rightarrow> action \<times> 'w op_state" where
  "failure_policy env x e s =
     (Requeue (5 * 60), s\<lparr>os_metrics := count_failure x (metric_label env e) (os_metrics s)\<rparr>)"

text \<open>A controller runs its object, and asks the error policy what to do with a failure.\<close>

definition controller_run :: "'w op_env \<Rightarrow> watched \<Rightarrow> 'w op_state \<Rightarrow> action \<times> 'w op_state" where
  "controller_run env x s =
     (case (case x of Box jb \<Rightarrow> run_box env jb s | Inst inst \<Rightarrow> run_with_finalizer env inst s) of
        (Inr a, s') \<Rightarrow> (a, s')
      | (Inl e, s') \<Rightarrow> failure_policy env x e s')"

section \<open>The start\<close>

record 'w start_env =
  se_var :: "string \<Rightarrow> string option"
  se_client :: "'w \<Rightarrow> (string + unit) \<times> 'w"
  se_list_boxes :: "('w, jukebox list) kube_call"
  se_list_one :: "string \<Rightarrow> ('w, unit) kube_call"
  se_utc :: "'w \<Rightarrow> int"

definition AGENT_IMAGE_DEFAULT :: string where
  "AGENT_IMAGE_DEFAULT = ''docker.io/sebt3/vynil-agent:0.7.7''"

definition var_or :: "'w start_env \<Rightarrow> string \<Rightarrow> string \<Rightarrow> string" where
  "var_or se v d = (case se_var se v of Some s \<Rightarrow> s | None \<Rightarrow> d)"

definition start_values :: "'w start_env \<Rightarrow> (string \<times> json) list" where
  "start_values se =
     [(''agent_image'', JStr (var_or se ''AGENT_IMAGE'' AGENT_IMAGE_DEFAULT)),
      (''label_key'', JStr (var_or se ''TENANT_LABEL'' ''vynil.solidite.fr/tenant'')),
      (''log_level'', JStr (var_or se ''AGENT_LOG_LEVEL'' ''info'')),
      (''service_account'', JStr (var_or se ''AGENT_ACCOUNT'' ''vynil-agent'')),
      (''vynil_namespace'', JStr (var_or se ''VYNIL_NAMESPACE'' ''vynil-system''))]"

text \<open>A listing that fails only leaves the cache empty; a kind that cannot be listed ends the operator.\<close>

fun expect_kinds :: "'w start_env \<Rightarrow> string list \<Rightarrow> ('w, unit) io" where
  "expect_kinds se [] = io_return ()"
| "expect_kinds se (k # ks) =
     (\<lambda>w. case se_list_one se k w of
        (Inl e, w') \<Rightarrow> (Inl (Panicked ''is the crd installed?''), w')
      | (Inr _, w') \<Rightarrow> expect_kinds se ks w')"

definition manager_new :: "'w start_env \<Rightarrow> 'w \<Rightarrow> (verror + 'w op_state) \<times> 'w" where
  "manager_new se w =
     (case se_client se w of
        (Inl e, w1) \<Rightarrow> (Inl (Panicked ''create client''), w1)
      | (Inr _, w1) \<Rightarrow>
          (case se_list_boxes se w1 of
             (l, w2) \<Rightarrow>
               (let cache = (case l of Inr boxes \<Rightarrow> build_cache boxes | Inl e \<Rightarrow> []) in
                case expect_kinds se [''JukeBox'', ''TenantInstance'', ''SystemInstance'', ''ServiceInstance''] w2 of
                  (Inl e, w3) \<Rightarrow> (Inl e, w3)
                | (Inr _, w3) \<Rightarrow>
                    (Inr \<lparr>os_metrics = metrics_default, os_last_event = se_utc se w1, os_cache = cache,
                          os_world = w3\<rparr>, w3))))"

section \<open>The pages\<close>

record page =
  pg_status :: nat
  pg_content_type :: string
  pg_body :: string

definition metrics_page :: "encoder \<Rightarrow> 'w op_state \<Rightarrow> page" where
  "metrics_page en s =
     \<lparr>pg_status = 200, pg_content_type = ''application/openmetrics-text; version=1.0.0; charset=utf-8'',
      pg_body = metrics_text en (os_metrics s)\<rparr>"

definition health_page :: page where
  "health_page = \<lparr>pg_status = 200, pg_content_type = ''application/json'', pg_body = [CHR 0x22] @ ''healthy'' @ [CHR 0x22]\<rparr>"

definition index_page :: "(json \<Rightarrow> string) \<Rightarrow> (int \<Rightarrow> string) \<Rightarrow> 'w op_state \<Rightarrow> page" where
  "index_page text rfc3339 s =
     \<lparr>pg_status = 200, pg_content_type = ''application/json'',
      pg_body = text (JObj [(''last_event'', JStr (rfc3339 (os_last_event s)))])\<rparr>"

section \<open>What a run counts\<close>

lemma instance_metrics_of_with [simp]:
  "instance_metrics k (with_instance_metrics k' x m) = (if k = k' then x else instance_metrics k m)"
  "mt_jukebox (with_instance_metrics k' x m) = mt_jukebox m"
  by (cases k; cases k'; simp add: instance_metrics_def with_instance_metrics_def)+

lemma instance_metrics_of_box [simp]: "instance_metrics k (m\<lparr>mt_jukebox := x\<rparr>) = instance_metrics k m"
  by (cases k) (simp_all add: instance_metrics_def)

lemma no_trace [simp]: "ok_trace hex get_trace_id = None"
  by (simp add: ok_trace_def trace_label_def get_trace_id_def)

text \<open>The finalizer helper leaves the metrics to its handler.\<close>

definition quiet_finalizer :: "'w op_env \<Rightarrow> bool" where
  "quiet_finalizer env \<longleftrightarrow> (\<forall>name x h.
     (\<forall>ev. keeps os_metrics (h ev)) \<longrightarrow> keeps os_metrics (oe_finalizer env name x h))"

lemma handlers_keep_metrics:
  "keeps os_metrics (handle_instance env inst ev)" "keeps os_metrics (handle_box env jb ev)"
  by (auto simp: keeps_def handle_instance_def handle_box_def touch_def Let_def split: prod.splits)

lemma measured_metrics:
  assumes "keeps os_metrics body" and "measured env x body s = (r, s')"
  shows "\<exists>now. os_metrics s' =
    (case start_run (oe_hex env) x (oe_instant env (os_world s)) (os_metrics s) of (me, m) \<Rightarrow> end_run me now m)"
proof -
  obtain me m where st: "start_run (oe_hex env) x (oe_instant env (os_world s)) (os_metrics s) = (me, m)"
    by (rule prod.exhaust)
  obtain r2 s2 where b: "body (touch env (s\<lparr>os_metrics := m\<rparr>)) = (r2, s2)" by (rule prod.exhaust)
  have "os_metrics s2 = m"
    using assms(1) [unfolded keeps_def, rule_format, of "touch env (s\<lparr>os_metrics := m\<rparr>)"] b by (simp add: touch_def)
  with assms(2) st b show ?thesis by (auto simp: measured_def)
qed

lemma run_metrics:
  assumes "quiet_finalizer env"
    and "(case x of Box jb \<Rightarrow> run_box env jb s | Inst inst \<Rightarrow> run_with_finalizer env inst s) = (r, s')"
  shows "\<exists>now. os_metrics s' =
    (case start_run (oe_hex env) x (oe_instant env (os_world s)) (os_metrics s) of (me, m) \<Rightarrow> end_run me now m)"
proof -
  have fin: "keeps os_metrics (oe_finalizer env n y h)" if "\<And>ev. keeps os_metrics (h ev)" for n y h
    using assms(1) that unfolding quiet_finalizer_def by blast
  show ?thesis
  proof (cases x)
    case (Box jb)
    with assms(2) have "run_box env jb s = (r, s')" by simp
    from measured_metrics [OF fin [OF handlers_keep_metrics(2)] this [unfolded run_box_def]] Box show ?thesis by metis
  next
    case (Inst inst)
    with assms(2) have "run_with_finalizer env inst s = (r, s')" by simp
    from measured_metrics [OF fin [OF handlers_keep_metrics(1)] this [unfolded run_with_finalizer_def]] Inst
    show ?thesis by metis
  qed
qed

text \<open>A run of an instance, whatever it does, adds one to the runs of the instance's labels and one duration,
  without a trace, under them; a run that fails is tried again after five minutes and adds one to the failures of
  the instance under the text of the error, another adds none; and the metrics of the other controllers stay.\<close>

theorem instance_run_counted:
  assumes "quiet_finalizer env" and "controller_run env (Inst inst) s = (a, s')"
  defines "old \<equiv> instance_metrics (in_kind inst) (os_metrics s)"
    and "new \<equiv> instance_metrics (in_kind inst) (os_metrics s')"
  shows "rm_runs new = inc (rm_runs old) (run_labels inst) \<and>
    (\<exists>ms. rm_duration new = observe (rm_duration old) (run_labels inst) (ms, None)) \<and>
    (case run_with_finalizer env inst s of
       (Inr b, _) \<Rightarrow> a = b \<and> rm_failures new = rm_failures old
     | (Inl e, _) \<Rightarrow> a = Requeue 300 \<and>
         rm_failures new = inc (rm_failures old) (instance_error_labels inst (metric_label env e))) \<and>
    mt_jukebox (os_metrics s') = mt_jukebox (os_metrics s) \<and>
    (\<forall>k. k = in_kind inst \<or> instance_metrics k (os_metrics s') = instance_metrics k (os_metrics s))"
proof -
  obtain r s1 where run: "run_with_finalizer env inst s = (r, s1)" by (rule prod.exhaust)
  obtain now where m1: "os_metrics s1 = (case start_run (oe_hex env) (Inst inst) (oe_instant env (os_world s)) (os_metrics s)
      of (me, m) \<Rightarrow> end_run me now m)"
    using run_metrics [OF assms(1), where x = "Inst inst" and s = s and r = r and s' = s1] run by auto
  note counts = m1 count_and_measure_def drop_measurer_def reconcile_failure_def failure_policy_def
  show ?thesis
  proof (cases r)
    case (Inl e)
    with run assms(2) have "s' = s1\<lparr>os_metrics := count_failure (Inst inst) (metric_label env e) (os_metrics s1)\<rparr>"
      and "a = Requeue 300"
      by (simp_all add: controller_run_def failure_policy_def)
    with run Inl show ?thesis by (auto simp: old_def new_def counts)
  next
    case (Inr b)
    with run assms(2) have "s' = s1" and "a = b" by (simp_all add: controller_run_def)
    with run Inr show ?thesis by (auto simp: old_def new_def counts)
  qed
qed

definition demo_op_env :: "json list op_env" where
  "demo_op_env =
     \<lparr>oe_op = demo_op,
      oe_ctl = \<lparr>ct_op = demo_op, ct_job_get = (\<lambda>n w. (Inr None, w)), ct_cron_patch = (\<lambda>n d w. (Inr (), w)),
        ct_cron_exists = (\<lambda>n w. (Inr False, w)), ct_cron_delete = (\<lambda>n w. (Inr (), w)),
        ct_remove_annotation = (\<lambda>n p w. (Inr (), w))\<rparr>,
      oe_hex = (\<lambda>i. []), oe_instant = length, oe_utc = (\<lambda>w. 0),
      oe_debug = (\<lambda>e. ''Forbidden''), oe_lower = (\<lambda>s. ''forbidden''),
      oe_finalizer = (\<lambda>n x h s. (Inl (AddFinalizer (KApi ''Forbidden'')), s))\<rparr>"

definition demo_start :: "json list op_state" where
  "demo_start = \<lparr>os_metrics = metrics_default, os_last_event = 0, os_cache = demo_cache, os_world = []\<rparr>"

theorem instance_run_counted_witness:
  "case controller_run demo_op_env (Inst demo_inst) demo_start of (a, s') \<Rightarrow>
     a = Requeue 300 \<and>
     rm_runs (instance_metrics Tenant (os_metrics s')) (run_labels demo_inst) = Some 1 \<and>
     rm_failures (instance_metrics Tenant (os_metrics s')) (instance_error_labels demo_inst ''forbidden'') = Some 1"
proof -
  obtain a s' where run: "controller_run demo_op_env (Inst demo_inst) demo_start = (a, s')" by (rule prod.exhaust)
  have quiet: "quiet_finalizer demo_op_env" by (simp add: quiet_finalizer_def demo_op_env_def keeps_def)
  have failed: "fst (run_with_finalizer demo_op_env demo_inst demo_start) = Inl (AddFinalizer (KApi ''Forbidden''))"
    by (simp add: run_with_finalizer_def measured_def demo_op_env_def split: prod.splits)
  have none: "rm_runs (instance_metrics Tenant (os_metrics demo_start)) = (\<lambda>l. None)"
    "rm_failures (instance_metrics Tenant (os_metrics demo_start)) = (\<lambda>l. None)"
    by (simp_all add: demo_start_def metrics_default_def instance_metrics_def no_metrics_def)
  have "metric_label demo_op_env e = ''forbidden''" for e by (simp add: metric_label_def demo_op_env_def)
  with instance_run_counted [OF quiet run] failed show ?thesis
    by (cases "run_with_finalizer demo_op_env demo_inst demo_start") (simp add: run none inc_def)
qed

section \<open>Runs of several objects at a time\<close>

text \<open>
  The controllers run many objects at once: the state is the metrics and the runs that have not ended. A run begins,
  or ends: its measurer is dropped, and the error policy counts a failure when it failed.
\<close>

type_synonym live = "metrics \<times> (watched \<times> running) list"

inductive metrics_step :: "(trace_id \<Rightarrow> string) \<Rightarrow> live \<Rightarrow> live \<Rightarrow> bool" for hex where
  begins: "start_run hex x now m = (me, m') \<Longrightarrow> metrics_step hex (m, rs) (m', (x, me) # rs)"
| succeeds: "(x, me) \<in> set rs \<Longrightarrow> metrics_step hex (m, rs) (end_run me now m, remove1 (x, me) rs)"
| fails: "(x, me) \<in> set rs \<Longrightarrow>
    metrics_step hex (m, rs) (count_failure x e (end_run me now m), remove1 (x, me) rs)"

definition metrics_reach :: "(trace_id \<Rightarrow> string) \<Rightarrow> live \<Rightarrow> bool" where
  "metrics_reach hex s \<longleftrightarrow> (metrics_step hex)\<^sup>*\<^sup>* (metrics_default, []) s"

definition value_of :: "'l counters \<Rightarrow> 'l \<Rightarrow> 64 word" where
  "value_of f l = (case f l of Some c \<Rightarrow> c | None \<Rightarrow> 0)"

definition observed :: "'l histograms \<Rightarrow> 'l \<Rightarrow> (nat \<times> string option) list" where
  "observed f l = (case f l of Some xs \<Rightarrow> xs | None \<Rightarrow> [])"

definition live_of :: "package_type \<Rightarrow> label_instance \<Rightarrow> (watched \<times> running) list \<Rightarrow> nat" where
  "live_of k l rs = length (filter (\<lambda>(x, me). case me of InstRun k' r \<Rightarrow> k' = k \<and> me_labels r = l | _ \<Rightarrow> False) rs)"

definition live_box :: "label_box \<Rightarrow> (watched \<times> running) list \<Rightarrow> nat" where
  "live_box l rs = length (filter (\<lambda>(x, me). case me of BoxRun r \<Rightarrow> me_labels r = l | _ \<Rightarrow> False) rs)"

text \<open>A run belongs to its object, and what the metrics say agrees with the runs.\<close>

fun own :: "watched \<times> running \<Rightarrow> bool" where
  "own (Box jb, BoxRun r) \<longleftrightarrow> me_labels r = box_labels jb \<and> me_trace r = None"
| "own (Inst inst, InstRun k r) \<longleftrightarrow> k = in_kind inst \<and> me_labels r = run_labels inst \<and> me_trace r = None"
| "own _ \<longleftrightarrow> False"

definition labels_of_error :: "error_labels_instance \<Rightarrow> label_instance" where
  "labels_of_error e =
     \<lparr>li_name = ei_name e, li_namespace = ei_namespace e, li_jukebox = ei_jukebox e, li_category = ei_category e,
      li_package = ei_package e\<rparr>"

definition there :: "('l \<Rightarrow> 'v option) \<Rightarrow> 'l \<Rightarrow> bool" where
  "there f l \<longleftrightarrow> f l \<noteq> None"

definition accounts :: "live \<Rightarrow> bool" where
  "accounts s \<longleftrightarrow> (case s of (m, rs) \<Rightarrow>
     (\<forall>p \<in> set rs. own p) \<and>
     (\<forall>k l. value_of (rm_runs (instance_metrics k m)) l =
        of_nat (length (observed (rm_duration (instance_metrics k m)) l) + live_of k l rs)) \<and>
     (\<forall>l. value_of (rm_runs (mt_jukebox m)) l =
        of_nat (length (observed (rm_duration (mt_jukebox m)) l) + live_box l rs)) \<and>
     (\<forall>k e. there (rm_failures (instance_metrics k m)) e \<longrightarrow>
        there (rm_duration (instance_metrics k m)) (labels_of_error e)) \<and>
     (\<forall>k l. list_all (\<lambda>x. snd x = None) (observed (rm_duration (instance_metrics k m)) l)))"

lemma value_of_inc [simp]: "value_of (inc f l) l' = (if l = l' then value_of f l + 1 else value_of f l')"
  by (simp add: value_of_def inc_def split: option.splits)

lemma observed_observe [simp]: "observed (observe f l x) l' = (if l = l' then observed f l @ [x] else observed f l')"
  by (simp add: observed_def observe_def split: option.splits)

lemma there_simps [simp]:
  "there (observe f l x) l' \<longleftrightarrow> l = l' \<or> there f l'"
  "there (inc c l) l' \<longleftrightarrow> l = l' \<or> there c l'"
  by (auto simp: there_def observe_def inc_def)

lemma labels_of_instance_error [simp]: "labels_of_error (instance_error_labels inst e) = run_labels inst"
  by (simp add: labels_of_error_def instance_error_labels_def run_labels_def)

lemma live_remove:
  assumes "p \<in> set rs"
  shows "length (filter P (remove1 p rs)) + (if P p then 1 else 0) = length (filter P rs)"
  using assms by (induction rs) auto

lemma live_of_remove:
  "p \<in> set rs \<Longrightarrow> live_of k l rs = live_of k l (remove1 p rs) +
     (case p of (x, InstRun k' r) \<Rightarrow> (if k' = k \<and> me_labels r = l then 1 else 0) | _ \<Rightarrow> 0)"
  "p \<in> set rs \<Longrightarrow> live_box l' rs = live_box l' (remove1 p rs) +
     (case p of (x, BoxRun r) \<Rightarrow> (if me_labels r = l' then 1 else 0) | _ \<Rightarrow> 0)"
  unfolding live_of_def live_box_def by (auto simp: live_remove [symmetric, of p] split: running.splits prod.splits)

lemma live_of_Cons:
  "live_of k l (p # rs) = live_of k l rs + (case p of (x, InstRun k' r) \<Rightarrow> (if k' = k \<and> me_labels r = l then 1 else 0) | _ \<Rightarrow> 0)"
  "live_box l' (p # rs) = live_box l' rs + (case p of (x, BoxRun r) \<Rightarrow> (if me_labels r = l' then 1 else 0) | _ \<Rightarrow> 0)"
  by (auto simp: live_of_def live_box_def split: running.splits prod.splits)

lemma accounts_begin:
  assumes "accounts (m, rs)" and "start_run hex x now m = (me, m')"
  shows "accounts (m', (x, me) # rs)"
proof (cases x)
  case (Box jb)
  with assms show ?thesis
    by (auto simp: accounts_def count_and_measure_def live_of_Cons)
next
  case (Inst inst)
  with assms show ?thesis
    by (auto simp: accounts_def count_and_measure_def live_of_Cons)
qed

lemma accounts_end:
  assumes "accounts (m, rs)" and "(x, me) \<in> set rs"
  shows "accounts (end_run me now m, remove1 (x, me) rs)"
    and "\<And>inst. x = Inst inst \<Longrightarrow>
      there (rm_duration (instance_metrics (in_kind inst) (end_run me now m))) (run_labels inst)"
proof -
  have "own (x, me)" using assms by (auto simp: accounts_def)
  then consider (box) jb r where "x = Box jb" "me = BoxRun r" "me_labels r = box_labels jb" "me_trace r = None"
    | (inst) inst r where "x = Inst inst" "me = InstRun (in_kind inst) r" "me_labels r = run_labels inst" "me_trace r = None"
    by (cases "(x, me)" rule: own.cases) auto
  note parts = this
  have rest: "\<forall>p \<in> set (remove1 (x, me) rs). own p"
    using assms(1) by (auto simp: accounts_def dest: notin_set_remove1)
  show "accounts (end_run me now m, remove1 (x, me) rs)"
    using parts
  proof cases
    case box
    with assms rest live_of_remove [OF assms(2)] show ?thesis
      by (auto simp: accounts_def drop_measurer_def)
  next
    case inst
    with assms rest live_of_remove [OF assms(2)] show ?thesis
      by (auto simp: accounts_def drop_measurer_def)
  qed
  show "\<And>inst. x = Inst inst \<Longrightarrow>
      there (rm_duration (instance_metrics (in_kind inst) (end_run me now m))) (run_labels inst)"
    using parts by cases (auto simp: drop_measurer_def)
qed

lemma accounts_failure:
  assumes "accounts (m, rs)"
    and "\<And>inst. x = Inst inst \<Longrightarrow> there (rm_duration (instance_metrics (in_kind inst) m)) (run_labels inst)"
  shows "accounts (count_failure x e m, rs)"
  using assms by (cases x) (auto simp: accounts_def reconcile_failure_def)

lemma accounts_step: "metrics_step hex s s' \<Longrightarrow> accounts s \<Longrightarrow> accounts s'"
  by (induction rule: metrics_step.induct) (auto intro: accounts_begin accounts_end accounts_failure)

interpretation runs: step_system "metrics_step hex" accounts
  by unfold_locales (rule accounts_step)

lemma accounts_start: "accounts (metrics_default, [])"
  by (auto simp: accounts_def metrics_default_def instance_metrics_def no_metrics_def value_of_def observed_def
      live_of_def live_box_def there_def split: package_type.splits)

lemma accounts_reach: "metrics_reach hex s \<Longrightarrow> accounts s"
  unfolding metrics_reach_def by (rule runs.reach_inv [OF _ accounts_start])



section \<open>A start without boxes\<close>

text \<open>When the boxes cannot be listed at the start, the operator starts all the same with an empty cache.\<close>

lemma start_without_boxes:
  assumes "se_client se w = (Inr (), w1)" and "se_list_boxes se w1 = (Inl e, w2)" and "\<And>k. se_list_one se k = (\<lambda>v. (Inr (), v))"
  shows "\<exists>s. manager_new se w = (Inr s, w2) \<and> os_cache s = []"
  using assms by (simp add: manager_new_def io_return_def)

text \<open>Until the controller of the boxes has seen its box, an instance is told that the box is missing.\<close>

lemma missing_until_seen:
  assumes "os_cache s = []" and "annotation (in_meta inst) ''vynil.solidite.fr/suspend'' \<noteq> Some ''true''"
  shows "fst (handle_instance env inst Fin_Apply s) =
    fst (io_seq (set_missing_box (oa_cluster (oe_op env)) inst (spec_jukebox (in_spec inst)))
          (io_return (Requeue (15 * 60))) (os_world s))"
  using assms by (simp add: handle_instance_def do_reconcile_def touch_def Let_def split: prod.splits)

end
