(* ===== verification/HbsHelpers.thy ===== *)
theory HbsHelpers
  imports HbsLint CoreBindings
begin

text \<open>
  The template engine: the helpers of \<open>core/src/hbs.rs\<close> and \<open>common/src/handlebarshandler.rs\<close>, their registration,
  and the wrapper \<open>HandleBars\<close> with its directories of partials and script helpers. The parser and the renderer of
  Handlebars are parameters; what a helper makes of its arguments, the errors it swallows and the state of an engine
  are the code's.
\<close>

section \<open>The helpers of the core\<close>

text \<open>A value that is not a text counts as the empty one.\<close>

definition text_or_empty :: "json \<Rightarrow> string" where
  "text_or_empty v = (case as_str v of Some s \<Rightarrow> s | None \<Rightarrow> [])"

text \<open>\<open>unwrap_or_else\<close> with the empty text, which a panic passes through.\<close>

definition or_no_text :: "('w, string) core_op \<Rightarrow> ('w, string) core_op" where
  "or_no_text m w =
     (case m w of
        (Inl (CE_Panic p), w') \<Rightarrow> (Inl (CE_Panic p), w')
      | (Inl e, w') \<Rightarrow> (Inr [], w')
      | (Inr s, w') \<Rightarrow> (Inr s, w'))"

definition hb_base64_decode :: "'w script_lib \<Rightarrow> json \<Rightarrow> string" where
  "hb_base64_decode l arg =
     (let bytes = (case sl_b64_decode l (text_or_empty arg) of Inr b \<Rightarrow> b | Inl e \<Rightarrow> [])
      in case sl_utf8 l bytes of None \<Rightarrow> bytes | Some e \<Rightarrow> [])"

definition hb_base64_encode :: "'w script_lib \<Rightarrow> json \<Rightarrow> string" where
  "hb_base64_encode l arg = sl_b64_encode l (text_or_empty arg)"

definition hb_url_encode :: "'w script_lib \<Rightarrow> json \<Rightarrow> string" where
  "hb_url_encode l arg = sl_url_encode l (text_or_empty arg)"

definition hb_to_decimal :: "json \<Rightarrow> string" where
  "hb_to_decimal arg = dec (case parse_octal_u32 (text_or_empty arg) of Some n \<Rightarrow> n | None \<Rightarrow> 0)"

definition hb_header_basic :: "'w script_lib \<Rightarrow> json \<Rightarrow> json \<Rightarrow> string" where
  "hb_header_basic l username password =
     ''Basic '' @ sl_b64_encode l (text_or_empty username @ '':'' @ text_or_empty password)"

definition hb_argon_hash :: "'w crypto \<Rightarrow> json \<Rightarrow> ('w, string) core_op" where
  "hb_argon_hash cy password w =
     (case argon_new cy w of (a, w') \<Rightarrow> or_no_text (argon_hash cy a (text_or_empty password)) w')"

definition hb_bcrypt_hash :: "'w crypto \<Rightarrow> json \<Rightarrow> ('w, string) core_op" where
  "hb_bcrypt_hash cy password = or_no_text (bcrypt_hash cy (text_or_empty password))"

definition hb_crc32_hash :: "'w crypto \<Rightarrow> json \<Rightarrow> 32 word" where
  "hb_crc32_hash cy password = crc32_hash cy (text_or_empty password)"

text \<open>The named arguments of a password default to one of each class; they are \<open>u32\<close>, widened to \<open>usize\<close>.\<close>

definition or_one :: "32 word option \<Rightarrow> 64 word" where
  "or_one v = (case v of Some n \<Rightarrow> ucast n | None \<Rightarrow> 1)"

definition hb_gen_password ::
  "'w rng \<Rightarrow> 32 word \<Rightarrow> 32 word option \<Rightarrow> 32 word option \<Rightarrow> 32 word option \<Rightarrow> 32 word option \<Rightarrow> ('w, string) core_op" where
  "hb_gen_password g len lower upper digits symbols =
     or_no_text (generate g (ucast len) (or_one lower) (or_one upper) (or_one digits) (or_one symbols))"

definition hb_gen_password_alphanum :: "'w rng \<Rightarrow> 32 word \<Rightarrow> ('w, string) core_op" where
  "hb_gen_password_alphanum g len = or_no_text (generate g (ucast len) 1 1 1 0)"

definition hb_gen_private_key :: "'w crypto \<Rightarrow> string \<Rightarrow> 32 word option \<Rightarrow> ('w, string) core_op" where
  "hb_gen_private_key cy algo bits =
     or_no_text (gen_private_key cy algo (case bits of Some b \<Rightarrow> b | None \<Rightarrow> 4096))"

definition hb_concat :: "json \<Rightarrow> json \<Rightarrow> string" where
  "hb_concat a b = text_or_empty a @ text_or_empty b"

section \<open>The helpers of the context\<close>

text \<open>Each step into the context is an \<open>unwrap\<close> or an index, which panics on what is not there.\<close>

definition object_of :: "json \<Rightarrow> (string \<times> json) list result" where
  "object_of v = unwrap ''called `Option::unwrap()` on a `None` value'' (as_object v)"

definition array_of :: "json \<Rightarrow> json list result" where
  "array_of v = unwrap ''called `Option::unwrap()` on a `None` value'' (as_array v)"

definition member_of :: "(string \<times> json) list \<Rightarrow> string \<Rightarrow> json result" where
  "member_of m key = unwrap ''no entry found for key'' (obj_get m key)"

definition object_at :: "json \<Rightarrow> string \<Rightarrow> (string \<times> json) list result" where
  "object_at v key = result_bind (object_of v) (\<lambda>m. result_bind (member_of m key) object_of)"

definition with_component :: "string \<Rightarrow> (string \<times> json) list \<Rightarrow> json result" where
  "with_component cmpt sel =
     Inr (JObj (if cmpt \<noteq> [] then obj_insert ''app.kubernetes.io/component'' (JStr cmpt) sel else sel))"

definition hb_selector :: "json \<Rightarrow> string \<Rightarrow> json result" where
  "hb_selector ctx cmpt =
     result_bind (object_at ctx ''instance'') (\<lambda>inst.
     result_bind (member_of inst ''selector'') (\<lambda>s. result_bind (object_of s) (with_component cmpt)))"

definition hb_labels :: "json \<Rightarrow> string \<Rightarrow> json result" where
  "hb_labels ctx cmpt =
     result_bind (object_at ctx ''instance'') (\<lambda>inst.
     result_bind (member_of inst ''labels'') (\<lambda>s. result_bind (object_of s) (with_component cmpt)))"

definition have_crd :: "json \<Rightarrow> string \<Rightarrow> bool result" where
  "have_crd ctx name =
     result_bind (object_at ctx ''cluster'') (\<lambda>cluster.
     result_bind (member_of cluster ''crds'') (\<lambda>v.
     result_bind (array_of v) (\<lambda>crds. Inr (list_ex (\<lambda>crd. crd = JStr name) crds))))"

fun named_services :: "string \<Rightarrow> json list \<Rightarrow> json list result" where
  "named_services name [] = Inr []"
| "named_services name (s # ss) =
     result_bind (object_of s) (\<lambda>o1.
     result_bind (named_services name ss) (\<lambda>r.
       Inr (if (case obj_get o1 ''key'' of Some v \<Rightarrow> v | None \<Rightarrow> JNull) = JStr name then s # r else r)))"

definition have_system_service :: "json \<Rightarrow> string \<Rightarrow> bool result" where
  "have_system_service ctx name =
     result_bind (object_at ctx ''cluster'') (\<lambda>cluster.
       (case obj_get cluster ''services'' of
          Some (JArr ss) \<Rightarrow> result_bind (named_services name ss) (\<lambda>r. Inr (r \<noteq> []))
        | _ \<Rightarrow> Inr False))"

definition have_tenant_service :: "json \<Rightarrow> string \<Rightarrow> bool result" where
  "have_tenant_service ctx name =
     result_bind (object_of ctx) (\<lambda>root.
       (case obj_get root ''tenant'' of
          Some (JObj tenant) \<Rightarrow>
            (case obj_get tenant ''services'' of
               Some (JArr ss) \<Rightarrow> result_bind (named_services name ss) (\<lambda>r. Inr (r \<noteq> []))
             | _ \<Rightarrow> Inr False)
        | _ \<Rightarrow> Inr False))"

section \<open>The engine\<close>

text \<open>
  An engine holds its named templates, the names of its helpers and its script helpers (their text, which the crate
  compiles). \<open>ht_helpers\<close> are the helpers of the crate, which \<open>new_hbs\<close> registers.
\<close>

record hbs_engine =
  he_templates :: "string \<Rightarrow> string option"
  he_helpers :: "string list"
  he_scripts :: "string \<Rightarrow> string option"

record 'w hbs_lib =
  ht_lib :: "'w script_lib"
  ht_helpers :: "string list"
  ht_compile :: "string \<Rightarrow> string option"                      \<comment> \<open>the error of a template\<close>
  ht_script :: "string \<Rightarrow> string option"                       \<comment> \<open>the error of a script helper\<close>
  ht_render :: "hbs_engine \<Rightarrow> string \<Rightarrow> json \<Rightarrow> string + string"     \<comment> \<open>of a text\<close>
  ht_named :: "hbs_engine \<Rightarrow> string \<Rightarrow> json \<Rightarrow> string + string"      \<comment> \<open>of a registered name\<close>

type_synonym ('w, 'a) hbs_op = "(hbs_engine \<times> 'w, 'a) core_op"

definition core_helpers :: "string list" where
  "core_helpers =
     [''concat'', ''to_decimal'', ''base64_decode'', ''base64_encode'', ''header_basic'', ''argon_hash'', ''bcrypt_hash'',
      ''url_encode'', ''gen_password'', ''gen_password_alphanum'', ''gen_private_key'', ''crc32_hash'']"

definition core_hbs_new :: "'w hbs_lib \<Rightarrow> hbs_engine" where
  "core_hbs_new t = \<lparr>he_templates = (\<lambda>n. None), he_helpers = ht_helpers t @ core_helpers, he_scripts = (\<lambda>n. None)\<rparr>"

definition register_template :: "'w hbs_lib \<Rightarrow> string \<Rightarrow> string \<Rightarrow> ('w, unit) hbs_op" where
  "register_template t name template s =
     (case ht_compile t template of
        Some e \<Rightarrow> (Inl (CE_HbsTemplate e), s)
      | None \<Rightarrow> (Inr (), (fst s)\<lparr>he_templates := (he_templates (fst s))(name \<mapsto> template)\<rparr>, snd s))"

definition register_script_helper :: "'w hbs_lib \<Rightarrow> string \<Rightarrow> string \<Rightarrow> ('w, unit) hbs_op" where
  "register_script_helper t name script s =
     (case ht_script t script of
        Some e \<Rightarrow> (Inl (CE_Other e), s)
      | None \<Rightarrow> (Inr (), (fst s)\<lparr>he_scripts := (he_scripts (fst s))(name \<mapsto> script)\<rparr>, snd s))"

text \<open>A call that does not touch the engine.\<close>

definition beside_engine :: "('w, 'a) core_op \<Rightarrow> ('w, 'a) hbs_op" where
  "beside_engine m s = (case m (snd s) of (r, w') \<Rightarrow> (r, (fst s, w')))"

text \<open>The files of a directory with the suffix; the panics are the \<open>unwrap\<close>s of the listing.\<close>

fun register_files ::
  "'w hbs_lib \<Rightarrow> string \<Rightarrow> (string \<Rightarrow> string \<Rightarrow> ('w, unit) hbs_op) \<Rightarrow> (string + string) list \<Rightarrow> ('w, unit) hbs_op" where
  "register_files t suffix reg [] = c_return ()"
| "register_files t suffix reg (Inl e # fs) = c_fail (CE_Panic e)"
| "register_files t suffix reg (Inr path # fs) =
     (case file_name path of
        None \<Rightarrow> c_fail (CE_Panic ''called `Option::unwrap()` on a `None` value'')
      | Some filename \<Rightarrow>
          if sl_utf8 (ht_lib t) filename \<noteq> None then c_fail (CE_Panic ''called `Option::unwrap()` on a `None` value'')
          else if ends_with filename suffix then
            c_bind (reg (take (length filename - length suffix) filename) path) (\<lambda>_. register_files t suffix reg fs)
          else register_files t suffix reg fs)"

definition register_dir ::
  "'w hbs_lib \<Rightarrow> string \<Rightarrow> (string \<Rightarrow> string \<Rightarrow> ('w, unit) hbs_op) \<Rightarrow> string \<Rightarrow> ('w, unit) hbs_op" where
  "register_dir t suffix reg directory s =
     (if sl_is_dir (ht_lib t) directory (snd s) then
        c_bind (beside_engine (c_call CE_Panic (sl_read_dir (ht_lib t) directory))) (register_files t suffix reg) s
      else (Inr (), s))"

definition register_helper_dir :: "'w hbs_lib \<Rightarrow> string \<Rightarrow> ('w, unit) hbs_op" where
  "register_helper_dir t =
     register_dir t ''.rhai'' (\<lambda>name path.
       c_bind (beside_engine (c_call CE_Other (sl_read (ht_lib t) path))) (register_script_helper t name))"

definition register_partial_dir :: "'w hbs_lib \<Rightarrow> string \<Rightarrow> ('w, unit) hbs_op" where
  "register_partial_dir t =
     register_dir t ''.hbs'' (\<lambda>name path.
       c_bind (beside_engine (c_call CE_Stdio (sl_read (ht_lib t) path))) (register_template t name))"

definition render :: "'w hbs_lib \<Rightarrow> string \<Rightarrow> json \<Rightarrow> ('w, string) hbs_op" where
  "render t template data s = c_lift CE_HbsRender (ht_render t (fst s) template data) s"

definition render_named :: "'w hbs_lib \<Rightarrow> string \<Rightarrow> string \<Rightarrow> json \<Rightarrow> ('w, string) hbs_op" where
  "render_named t name template data =
     c_bind (register_template t name template) (\<lambda>_ s. c_lift CE_HbsRender (ht_named t (fst s) name data) s)"

text \<open>What the scripts call: the value goes through its JSON text; some errors reach them without their prefix.\<close>

definition rhai_register_template :: "'w hbs_lib \<Rightarrow> string \<Rightarrow> string \<Rightarrow> hbs_engine \<times> 'w \<Rightarrow> (string + unit) \<times> (hbs_engine \<times> 'w)" where
  "rhai_register_template t name template = script_result (register_template t name template)"

definition rhai_register_helper_dir :: "'w hbs_lib \<Rightarrow> string \<Rightarrow> hbs_engine \<times> 'w \<Rightarrow> (string + unit) \<times> (hbs_engine \<times> 'w)" where
  "rhai_register_helper_dir t directory = script_result (register_helper_dir t directory)"

definition rhai_register_partial_dir :: "'w hbs_lib \<Rightarrow> string \<Rightarrow> hbs_engine \<times> 'w \<Rightarrow> (string + unit) \<times> (hbs_engine \<times> 'w)" where
  "rhai_register_partial_dir t directory = script_result (register_partial_dir t directory)"

definition through_json :: "'w script_lib \<Rightarrow> json \<Rightarrow> string + json" where
  "through_json l data = (case sl_to_json l data of Inl e \<Rightarrow> Inl e | Inr s \<Rightarrow> sl_of_json l s)"

definition rhai_render :: "'w hbs_lib \<Rightarrow> string \<Rightarrow> json \<Rightarrow> hbs_engine \<times> 'w \<Rightarrow> (string + string) \<times> (hbs_engine \<times> 'w)" where
  "rhai_render t template data s =
     (case through_json (ht_lib t) data of
        Inl e \<Rightarrow> (Inl e, s)
      | Inr v \<Rightarrow> (ht_render t (fst s) template v, s))"

definition rhai_render_named ::
  "'w hbs_lib \<Rightarrow> string \<Rightarrow> string \<Rightarrow> json \<Rightarrow> hbs_engine \<times> 'w \<Rightarrow> (string + string) \<times> (hbs_engine \<times> 'w)" where
  "rhai_render_named t name template data s =
     (case through_json (ht_lib t) data of
        Inl e \<Rightarrow> (Inl e, s)
      | Inr v \<Rightarrow>
          (case script_result (register_template t name template) s of
             (Inl e, s') \<Rightarrow> (Inl e, s')
           | (Inr _, s') \<Rightarrow> (ht_named t (fst s') name v, s')))"

section \<open>The engine of the packages\<close>

definition context_helpers :: "string list" where
  "context_helpers =
     [''labels_from_ctx'', ''ctx_have_crd'', ''selector_from_ctx'', ''have_system_service'', ''have_tenant_service'',
      ''render_template'', ''render_file'']"

text \<open>Two helpers are scripts; a script that does not compile is dropped.\<close>

definition script_helpers :: "string list" where
  "script_helpers = [''image_from_ctx'', ''resources_from_ctx'']"

definition handlebars_new :: "'w hbs_lib \<Rightarrow> (string \<Rightarrow> string) \<Rightarrow> hbs_engine" where
  "handlebars_new t sources =
     foldl (\<lambda>e n. if ht_script t (sources n) = None then e\<lparr>he_scripts := (he_scripts e)(n \<mapsto> sources n)\<rparr> else e)
       ((core_hbs_new t)\<lparr>he_helpers := he_helpers (core_hbs_new t) @ context_helpers\<rparr>) script_helpers"

text \<open>A template rendered by a helper has an engine of its own: it sees none of the partials, and its errors are
  the empty text.\<close>

definition hb_render_template :: "'w hbs_lib \<Rightarrow> (string \<Rightarrow> string) \<Rightarrow> string \<Rightarrow> json \<Rightarrow> ('w, string) core_op" where
  "hb_render_template t sources template data w =
     (case or_no_text (render t template data) (handlebars_new t sources, w) of (r, s') \<Rightarrow> (r, snd s'))"

definition hb_render_file :: "'w hbs_lib \<Rightarrow> (string \<Rightarrow> string) \<Rightarrow> string \<Rightarrow> json \<Rightarrow> ('w, string) core_op" where
  "hb_render_file t sources file data w =
     (case sl_read (ht_lib t) file w of
        (Inl e, w') \<Rightarrow> (Inr [], w')
      | (Inr template, w') \<Rightarrow>
          (case or_no_text (render_named t file template data) (handlebars_new t sources, w') of (r, s') \<Rightarrow> (r, snd s')))"

section \<open>What the linter takes for native\<close>

definition crate_helpers :: "string list" where
  "crate_helpers = take 52 CORE_HBS_HELPERS"

lemma core_list: "CORE_HBS_HELPERS = crate_helpers @ drop 52 CORE_HBS_HELPERS"
  by (simp add: crate_helpers_def)

lemma core_tail:
  "drop 52 CORE_HBS_HELPERS =
     [''base64_encode'', ''base64_decode'', ''url_encode'', ''to_decimal'', ''header_basic'', ''argon_hash'', ''bcrypt_hash'',
      ''crc32_hash'', ''gen_password'', ''gen_password_alphanum'', ''gen_private_key'', ''concat'']"
  by (simp add: CORE_HBS_HELPERS_def)

lemma core_names: "set (drop 52 CORE_HBS_HELPERS) = set core_helpers"
  unfolding core_tail core_helpers_def list.set by (auto simp only: insert_iff empty_iff)

lemma vynil_names: "set VYNIL_HBS_HELPERS = set context_helpers \<union> set script_helpers"
  unfolding VYNIL_HBS_HELPERS_def context_helpers_def script_helpers_def list.set
  by (auto simp only: insert_iff empty_iff Un_iff)

lemma new_engine:
  assumes "\<And>n. n \<in> set script_helpers \<Longrightarrow> ht_script t (sources n) = None"
  shows "he_helpers (handlebars_new t sources) = ht_helpers t @ core_helpers @ context_helpers"
    and "dom (he_scripts (handlebars_new t sources)) = set script_helpers"
  using assms by (auto simp: handlebars_new_def core_hbs_new_def script_helpers_def)


definition demo_engine_lib :: "unit script_lib \<Rightarrow> unit hbs_lib" where
  "demo_engine_lib l = \<lparr>ht_lib = l, ht_helpers = crate_helpers, ht_compile = (\<lambda>x. None), ht_script = (\<lambda>x. None),
     ht_render = (\<lambda>e x d. Inr x), ht_named = (\<lambda>e n d. Inr n)\<rparr>"


section \<open>What the helpers of the context answer\<close>

lemma object_of_Inr [simp]: "object_of v = Inr m \<longleftrightarrow> v = JObj m"
  by (cases v) (auto simp: object_of_def)

lemma array_of_Inr [simp]: "array_of v = Inr xs \<longleftrightarrow> v = JArr xs"
  by (cases v) (auto simp: array_of_def)

lemma member_of_Inr [simp]: "member_of m k = Inr v \<longleftrightarrow> obj_get m k = Some v"
  by (cases "obj_get m k") (auto simp: member_of_def)

lemma object_at_Inr [simp]: "object_at v k = Inr m \<longleftrightarrow> (\<exists>o1. v = JObj o1 \<and> obj_get o1 k = Some (JObj m))"
  by (auto simp: object_at_def result_bind_Inr)

text \<open>A template can ask for a resource definition exactly in a context whose cluster lists them; the answer is
  whether the name is in the list, and in any other context the render panics.\<close>

theorem have_crd_answers:
  "have_crd ctx name = Inr b \<longleftrightarrow>
     (\<exists>top cluster crds. ctx = JObj top \<and> obj_get top ''cluster'' = Some (JObj cluster) \<and>
        obj_get cluster ''crds'' = Some (JArr crds) \<and> b = (JStr name \<in> set crds))"
  by (auto simp: have_crd_def result_bind_Inr list_ex_iff)

lemma named_services_Inr:
  "named_services name ss = Inr r \<Longrightarrow>
     r = filter (\<lambda>s. value_get s ''key'' = Some (JStr name)) ss \<and> (\<forall>s \<in> set ss. as_object s \<noteq> None)"
  by (induction ss arbitrary: r)
     (auto simp: result_bind_Inr split: if_splits option.splits)

lemma selector_panics: "hb_selector ctx cmpt = Inl e \<Longrightarrow> \<exists>p. e = Panicked p"
  by (auto simp: hb_selector_def object_at_def object_of_def member_of_def unwrap_def result_bind_def with_component_def
      split: option.splits)

section \<open>Passwords of the templates\<close>

lemma ucast_unat: "unat (ucast n :: 64 word) = unat n" for n :: "32 word"
proof -
  have "unat n < 2 ^ 64" using unsigned_less [of n, where ?'a = nat] by simp
  then show ?thesis by (simp add: unsigned_ucast_eq take_bit_nat_eq_self)
qed

definition wanted :: "32 word option \<Rightarrow> nat" where
  "wanted v = (case v of Some n \<Rightarrow> unat n | None \<Rightarrow> 1)"

text \<open>C40: A password of a template is the empty text when its minimums do not fit in the length or no class is asked
  for, and has the length and the minimums otherwise: the render goes on either way.\<close>

theorem template_password:
  fixes g :: "'w rng" and l u d s :: "32 word option"
  assumes "rng_laws g"
  defines "asked \<equiv> wanted l + wanted u + wanted d + wanted s"
  shows "if 0 < asked \<and> asked \<le> unat len
    then \<exists>p w'. hb_gen_password g len l u d s w = (Inr p, w') \<and> length p = unat len \<and>
      wanted l \<le> of_class LOWER p \<and> wanted u \<le> of_class UPPER p \<and>
      wanted d \<le> of_class DIGITS p \<and> wanted s \<le> of_class SYMBOLS p
    else hb_gen_password g len l u d s w = (Inr [], w)"
proof -
  have one: "unat (or_one v) = wanted v" for v
    by (cases v) (simp_all add: or_one_def wanted_def ucast_unat)
  have small: "wanted v < 2 ^ 32" for v
    using unsigned_less [of "the v", where ?'a = nat] by (cases v) (simp_all add: wanted_def)
  have sum: "minimums (or_one l) (or_one u) (or_one d) (or_one s) = asked"
    by (simp add: minimums_def one asked_def)
  have "asked < 2 ^ 64"
    using small [of l] small [of u] small [of d] small [of s] unfolding asked_def by simp
  from generate_asked [OF assms(1), of "or_one l" "or_one u" "or_one d" "or_one s" "ucast len" w] this
  show ?thesis
    unfolding sum one ucast_unat hb_gen_password_def or_no_text_def by (auto simp: split: if_splits)
qed

theorem template_password_witness:
  "hb_gen_password first_rng 3 None None None None () = (Inr [], ()) \<and>
   (\<exists>p w'. hb_gen_password first_rng 8 None None (Some 2) (Some 0) () = (Inr p, w') \<and> length p = 8)"
  using template_password [OF first_rng_laws, of None None None None 3 "()"]
    template_password [OF first_rng_laws, of None None "Some 2" "Some 0" 8 "()"]
  by (auto simp: wanted_def)

end
