(* ===== verification/YamlDocs.thy ===== *)
theory YamlDocs
  imports Json VPrelude "HOL-Library.Word"
begin

text \<open>
  \<open>common/src/yamlhandler.rs\<close>: the YAML documents that keep the order of their keys, as the scripts handle them, and
  the conversions between them, the values of the scripts and JSON. The parser and the printer of \<open>rust_yaml\<close> are
  parameters.
\<close>

section \<open>Values\<close>

text \<open>
  A mapping is an \<open>IndexMap\<close>: pairs in the order of their first insertion, the keys any values. A number of a script
  and of a document has 64 bits; a floating-point number is the text of its bits.
\<close>

datatype yaml =
    YNull
  | YBool bool
  | YInt "64 word"
  | YFloat string
  | YString string
  | YSequence "yaml list"
  | YMapping "(yaml \<times> yaml) list"

text \<open>The values of a script: a document is one of them, and a value of another type is known by its JSON, if any.\<close>

datatype dynamic =
    DUnit
  | DBool bool
  | DInt "64 word"
  | DFloat string
  | DString string
  | DArray "dynamic list"
  | DMap "(string \<times> dynamic) list"
  | DDoc yaml
  | DOther "json option"

fun index_insert :: "'k \<Rightarrow> 'v \<Rightarrow> ('k \<times> 'v) list \<Rightarrow> ('k \<times> 'v) list" where
  "index_insert k v [] = [(k, v)]"
| "index_insert k v ((k', v') # m) = (if k = k' then (k', v) # m else (k', v') # index_insert k v m)"

definition index_collect :: "('k \<times> 'v) list \<Rightarrow> ('k \<times> 'v) list" where
  "index_collect ps = foldl (\<lambda>m (k, v). index_insert k v m) [] ps"

section \<open>Conversions\<close>

fun value_to_dynamic :: "yaml \<Rightarrow> dynamic" where
  "value_to_dynamic YNull = DUnit"
| "value_to_dynamic (YBool b) = DBool b"
| "value_to_dynamic (YInt i) = DInt i"
| "value_to_dynamic (YFloat f) = DFloat f"
| "value_to_dynamic (YString s) = DString s"
| "value_to_dynamic (YSequence a) = DArray (map value_to_dynamic a)"
| "value_to_dynamic (YMapping m) = DDoc (YMapping m)"

text \<open>A JSON number that fits in an \<open>i64\<close> is an integer, any other is read as a float by \<open>as_f64\<close>.\<close>

fun json_num_value :: "(json_num \<Rightarrow> string) \<Rightarrow> json_num \<Rightarrow> yaml" where
  "json_num_value f64 (PosInt n) = (if n < 2 ^ 63 then YInt (of_nat n) else YFloat (f64 (PosInt n)))"
| "json_num_value f64 (NegInt i) = YInt (of_int i)"
| "json_num_value f64 (Float r) = YFloat (f64 (Float r))"

fun serde_json_value_to_yaml_value :: "(json_num \<Rightarrow> string) \<Rightarrow> json \<Rightarrow> yaml" where
  "serde_json_value_to_yaml_value f64 JNull = YNull"
| "serde_json_value_to_yaml_value f64 (JBool b) = YBool b"
| "serde_json_value_to_yaml_value f64 (JNum n) = json_num_value f64 n"
| "serde_json_value_to_yaml_value f64 (JStr s) = YString s"
| "serde_json_value_to_yaml_value f64 (JArr a) = YSequence (map (serde_json_value_to_yaml_value f64) a)"
| "serde_json_value_to_yaml_value f64 (JObj m) =
     YMapping (index_collect (map (\<lambda>(k, v). (YString k, serde_json_value_to_yaml_value f64 v)) m))"

fun dynamic_to_value :: "(json_num \<Rightarrow> string) \<Rightarrow> dynamic \<Rightarrow> yaml" where
  "dynamic_to_value f64 DUnit = YNull"
| "dynamic_to_value f64 (DDoc y) = y"
| "dynamic_to_value f64 (DBool b) = YBool b"
| "dynamic_to_value f64 (DInt i) = YInt i"
| "dynamic_to_value f64 (DFloat f) = YFloat f"
| "dynamic_to_value f64 (DString s) = YString s"
| "dynamic_to_value f64 (DArray a) = YSequence (map (dynamic_to_value f64) a)"
| "dynamic_to_value f64 (DMap m) =
     YMapping (index_collect (map (\<lambda>(k, v). (YString k, dynamic_to_value f64 v)) m))"
| "dynamic_to_value f64 (DOther j) =
     (case j of Some v \<Rightarrow> serde_json_value_to_yaml_value f64 v | None \<Rightarrow> YNull)"

section \<open>The documents of the scripts\<close>

text \<open>\<open>key.parse::<usize>()\<close>: an optional plus sign, then digits below \<open>2^64\<close>.\<close>

fun decimal_val :: "nat \<Rightarrow> string \<Rightarrow> nat option" where
  "decimal_val acc [] = Some acc"
| "decimal_val acc (c # cs) =
     (if CHR ''0'' \<le> c \<and> c \<le> CHR ''9'' then decimal_val (10 * acc + (of_char c - 48)) cs else None)"

definition parse_usize :: "string \<Rightarrow> nat option" where
  "parse_usize s =
     (let ds = (if starts_with s ''+'' then tl s else s)
      in if ds = [] then None
         else (case decimal_val 0 ds of Some n \<Rightarrow> if n < 2 ^ 64 then Some n else None | None \<Rightarrow> None))"

definition idx_get :: "yaml \<Rightarrow> string \<Rightarrow> dynamic" where
  "idx_get y key =
     (case y of
        YMapping m \<Rightarrow> (case map_of m (YString key) of Some v \<Rightarrow> value_to_dynamic v | None \<Rightarrow> DUnit)
      | YSequence s \<Rightarrow>
          (case parse_usize key of
             Some i \<Rightarrow> if i < length s then value_to_dynamic (s ! i) else DUnit
           | None \<Rightarrow> DUnit)
      | _ \<Rightarrow> DUnit)"

text \<open>Only a mapping is changed: a set on another document is lost without a word.\<close>

definition idx_set :: "(json_num \<Rightarrow> string) \<Rightarrow> yaml \<Rightarrow> string \<Rightarrow> dynamic \<Rightarrow> yaml" where
  "idx_set f64 y key val =
     (case y of YMapping m \<Rightarrow> YMapping (index_insert (YString key) (dynamic_to_value f64 val) m) | _ \<Rightarrow> y)"

definition doc_keys :: "yaml \<Rightarrow> dynamic list" where
  "doc_keys y =
     (case y of YMapping m \<Rightarrow> List.map_filter (\<lambda>(k, v). case k of YString s \<Rightarrow> Some (DString s) | _ \<Rightarrow> None) m
      | _ \<Rightarrow> [])"

definition doc_values :: "yaml \<Rightarrow> dynamic list" where
  "doc_values y = (case y of YMapping m \<Rightarrow> map (\<lambda>(k, v). value_to_dynamic v) m | _ \<Rightarrow> [])"

definition contains_key :: "yaml \<Rightarrow> string \<Rightarrow> bool" where
  "contains_key y key = (case y of YMapping m \<Rightarrow> map_of m (YString key) \<noteq> None | _ \<Rightarrow> False)"

definition doc_len :: "yaml \<Rightarrow> nat" where
  "doc_len y = (case y of YMapping m \<Rightarrow> length m | YSequence s \<Rightarrow> length s | _ \<Rightarrow> 0)"

definition doc_is_empty :: "yaml \<Rightarrow> bool" where
  "doc_is_empty y \<longleftrightarrow> doc_len y = 0"

section \<open>Texts\<close>

record yaml_crate =
  yc_load :: "string \<Rightarrow> string + yaml"
  yc_dump :: "yaml \<Rightarrow> string + string"
  yc_f64 :: "json_num \<Rightarrow> string"

definition yaml_decode_ordered :: "yaml_crate \<Rightarrow> string \<Rightarrow> yaml result" where
  "yaml_decode_ordered yc val = (case yc_load yc val of Inl e \<Rightarrow> Inl (YamlError e) | Inr y \<Rightarrow> Inr y)"

definition yaml_encode_ordered :: "yaml_crate \<Rightarrow> dynamic \<Rightarrow> string result" where
  "yaml_encode_ordered yc val =
     (case yc_dump yc (dynamic_to_value (yc_f64 yc) val) of Inl e \<Rightarrow> Inl (YamlError e) | Inr s \<Rightarrow> Inr s)"

definition doc_to_string :: "yaml_crate \<Rightarrow> yaml \<Rightarrow> string" where
  "doc_to_string yc y = (case yc_dump yc y of Inl e \<Rightarrow> [] | Inr s \<Rightarrow> s)"

section \<open>Laws\<close>

text \<open>A value read from a document and written back is the same value.\<close>

lemma dynamic_roundtrip: "dynamic_to_value f64 (value_to_dynamic y) = y"
  by (induction y rule: value_to_dynamic.induct) (auto intro: map_idI)

lemma index_insert_get: "map_of (index_insert k v m) k' = (if k = k' then Some v else map_of m k')"
  by (induction m) auto

lemma index_insert_keys:
  "map fst (index_insert k v m) = map fst m @ (if k \<in> fst ` set m then [] else [k])"
  by (induction m) (force simp: image_iff)+

lemma index_insert_distinct: "distinct (map fst m) \<Longrightarrow> distinct (map fst (index_insert k v m))"
  by (auto simp: index_insert_keys)

definition key_text :: "yaml \<Rightarrow> dynamic option" where
  "key_text k = (case k of YString s \<Rightarrow> Some (DString s) | _ \<Rightarrow> None)"

lemma doc_keys_fst: "doc_keys (YMapping m) = List.map_filter key_text (map fst m)"
  unfolding doc_keys_def by (induction m) (auto simp: map_filter_simps key_text_def split: yaml.splits)

lemma map_filter_append: "List.map_filter f (xs @ ys) = List.map_filter f xs @ List.map_filter f ys"
  by (simp add: List.map_filter_def)

lemma set_keys:
  "doc_keys (YMapping (index_insert (YString key) v m)) =
     doc_keys (YMapping m) @ (if contains_key (YMapping m) key then [] else [DString key])"
proof -
  have "contains_key (YMapping m) key \<longleftrightarrow> YString key \<in> fst ` set m"
    by (simp add: contains_key_def map_of_eq_None_iff del: not_None_eq)
  then show ?thesis
    by (simp add: doc_keys_fst index_insert_keys map_filter_append map_filter_simps key_text_def)
qed


text \<open>The keys of a document that is built from a map are each there once, in the order of the map.\<close>

lemma collect_distinct: "distinct (map fst ps) \<Longrightarrow> index_collect ps = ps"
proof -
  have "distinct (map fst (m @ ps)) \<Longrightarrow> foldl (\<lambda>m (k, v). index_insert k v m) m ps = m @ ps" for m :: "('a \<times> 'b) list"
  proof (induction ps arbitrary: m)
    case (Cons p ps)
    obtain k v where p: "p = (k, v)" by (rule prod.exhaust)
    have "k \<notin> fst ` set m \<Longrightarrow> index_insert k v m = m @ [(k, v)]" by (induction m) auto
    with Cons p show ?case by simp
  qed simp
  from this [of "[]"] show "distinct (map fst ps) \<Longrightarrow> index_collect ps = ps" by (simp add: index_collect_def)
qed

lemma map_keys_kept:
  assumes "distinct (map fst m)"
  shows "doc_keys (dynamic_to_value f64 (DMap m)) = map (\<lambda>(k, v). DString k) m"
proof -
  have "distinct (map fst (map (\<lambda>(k, v). (YString k, dynamic_to_value f64 v)) m))"
    using assms by (induction m) (auto simp: case_prod_beta)
  then have "dynamic_to_value f64 (DMap m) = YMapping (map (\<lambda>(k, v). (YString k, dynamic_to_value f64 v)) m)"
    by (simp add: collect_distinct)
  moreover have "List.map_filter key_text (map (fst \<circ> (\<lambda>(k, v). (YString k, dynamic_to_value f64 v))) m) =
      map (\<lambda>(k, v). DString k) m"
    by (induction m) (auto simp: map_filter_simps key_text_def)
  ultimately show ?thesis by (simp add: doc_keys_fst)
qed

end
