(* ===== verification/K8sWorkload.thy ===== *)
theory K8sWorkload
  imports K8sGeneric
begin

text \<open>
  The workloads of \<open>core/src/k8s.rs\<close> (daemon sets, stateful sets, deployments and jobs) as a script holds them: the
  object as it was when it was asked for, what the script reads of it, and the wait, which asks the server again.
  Also what a script gets of the lists and of the raw requests.
\<close>

section \<open>Handles on workloads\<close>

text \<open>The reads of the API and the serialisation of the three parts of an object are the client's and the crates'.\<close>

record ('w, 'o) workload_api =
  wa_get :: "string \<Rightarrow> string \<Rightarrow> ('w, 'o) lib_call"        \<comment> \<open>namespace, name\<close>
  wa_name :: "'o \<Rightarrow> string"
  wa_metadata :: "'o \<Rightarrow> string + json"
  wa_spec :: "'o \<Rightarrow> string + json"
  wa_status :: "'o \<Rightarrow> string + json"

record 'o held_workload =
  wl_ns :: string
  wl_obj :: 'o

definition get_workload :: "('w, 'o) workload_api \<Rightarrow> string \<Rightarrow> string \<Rightarrow> ('w, 'o held_workload) core_op" where
  "get_workload wa namespace name =
     c_bind (c_call CE_Kube (wa_get wa namespace name)) (\<lambda>o1. c_return \<lparr>wl_ns = namespace, wl_obj = o1\<rparr>)"

text \<open>The four types have the same constructor and the same getters.\<close>

definition get_deamonset :: "('w, daemon_set) workload_api \<Rightarrow> string \<Rightarrow> string \<Rightarrow> ('w, daemon_set held_workload) core_op" where
  "get_deamonset wa namespace name = get_workload wa namespace name"

definition get_sts :: "('w, stateful_set) workload_api \<Rightarrow> string \<Rightarrow> string \<Rightarrow> ('w, stateful_set held_workload) core_op" where
  "get_sts wa namespace name = get_workload wa namespace name"

definition get_deployment :: "('w, deploy) workload_api \<Rightarrow> string \<Rightarrow> string \<Rightarrow> ('w, deploy held_workload) core_op" where
  "get_deployment wa namespace name = get_workload wa namespace name"

definition get_job :: "('w, 'j) workload_api \<Rightarrow> string \<Rightarrow> string \<Rightarrow> ('w, 'j held_workload) core_op" where
  "get_job wa namespace name = get_workload wa namespace name"

definition get_metadata :: "('w, 'o) workload_api \<Rightarrow> 'o held_workload \<Rightarrow> ('w, json) core_op" where
  "get_metadata wa self = c_lift CE_Serialization (wa_metadata wa (wl_obj self))"

definition get_spec :: "('w, 'o) workload_api \<Rightarrow> 'o held_workload \<Rightarrow> ('w, json) core_op" where
  "get_spec wa self = c_lift CE_Serialization (wa_spec wa (wl_obj self))"

definition get_status :: "('w, 'o) workload_api \<Rightarrow> 'o held_workload \<Rightarrow> ('w, json) core_op" where
  "get_status wa self = c_lift CE_Serialization (wa_status wa (wl_obj self))"

definition deamonset_wait :: "'w kube_env \<Rightarrow> ('w, daemon_set) workload_api \<Rightarrow> daemon_set held_workload \<Rightarrow> 64 word \<Rightarrow> ('w, unit) core_op" where
  "deamonset_wait env wa self timeout = wait_ds_available env (wl_ns self) (wa_name wa (wl_obj self)) timeout"

definition sts_wait :: "'w kube_env \<Rightarrow> ('w, stateful_set) workload_api \<Rightarrow> stateful_set held_workload \<Rightarrow> 64 word \<Rightarrow> ('w, unit) core_op" where
  "sts_wait env wa self timeout = wait_sts_available env (wl_ns self) (wa_name wa (wl_obj self)) timeout"

definition deployment_wait :: "'w kube_env \<Rightarrow> ('w, deploy) workload_api \<Rightarrow> deploy held_workload \<Rightarrow> 64 word \<Rightarrow> ('w, unit) core_op" where
  "deployment_wait env wa self timeout = wait_deploy_available env (wl_ns self) (wa_name wa (wl_obj self)) timeout"

definition job_wait :: "'w kube_env \<Rightarrow> ('w, 'j) workload_api \<Rightarrow> 'j held_workload \<Rightarrow> 64 word \<Rightarrow> ('w, unit) core_op" where
  "job_wait env wa self timeout = wait_job_done env (wl_ns self) (wa_name wa (wl_obj self)) timeout"

section \<open>Lists and raw requests\<close>

text \<open>A list reaches the script as its JSON; the serialisation is a parameter.\<close>

definition script_list :: "'w kube_env \<Rightarrow> (kube_object list \<Rightarrow> string + json) \<Rightarrow> k8s_generic \<Rightarrow> ('w, json) core_op" where
  "script_list env ser self = c_bind (generic_list env self) (\<lambda>res. c_lift CE_Serialization (ser res))"

definition script_list_labels ::
  "'w kube_env \<Rightarrow> (kube_object list \<Rightarrow> string + json) \<Rightarrow> k8s_generic \<Rightarrow> string \<Rightarrow> ('w, json) core_op" where
  "script_list_labels env ser self labels =
     c_bind (generic_list_labels env self labels) (\<lambda>res. c_lift CE_Serialization (ser res))"

definition script_list_meta :: "'w kube_env \<Rightarrow> (kube_object list \<Rightarrow> string + json) \<Rightarrow> k8s_generic \<Rightarrow> ('w, json) core_op" where
  "script_list_meta env ser self = c_bind (generic_list_meta env self) (\<lambda>res. c_lift CE_Serialization (ser res))"

definition script_exist :: "k8s_generic \<Rightarrow> json" where
  "script_exist self = JBool (generic_exist self)"

definition object_metadata :: "k8s_object \<Rightarrow> json" where
  "object_metadata self = ko_metadata (kj_obj self)"

definition object_data :: "kube_object \<Rightarrow> json" where
  "object_data obj = ko_data obj"

text \<open>An answer goes through its JSON text.\<close>

definition reread :: "(json \<Rightarrow> string + string) \<Rightarrow> (string \<Rightarrow> string + json) \<Rightarrow> json \<Rightarrow> ('w, json) core_op" where
  "reread to_text of_text v =
     c_bind (c_lift CE_Serialization (to_text v)) (\<lambda>s. c_lift CE_Serialization (of_text s))"

definition rhai_get_url ::
  "'w kube_env \<Rightarrow> (json \<Rightarrow> string + string) \<Rightarrow> (string \<Rightarrow> string + json) \<Rightarrow> string \<Rightarrow> ('w, json) core_op" where
  "rhai_get_url env to_text of_text url = c_bind (get_url env url) (reread to_text of_text)"

definition rhai_get_api_version ::
  "'w kube_env \<Rightarrow> (json \<Rightarrow> string + string) \<Rightarrow> (string \<Rightarrow> string + json) \<Rightarrow> ('w, json) core_op" where
  "rhai_get_api_version env to_text of_text = c_bind (get_api_version env) (reread to_text of_text)"

definition rhai_get_api_resources ::
  "'w kube_env \<Rightarrow> (json \<Rightarrow> string + string) \<Rightarrow> (string \<Rightarrow> string + json) \<Rightarrow> ('w, json) core_op" where
  "rhai_get_api_resources env to_text of_text = c_bind (get_api_resources env) (reread to_text of_text)"

section \<open>A wait asks the server, a getter does not\<close>

text \<open>The documented behaviour of \<open>await_condition\<close>: it is done only once the condition holds of what the server
  has.\<close>

definition await_deploy_sound :: "'w kube_env \<Rightarrow> (string \<Rightarrow> string \<Rightarrow> 'w \<Rightarrow> deploy option) \<Rightarrow> bool" where
  "await_deploy_sound env peek \<longleftrightarrow> (\<forall>ns n cond secs w w'.
     ke_await_deploy env ns n cond secs w = (Await_Done, w') \<longrightarrow> cond (peek ns n w'))"

text \<open>A script that gets a deployment and waits for it: when the wait succeeds the server has the deployment with
  its first \<open>Available\<close> condition true; the status the script then reads is still the one it got before.\<close>

theorem waited_deployment_available:
  assumes "await_deploy_sound env peek"
    and "get_deployment wa ns name w0 = (Inr d, w1)"
    and "deployment_wait env wa d timeout w1 = (Inr (), w2)"
  shows "(\<exists>o1 conds c. peek ns (wa_name wa (wl_obj d)) w2 = Some o1 \<and> dy_conditions o1 = Some (Some conds) \<and>
      find (\<lambda>c. fst c = ''Available'') conds = Some c \<and> snd c = ''True'') \<and>
    wa_get wa ns name w0 = (Inr (wl_obj d), w1) \<and>
    get_status wa d w2 = (map_sum CE_Serialization id (wa_status wa (wl_obj d)), w2)"
proof -
  from assms(2) have got: "wa_get wa ns name w0 = (Inr (wl_obj d), w1)" and ns: "wl_ns d = ns"
    by (auto simp: get_deployment_def get_workload_def elim!: c_bindE)
  obtain r where r: "ke_await_deploy env ns (wa_name wa (wl_obj d)) is_deploy_available (wait_secs timeout) w1 = (r, w2)"
    and "r = Await_Done"
    using assms(3) unfolding deployment_wait_def wait_deploy_available_def waited_def ns
    by (auto split: prod.splits await_result.splits)
  with assms(1) have "is_deploy_available (peek ns (wa_name wa (wl_obj d)) w2)"
    unfolding await_deploy_sound_def by blast
  then show ?thesis
    using got by (auto simp: is_deploy_available_def get_status_def c_lift_def bind_eq_Some_conv
        split: option.splits sum.splits)
qed

definition slow_deploy :: "bool \<Rightarrow> deploy" where
  "slow_deploy up = \<lparr>dy_conditions = Some (Some [(''Available'', if up then ''True'' else ''False'')])\<rparr>"

definition slow_api :: "(nat, deploy) workload_api" where
  "slow_api = \<lparr>wa_get = (\<lambda>ns n w. (Inr (slow_deploy (0 < w)), w)), wa_name = (\<lambda>d. ''web''),
     wa_metadata = (\<lambda>d. Inr JNull), wa_spec = (\<lambda>d. Inr JNull),
     wa_status = (\<lambda>d. Inr (JBool (is_deploy_available (Some d))))\<rparr>"

definition slow_kube :: "nat kube_env" where
  "slow_kube = demo_kube\<lparr>ke_await_deploy := (\<lambda>ns n cond secs w.
     if cond (Some (slow_deploy True)) then (Await_Done, Suc w) else (Await_Elapsed ''deadline'', w))\<rparr>"

theorem waited_deployment_available_witness:
  "\<exists>d w2. get_deployment slow_api ''ns'' ''web'' 0 = (Inr d, 0) \<and> deployment_wait slow_kube slow_api d 30 0 = (Inr (), w2) \<and>
     get_status slow_api d w2 = (Inr (JBool False), w2)"
proof -
  let ?d = "\<lparr>wl_ns = ''ns'', wl_obj = slow_deploy False\<rparr>"
  have peek: "await_deploy_sound slow_kube (\<lambda>ns n w. if w = 0 then Some (slow_deploy False) else Some (slow_deploy True))"
    by (auto simp: await_deploy_sound_def slow_kube_def split: if_splits)
  have got: "get_deployment slow_api ''ns'' ''web'' 0 = (Inr ?d, 0)"
    by (simp add: get_deployment_def get_workload_def slow_api_def c_bind_def c_call_def c_return_def)
  have wait: "deployment_wait slow_kube slow_api ?d 30 0 = (Inr (), 1)"
    by (simp add: deployment_wait_def wait_deploy_available_def slow_kube_def waited_def is_deploy_available_def
        slow_deploy_def)
  from waited_deployment_available [OF peek got wait] got wait show ?thesis
    by (intro exI [of _ ?d] exI [of _ 1]) (simp add: slow_api_def slow_deploy_def is_deploy_available_def)
qed

end
